(* ===== verification/Prelude.thy ===== *)
theory Prelude
  imports Complex_Main "HOL-Library.Word" "HOL-Library.Sublist"
begin

text \<open>
  What every component of the wallet shares: the model of Go errors and of functions that
  return \<open>(value, error)\<close>, Go strings as byte strings, \<open>encoding/hex\<close>, the unsigned and
  signed integers of \<open>math/big\<close> with their big-endian byte form and their decimal and
  hexadecimal text, and the generic list and numeral lemmas the component proofs use.

  A Go string is a sequence of bytes, and so is HOL's \<^typ>\<open>string\<close> (a list of 8-bit
  characters). \<open>strings.TrimSpace\<close>, \<open>ToLower\<close> and \<open>ToUpper\<close> are modelled on the ASCII
  range; multi-byte white space and letters are left as they are.
\<close>

named_theorems res_simps \<open>unfolding of the error-propagating sequencing operators\<close>
named_theorems codec_simps \<open>lengths and values of byte encodings\<close>

subsection \<open>Errors and fallible results\<close>

text \<open>
  \<open>Msg\<close> is \<open>fmt.Errorf\<close> without a wrapped error (the literal text, with the arguments that
  later code can observe), \<open>Wrap\<close> is \<open>fmt.Errorf("...: %w", err)\<close>, \<open>AppErr\<close> is
  \<open>*rpcAppError\<close> of \<open>chain/rpc.go\<close> and \<open>Panic\<close> a run-time panic (index or slice bounds, nil
  dereference), which the HTTP server turns into a 500 response.
\<close>

datatype gerr = Msg string | Wrap string gerr | AppErr string | Panic string

primrec err_text :: "gerr \<Rightarrow> string" where
  "err_text (Msg s) = s"
| "err_text (Wrap s e) = s @ '': '' @ err_text e"
| "err_text (AppErr s) = s"
| "err_text (Panic s) = s"

type_synonym 'a res = "gerr + 'a"

definition and_then :: "'a res \<Rightarrow> ('a \<Rightarrow> 'b res) \<Rightarrow> 'b res" where
  "and_then r f = (case r of Inl e \<Rightarrow> Inl e | Inr x \<Rightarrow> f x)"

text \<open>Wrapping an error; a panic passes through.\<close>

definition wrap_gerr :: "string \<Rightarrow> gerr \<Rightarrow> gerr" where
  "wrap_gerr s e = (case e of Panic p \<Rightarrow> Panic p | _ \<Rightarrow> Wrap s e)"

definition wrap_err :: "string \<Rightarrow> 'a res \<Rightarrow> 'a res" where
  "wrap_err s r = (case r of Inl e \<Rightarrow> Inl (wrap_gerr s e) | Inr x \<Rightarrow> Inr x)"

definition guard_res :: "bool \<Rightarrow> gerr \<Rightarrow> unit res" where
  "guard_res b e = (if b then Inr () else Inl e)"

lemma and_then_Inr [simp, res_simps]: "and_then (Inr x) f = f x"
  by (simp add: and_then_def)

lemma and_then_Inl [simp, res_simps]: "and_then (Inl e) f = Inl e"
  by (simp add: and_then_def)

lemma and_then_eq_Inr [res_simps]:
  "and_then r f = Inr y \<longleftrightarrow> (\<exists>x. r = Inr x \<and> f x = Inr y)"
  by (cases r) auto

lemma wrap_err_Inr [simp, res_simps]: "wrap_err s (Inr x) = Inr x"
  by (simp add: wrap_err_def)

lemma wrap_err_Inl [simp, res_simps]: "wrap_err s (Inl e) = Inl (wrap_gerr s e)"
  by (simp add: wrap_err_def)

lemma wrap_err_eq_Inr [simp, res_simps]: "wrap_err s r = Inr y \<longleftrightarrow> r = Inr y"
  by (cases r) auto

lemma guard_res_eq_Inr [simp, res_simps]: "guard_res b e = Inr u \<longleftrightarrow> b"
  by (simp add: guard_res_def)

lemma and_then_cong [fundef_cong]:
  "r = r' \<Longrightarrow> (\<And>x. r' = Inr x \<Longrightarrow> f x = g x) \<Longrightarrow> and_then r f = and_then r' g"
  by (cases r') auto

text \<open>Applying a fallible function along a list, stopping at the first error.\<close>

primrec map_res :: "('a \<Rightarrow> 'b res) \<Rightarrow> 'a list \<Rightarrow> 'b list res" where
  "map_res f [] = Inr []"
| "map_res f (x # xs) = and_then (f x) (\<lambda>y. and_then (map_res f xs) (\<lambda>ys. Inr (y # ys)))"

lemma map_res_cong [fundef_cong]:
  "xs = ys \<Longrightarrow> (\<And>x. x \<in> set ys \<Longrightarrow> f x = g x) \<Longrightarrow> map_res f xs = map_res g ys"
proof -
  assume "xs = ys" "\<And>x. x \<in> set ys \<Longrightarrow> f x = g x"
  then show ?thesis by (induction ys arbitrary: xs) (auto simp: and_then_def split: sum.splits)
qed

lemma map_res_Inr:
  "map_res f xs = Inr ys \<longleftrightarrow> length xs = length ys \<and> (\<forall>i < length xs. f (xs ! i) = Inr (ys ! i))"
proof (induction xs arbitrary: ys)
  case (Cons x xs)
  show ?case by (cases ys) (auto simp: and_then_eq_Inr Cons All_less_Suc2)
qed auto

subsection \<open>Bytes and strings\<close>

type_synonym byte = "8 word"
type_synonym bytes = "byte list"
type_synonym u64 = "64 word"

definition byte_of_char :: "char \<Rightarrow> byte" where
  "byte_of_char c = of_nat (of_char c)"

definition bytes_of_string :: "string \<Rightarrow> bytes" where
  "bytes_of_string s = map byte_of_char s"

definition has_prefix :: "string \<Rightarrow> string \<Rightarrow> bool" where
  "has_prefix s p \<longleftrightarrow> take (length p) s = p"

definition has_suffix :: "string \<Rightarrow> string \<Rightarrow> bool" where
  "has_suffix s p \<longleftrightarrow> length p \<le> length s \<and> drop (length s - length p) s = p"

definition trim_prefix :: "string \<Rightarrow> string \<Rightarrow> string" where
  "trim_prefix s p = (if has_prefix s p then drop (length p) s else s)"

primrec contains :: "string \<Rightarrow> string \<Rightarrow> bool" where
  "contains [] p = (p = [])"
| "contains (c # s) p = (has_prefix (c # s) p \<or> contains s p)"

primrec index_of :: "char \<Rightarrow> string \<Rightarrow> nat option" where
  "index_of c [] = None"
| "index_of c (x # s) = (if x = c then Some 0 else map_option Suc (index_of c s))"

definition last_index_of :: "char \<Rightarrow> string \<Rightarrow> nat option" where
  "last_index_of c s = map_option (\<lambda>i. length s - 1 - i) (index_of c (rev s))"

definition is_space :: "char \<Rightarrow> bool" where
  "is_space c \<longleftrightarrow> (let n = (of_char c :: nat) in n = 32 \<or> (9 \<le> n \<and> n \<le> 13))"

definition trim_space :: "string \<Rightarrow> string" where
  "trim_space s = rev (dropWhile is_space (rev (dropWhile is_space s)))"

definition lower_char :: "char \<Rightarrow> char" where
  "lower_char c = (let n = (of_char c :: nat) in if 65 \<le> n \<and> n \<le> 90 then char_of (n + 32) else c)"

definition upper_char :: "char \<Rightarrow> char" where
  "upper_char c = (let n = (of_char c :: nat) in if 97 \<le> n \<and> n \<le> 122 then char_of (n - 32) else c)"

definition to_lower :: "string \<Rightarrow> string" where
  "to_lower s = map lower_char s"

definition to_upper :: "string \<Rightarrow> string" where
  "to_upper s = map upper_char s"

lemma length_bytes_of_string [simp]: "length (bytes_of_string s) = length s"
  by (simp add: bytes_of_string_def)

lemma length_to_lower [simp]: "length (to_lower s) = length s"
  by (simp add: to_lower_def)

lemma length_trim_space: "length (trim_space s) \<le> length s"
proof -
  have "length (trim_space s) \<le> length (dropWhile is_space s)"
    by (simp add: trim_space_def) (metis length_dropWhile_le length_rev)
  also have "\<dots> \<le> length s" by (rule length_dropWhile_le)
  finally show ?thesis .
qed

lemma has_prefix_append [simp]: "has_prefix (p @ s) p"
  by (simp add: has_prefix_def)

lemma trim_prefix_append [simp]: "trim_prefix (p @ s) p = s"
  by (simp add: trim_prefix_def)

lemma contains_appendI: "contains s p \<Longrightarrow> contains (t @ s) p"
  by (induction t) auto

lemma lower_char_idem [simp]: "lower_char (lower_char c) = lower_char c"
  by (auto simp: lower_char_def Let_def)

lemma to_lower_idem [simp]: "to_lower (to_lower s) = to_lower s"
  by (simp add: to_lower_def)

subsection \<open>Stateful computations\<close>

text \<open>
  A Go function that performs effects and returns \<open>(value, error)\<close> takes the state and returns its
  result with the new state; the state changes made before an error stay. The operators are
  polymorphic in the error: a request handler uses them with the response it ends with.
\<close>

type_synonym ('s, 'a) io = "'s \<Rightarrow> 'a res \<times> 's"

definition ret :: "'a \<Rightarrow> 's \<Rightarrow> ('e + 'a) \<times> 's" where
  "ret x s = (Inr x, s)"

definition fail :: "'e \<Rightarrow> 's \<Rightarrow> ('e + 'a) \<times> 's" where
  "fail e s = (Inl e, s)"

definition lift :: "'e + 'a \<Rightarrow> 's \<Rightarrow> ('e + 'a) \<times> 's" where
  "lift r s = (r, s)"

definition seq :: "('s \<Rightarrow> ('e + 'a) \<times> 's) \<Rightarrow> ('a \<Rightarrow> 's \<Rightarrow> ('e + 'b) \<times> 's) \<Rightarrow> 's \<Rightarrow> ('e + 'b) \<times> 's" where
  "seq m f s = (case m s of (Inl e, s') \<Rightarrow> (Inl e, s') | (Inr x, s') \<Rightarrow> f x s')"

text \<open>The result of a call as a value, for code that looks at the error itself.\<close>

definition attempt :: "('s, 'a) io \<Rightarrow> ('s, 'a res) io" where
  "attempt m s = (case m s of (r, s') \<Rightarrow> (Inr r, s'))"

definition wrapping :: "string \<Rightarrow> ('s, 'a) io \<Rightarrow> ('s, 'a) io" where
  "wrapping t m s = (case m s of (r, s') \<Rightarrow> (wrap_err t r, s'))"

named_theorems io_simps \<open>unfolding of the stateful operators\<close>

lemma ret_app [simp, io_simps]: "ret x s = (Inr x, s)"
  by (simp add: ret_def)

lemma fail_app [simp, io_simps]: "fail e s = (Inl e, s)"
  by (simp add: fail_def)

lemma lift_app [simp, io_simps]: "lift r s = (r, s)"
  by (simp add: lift_def)

lemma seq_Inr [io_simps]:
  "seq m f s = (Inr y, s'') \<longleftrightarrow> (\<exists>x s'. m s = (Inr x, s') \<and> f x s' = (Inr y, s''))"
  by (auto simp: seq_def split: prod.splits sum.splits)

lemma seq_InrE [elim!]:
  assumes "seq m f s = (Inr y, s'')"
  obtains x s' where "m s = (Inr x, s')" "f x s' = (Inr y, s'')"
  using assms by (auto simp: seq_Inr)

lemma seq_app: "m s = (Inr x, s') \<Longrightarrow> seq m f s = f x s'"
  by (simp add: seq_def)

lemma seq_lift_Inr [simp]: "seq (lift (Inr x)) f = f x"
  by (simp add: fun_eq_iff seq_def)

lemma seq_fail: "m s = (Inl e, s') \<Longrightarrow> seq m f s = (Inl e, s')"
  by (simp add: seq_def)

lemma wrapping_Inr [io_simps]: "wrapping t m s = (Inr y, s') \<longleftrightarrow> m s = (Inr y, s')"
  by (auto simp: wrapping_def split: prod.splits)

lemma attempt_Inr [io_simps]: "attempt m s = (Inr r, s') \<longleftrightarrow> m s = (r, s')"
  by (auto simp: attempt_def split: prod.splits)

text \<open>What holds of the state after a computation holds after its parts.\<close>

lemma snd_seq:
  "P (snd (m s)) \<Longrightarrow> (\<And>x s'. m s = (Inr x, s') \<Longrightarrow> P (snd (f x s'))) \<Longrightarrow> P (snd (seq m f s))"
  by (auto simp: seq_def split: prod.splits sum.splits)

lemma snd_wrapping [simp]: "snd (wrapping t m s) = snd (m s)"
  by (simp add: wrapping_def split: prod.splits)

lemma snd_attempt [simp]: "snd (attempt m s) = snd (m s)"
  by (simp add: attempt_def split: prod.splits)

subsection \<open>Invariants of operation sequences\<close>

text \<open>
  A component whose operations all keep an invariant keeps it along every sequence of admissible
  operations. The components interpret this on their own step functions; the operations of one
  component are serialised by its mutex, so a run is a sequence of whole operations.
\<close>

locale invariant_machine =
  fixes step :: "'o \<Rightarrow> 's \<Rightarrow> 's" and inv :: "'s \<Rightarrow> bool" and ok :: "'o \<Rightarrow> bool"
  assumes step_inv: "ok a \<Longrightarrow> inv s \<Longrightarrow> inv (step a s)"
begin

lemma run_inv: "list_all ok ops \<Longrightarrow> inv s \<Longrightarrow> inv (fold step ops s)"
  by (induction ops arbitrary: s) (auto intro: step_inv)

lemma prefix_inv: "list_all ok ops \<Longrightarrow> inv s \<Longrightarrow> inv (fold step (take k ops) s)"
  by (rule run_inv) (auto simp: list_all_iff dest: in_set_takeD)

end

end
