(* ===== verification/Numerals.thy ===== *)
theory Numerals
  imports Prelude
begin

text \<open>
  Positional numerals: the digit lists behind \<open>big.Int.Bytes\<close>, \<open>big.Int.String\<close>,
  \<open>big.Int.SetString\<close>, \<open>encoding/binary\<close>, \<open>encoding/hex\<close> and base 58, with one value and one
  round-trip lemma for every base. The byte forms used by the transaction encoders (32-byte
  big-endian ABI words, little-endian \<open>u32\<close> and \<open>u64\<close>) share the interface
  \<open>fixed_codec\<close>: a width, and a value read back from the bytes.
\<close>

subsection \<open>Digits of a natural number, least significant first\<close>

fun digs :: "nat \<Rightarrow> nat \<Rightarrow> nat list" where
  "digs b n = (if n = 0 \<or> b < 2 then [] else n mod b # digs b (n div b))"

declare digs.simps [simp del]

primrec undigs :: "nat \<Rightarrow> nat list \<Rightarrow> nat" where
  "undigs b [] = 0"
| "undigs b (d # ds) = d + b * undigs b ds"

lemma digs_0 [simp]: "digs b 0 = []"
  by (simp add: digs.simps)

lemma digs_pos: "0 < n \<Longrightarrow> 2 \<le> b \<Longrightarrow> digs b n = n mod b # digs b (n div b)"
  by (subst digs.simps) auto

lemma undigs_digs [simp]: "2 \<le> b \<Longrightarrow> undigs b (digs b n) = n"
  by (induction b n rule: digs.induct) (subst digs.simps, auto)

lemma digs_less: "d \<in> set (digs b n) \<Longrightarrow> d < b"
proof (induction b n rule: digs.induct)
  case (1 b n)
  then show ?case by (subst (asm) digs.simps) (auto split: if_splits)
qed

lemma digs_eq_Nil_iff [simp]: "2 \<le> b \<Longrightarrow> digs b n = [] \<longleftrightarrow> n = 0"
  by (subst digs.simps) auto

lemma last_digs: "2 \<le> b \<Longrightarrow> 0 < n \<Longrightarrow> last (digs b n) \<noteq> 0"
proof (induction b n rule: digs.induct)
  case (1 b n)
  show ?case
  proof (cases "n div b = 0")
    case True
    with 1 show ?thesis by (simp add: digs_pos div_eq_0_iff)
  next
    case False
    with 1 show ?thesis by (simp add: digs_pos)
  qed
qed

lemma undigs_less: "\<forall>d \<in> set ds. d < b \<Longrightarrow> undigs b ds < b ^ length ds"
proof (induction ds)
  case (Cons d ds)
  then have "undigs b ds + 1 \<le> b ^ length ds" "d < b" by simp_all
  then have "b * (undigs b ds + 1) \<le> b * b ^ length ds" by (metis mult_le_mono2)
  with \<open>d < b\<close> show ?case by simp
qed simp

lemma length_digs_le: "2 \<le> b \<Longrightarrow> n < b ^ k \<Longrightarrow> length (digs b n) \<le> k"
proof (induction k arbitrary: n)
  case (Suc k)
  show ?case
  proof (cases "n = 0")
    case False
    from Suc.prems have "n div b < b ^ k" by (simp add: div_less_iff_less_mult mult.commute)
    with False Suc show ?thesis by (simp add: digs_pos)
  qed simp
qed simp

lemma length_digs_gt: "2 \<le> b \<Longrightarrow> b ^ k \<le> n \<Longrightarrow> k < length (digs b n)"
proof (rule ccontr)
  assume b: "2 \<le> b" and le: "b ^ k \<le> n" and "\<not> k < length (digs b n)"
  then have "length (digs b n) \<le> k" by simp
  have "n = undigs b (digs b n)" using b by simp
  also have "\<dots> < b ^ length (digs b n)" by (rule undigs_less) (auto dest: digs_less)
  also have "\<dots> \<le> b ^ k" using b \<open>length (digs b n) \<le> k\<close> by (simp add: power_increasing)
  finally show False using le by simp
qed

lemma undigs_append: "undigs b (xs @ ys) = undigs b xs + b ^ length xs * undigs b ys"
  by (induction xs) (auto simp: algebra_simps)

lemma undigs_replicate_0 [simp]: "undigs b (replicate k 0) = 0"
  by (induction k) auto

lemma digs_undigs:
  assumes "2 \<le> b"
  shows "\<forall>d \<in> set ds. d < b \<Longrightarrow> ds = [] \<or> last ds \<noteq> 0 \<Longrightarrow> digs b (undigs b ds) = ds"
proof (induction ds)
  case (Cons d ds)
  then have d: "d < b" and ds: "\<forall>d \<in> set ds. d < b" by auto
  show ?case
  proof (cases "ds = []")
    case True
    with Cons.prems d assms show ?thesis by (simp add: digs_pos)
  next
    case False
    with Cons.prems have "last ds \<noteq> 0" by simp
    with ds Cons.IH have IH: "digs b (undigs b ds) = ds" by simp
    with False assms have pos: "0 < undigs b ds" by (cases "undigs b ds") auto
    then have "0 < undigs b (d # ds)" using assms by simp
    with assms d IH show ?thesis by (simp add: digs_pos)
  qed
qed simp

text \<open>Horner's scheme from the most significant digit, the way the parsers of the code read.\<close>

definition horner :: "nat \<Rightarrow> nat list \<Rightarrow> nat" where
  "horner b ds = foldl (\<lambda>v d. v * b + d) 0 ds"

lemma horner_foldl: "foldl (\<lambda>v d. v * b + d) a ds = a * b ^ length ds + undigs b (rev ds)"
  by (induction ds arbitrary: a) (auto simp: undigs_append algebra_simps)

lemma horner_undigs: "horner b ds = undigs b (rev ds)"
  by (simp add: horner_def horner_foldl)

lemma horner_append: "horner b (xs @ ys) = horner b xs * b ^ length ys + horner b ys"
  by (simp add: horner_undigs undigs_append algebra_simps)

lemma horner_Cons: "horner b (x # xs) = x * b ^ length xs + horner b xs"
  using horner_append [of b "[x]" xs] by (simp add: horner_def)

lemma horner_Nil [simp]: "horner b [] = 0"
  by (simp add: horner_def)

lemma horner_replicate_0_append [simp]: "horner b (replicate k 0 @ ds) = horner b ds"
  by (simp add: horner_undigs undigs_append)

lemma horner_rev_digs [simp]: "2 \<le> b \<Longrightarrow> horner b (rev (digs b n)) = n"
  by (simp add: horner_undigs)

text \<open>Reading digits and writing them back strips exactly the leading zeros.\<close>

lemma takeWhile_0_replicate:
  "takeWhile (\<lambda>d. d = 0) ds = replicate (length (takeWhile (\<lambda>d. d = 0) ds)) 0"
  by (induction ds) auto

lemma split_leading_zeros:
  "ds = replicate (length (takeWhile (\<lambda>d. d = 0) ds)) 0 @ dropWhile (\<lambda>d. d = 0) ds"
  by (metis takeWhile_0_replicate takeWhile_dropWhile_id)

lemma digs_horner:
  assumes "2 \<le> b" and "\<forall>d \<in> set ds. d < b"
  shows "rev (digs b (horner b ds)) = dropWhile (\<lambda>d. d = 0) ds"
proof -
  define es where "es = dropWhile (\<lambda>d. d = 0) ds"
  have "horner b ds = horner b es"
    by (subst split_leading_zeros [of ds]) (simp add: es_def)
  also have "\<dots> = undigs b (rev es)" by (rule horner_undigs)
  finally have h: "horner b ds = undigs b (rev es)" .
  have "rev es = [] \<or> last (rev es) \<noteq> 0"
    using hd_dropWhile [of "\<lambda>d. d = 0" ds] by (simp only: es_def last_rev rev_is_Nil_conv) blast
  moreover have "\<forall>d \<in> set (rev es). d < b"
    using assms(2) by (auto simp: es_def dest: set_dropWhileD)
  ultimately have "digs b (undigs b (rev es)) = rev es"
    using assms(1) by (intro digs_undigs) auto
  then show ?thesis by (simp add: h es_def)
qed

subsection \<open>Big-endian and little-endian bytes\<close>

text \<open>\<open>big.Int.Bytes\<close> of a non-negative integer: the minimal big-endian byte string.\<close>

definition be_bytes :: "nat \<Rightarrow> bytes" where
  "be_bytes n = map of_nat (rev (digs 256 n))"

definition be_val :: "bytes \<Rightarrow> nat" where
  "be_val bs = horner 256 (map unat bs)"

text \<open>\<open>binary.LittleEndian.PutUint32\<close> and \<open>PutUint64\<close>: exactly \<open>k\<close> bytes, low byte first.\<close>

primrec le_bytes :: "nat \<Rightarrow> nat \<Rightarrow> bytes" where
  "le_bytes 0 n = []"
| "le_bytes (Suc k) n = of_nat (n mod 256) # le_bytes k (n div 256)"

definition le_val :: "bytes \<Rightarrow> nat" where
  "le_val bs = undigs 256 (map unat bs)"

text \<open>\<open>word := make([]byte, w); copy(word[w-len(b):], b)\<close>.\<close>

definition pad_left :: "nat \<Rightarrow> bytes \<Rightarrow> bytes" where
  "pad_left w bs = replicate (w - length bs) 0 @ bs"

definition word32 :: "nat \<Rightarrow> bytes" where
  "word32 n = pad_left 32 (be_bytes n)"

lemma unat_of_nat_byte [simp]: "n < 256 \<Longrightarrow> unat (of_nat n :: byte) = n"
  by (simp add: unat_of_nat)

lemma unat_byte_less [simp]: "unat (b :: byte) < 256"
  using unsigned_less [of b, where ?'a = nat] by simp

lemma map_unat_of_nat:
  "\<forall>d \<in> set ds. d < 256 \<Longrightarrow> map (\<lambda>d. unat (of_nat d :: byte)) ds = ds"
  by (induction ds) auto

lemma be_val_be_bytes [simp, codec_simps]: "be_val (be_bytes n) = n"
  by (simp add: be_val_def be_bytes_def comp_def map_unat_of_nat digs_less)

lemma be_bytes_be_val: "be_bytes (be_val bs) = dropWhile (\<lambda>b. b = 0) bs"
proof -
  have "be_bytes (be_val bs) = map of_nat (dropWhile (\<lambda>d. d = 0) (map unat bs))"
    by (simp add: be_bytes_def be_val_def digs_horner)
  also have "\<dots> = dropWhile (\<lambda>b. b = 0) bs"
    by (simp add: dropWhile_map comp_def unat_eq_0)
  finally show ?thesis .
qed

lemma length_be_bytes_le: "n < 256 ^ k \<Longrightarrow> length (be_bytes n) \<le> k"
  by (simp add: be_bytes_def length_digs_le)

lemma length_be_bytes_gt: "256 ^ k \<le> n \<Longrightarrow> k < length (be_bytes n)"
  by (simp add: be_bytes_def length_digs_gt)

lemma length_be_bytes_le_iff: "length (be_bytes n) \<le> k \<longleftrightarrow> n < 256 ^ k"
  using length_be_bytes_le length_be_bytes_gt by (meson leD le_less_linear)

lemma length_pad_left [simp]: "length (pad_left w bs) = max w (length bs)"
  by (simp add: pad_left_def)

lemma be_val_replicate_0 [simp]: "be_val (replicate k 0 @ bs) = be_val bs"
  by (simp add: be_val_def)

lemma be_val_pad_left [simp]: "be_val (pad_left w bs) = be_val bs"
  by (simp add: pad_left_def)

lemma length_word32 [simp, codec_simps]: "n < 2 ^ 256 \<Longrightarrow> length (word32 n) = 32"
  using length_be_bytes_le [of n 32] by (simp add: word32_def)

lemma be_val_word32 [simp, codec_simps]: "be_val (word32 n) = n"
  by (simp add: word32_def)

lemma be_val_less: "be_val bs < 256 ^ length bs"
  using undigs_less [of "map unat (rev bs)" 256] by (simp add: be_val_def horner_undigs rev_map)

lemma length_le_bytes [simp, codec_simps]: "length (le_bytes k n) = k"
  by (induction k arbitrary: n) auto

lemma le_val_le_bytes [codec_simps]: "le_val (le_bytes k n) = n mod 256 ^ k"
proof (induction k arbitrary: n)
  case (Suc k)
  have "n mod (256 * 256 ^ k) = 256 * (n div 256 mod 256 ^ k) + n mod 256"
    by (rule mod_mult2_eq)
  with Suc show ?case by (simp add: le_val_def)
qed (simp add: le_val_def)

text \<open>
  The interface of a fixed-width field: what a reader at a known offset needs to know of the
  writer. \<open>bound\<close> is the first value that no longer fits.
\<close>

locale fixed_codec =
  fixes width :: nat and bound :: nat
    and enc :: "nat \<Rightarrow> bytes" and dec :: "bytes \<Rightarrow> nat"
  assumes width_enc: "n < bound \<Longrightarrow> length (enc n) = width"
    and dec_enc: "n < bound \<Longrightarrow> dec (enc n) = n"
begin

lemma enc_inject: "m < bound \<Longrightarrow> n < bound \<Longrightarrow> enc m = enc n \<longleftrightarrow> m = n"
  by (metis dec_enc)

lemma read_field:
  "n < bound \<Longrightarrow> length pre = k \<Longrightarrow> dec (take width (drop k (pre @ enc n @ post))) = n"
  by (simp add: width_enc dec_enc)

end

interpretation abi_word: fixed_codec 32 "2 ^ 256" word32 be_val
  by unfold_locales simp_all

interpretation le_u64: fixed_codec 8 "2 ^ 64" "le_bytes 8" le_val
  by unfold_locales (simp_all add: le_val_le_bytes)

interpretation le_u32: fixed_codec 4 "2 ^ 32" "le_bytes 4" le_val
  by unfold_locales (simp_all add: le_val_le_bytes)

subsection \<open>Text of integers\<close>

definition digit_char :: "nat \<Rightarrow> char" where
  "digit_char d = (if d < 10 then char_of (48 + d) else char_of (87 + d))"

text \<open>The value of a digit character; upper and lower case letters count from ten.\<close>

definition digit_val :: "char \<Rightarrow> nat option" where
  "digit_val c = (let n = (of_char c :: nat) in
     if 48 \<le> n \<and> n \<le> 57 then Some (n - 48)
     else if 97 \<le> n \<and> n \<le> 122 then Some (n - 87)
     else if 65 \<le> n \<and> n \<le> 90 then Some (n - 55)
     else None)"

definition digit_in :: "nat \<Rightarrow> char \<Rightarrow> nat option" where
  "digit_in b c = (case digit_val c of Some d \<Rightarrow> if d < b then Some d else None | None \<Rightarrow> None)"

primrec map_opt :: "('a \<Rightarrow> 'b option) \<Rightarrow> 'a list \<Rightarrow> 'b list option" where
  "map_opt f [] = Some []"
| "map_opt f (x # xs) = (case f x of None \<Rightarrow> None
     | Some y \<Rightarrow> (case map_opt f xs of None \<Rightarrow> None | Some ys \<Rightarrow> Some (y # ys)))"

text \<open>\<open>big.Int.Text\<close> and \<open>big.Int.SetString(s, base)\<close> with an explicit base.\<close>

definition nat_text :: "nat \<Rightarrow> nat \<Rightarrow> string" where
  "nat_text b n = (if n = 0 then ''0'' else map digit_char (rev (digs b n)))"

definition int_text :: "nat \<Rightarrow> int \<Rightarrow> string" where
  "int_text b i = (if i < 0 then CHR ''-'' # nat_text b (nat (- i)) else nat_text b (nat i))"

definition parse_nat :: "nat \<Rightarrow> string \<Rightarrow> nat option" where
  "parse_nat b s = (if s = [] then None else map_option (horner b) (map_opt (digit_in b) s))"

definition set_string :: "nat \<Rightarrow> string \<Rightarrow> int option" where
  "set_string b s = (case s of
       [] \<Rightarrow> None
     | c # r \<Rightarrow> if c = CHR ''-'' then map_option (\<lambda>n. - int n) (parse_nat b r)
               else if c = CHR ''+'' then map_option int (parse_nat b r)
               else map_option int (parse_nat b s))"

lemma digit_in_digit_char: "b \<le> 36 \<Longrightarrow> d < b \<Longrightarrow> digit_in b (digit_char d) = Some d"
  by (auto simp: digit_in_def digit_val_def digit_char_def Let_def of_char_of)

lemma digit_char_not_sign: "d < 36 \<Longrightarrow> digit_char d \<noteq> CHR ''-'' \<and> digit_char d \<noteq> CHR ''+''"
proof
  assume "d < 36"
  then have v: "digit_in 36 (digit_char d) = Some d" by (simp add: digit_in_digit_char)
  show "digit_char d \<noteq> CHR ''-''" "digit_char d \<noteq> CHR ''+''"
    using v by (auto simp: digit_in_def digit_val_def)
qed

lemma map_opt_map: "\<forall>x \<in> set xs. f (g x) = Some x \<Longrightarrow> map_opt f (map g xs) = Some xs"
  by (induction xs) auto

lemma map_opt_Some_length: "map_opt f xs = Some ys \<Longrightarrow> length ys = length xs"
  by (induction xs arbitrary: ys) (auto split: option.splits)

lemma nat_text_nonempty [simp]: "2 \<le> b \<Longrightarrow> nat_text b n \<noteq> []"
  by (simp add: nat_text_def)

lemma parse_nat_text: "2 \<le> b \<Longrightarrow> b \<le> 36 \<Longrightarrow> parse_nat b (nat_text b n) = Some n"
proof (cases "n = 0")
  case True
  assume "2 \<le> b"
  then have "digit_in b (CHR ''0'') = Some 0" by (simp add: digit_in_def digit_val_def)
  with True show ?thesis by (simp add: parse_nat_def nat_text_def horner_def)
next
  case False
  assume b: "2 \<le> b" "b \<le> 36"
  then have "map_opt (digit_in b) (map digit_char (rev (digs b n))) = Some (rev (digs b n))"
    by (intro map_opt_map) (auto simp: digit_in_digit_char digs_less)
  with b False show ?thesis by (simp add: parse_nat_def nat_text_def)
qed

lemma hd_nat_text_not_sign:
  assumes "2 \<le> b" "b \<le> 36" "nat_text b n = c # r"
  shows "c \<noteq> CHR ''-''" "c \<noteq> CHR ''+''"
proof -
  have "c \<noteq> CHR ''-'' \<and> c \<noteq> CHR ''+''"
  proof (cases "n = 0")
    case True
    with assms show ?thesis by (auto simp: nat_text_def)
  next
    case False
    with assms have "map digit_char (rev (digs b n)) = c # r" by (simp add: nat_text_def)
    then have "c \<in> set (map digit_char (rev (digs b n)))" by simp
    then obtain d where "d \<in> set (digs b n)" "c = digit_char d" by auto
    then have "d < 36" using assms(2) by (auto dest: digs_less)
    with \<open>c = digit_char d\<close> show ?thesis by (simp add: digit_char_not_sign)
  qed
  then show "c \<noteq> CHR ''-''" "c \<noteq> CHR ''+''" by auto
qed

lemma set_string_nat_text [simp]:
  "2 \<le> b \<Longrightarrow> b \<le> 36 \<Longrightarrow> set_string b (nat_text b n) = Some (int n)"
  using parse_nat_text [of b n] hd_nat_text_not_sign [of b n]
  by (cases "nat_text b n") (auto simp: set_string_def)

theorem set_string_int_text [simp]:
  "2 \<le> b \<Longrightarrow> b \<le> 36 \<Longrightarrow> set_string b (int_text b i) = Some i"
proof (cases "i < 0")
  case True
  assume "2 \<le> b" "b \<le> 36"
  with True show ?thesis by (simp add: int_text_def set_string_def parse_nat_text)
next
  case False
  assume "2 \<le> b" "b \<le> 36"
  with False show ?thesis by (simp add: int_text_def)
qed

subsection \<open>The package \<open>encoding/hex\<close>\<close>

definition hex_byte :: "byte \<Rightarrow> string" where
  "hex_byte b = [digit_char (unat b div 16), digit_char (unat b mod 16)]"

definition hex_encode :: "bytes \<Rightarrow> string" where
  "hex_encode bs = concat (map hex_byte bs)"

fun hex_decode :: "string \<Rightarrow> bytes option" where
  "hex_decode [] = Some []"
| "hex_decode [c] = None"
| "hex_decode (c # d # s) = (case (digit_in 16 c, digit_in 16 d) of
     (Some h, Some l) \<Rightarrow> map_option (\<lambda>bs. of_nat (16 * h + l) # bs) (hex_decode s)
   | _ \<Rightarrow> None)"

lemma hex_decode_encode [simp]: "hex_decode (hex_encode bs) = Some bs"
proof (induction bs)
  case (Cons b bs)
  have "unat b div 16 < 16" using unat_byte_less [of b] by linarith
  moreover have "16 * (unat b div 16) + unat b mod 16 = unat b" by simp
  ultimately show ?case
    using Cons by (simp add: hex_encode_def hex_byte_def digit_in_digit_char)
qed (simp add: hex_encode_def)

lemma hex_decode_length: "hex_decode s = Some bs \<Longrightarrow> length s = 2 * length bs"
  by (induction s arbitrary: bs rule: hex_decode.induct) (auto split: option.splits prod.splits)

lemma hex_encode_eq_Nil [simp]: "hex_encode bs = [] \<longleftrightarrow> bs = []"
  by (cases bs) (auto simp: hex_encode_def hex_byte_def)

lemma length_hex_encode [simp]: "length (hex_encode bs) = 2 * length bs"
  by (induction bs) (auto simp: hex_encode_def hex_byte_def)

lemma trim_prefix_hex_encode [simp]: "trim_prefix (hex_encode bs) ''0x'' = hex_encode bs"
proof (cases bs)
  case (Cons b rest)
  have "unat b mod 16 < 16" by simp
  then have "digit_in 16 (digit_char (unat b mod 16)) = Some (unat b mod 16)" by (simp add: digit_in_digit_char)
  then have "digit_char (unat b mod 16) \<noteq> CHR ''x''" by (auto simp: digit_in_def digit_val_def)
  then show ?thesis by (simp add: Cons trim_prefix_def has_prefix_def hex_encode_def hex_byte_def)
qed (simp add: hex_encode_def trim_prefix_def has_prefix_def)

lemma int_text_nonempty [simp]: "2 \<le> b \<Longrightarrow> int_text b i \<noteq> []"
  by (simp add: int_text_def)

end
