(* ===== verification/BigFloat.thy ===== *)
theory BigFloat
  imports Numerals "HOL-Library.Log_Nat"
begin

text \<open>
  The parts of Go's \<open>math/big.Float\<close> and \<open>float64\<close> that the wallet's money arithmetic uses.
  A finite value is a rational number; every operation rounds its exact result to the precision
  of the receiver, to nearest with ties to even, as the package documents. \<open>SetString\<close> follows
  the package's scanner (sign, base prefix, digit separators, radix point, decimal or binary
  exponent, infinities) and its scaling by a power of five, which is itself rounded beyond
  \<open>5^27\<close>. Results whose binary exponent leaves the 32-bit range are not modelled.
\<close>

subsection \<open>Rounding to a number of significant bits\<close>

definition ilog2 :: "rat \<Rightarrow> int" where
  "ilog2 x = (let (n, d) = quotient_of x; k = bitlen n - bitlen d
     in if 2 powi k \<le> x then k else k - 1)"

definition round_even :: "rat \<Rightarrow> int" where
  "round_even x = (let f = \<lfloor>x\<rfloor>; r = x - of_int f
     in if r > 1 / 2 \<or> (r = 1 / 2 \<and> odd f) then f + 1 else f)"

definition fl :: "nat \<Rightarrow> rat \<Rightarrow> rat" where
  "fl p x = (if x = 0 then 0 else let e = ilog2 \<bar>x\<bar> - (int p - 1)
     in of_int (round_even (x / 2 powi e)) * 2 powi e)"

subsection \<open>Values and operations\<close>

datatype fval = Fin rat | PInf | NInf

record bigfloat =
  bf_prec :: nat
  bf_val :: fval

definition bf_Sign :: "bigfloat \<Rightarrow> int" where
  "bf_Sign x = (case bf_val x of Fin r \<Rightarrow> (if r < 0 then -1 else if r = 0 then 0 else 1) | PInf \<Rightarrow> 1 | NInf \<Rightarrow> -1)"

fun fv_less :: "fval \<Rightarrow> fval \<Rightarrow> bool" where
  "fv_less (Fin x) (Fin y) = (x < y)"
| "fv_less NInf y = (y \<noteq> NInf)"
| "fv_less x PInf = (x \<noteq> PInf)"
| "fv_less _ _ = False"

text \<open>\<open>x.Cmp(y) > 0\<close>.\<close>

definition bf_gt :: "bigfloat \<Rightarrow> bigfloat \<Rightarrow> bool" where
  "bf_gt x y = fv_less (bf_val y) (bf_val x)"

text \<open>
  \<open>z.Add(x, y)\<close>, \<open>z.Sub(x, y)\<close>, \<open>z.Mul(x, y)\<close> and \<open>z.Quo(x, y)\<close> for a receiver of precision \<open>p\<close>; a fresh
  receiver has precision 0 and takes the larger precision of the operands. \<open>None\<close> is the
  \<open>ErrNaN\<close> panic.
\<close>

definition bf_prec_of :: "nat \<Rightarrow> bigfloat \<Rightarrow> bigfloat \<Rightarrow> nat" where
  "bf_prec_of p x y = (if p = 0 then max (bf_prec x) (bf_prec y) else p)"

definition bf_Add :: "nat \<Rightarrow> bigfloat \<Rightarrow> bigfloat \<Rightarrow> bigfloat option" where
  "bf_Add p x y = (let q = bf_prec_of p x y in
     case (bf_val x, bf_val y) of
       (Fin a, Fin b) \<Rightarrow> Some \<lparr>bf_prec = q, bf_val = Fin (fl q (a + b))\<rparr>
     | (Fin _, i) \<Rightarrow> Some \<lparr>bf_prec = q, bf_val = i\<rparr>
     | (i, Fin _) \<Rightarrow> Some \<lparr>bf_prec = q, bf_val = i\<rparr>
     | (i, j) \<Rightarrow> if i = j then Some \<lparr>bf_prec = q, bf_val = i\<rparr> else None)"

definition bf_Neg :: "bigfloat \<Rightarrow> bigfloat" where
  "bf_Neg x = x\<lparr>bf_val := (case bf_val x of Fin a \<Rightarrow> Fin (- a) | PInf \<Rightarrow> NInf | NInf \<Rightarrow> PInf)\<rparr>"

definition bf_Sub :: "nat \<Rightarrow> bigfloat \<Rightarrow> bigfloat \<Rightarrow> bigfloat option" where
  "bf_Sub p x y = bf_Add p x (bf_Neg y)"

definition inf_signed :: "bool \<Rightarrow> fval" where
  "inf_signed neg = (if neg then NInf else PInf)"

definition fv_neg :: "fval \<Rightarrow> bool" where
  "fv_neg v = (case v of Fin x \<Rightarrow> x < 0 | PInf \<Rightarrow> False | NInf \<Rightarrow> True)"

definition bf_Mul :: "nat \<Rightarrow> bigfloat \<Rightarrow> bigfloat \<Rightarrow> bigfloat option" where
  "bf_Mul p x y = (let q = bf_prec_of p x y in
     case (bf_val x, bf_val y) of
       (Fin a, Fin b) \<Rightarrow> Some \<lparr>bf_prec = q, bf_val = Fin (fl q (a * b))\<rparr>
     | (u, v) \<Rightarrow> if u = Fin 0 \<or> v = Fin 0 then None
                else Some \<lparr>bf_prec = q, bf_val = inf_signed (fv_neg u \<noteq> fv_neg v)\<rparr>)"

definition bf_Quo :: "nat \<Rightarrow> bigfloat \<Rightarrow> bigfloat \<Rightarrow> bigfloat option" where
  "bf_Quo p x y = (let q = bf_prec_of p x y in
     case (bf_val x, bf_val y) of
       (Fin a, Fin b) \<Rightarrow> if b \<noteq> 0 then Some \<lparr>bf_prec = q, bf_val = Fin (fl q (a / b))\<rparr>
         else if a = 0 then None else Some \<lparr>bf_prec = q, bf_val = inf_signed (a < 0)\<rparr>
     | (Fin a, _) \<Rightarrow> Some \<lparr>bf_prec = q, bf_val = Fin 0\<rparr>
     | (u, Fin b) \<Rightarrow> Some \<lparr>bf_prec = q, bf_val = inf_signed (fv_neg u \<noteq> (b < 0))\<rparr>
     | _ \<Rightarrow> None)"

text \<open>\<open>new(big.Float).SetInt(x)\<close> and \<open>new(big.Float).SetFloat64(x)\<close>.\<close>

definition bf_SetInt :: "int \<Rightarrow> bigfloat" where
  "bf_SetInt i = (let q = max (nat (bitlen \<bar>i\<bar>)) 64
     in \<lparr>bf_prec = q, bf_val = Fin (fl q (of_int i))\<rparr>)"

definition bf_SetFloat64 :: "fval \<Rightarrow> bigfloat" where
  "bf_SetFloat64 v = \<lparr>bf_prec = 53, bf_val = v\<rparr>"

text \<open>\<open>x.Int(nil)\<close> truncates towards zero and is nil for an infinity.\<close>

definition rat_trunc :: "rat \<Rightarrow> int" where
  "rat_trunc x = (if x < 0 then \<lceil>x\<rceil> else \<lfloor>x\<rfloor>)"

definition bf_Int :: "bigfloat \<Rightarrow> int option" where
  "bf_Int x = (case bf_val x of Fin r \<Rightarrow> Some (rat_trunc r) | _ \<Rightarrow> None)"

text \<open>\<open>x.Uint64()\<close> truncates and saturates at both ends.\<close>

definition bf_Uint64 :: "bigfloat \<Rightarrow> u64" where
  "bf_Uint64 x = (case bf_val x of
       Fin r \<Rightarrow> if r \<le> 0 then 0 else if \<lfloor>r\<rfloor> \<ge> 2 ^ 64 then -1 else of_int \<lfloor>r\<rfloor>
     | PInf \<Rightarrow> -1 | NInf \<Rightarrow> 0)"

text \<open>
  Conversion to \<open>float64\<close> and multiplication of \<open>float64\<close> values: 53 bits, gradual underflow
  below \<open>2^-1022\<close>, overflow to infinity. A NaN (infinity times zero) is \<open>None\<close>.
\<close>

definition round64 :: "rat \<Rightarrow> fval" where
  "round64 x = (if x = 0 then Fin 0 else
     let e = max (ilog2 \<bar>x\<bar> - 52) (-1074); r = of_int (round_even (x / 2 powi e)) * 2 powi e
     in if \<bar>r\<bar> \<ge> 2 ^ 1024 then inf_signed (x < 0) else Fin r)"

definition bf_Float64 :: "bigfloat \<Rightarrow> fval" where
  "bf_Float64 x = (case bf_val x of Fin r \<Rightarrow> round64 r | v \<Rightarrow> v)"

definition f64_mul :: "fval \<Rightarrow> fval \<Rightarrow> fval option" where
  "f64_mul u v = (case (u, v) of
       (Fin a, Fin b) \<Rightarrow> Some (round64 (a * b))
     | _ \<Rightarrow> if u = Fin 0 \<or> v = Fin 0 then None else Some (inf_signed (fv_neg u \<noteq> fv_neg v)))"

subsection \<open>Decimal text\<close>

text \<open>\<open>x.Text('f', k)\<close>: \<open>k\<close> decimals, exact decimal value rounded half to even.\<close>

definition pad_zeros :: "nat \<Rightarrow> string \<Rightarrow> string" where
  "pad_zeros k s = replicate (k - length s) (CHR ''0'') @ s"

definition fixed_text :: "nat \<Rightarrow> nat \<Rightarrow> string" where
  "fixed_text k n = nat_text 10 (n div 10 ^ k) @
     (if k = 0 then [] else CHR ''.'' # pad_zeros k (nat_text 10 (n mod 10 ^ k)))"

definition fv_text :: "nat \<Rightarrow> fval \<Rightarrow> string" where
  "fv_text k v = (case v of
       Fin x \<Rightarrow> (if x < 0 then ''-'' else []) @ fixed_text k (nat (round_even (\<bar>x\<bar> * 10 ^ k)))
     | PInf \<Rightarrow> ''+Inf'' | NInf \<Rightarrow> ''-Inf'')"

definition bf_Text :: "nat \<Rightarrow> bigfloat \<Rightarrow> string" where
  "bf_Text k x = fv_text k (bf_val x)"

subsection \<open>The scanner behind \<open>SetString\<close>\<close>

datatype prev_kind = PDigit | PSep | POther

text \<open>
  The mantissa loop of \<open>nat.scan\<close>: the value, the number of digits, the position of the radix
  point, whether a separator was misplaced, and the unread rest.
\<close>

fun scan_mant :: "nat \<Rightarrow> bool \<Rightarrow> prev_kind \<Rightarrow> bool \<Rightarrow> nat \<Rightarrow> nat \<Rightarrow> nat option \<Rightarrow> string
    \<Rightarrow> nat \<times> nat \<times> nat option \<times> bool \<times> string" where
  "scan_mant b fracOk prev inval m cnt dp [] = (m, cnt, dp, inval \<or> prev = PSep, [])"
| "scan_mant b fracOk prev inval m cnt dp (c # s) =
     (if c = CHR ''.'' \<and> fracOk then scan_mant b False POther (inval \<or> prev = PSep) m cnt (Some cnt) s
      else if c = CHR ''_'' then scan_mant b fracOk PSep (inval \<or> prev \<noteq> PDigit) m cnt dp s
      else case digit_in b c of
        None \<Rightarrow> (m, cnt, dp, inval \<or> prev = PSep, c # s)
      | Some d \<Rightarrow> scan_mant b fracOk PDigit inval (m * b + d) (Suc cnt) dp s)"

definition scan_mantissa :: "string \<Rightarrow> nat \<times> nat \<times> nat \<times> nat option \<times> bool \<times> string" where
  "scan_mantissa s = (case s of
       [] \<Rightarrow> (10, scan_mant 10 True POther False 0 0 None [])
     | c # r \<Rightarrow>
         if c \<noteq> CHR ''0'' then (10, scan_mant 10 True POther False 0 0 None s)
         else (case r of
             [] \<Rightarrow> (10, scan_mant 10 True PDigit False 0 1 None [])
           | d # t \<Rightarrow>
               if d = CHR ''b'' \<or> d = CHR ''B'' then (2, scan_mant 2 True PDigit False 0 0 None t)
               else if d = CHR ''o'' \<or> d = CHR ''O'' then (8, scan_mant 8 True PDigit False 0 0 None t)
               else if d = CHR ''x'' \<or> d = CHR ''X'' then (16, scan_mant 16 True PDigit False 0 0 None t)
               else (10, scan_mant 10 True PDigit False 0 1 None r)))"

fun scan_exp_digits :: "prev_kind \<Rightarrow> bool \<Rightarrow> nat \<Rightarrow> nat \<Rightarrow> string \<Rightarrow> nat \<times> nat \<times> bool \<times> string" where
  "scan_exp_digits prev inval m cnt [] = (m, cnt, inval \<or> prev = PSep, [])"
| "scan_exp_digits prev inval m cnt (c # s) =
     (if c = CHR ''_'' then scan_exp_digits PSep (inval \<or> prev \<noteq> PDigit) m cnt s
      else case digit_in 10 c of
        None \<Rightarrow> (m, cnt, inval \<or> prev = PSep, c # s)
      | Some d \<Rightarrow> scan_exp_digits PDigit inval (m * 10 + d) (Suc cnt) s)"

text \<open>The exponent: its value, its base (10 or 2) and the rest; \<open>None\<close> on an error.\<close>

definition scan_exponent :: "string \<Rightarrow> (int \<times> nat \<times> string) option" where
  "scan_exponent s = (case s of
       [] \<Rightarrow> Some (0, 10, [])
     | c # r \<Rightarrow>
         if c \<notin> {CHR ''e'', CHR ''E'', CHR ''p'', CHR ''P''} then Some (0, 10, s)
         else let neg = (case r of d # _ \<Rightarrow> d = CHR ''-'' | [] \<Rightarrow> False);
                  t = (case r of d # t \<Rightarrow> if d = CHR ''-'' \<or> d = CHR ''+'' then t else r | [] \<Rightarrow> r);
                  (m, cnt, inval, rest) = scan_exp_digits POther False 0 0 t;
                  e = (if neg then - int m else int m)
              in if cnt = 0 \<or> inval \<or> e < - (2 ^ 63) \<or> e \<ge> 2 ^ 63 then None
                 else Some (e, if c = CHR ''e'' \<or> c = CHR ''E'' then 10 else 2, rest))"

text \<open>\<open>pow5\<close>: exact up to \<open>5^27\<close>, then repeated squaring with 64 extra bits.\<close>

fun pow5_loop :: "nat \<Rightarrow> rat \<Rightarrow> rat \<Rightarrow> nat \<Rightarrow> rat" where
  "pow5_loop p z f n = (if n = 0 then z
     else pow5_loop p (if odd n then fl p (z * f) else z) (fl (p + 64) (f * f)) (n div 2))"

declare pow5_loop.simps [simp del]

definition pow5 :: "nat \<Rightarrow> nat \<Rightarrow> rat" where
  "pow5 p n = (if n \<le> 27 then 5 ^ n else pow5_loop p (5 ^ 27) 5 (n - 27))"

definition scale5 :: "nat \<Rightarrow> rat \<Rightarrow> int \<Rightarrow> rat" where
  "scale5 p x e5 = (if e5 = 0 then fl p x
     else if e5 < 0 then fl p (x / pow5 (p + 64) (nat (- e5)))
     else fl p (x * pow5 (p + 64) (nat e5)))"

definition scan_number :: "nat \<Rightarrow> string \<Rightarrow> rat option" where
  "scan_number p s =
     (let (b, m, cnt, dp, inval, r) = scan_mantissa s in
      if cnt = 0 \<or> inval then None else
      case scan_exponent r of
        None \<Rightarrow> None
      | Some (e, ebase, rest) \<Rightarrow>
          if rest \<noteq> [] then None
          else if m = 0 then Some 0
          else let fd = (case dp of None \<Rightarrow> 0 | Some k \<Rightarrow> int k - int cnt);
                   e5 = (if b = 10 then fd else 0) + (if ebase = 10 then e else 0);
                   d2 = (if b = 8 then 3 * fd else if b = 16 then 4 * fd else fd) + e;
                   top = bitlen (int m) + d2
               in if top < - (2 ^ 31) \<or> top > 2 ^ 31 - 1 then None
                  else Some (scale5 p (of_nat m * 2 powi d2) e5))"

definition bf_SetString :: "string \<Rightarrow> bigfloat option" where
  "bf_SetString s =
     (if s = ''Inf'' \<or> s = ''inf'' \<or> s = ''+Inf'' \<or> s = ''+inf'' then Some \<lparr>bf_prec = 0, bf_val = PInf\<rparr>
      else if s = ''-Inf'' \<or> s = ''-inf'' then Some \<lparr>bf_prec = 0, bf_val = NInf\<rparr>
      else let neg = (case s of c # _ \<Rightarrow> c = CHR ''-'' | [] \<Rightarrow> False);
               t = (case s of c # t \<Rightarrow> if c = CHR ''-'' \<or> c = CHR ''+'' then t else s | [] \<Rightarrow> s)
           in map_option (\<lambda>x. \<lparr>bf_prec = 64, bf_val = Fin (if neg then - x else x)\<rparr>)
                (scan_number 64 t))"

subsection \<open>Rounding error\<close>

lemma ilog2_bounds:
  assumes "0 < x"
  shows "2 powi (ilog2 x) \<le> x" and "x < 2 powi (ilog2 x + 1)"
proof -
  obtain n d where q: "quotient_of x = (n, d)" by fastforce
  have x: "x = of_int n / of_int d" and d: "0 < d"
    using quotient_of_div [OF q] quotient_of_denom_pos [OF q] by auto
  have n: "0 < n" using assms d by (simp add: x zero_less_divide_iff)
  have pow: "(2::rat) powi bitlen k = of_int (2 ^ nat (bitlen k))"
    "(2::rat) powi (bitlen k - 1) = of_int (2 ^ nat (bitlen k - 1))" if "0 < k" for k :: int
  proof -
    have "1 \<le> bitlen k" using that bitlen_eq_zero_iff [of k] bitlen_nonneg [of k] by linarith
    then show "(2::rat) powi bitlen k = of_int (2 ^ nat (bitlen k))"
      "(2::rat) powi (bitlen k - 1) = of_int (2 ^ nat (bitlen k - 1))"
      by (simp_all add: power_int_def)
  qed
  have lo: "2 powi (bitlen k - 1) \<le> (of_int k :: rat)" and hi: "(of_int k :: rat) < 2 powi bitlen k"
    if "0 < k" for k :: int
    using bitlen_bounds [OF that] by (simp_all only: pow [OF that] of_int_le_iff of_int_less_iff)
  define k where "k = bitlen n - bitlen d"
  have "x < 2 powi bitlen n / 2 powi (bitlen d - 1)"
    unfolding x using hi [OF n] lo [OF d] n d by (intro frac_less) auto
  also have "\<dots> = 2 powi (k + 1)"
    by (simp add: k_def algebra_simps flip: power_int_diff)
  finally have up: "x < 2 powi (k + 1)" .
  have "2 powi (bitlen n - 1) / 2 powi bitlen d < x"
    unfolding x using lo [OF n] hi [OF d] n d by (intro frac_less2) auto
  moreover have "2 powi (bitlen n - 1) / 2 powi bitlen d = (2::rat) powi (k - 1)"
    by (simp add: k_def algebra_simps flip: power_int_diff)
  ultimately have low: "2 powi (k - 1) < x" by simp
  have "ilog2 x = (if 2 powi k \<le> x then k else k - 1)"
    by (simp add: ilog2_def q k_def)
  with up low show "2 powi (ilog2 x) \<le> x" and "x < 2 powi (ilog2 x + 1)"
    by auto
qed

lemma round_even_error: "\<bar>of_int (round_even x) - x\<bar> \<le> 1 / 2"
proof -
  define f where "f = \<lfloor>x\<rfloor>"
  have "of_int f \<le> x" "x < of_int f + 1" unfolding f_def by linarith+
  then show ?thesis unfolding round_even_def Let_def f_def [symmetric] by (auto simp: abs_if)
qed

lemma round_even_unique:
  assumes "\<bar>x - of_int n\<bar> < 1 / 2"
  shows "round_even x = n"
proof -
  have "\<bar>of_int (round_even x) - of_int n\<bar> < (1::rat)"
    using assms round_even_error [of x] by linarith
  then have "\<bar>round_even x - n\<bar> < 1" by (simp flip: of_int_diff of_int_abs)
  then show ?thesis by simp
qed

lemma round_even_of_int [simp]: "round_even (of_int n) = n"
  by (rule round_even_unique) simp

text \<open>An integer of at most 53 bits is a \<open>float64\<close>.\<close>

lemma round64_int:
  assumes "0 < n" and "n < 2 ^ 53"
  shows "round64 (of_int n) = Fin (of_int n)"
proof -
  let ?x = "of_int n :: rat"
  define e where "e = max (ilog2 ?x - 52) (- 1074)"
  define k where "k = nat (- e)"
  have pos: "0 < ?x" using assms(1) by simp
  have small: "?x < 2 ^ 53" using assms(2) by (metis of_int_less_iff of_int_numeral of_int_power)
  have "ilog2 ?x \<le> 52"
  proof (rule ccontr)
    assume "\<not> ilog2 ?x \<le> 52"
    then have "(2::rat) powi 53 \<le> 2 powi (ilog2 ?x)" by (intro power_int_increasing) auto
    then show False using ilog2_bounds(1) [OF pos] small by simp
  qed
  then have e: "e = - int k" by (simp add: e_def k_def)
  have "?x / 2 powi e = of_int (n * 2 ^ k)" by (simp add: e power_int_minus divide_inverse)
  then have "of_int (round_even (?x / 2 powi e)) * 2 powi e = ?x"
    by (simp only: round_even_of_int) (simp add: e power_int_minus)
  moreover have "?x < 2 ^ 1024" using small power_increasing [of 53 1024 "2 :: rat"] by simp
  ultimately show ?thesis using pos by (simp add: round64_def Let_def e_def [symmetric])
qed

lemma fl_0 [simp]: "fl p 0 = 0"
  by (simp add: fl_def)

theorem fl_error: "\<bar>fl p x - x\<bar> \<le> \<bar>x\<bar> / 2 ^ p"
proof (cases "x = 0")
  case False
  define e where "e = ilog2 \<bar>x\<bar> - (int p - 1)"
  define u :: rat where "u = 2 powi e"
  have u: "0 < u" by (simp add: u_def)
  have "fl p x - x = (of_int (round_even (x / u)) - x / u) * u"
    using False u by (simp add: fl_def Let_def left_diff_distrib flip: e_def u_def)
  then have "\<bar>fl p x - x\<bar> = \<bar>of_int (round_even (x / u)) - x / u\<bar> * u"
    using u by (simp add: abs_mult)
  also have "\<dots> \<le> (1 / 2) * u"
    using round_even_error [of "x / u"] u by (intro mult_right_mono) auto
  also have "\<dots> = 2 powi (ilog2 \<bar>x\<bar>) / 2 ^ p"
    by (simp add: u_def e_def power_int_diff power_int_add)
  also have "\<dots> \<le> \<bar>x\<bar> / 2 ^ p"
    using ilog2_bounds(1) [of "\<bar>x\<bar>"] False by (intro divide_right_mono) auto
  finally show ?thesis .
qed simp

lemma fl_nonneg: "0 \<le> x \<Longrightarrow> 1 \<le> p \<Longrightarrow> 0 \<le> fl p x"
proof -
  assume "0 \<le> x" "1 \<le> p"
  have "(2::rat) ^ 1 \<le> 2 ^ p" using \<open>1 \<le> p\<close> by (intro power_increasing) auto
  then have "x * 1 \<le> x * 2 ^ p" using \<open>0 \<le> x\<close> by (intro mult_left_mono) auto
  then have "x / 2 ^ p \<le> x" by (simp add: field_simps)
  with fl_error [of p x] \<open>0 \<le> x\<close> show ?thesis by linarith
qed

subsection \<open>Reading back a fixed-point text\<close>

definition dec_digits :: "nat \<Rightarrow> nat list" where
  "dec_digits n = (if n = 0 then [0] else rev (digs 10 n))"

lemma digit_char_0: "digit_char 0 = CHR ''0''"
  by code_simp

lemma digit_char_numeral:
  "digit_char 0 = CHR ''0''" "digit_char (Suc 0) = CHR ''1''" "digit_char 1 = CHR ''1''"
  "digit_char 2 = CHR ''2''" "digit_char 3 = CHR ''3''" "digit_char 4 = CHR ''4''"
  "digit_char 5 = CHR ''5''" "digit_char 6 = CHR ''6''" "digit_char 7 = CHR ''7''"
  "digit_char 8 = CHR ''8''" "digit_char 9 = CHR ''9''"
  by code_simp+

lemma nat_text_dec_digits: "nat_text 10 n = map digit_char (dec_digits n)"
  by (simp add: nat_text_def dec_digits_def digit_char_0)

lemma dec_digits_less: "d \<in> set (dec_digits n) \<Longrightarrow> d < 10"
  by (auto simp: dec_digits_def split: if_splits dest: digs_less)

lemma horner_dec_digits [simp]: "horner 10 (dec_digits n) = n"
  by (simp add: dec_digits_def horner_Cons)

lemma dec_digits_nonempty [simp]: "dec_digits n \<noteq> []"
  by (simp add: dec_digits_def)

lemma length_dec_digits_le: "n < 10 ^ k \<Longrightarrow> 0 < k \<Longrightarrow> length (dec_digits n) \<le> k"
  by (auto simp: dec_digits_def length_digs_le)

lemma hd_dec_digits_0: "dec_digits n = d # ds \<Longrightarrow> d = 0 \<Longrightarrow> ds = []"
proof -
  assume a: "dec_digits n = d # ds" "d = 0"
  have "n = 0"
  proof (rule ccontr)
    assume n: "n \<noteq> 0"
    with a have "rev (digs 10 n) = 0 # ds" by (simp add: dec_digits_def)
    then have "digs 10 n = rev ds @ [0]" by (simp add: rev_swap)
    then show False using last_digs [of 10 n] n by simp
  qed
  with a show "ds = []" by (simp add: dec_digits_def)
qed

lemma digit_char_10:
  assumes "d < 10"
  shows "digit_in 10 (digit_char d) = Some d" "digit_char d \<noteq> CHR ''.''" "digit_char d \<noteq> CHR ''_''"
    "digit_char d \<noteq> CHR ''-''" "digit_char d \<noteq> CHR ''+''" "digit_char d \<noteq> CHR ''I''"
    "digit_char d \<noteq> CHR ''i''"
proof -
  show v: "digit_in 10 (digit_char d) = Some d" using assms by (simp add: digit_in_digit_char)
  show "digit_char d \<noteq> CHR ''.''" "digit_char d \<noteq> CHR ''_''"
    "digit_char d \<noteq> CHR ''-''" "digit_char d \<noteq> CHR ''+''" "digit_char d \<noteq> CHR ''I''"
    "digit_char d \<noteq> CHR ''i''"
    using v by (auto simp: digit_in_def digit_val_def)
qed

lemma digit_char_eq_0_iff: "d < 10 \<Longrightarrow> digit_char d = CHR ''0'' \<longleftrightarrow> d = 0"
  using digit_in_digit_char [of 10 d] digit_in_digit_char [of 10 0] by (auto simp: digit_char_0)

lemma scan_mant_digits:
  "\<forall>d \<in> set ds. d < 10 \<Longrightarrow>
   scan_mant 10 fr pv iv m cnt dp (map digit_char ds @ s)
   = scan_mant 10 fr (if ds = [] then pv else PDigit) iv (foldl (\<lambda>v d. v * 10 + d) m ds)
       (cnt + length ds) dp s"
  by (induction ds arbitrary: pv m cnt) (auto simp: digit_char_10)

lemma scan_mant_fixed:
  assumes "\<forall>d \<in> set ds. d < 10" "\<forall>d \<in> set es. d < 10" "ds \<noteq> []" "es \<noteq> []"
  shows "scan_mant 10 True pv False 0 0 None (map digit_char ds @ CHR ''.'' # map digit_char es)
    = (horner 10 (ds @ es), length ds + length es, Some (length ds), False, [])"
  using assms scan_mant_digits [of es False POther False "foldl (\<lambda>v d. v * 10 + d) 0 ds" "length ds"
      "Some (length ds)" "[]"]
  by (simp add: scan_mant_digits horner_def)

lemma scan_mantissa_fixed:
  assumes es: "\<forall>d \<in> set es. d < 10" "es \<noteq> []"
  shows "scan_mantissa (map digit_char (dec_digits n) @ CHR ''.'' # map digit_char es)
    = (10, horner 10 (dec_digits n @ es), length (dec_digits n) + length es,
        Some (length (dec_digits n)), False, [])"
proof -
  obtain d ds where ds: "dec_digits n = d # ds" by (cases "dec_digits n") auto
  have small: "\<forall>d \<in> set (dec_digits n). d < 10" by (auto dest: dec_digits_less)
  then have d: "d < 10" by (simp add: ds)
  show ?thesis
  proof (cases "d = 0")
    case True
    with ds have "dec_digits n = [0]" by (auto dest: hd_dec_digits_0)
    then show ?thesis
      using es scan_mant_digits [of es False POther False 0 1 "Some 1" "[]"]
      by (simp add: scan_mantissa_def horner_def digit_char_0)
  next
    case False
    then have "digit_char d \<noteq> CHR ''0''" using d by (simp add: digit_char_eq_0_iff)
    then show ?thesis
      using scan_mant_fixed [OF small es(1) _ es(2), of POther] ds
      by (simp add: scan_mantissa_def)
  qed
qed

definition frac_digits :: "nat \<Rightarrow> nat \<Rightarrow> nat list" where
  "frac_digits k n = replicate (k - length (dec_digits n)) 0 @ dec_digits n"

lemma fixed_text_digits:
  "0 < k \<Longrightarrow> fixed_text k n = map digit_char (dec_digits (n div 10 ^ k)) @ CHR ''.'' #
     map digit_char (frac_digits k (n mod 10 ^ k))"
  by (simp add: fixed_text_def pad_zeros_def nat_text_dec_digits frac_digits_def digit_char_0)

lemma horner_frac_digits [simp]: "horner 10 (frac_digits k n) = n"
  by (simp only: frac_digits_def horner_replicate_0_append horner_dec_digits)

lemma scan_number_fixed_text:
  assumes k: "0 < k" "k \<le> 27" and n: "n < 2 ^ 1024"
  shows "scan_number p (fixed_text k n) = Some (fl p (of_nat n / 10 ^ k))"
proof -
  define ds where "ds = dec_digits (n div 10 ^ k)"
  define es where "es = frac_digits k (n mod 10 ^ k)"
  have len: "length es = k"
    using length_dec_digits_le [of "n mod 10 ^ k" k] k by (simp add: es_def frac_digits_def)
  have es: "\<forall>d \<in> set es. d < 10" "es \<noteq> []"
    using k len by (auto simp: es_def frac_digits_def dest: dec_digits_less)
  have "horner 10 (ds @ es) = n"
    using len div_mult_mod_eq [of n "10 ^ k"] by (simp add: horner_append ds_def es_def)
  then have scan: "scan_mantissa (fixed_text k n) = (10, n, length ds + k, Some (length ds), False, [])"
    using scan_mantissa_fixed [OF es, of "n div 10 ^ k"] len k
    by (simp add: fixed_text_digits ds_def es_def)
  have top: "bitlen (int n) \<le> 1024"
    using n bitlen_le_iff_power [of "int n" 1024] by (simp flip: of_nat_less_iff)
  have bl: "0 \<le> bitlen (int n)" by (rule bitlen_nonneg)
  have ds_pos: "0 < length ds + k" using k by simp
  show ?thesis
  proof (cases "n = 0")
    case True
    with scan ds_pos show ?thesis by (simp add: scan_number_def scan_exponent_def)
  next
    case False
    have "(of_nat n * 2 powi (- int k)) / 5 ^ k = (of_nat n / 10 ^ k :: rat)"
      by (simp add: power_int_minus field_simps flip: power_mult_distrib)
    with scan ds_pos False top bl k show ?thesis
      by (simp add: scan_number_def scan_exponent_def scale5_def pow5_def)
  qed
qed

theorem bf_SetString_fixed_text:
  assumes "0 < k" "k \<le> 27" "n < 2 ^ 1024"
  shows "bf_SetString (fixed_text k n) = Some \<lparr>bf_prec = 64, bf_val = Fin (fl 64 (of_nat n / 10 ^ k))\<rparr>"
proof -
  obtain d ds where ds: "dec_digits (n div 10 ^ k) = d # ds" by (cases "dec_digits (n div 10 ^ k)") auto
  then have "d < 10" using dec_digits_less [of d "n div 10 ^ k"] by simp
  moreover from ds assms obtain r where "fixed_text k n = digit_char d # r"
    by (simp add: fixed_text_digits)
  ultimately show ?thesis
    using scan_number_fixed_text [OF assms, of 64] by (simp add: bf_SetString_def digit_char_10)
qed

lemma fv_text_near:
  assumes "\<bar>x * 10 ^ k - of_nat n\<bar> < 1 / 2" and "0 \<le> x"
  shows "fv_text k (Fin x) = fixed_text k n"
proof -
  have "round_even (x * 10 ^ k) = int n"
    using assms(1) by (intro round_even_unique) simp
  then show ?thesis using assms(2) by (simp add: fv_text_def)
qed

end
