(* ===== verification/Json.thy ===== *)
theory Json
  imports BigFloat "HOL-Library.List_Lexorder" "HOL-Library.Char_ord"
begin

text \<open>
  JSON documents as \<open>encoding/json\<close> sees them. A document is a tree; the text form is not
  modelled, so a column that stores a marshalled struct holds the tree and \<open>json.Marshal\<close>
  followed by \<open>json.Unmarshal\<close> is the encoding of the struct as a tree and its decoding. A number
  is its literal, as \<open>json.Number\<close> keeps it. The decoders return \<open>None\<close> where \<open>json.Unmarshal\<close> reports a
  type error, and the zero value for a missing field or a null.
\<close>

datatype json = JNull | JBool bool | JNum string | JStr string | JArr "json list" | JObj "(string \<times> json) list"

text \<open>A later duplicate of a key replaces the earlier one.\<close>

definition jget :: "string \<Rightarrow> (string \<times> json) list \<Rightarrow> json option" where
  "jget k kvs = map_of (rev kvs) k"

definition as_obj :: "json \<Rightarrow> (string \<times> json) list option" where
  "as_obj j = (case j of JObj kvs \<Rightarrow> Some kvs | JNull \<Rightarrow> Some [] | _ \<Rightarrow> None)"

definition fld_str :: "string \<Rightarrow> (string \<times> json) list \<Rightarrow> string option" where
  "fld_str k kvs = (case jget k kvs of None \<Rightarrow> Some [] | Some JNull \<Rightarrow> Some []
     | Some (JStr s) \<Rightarrow> Some s | _ \<Rightarrow> None)"

definition fld_bool :: "string \<Rightarrow> (string \<times> json) list \<Rightarrow> bool option" where
  "fld_bool k kvs = (case jget k kvs of None \<Rightarrow> Some False | Some JNull \<Rightarrow> Some False
     | Some (JBool b) \<Rightarrow> Some b | _ \<Rightarrow> None)"

text \<open>
  An unsigned integer of \<open>w\<close> bits and a signed one, as \<open>strconv.ParseUint\<close> and \<open>ParseInt\<close> read
  the literal in base 10: a fraction or an exponent is an error.
\<close>

definition num_uint :: "nat \<Rightarrow> string \<Rightarrow> nat option" where
  "num_uint w x = (case parse_nat 10 x of Some n \<Rightarrow> if n < 2 ^ w then Some n else None | None \<Rightarrow> None)"

definition num_int :: "nat \<Rightarrow> string \<Rightarrow> int option" where
  "num_int w x = (case set_string 10 x of
       Some i \<Rightarrow> if - (2 ^ (w - 1)) \<le> i \<and> i < 2 ^ (w - 1) then Some i else None | None \<Rightarrow> None)"

text \<open>A floating-point number, as \<open>strconv.ParseFloat\<close> reads a JSON literal: rounded once, and an
  error when it overflows.\<close>

definition num_float :: "string \<Rightarrow> fval option" where
  "num_float x = (let neg = (case x of c # _ \<Rightarrow> c = CHR ''-'' | [] \<Rightarrow> False);
       t = (if neg then tl x else x);
       (b, m, cnt, dp, inval, r) = scan_mantissa t
     in case scan_exponent r of
          None \<Rightarrow> None
        | Some (e, _, _) \<Rightarrow>
            let fd = (case dp of None \<Rightarrow> 0 | Some k \<Rightarrow> int k - int cnt);
                v = of_nat m * 10 powi (fd + e)
            in (case round64 (if neg then - v else v) of Fin y \<Rightarrow> Some (Fin y) | _ \<Rightarrow> None))"

definition fld_uint :: "nat \<Rightarrow> string \<Rightarrow> (string \<times> json) list \<Rightarrow> nat option" where
  "fld_uint w k kvs = (case jget k kvs of None \<Rightarrow> Some 0 | Some JNull \<Rightarrow> Some 0
     | Some (JNum x) \<Rightarrow> num_uint w x | _ \<Rightarrow> None)"

definition fld_int :: "nat \<Rightarrow> string \<Rightarrow> (string \<times> json) list \<Rightarrow> int option" where
  "fld_int w k kvs = (case jget k kvs of None \<Rightarrow> Some 0 | Some JNull \<Rightarrow> Some 0
     | Some (JNum x) \<Rightarrow> num_int w x | _ \<Rightarrow> None)"

definition jnat :: "nat \<Rightarrow> json" where
  "jnat n = JNum (nat_text 10 n)"

definition jint :: "int \<Rightarrow> json" where
  "jint i = JNum (int_text 10 i)"

text \<open>\<open>x, _ := m[k].(string)\<close>: the empty string unless the value is a string.\<close>

definition str_or_empty :: "string \<Rightarrow> (string \<times> json) list \<Rightarrow> string" where
  "str_or_empty k kvs = (case jget k kvs of Some (JStr s) \<Rightarrow> s | _ \<Rightarrow> [])"

text \<open>A field with \<open>omitempty\<close>.\<close>

definition omit_empty :: "string \<Rightarrow> string \<Rightarrow> (string \<times> json) list" where
  "omit_empty k s = (if s = [] then [] else [(k, JStr s)])"

named_theorems json_simps \<open>reading back the fields of an encoded object\<close>

lemma jget_Nil [json_simps]: "jget k [] = None"
  by (simp add: jget_def)

lemma jget_append [json_simps]:
  "jget k (xs @ ys) = (case jget k ys of None \<Rightarrow> jget k xs | Some v \<Rightarrow> Some v)"
  by (simp add: jget_def map_add_def split: option.splits)

lemma jget_Cons [json_simps]:
  "jget k ((k', v) # xs) = (case jget k xs of None \<Rightarrow> if k = k' then Some v else None | Some w \<Rightarrow> Some w)"
  by (simp add: jget_def map_add_def split: option.splits)

lemma num_uint_nat_text [json_simps, simp]: "n < 2 ^ w \<Longrightarrow> num_uint w (nat_text 10 n) = Some n"
  by (simp add: num_uint_def parse_nat_text)

lemma num_int_int_text [json_simps, simp]:
  "- (2 ^ (w - 1)) \<le> i \<Longrightarrow> i < 2 ^ (w - 1) \<Longrightarrow> num_int w (int_text 10 i) = Some i"
  by (simp add: num_int_def)

text \<open>The verb \<open>%v\<close> on a decoded document: maps are printed with sorted keys.\<close>

fun join_with :: "string \<Rightarrow> string list \<Rightarrow> string" where
  "join_with sep [] = []"
| "join_with sep [t] = t"
| "join_with sep (t # ts) = t @ sep @ join_with sep ts"

fun fmt_v :: "json \<Rightarrow> string" where
  "fmt_v JNull = ''<nil>''"
| "fmt_v (JBool b) = (if b then ''true'' else ''false'')"
| "fmt_v (JNum s) = s"
| "fmt_v (JStr s) = s"
| "fmt_v (JArr js) = ''['' @ join_with '' '' (map fmt_v js) @ '']''"
| "fmt_v (JObj kvs) =
     (let texts = map (\<lambda>(k, v). (k, fmt_v v)) kvs
      in ''map['' @ join_with '' '' (map (\<lambda>k. k @ '':'' @ the (map_of (rev texts) k))
           (sorted_list_of_set (set (map fst kvs)))) @ '']'')"

end
