(* ===== verification/Store.thy ===== *)
theory Store
  imports Json "HOL-Library.AList"
begin

text \<open>
  The data model of \<open>src/model\<close>: one record per table, the chain registry of
  \<open>model/wallet.go\<close> with its operations, the random identifiers of approval requests, and the
  queries the handlers use on a table. A table is the list of its rows in primary-key order.
  Times are nanoseconds since the Unix epoch; the zero \<open>time.Time\<close> is a negative number.
  Documents stored as JSON text are trees, and the empty text is \<open>None\<close>.
\<close>

subsection \<open>Tables\<close>

record approval_policy =
  pol_ID :: nat
  pol_WalletID :: string
  pol_ThresholdUSD :: string
  pol_DailyLimitUSD :: string
  pol_DailySpentUSD :: string
  pol_DailyResetAt :: int
  pol_Enabled :: bool
  pol_CreatedAt :: int

record approval_request =
  apr_ID :: nat
  apr_WalletID :: "string option"
  apr_UserID :: nat
  apr_ApprovalType :: string
  apr_Message :: string
  apr_TxContext :: "json option"
  apr_TxParams :: "json option"
  apr_PolicyData :: "json option"
  apr_TxHash :: string
  apr_Status :: string
  apr_Signature :: string
  apr_ApprovedBy :: "nat option"
  apr_AuthMode :: string
  apr_APIKeyPrefix :: string
  apr_CreatedAt :: int
  apr_ExpiresAt :: int

record wallet =
  w_ID :: string
  w_UserID :: nat
  w_Chain :: string
  w_KeyName :: string
  w_PublicKey :: string
  w_Address :: string
  w_Label :: string
  w_Curve :: string
  w_Protocol :: string
  w_Status :: string
  w_CreatedAt :: int

record allowed_contract =
  ac_ID :: nat
  ac_UserID :: nat
  ac_Chain :: string
  ac_ContractAddress :: string
  ac_Label :: string
  ac_Symbol :: string
  ac_Decimals :: int
  ac_CreatedAt :: int

record address_book_entry =
  ab_ID :: nat
  ab_UserID :: nat
  ab_Nickname :: string
  ab_Chain :: string
  ab_Address :: string
  ab_Memo :: string
  ab_CreatedAt :: int
  ab_UpdatedAt :: int

record user =
  u_ID :: nat
  u_Username :: string
  u_Email :: "string option"
  u_PasskeyUserID :: nat
  u_CreatedAt :: int

record api_key =
  ak_ID :: nat
  ak_UserID :: nat
  ak_KeyHash :: string
  ak_KeySalt :: string
  ak_Prefix :: string
  ak_Label :: string
  ak_CreatedAt :: int

record audit_log =
  al_ID :: nat
  al_UserID :: nat
  al_Action :: string
  al_WalletID :: "string option"
  al_ApprovalID :: "nat option"
  al_Details :: "json option"
  al_AuthMode :: string
  al_APIKeyPrefix :: string
  al_IP :: string
  al_Status :: string
  al_CreatedAt :: int
  al_ApprovedAt :: "int option"

record idempotency_record =
  idr_Key :: string
  idr_UserID :: nat
  idr_WalletID :: string
  idr_StatusCode :: nat
  idr_Response :: json
  idr_ExpiresAt :: int
  idr_CreatedAt :: int

record email_verification =
  em_ID :: nat
  em_Email :: string
  em_CodeHash :: string
  em_Attempts :: int
  em_ExpiresAt :: int
  em_VerifiedAt :: "int option"
  em_ConsumedAt :: "int option"
  em_VerificationID :: "string option"
  em_CreatedAt :: int
  em_LastSentAt :: int

subsection \<open>Queries\<close>

text \<open>
  \<open>db.Where(P).First\<close>, \<open>db.Model(T).Where(P).Updates\<close>, \<open>db.Where(P).Delete\<close>, the number of rows a condition selects,
  and the next primary key of a table.
\<close>

definition first_row :: "('r \<Rightarrow> bool) \<Rightarrow> 'r list \<Rightarrow> 'r option" where
  "first_row P t = find P t"

definition update_rows :: "('r \<Rightarrow> bool) \<Rightarrow> ('r \<Rightarrow> 'r) \<Rightarrow> 'r list \<Rightarrow> 'r list" where
  "update_rows P f t = map (\<lambda>r. if P r then f r else r) t"

definition delete_rows :: "('r \<Rightarrow> bool) \<Rightarrow> 'r list \<Rightarrow> 'r list" where
  "delete_rows P t = filter (\<lambda>r. \<not> P r) t"

text \<open>\<open>Order(key desc).First\<close> and \<open>Order(key).Find\<close>: rows with equal keys stay in primary-key order.\<close>

fun latest_row :: "('r \<Rightarrow> int) \<Rightarrow> 'r list \<Rightarrow> 'r option" where
  "latest_row key [] = None"
| "latest_row key (r # t) = (case latest_row key t of None \<Rightarrow> Some r | Some q \<Rightarrow> Some (if key r \<ge> key q then r else q))"

definition sort_asc :: "('r \<Rightarrow> int) \<Rightarrow> 'r list \<Rightarrow> 'r list" where
  "sort_asc key t = sort_key key t"

definition sort_desc :: "('r \<Rightarrow> int) \<Rightarrow> 'r list \<Rightarrow> 'r list" where
  "sort_desc key t = sort_key (\<lambda>r. - key r) t"

definition count_rows :: "('r \<Rightarrow> bool) \<Rightarrow> 'r list \<Rightarrow> nat" where
  "count_rows P t = length (filter P t)"

definition next_id :: "('r \<Rightarrow> nat) \<Rightarrow> 'r list \<Rightarrow> nat" where
  "next_id key t = Suc (foldr max (map key t) 0)"

lemma first_row_Some:
  "first_row P t = Some r \<Longrightarrow> r \<in> set t \<and> P r"
  by (auto simp: first_row_def find_Some_iff)

lemma first_row_None: "first_row P t = None \<longleftrightarrow> (\<forall>r \<in> set t. \<not> P r)"
  by (auto simp: first_row_def find_None_iff)

lemma count_rows_0 [simp]: "count_rows P t = 0 \<longleftrightarrow> (\<forall>r \<in> set t. \<not> P r)"
  by (simp add: count_rows_def filter_empty_conv)

lemma set_delete_rows [simp]: "set (delete_rows P t) = {r \<in> set t. \<not> P r}"
  by (auto simp: delete_rows_def)

lemma distinct_delete_rows: "distinct (map key t) \<Longrightarrow> distinct (map key (delete_rows P t))"
  by (simp add: delete_rows_def distinct_map_filter)

lemma latest_row_None [simp]: "latest_row key t = None \<longleftrightarrow> t = []"
  by (cases t) (auto split: option.splits)

lemma latest_row_Some: "latest_row key t = Some r \<Longrightarrow> r \<in> set t \<and> (\<forall>q \<in> set t. key q \<le> key r)"
proof (induction t arbitrary: r)
  case (Cons a t)
  then show ?case by (cases "latest_row key t") (fastforce split: if_splits)+
qed simp

lemma length_update_rows [simp]: "length (update_rows P f t) = length t"
  by (simp add: update_rows_def)

lemma map_update_rows: "(\<And>r. key (f r) = key r) \<Longrightarrow> map key (update_rows P f t) = map key t"
  by (simp add: update_rows_def)

lemma next_id_fresh: "r \<in> set t \<Longrightarrow> key r < next_id key t"
proof (induction t)
  case (Cons a t)
  then show ?case by (auto simp: next_id_def less_Suc_eq_le)
qed simp

lemma next_id_distinct: "distinct (map key t) \<Longrightarrow> distinct (next_id key t # map key t)"
  using next_id_fresh [of _ t key] by fastforce

text \<open>The first row that satisfies a condition is updated in place when its key is unique.\<close>

lemma first_row_update:
  assumes "first_row P t = Some r" and "distinct (map key t)" and "P (f r)" and "key (f r) = key r"
  shows "first_row P (update_rows (\<lambda>x. key x = key r) f t) = Some (f r)"
  using assms
proof (induction t)
  case (Cons a t)
  show ?case
  proof (cases "P a")
    case True
    with Cons.prems show ?thesis by (auto simp: first_row_def update_rows_def)
  next
    case False
    then have "first_row P t = Some r" using Cons.prems by (simp add: first_row_def)
    moreover from this have "key a \<noteq> key r"
      using Cons.prems(2) first_row_Some [of P t r] by auto
    ultimately show ?thesis using Cons False by (auto simp: first_row_def update_rows_def)
  qed
qed (simp add: first_row_def)

subsection \<open>Identifiers of approval requests\<close>

text \<open>
  \<open>ApprovalRequest.BeforeCreate\<close>: ten draws of a 32-bit number (\<open>None\<close> is a failing
  \<open>rand.Read\<close>), the first one not in use is taken.
\<close>

primrec approval_id_loop :: "nat \<Rightarrow> nat option list \<Rightarrow> nat list \<Rightarrow> nat res" where
  "approval_id_loop 0 draws used = Inl (Msg ''failed to generate unique approval ID after 10 attempts'')"
| "approval_id_loop (Suc n) draws used = (case draws of
       [] \<Rightarrow> Inl (Msg ''rand.Read'')
     | None # _ \<Rightarrow> Inl (Msg ''rand.Read'')
     | Some d # ds \<Rightarrow>
         let i = d mod (2000000000 - 100000000) + 100000000
         in if i \<in> set used then approval_id_loop n ds used else Inr i)"

definition BeforeCreate :: "nat option list \<Rightarrow> approval_request list \<Rightarrow> approval_request \<Rightarrow> approval_request res" where
  "BeforeCreate draws t a =
     (if apr_ID a \<noteq> 0 then Inr a
      else and_then (approval_id_loop 10 draws (map apr_ID t)) (\<lambda>i. Inr (a\<lparr>apr_ID := i\<rparr>)))"

lemma approval_id_loop_range:
  "approval_id_loop n draws used = Inr i \<Longrightarrow> i \<notin> set used \<and> 100000000 \<le> i \<and> i < 2000000000"
proof (induction n arbitrary: draws)
  case (Suc n)
  then show ?case
    by (auto simp: Let_def split: list.splits option.splits if_splits)
qed simp

subsection \<open>The chain registry\<close>

record chain_config =
  cc_Name :: string
  cc_Label :: string
  cc_Protocol :: string
  cc_Curve :: string
  cc_Currency :: string
  cc_Family :: string
  cc_RPCURL :: string
  cc_ChainID :: nat
  cc_QuickNodeNetwork :: string
  cc_QuickNodePath :: string
  cc_Testnet :: bool

type_synonym chains = "(string \<times> chain_config) list"

definition GetChain :: "chains \<Rightarrow> string \<Rightarrow> chain_config option" where
  "GetChain cs name = map_of cs name"

definition SetChain :: "chains \<Rightarrow> string \<Rightarrow> chain_config \<Rightarrow> chains" where
  "SetChain cs name cfg = AList.update name cfg cs"

definition ChainsLen :: "chains \<Rightarrow> nat" where
  "ChainsLen cs = length cs"

definition RemoveNonTestnetChains :: "chains \<Rightarrow> (nat \<times> nat) \<times> chains" where
  "RemoveNonTestnetChains cs = (let kept = filter (\<lambda>(_, c). cc_Testnet c) cs
     in ((length cs - length kept, length kept), kept))"

definition mk_chain :: "string \<Rightarrow> string \<Rightarrow> string \<Rightarrow> string \<Rightarrow> string \<Rightarrow> string \<Rightarrow> string \<Rightarrow> bool \<Rightarrow> chain_config" where
  "mk_chain name label protocol curve currency family url testnet =
     \<lparr>cc_Name = name, cc_Label = label, cc_Protocol = protocol, cc_Curve = curve, cc_Currency = currency,
      cc_Family = family, cc_RPCURL = url, cc_ChainID = 0, cc_QuickNodeNetwork = [], cc_QuickNodePath = [],
      cc_Testnet = testnet\<rparr>"

definition defaultChains :: "chain_config list" where
  "defaultChains =
    [mk_chain ''ethereum'' ''Ethereum Mainnet'' ''ecdsa'' ''secp256k1'' ''ETH'' ''evm''
       ''https://ethereum-rpc.publicnode.com'' False,
     mk_chain ''solana'' ''Solana Mainnet'' ''eddsa'' ''ed25519'' ''SOL'' ''solana''
       ''https://api.mainnet-beta.solana.com'' False,
     mk_chain ''sepolia'' ''Sepolia Testnet'' ''ecdsa'' ''secp256k1'' ''ETH'' ''evm''
       ''https://ethereum-sepolia-rpc.publicnode.com'' True,
     mk_chain ''bsc-testnet'' ''BSC Testnet'' ''ecdsa'' ''secp256k1'' ''tBNB'' ''evm''
       ''https://bsc-testnet-rpc.publicnode.com'' True,
     mk_chain ''solana-devnet'' ''Solana Devnet'' ''eddsa'' ''ed25519'' ''SOL'' ''solana''
       ''https://api.devnet.solana.com'' True,
     mk_chain ''optimism'' ''Optimism Mainnet'' ''ecdsa'' ''secp256k1'' ''ETH'' ''evm''
       ''https://optimism-rpc.publicnode.com'' False,
     mk_chain ''base-sepolia'' ''Base Sepolia Testnet'' ''ecdsa'' ''secp256k1'' ''ETH'' ''evm''
       ''https://sepolia.base.org'' True]"

text \<open>\<open>LoadChains\<close>: the decoded file, or \<open>None\<close> when it cannot be read or parsed.\<close>

definition useDefaultChains :: "chains \<Rightarrow> chains" where
  "useDefaultChains cs = foldl (\<lambda>m c. SetChain m (cc_Name c) c) cs defaultChains"

definition LoadChains :: "chain_config list option \<Rightarrow> chains" where
  "LoadChains file = (case file of
       None \<Rightarrow> useDefaultChains []
     | Some l \<Rightarrow> foldl (\<lambda>m c. SetChain m (cc_Name c) c) [] l)"

end
