(* ===== verification/DailyLimit.thy ===== *)
theory DailyLimit
  imports Store
begin

text \<open>
  The daily spend limit of a wallet (\<open>handler/wallet.go\<close>): checking and deducting, releasing a
  deduction, and the unconditional increment after a broadcast, each one atomic under the mutex of
  the wallet. Amounts are decimal texts with six decimals, read into 64-bit big floats. The
  parameter \<open>dbe\<close> tells which database calls fail. The theorems show that below 2 to the 38
  dollars the counter is exact in micro-dollars, that a deduction is refused exactly beyond the
  limit except possibly at equality, and that no sequence of operations takes the recorded
  spending over the limit.
\<close>

type_synonym policies = "approval_policy list"
type_synonym db_faults = "string \<Rightarrow> bool"

definition utcStartOfDay :: "int \<Rightarrow> int" where
  "utcStartOfDay now = now - now mod 86400000000000"

definition zero_float :: bigfloat where
  "zero_float = \<lparr>bf_prec = 0, bf_val = Fin 0\<rparr>"

text \<open>\<open>v, ok := SetString(s)\<close> with the guard \<open>!ok || v.Sign() <= 0\<close>.\<close>

definition positive_float :: "string \<Rightarrow> bigfloat option" where
  "positive_float s = (case bf_SetString s of
       None \<Rightarrow> None | Some v \<Rightarrow> if bf_Sign v \<le> 0 then None else Some v)"

definition active :: "string \<Rightarrow> approval_policy \<Rightarrow> bool" where
  "active walletID p \<longleftrightarrow> pol_WalletID p = walletID \<and> pol_Enabled p"

definition load_active :: "db_faults \<Rightarrow> string \<Rightarrow> policies \<Rightarrow> approval_policy option" where
  "load_active dbe walletID ps = (if dbe ''first_policy'' then None else first_row (active walletID) ps)"

definition exceedsUSDThreshold :: "fval \<Rightarrow> string \<Rightarrow> bool" where
  "exceedsUSDThreshold amountUSD thresholdUSD = (case positive_float thresholdUSD of
       None \<Rightarrow> False | Some t \<Rightarrow> bf_gt (bf_SetFloat64 amountUSD) t)"

text \<open>The spending recorded for the current day and the day it belongs to.\<close>

definition current_spent :: "int \<Rightarrow> approval_policy \<Rightarrow> string \<times> int" where
  "current_spent now p = (let startOfDay = utcStartOfDay now
     in if pol_DailyResetAt p < startOfDay then (''0'', startOfDay)
        else (pol_DailySpentUSD p, pol_DailyResetAt p))"

definition set_spent :: "approval_policy \<Rightarrow> string \<Rightarrow> int \<Rightarrow> policies \<Rightarrow> policies" where
  "set_spent p spent resetAt ps = update_rows (\<lambda>r. pol_ID r = pol_ID p)
     (\<lambda>r. r\<lparr>pol_DailySpentUSD := spent, pol_DailyResetAt := resetAt\<rparr>) ps"

definition checkAndDeductDailyLimitUSD ::
    "db_faults \<Rightarrow> int \<Rightarrow> string \<Rightarrow> string \<Rightarrow> policies \<Rightarrow> (bool \<times> string) res \<times> policies" where
  "checkAndDeductDailyLimitUSD dbe now walletID amountUSD ps =
     (case load_active dbe walletID ps of
        None \<Rightarrow> (Inr (False, []), ps)
      | Some policy \<Rightarrow>
          if pol_DailyLimitUSD policy = [] then (Inr (False, []), ps) else
          case (positive_float (pol_DailyLimitUSD policy), positive_float amountUSD) of
            (Some dailyLimit, Some amountF) \<Rightarrow>
              let (currentSpent, resetAt) = current_spent now policy;
                  spent = (case bf_SetString currentSpent of None \<Rightarrow> zero_float | Some v \<Rightarrow> v)
              in (case bf_Add 0 spent amountF of
                    None \<Rightarrow> (Inl (Panic ''big.ErrNaN''), ps)
                  | Some newSpent \<Rightarrow>
                      if bf_gt newSpent dailyLimit
                      then (Inr (True, ''daily spend limit exceeded: limit $'' @ pol_DailyLimitUSD policy @
                              '' USD, already spent $'' @ currentSpent @ '' USD today''), ps)
                      else if dbe ''update_policy''
                      then (Inl (Wrap ''failed to update daily spent'' (Msg ''db'')), ps)
                      else (Inr (False, []), set_spent policy (bf_Text 6 newSpent) resetAt ps))
          | _ \<Rightarrow> (Inr (False, []), ps))"

definition releaseDailySpentUSD :: "db_faults \<Rightarrow> int \<Rightarrow> string \<Rightarrow> string \<Rightarrow> policies \<Rightarrow> unit res \<times> policies" where
  "releaseDailySpentUSD dbe now walletID amountUSD ps =
     (case (positive_float amountUSD, load_active dbe walletID ps) of
        (Some amountF, Some policy) \<Rightarrow>
          if pol_DailyResetAt policy < utcStartOfDay now then (Inr (), ps) else
          (case bf_SetString (pol_DailySpentUSD policy) of
             None \<Rightarrow> (Inr (), ps)
           | Some spent \<Rightarrow>
               (case bf_Sub 0 spent amountF of
                  None \<Rightarrow> (Inl (Panic ''big.ErrNaN''), ps)
                | Some d \<Rightarrow>
                    let newSpent = (if bf_Sign d < 0 then zero_float else d)
                    in (Inr (), if dbe ''update_policy'' then ps
                          else set_spent policy (bf_Text 6 newSpent) (pol_DailyResetAt policy) ps)))
      | _ \<Rightarrow> (Inr (), ps))"

definition addDailySpentUSD :: "db_faults \<Rightarrow> int \<Rightarrow> string \<Rightarrow> string \<Rightarrow> policies \<Rightarrow> unit res \<times> policies" where
  "addDailySpentUSD dbe now walletID amountUSD ps =
     (case (positive_float amountUSD, load_active dbe walletID ps) of
        (Some amountF, Some policy) \<Rightarrow>
          let (currentSpent, resetAt) = current_spent now policy;
              spent = (case bf_SetString currentSpent of None \<Rightarrow> zero_float | Some v \<Rightarrow> v)
          in (case bf_Add 0 spent amountF of
                None \<Rightarrow> (Inl (Panic ''big.ErrNaN''), ps)
              | Some newSpent \<Rightarrow>
                  (Inr (), if dbe ''update_policy'' then ps
                           else set_spent policy (bf_Text 6 newSpent) resetAt ps))
      | _ \<Rightarrow> (Inr (), ps))"

subsection \<open>Exactness in micro-dollars\<close>

text \<open>A text denotes a number of micro-dollars.\<close>

definition usd :: "string \<Rightarrow> nat \<Rightarrow> bool" where
  "usd s n \<longleftrightarrow> bf_SetString s = Some \<lparr>bf_prec = 64, bf_val = Fin (fl 64 (of_nat n / 10 ^ 6))\<rparr>"

abbreviation usd_bound :: nat where
  "usd_bound \<equiv> 2 ^ 38 * 10 ^ 6"

lemma usd_fixed_text: "n < usd_bound \<Longrightarrow> usd (fixed_text 6 n) n"
proof -
  assume "n < usd_bound"
  moreover have "(usd_bound :: nat) \<le> 2 ^ 1024" by (rule order_trans [of _ "2 ^ 64"]) (simp, rule power_increasing, simp_all)
  ultimately show ?thesis using bf_SetString_fixed_text [of 6 n] by (simp add: usd_def)
qed

lemma usd_0: "usd ''0'' 0"
  by code_simp

lemma fl_add_error:
  assumes "\<bar>x\<bar> \<le> M" "\<bar>y\<bar> \<le> M" "1 \<le> p"
  shows "\<bar>fl p (fl p x + fl p y) - (x + y)\<bar> \<le> 5 * M / 2 ^ p"
proof -
  have M: "0 \<le> M" using assms(1) by linarith
  have "(2::rat) ^ 1 \<le> 2 ^ p" using assms(3) by (intro power_increasing) auto
  then have half: "M / 2 ^ p \<le> M / 2" using M by (intro divide_left_mono) auto
  have b: "\<bar>z\<bar> / 2 ^ p \<le> N / 2 ^ p" if "\<bar>z\<bar> \<le> N" for z N :: rat
    using that by (intro divide_right_mono) auto
  have x: "\<bar>fl p x - x\<bar> \<le> M / 2 ^ p" using fl_error [of p x] b [OF assms(1)] by linarith
  have y: "\<bar>fl p y - y\<bar> \<le> M / 2 ^ p" using fl_error [of p y] b [OF assms(2)] by linarith
  have "\<bar>fl p x + fl p y\<bar> \<le> 3 * M" using x y half assms by linarith
  then have "\<bar>fl p (fl p x + fl p y) - (fl p x + fl p y)\<bar> \<le> 3 * M / 2 ^ p"
    using fl_error [of p "fl p x + fl p y"] b by (meson order_trans)
  moreover have "5 * M / 2 ^ p = M / 2 ^ p + M / 2 ^ p + 3 * M / 2 ^ p" by (simp add: field_simps)
  ultimately show ?thesis using x y by linarith
qed

lemma micro_le: "n \<le> usd_bound \<Longrightarrow> \<bar>of_nat n / 10 ^ 6\<bar> \<le> (2 ^ 38 :: rat)"
proof -
  assume "n \<le> usd_bound"
  then have "(of_nat n :: rat) \<le> of_nat usd_bound" by (simp only: of_nat_le_iff)
  then show ?thesis by simp
qed

text \<open>Sum and difference of two amounts, within a quarter of a micro-dollar.\<close>

lemma micro_add_near:
  assumes "m \<le> usd_bound" "n \<le> usd_bound"
  shows "\<bar>fl 64 (fl 64 (of_nat m / 10 ^ 6) + fl 64 (of_nat n / 10 ^ 6)) * 10 ^ 6 - of_nat (m + n)\<bar> < 1 / 4"
proof -
  define r where "r = fl 64 (fl 64 (of_nat m / 10 ^ 6) + fl 64 (of_nat n / 10 ^ 6))"
  have "\<bar>r - (of_nat m / 10 ^ 6 + of_nat n / 10 ^ 6)\<bar> \<le> 5 * 2 ^ 38 / 2 ^ 64"
    unfolding r_def using fl_add_error [OF micro_le [OF assms(1)] micro_le [OF assms(2)], of 64] by simp
  then show ?thesis by (fold r_def) (simp add: abs_if field_simps split: if_splits)
qed

lemma fl_minus: "fl p (- x) = - fl p x" if "round_even (- (x / 2 powi (ilog2 \<bar>x\<bar> - (int p - 1)))) =
    - round_even (x / 2 powi (ilog2 \<bar>x\<bar> - (int p - 1)))"
  using that by (simp add: fl_def Let_def)

lemma round_even_minus: "round_even (- x) = - round_even x"
proof -
  define f where "f = \<lfloor>x\<rfloor>"
  define r where "r = x - of_int f"
  have r: "0 \<le> r" "r < 1" and x: "x = of_int f + r" unfolding r_def f_def by linarith+
  have c: "\<lfloor>- x\<rfloor> = (if r = 0 then - f else - f - 1)"
    using r unfolding x by (simp add: floor_eq_iff)
  have fx: "\<lfloor>x\<rfloor> = f" by (simp add: f_def)
  show ?thesis
    using r unfolding round_even_def Let_def c fx by (auto simp: x)
qed

lemma micro_sub_near:
  assumes "m \<le> usd_bound" "n \<le> usd_bound"
  shows "\<bar>fl 64 (fl 64 (of_nat m / 10 ^ 6) + - fl 64 (of_nat n / 10 ^ 6)) * 10 ^ 6 - (of_nat m - of_nat n)\<bar> < 1 / 4"
proof -
  have neg: "- fl 64 (of_nat n / 10 ^ 6) = fl 64 (- (of_nat n / 10 ^ 6))"
    by (rule fl_minus [symmetric]) (rule round_even_minus)
  define r where "r = fl 64 (fl 64 (of_nat m / 10 ^ 6) + - fl 64 (of_nat n / 10 ^ 6))"
  have "\<bar>r - (of_nat m / 10 ^ 6 + - (of_nat n / 10 ^ 6))\<bar> \<le> 5 * 2 ^ 38 / 2 ^ 64"
    unfolding r_def neg
    using fl_add_error [OF micro_le [OF assms(1)], of "- (of_nat n / 10 ^ 6)" 64] micro_le [OF assms(2)] by simp
  then show ?thesis by (fold r_def) (simp add: abs_if field_simps split: if_splits)
qed

lemma fl_pos: "0 < x \<Longrightarrow> 1 \<le> p \<Longrightarrow> 0 < fl p x"
proof -
  assume x: "0 < x" "1 \<le> p"
  have "(2::rat) ^ 1 \<le> 2 ^ p" using x(2) by (intro power_increasing) auto
  then have "x / 2 ^ p \<le> x / 2" using x(1) by (intro divide_left_mono) auto
  with fl_error [of p x] x(1) show ?thesis by linarith
qed

lemma usd_positive:
  "usd s n \<Longrightarrow> 0 < n \<Longrightarrow>
   positive_float s = Some \<lparr>bf_prec = 64, bf_val = Fin (fl 64 (of_nat n / 10 ^ 6))\<rparr>"
  using fl_pos [of "of_nat n / 10 ^ 6" 64] by (simp add: usd_def positive_float_def bf_Sign_def)

lemma fl_micro_near:
  assumes "n \<le> usd_bound"
  shows "\<bar>fl 64 (of_nat n / 10 ^ 6) * 10 ^ 6 - of_nat n\<bar> < 1 / 4"
  using micro_add_near [OF assms, of 0] fl_add_error [OF micro_le [OF assms], of 0 64]
    fl_error [of 64 "of_nat n / 10 ^ 6"] micro_le [OF assms]
  by (simp add: abs_if field_simps split: if_splits)

text \<open>The new counter as text: the sum, and the difference cut off at zero.\<close>

lemma text_add:
  assumes "m \<le> usd_bound" "n \<le> usd_bound"
  shows "fv_text 6 (Fin (fl 64 (fl 64 (of_nat m / 10 ^ 6) + fl 64 (of_nat n / 10 ^ 6)))) = fixed_text 6 (m + n)"
proof (rule fv_text_near)
  show "\<bar>fl 64 (fl 64 (of_nat m / 10 ^ 6) + fl 64 (of_nat n / 10 ^ 6)) * 10 ^ 6 - of_nat (m + n)\<bar> < 1 / 2"
    using micro_add_near [OF assms] by linarith
  show "0 \<le> fl 64 (fl 64 (of_nat m / 10 ^ 6) + fl 64 (of_nat n / 10 ^ 6))"
    by (intro fl_nonneg add_nonneg_nonneg) auto
qed

lemma text_sub:
  assumes "m \<le> usd_bound" "n \<le> usd_bound"
    and d: "d = fl 64 (fl 64 (of_nat m / 10 ^ 6) + - fl 64 (of_nat n / 10 ^ 6))"
  shows "fv_text 6 (if d < 0 then Fin 0 else Fin d) = fixed_text 6 (m - n)"
proof -
  have near: "\<bar>d * 10 ^ 6 - (of_nat m - of_nat n)\<bar> < 1 / 4"
    unfolding d by (rule micro_sub_near [OF assms(1,2)])
  show ?thesis
  proof (cases "n \<le> m")
    case True
    then have "\<bar>(if d < 0 then 0 else d) * 10 ^ 6 - of_nat (m - n)\<bar> < 1 / 2"
      using near by (auto simp: of_nat_diff abs_if field_simps split: if_splits)
    then show ?thesis using fv_text_near [of "if d < 0 then 0 else d" 6 "m - n"] by (auto split: if_splits)
  next
    case False
    then have "(of_nat (Suc m) :: rat) \<le> of_nat n" by (simp only: of_nat_le_iff)
    then have "(of_nat m :: rat) - of_nat n \<le> - 1" by simp
    then have "d < 0" using near by (simp add: abs_if field_simps split: if_splits)
    then show ?thesis using fv_text_near [of 0 6 0] False by simp
  qed
qed

text \<open>Comparison with the limit decides the order of the micro-dollar amounts, except at equality.\<close>

lemma limit_cmp:
  assumes "m \<le> usd_bound" "n \<le> usd_bound" "l \<le> usd_bound"
    and r: "r = fl 64 (fl 64 (of_nat m / 10 ^ 6) + fl 64 (of_nat n / 10 ^ 6))"
  shows "fl 64 (of_nat l / 10 ^ 6) < r \<Longrightarrow> l \<le> m + n" and "\<not> fl 64 (of_nat l / 10 ^ 6) < r \<Longrightarrow> m + n \<le> l"
proof -
  have near: "\<bar>r * 10 ^ 6 - of_nat (m + n)\<bar> < 1 / 4" "\<bar>fl 64 (of_nat l / 10 ^ 6) * 10 ^ 6 - of_nat l\<bar> < 1 / 4"
    using micro_add_near [OF assms(1,2)] fl_micro_near [OF assms(3)] by (simp_all add: r)
  have lt: "(of_nat i :: rat) + 1 \<le> of_nat j" if "i < j" for i j :: nat
    using that by (metis Suc_leI of_nat_Suc of_nat_mono add.commute)
  show "l \<le> m + n" if "fl 64 (of_nat l / 10 ^ 6) < r"
  proof (rule ccontr)
    assume "\<not> l \<le> m + n"
    then have "(of_nat (m + n) :: rat) + 1 \<le> of_nat l" by (intro lt) simp
    with near that show False by (auto simp: abs_if field_simps split: if_splits)
  qed
  show "m + n \<le> l" if "\<not> fl 64 (of_nat l / 10 ^ 6) < r"
  proof (rule ccontr)
    assume "\<not> m + n \<le> l"
    then have "(of_nat l :: rat) + 1 \<le> of_nat (m + n)" by (intro lt) simp
    with near that show False by (auto simp: abs_if field_simps split: if_splits)
  qed
qed

subsection \<open>The operations on the counter\<close>

text \<open>The counter of the current day in micro-dollars, for a policy whose text denotes \<open>s\<close>.\<close>

definition today :: "int \<Rightarrow> approval_policy \<Rightarrow> nat \<Rightarrow> nat" where
  "today now p s = (if pol_DailyResetAt p < utcStartOfDay now then 0 else s)"

lemma current_spent_usd:
  "usd (pol_DailySpentUSD p) s \<Longrightarrow> current_spent now p = (cur, r) \<Longrightarrow> usd cur (today now p s)"
  by (auto simp: current_spent_def Let_def today_def usd_0 split: if_splits)

lemma deduct_result:
  assumes p: "load_active dbe w ps = Some p" and lim: "usd (pol_DailyLimitUSD p) l" "0 < l" "l \<le> usd_bound"
    and amt: "usd amt a" "0 < a" "a \<le> usd_bound"
    and spent: "usd (pol_DailySpentUSD p) s" "s \<le> usd_bound" and db: "\<not> dbe ''update_policy''"
    and res: "checkAndDeductDailyLimitUSD dbe now w amt ps = (r, ps')"
  obtains msg where "r = Inr (True, msg)" "ps' = ps" "l \<le> today now p s + a"
    | "r = Inr (False, [])" "today now p s + a \<le> l"
      "ps' = set_spent p (fixed_text 6 (today now p s + a)) (snd (current_spent now p)) ps"
proof -
  obtain cur t where cur: "current_spent now p = (cur, t)" by fastforce
  define m where "m = today now p s"
  define v where "v = fl 64 (fl 64 (of_nat m / 10 ^ 6) + fl 64 (of_nat a / 10 ^ 6))"
  have m: "usd cur m" "m \<le> usd_bound"
    using current_spent_usd [OF spent(1) cur] spent(2) by (auto simp: m_def today_def)
  have ne: "pol_DailyLimitUSD p \<noteq> []"
    using lim(1) by (auto simp: usd_def bf_SetString_def scan_number_def scan_mantissa_def)
  have "(r, ps') = (if fl 64 (of_nat l / 10 ^ 6) < v
     then (Inr (True, ''daily spend limit exceeded: limit $'' @ pol_DailyLimitUSD p @
                  '' USD, already spent $'' @ cur @ '' USD today''), ps)
     else (Inr (False, []), set_spent p (fixed_text 6 (m + a)) t ps))"
    using p usd_positive [OF lim(1,2)] usd_positive [OF amt(1,2)] m(1) ne db cur
      text_add [OF m(2) amt(3)]
    by (simp add: checkAndDeductDailyLimitUSD_def usd_def bf_Add_def bf_prec_of_def bf_gt_def bf_Text_def
        v_def flip: res)
  then show thesis
    using that limit_cmp [OF m(2) amt(3) lim(3) v_def] cur by (auto simp: m_def split: if_splits)
qed

lemma release_result:
  assumes p: "load_active dbe w ps = Some p" and amt: "usd amt a" "0 < a" "a \<le> usd_bound"
    and spent: "usd (pol_DailySpentUSD p) s" "s \<le> usd_bound" and db: "\<not> dbe ''update_policy''"
  shows "releaseDailySpentUSD dbe now w amt ps =
    (Inr (), if pol_DailyResetAt p < utcStartOfDay now then ps
             else set_spent p (fixed_text 6 (s - a)) (pol_DailyResetAt p) ps)"
proof -
  define d where "d = fl 64 (fl 64 (of_nat s / 10 ^ 6) + - fl 64 (of_nat a / 10 ^ 6))"
  have "bf_Text 6 (if bf_Sign \<lparr>bf_prec = 64, bf_val = Fin d\<rparr> < 0 then zero_float
            else \<lparr>bf_prec = 64, bf_val = Fin d\<rparr>) = fixed_text 6 (s - a)"
    using text_sub [OF spent(2) amt(3) d_def]
    by (cases "d = 0") (simp_all add: bf_Text_def bf_Sign_def zero_float_def split: if_splits)
  then show ?thesis
    using p usd_positive [OF amt(1,2)] spent(1) db
    by (simp add: releaseDailySpentUSD_def usd_def bf_Sub_def bf_Neg_def bf_Add_def bf_prec_of_def
        d_def Let_def split: if_splits)
qed

text \<open>What the counter looks like after an update.\<close>

lemma load_active_Some:
  "load_active dbe w ps = Some p \<longleftrightarrow> \<not> dbe ''first_policy'' \<and> first_row (active w) ps = Some p"
  by (auto simp: load_active_def)

lemma first_row_set_spent:
  assumes "first_row (active w) ps = Some p" and "distinct (map pol_ID ps)"
  shows "first_row (active w) (set_spent p t d ps) = Some (p\<lparr>pol_DailySpentUSD := t, pol_DailyResetAt := d\<rparr>)"
proof -
  have "active w p" using first_row_Some [OF assms(1)] by simp
  then show ?thesis
    unfolding set_spent_def
    using first_row_update [OF assms(1,2), of "\<lambda>r. r\<lparr>pol_DailySpentUSD := t, pol_DailyResetAt := d\<rparr>"]
    by (simp add: active_def)
qed

lemma ids_set_spent [simp]: "map pol_ID (set_spent p t d ps) = map pol_ID ps"
  unfolding set_spent_def by (rule map_update_rows) simp

lemma deduct_unchanged:
  "load_active dbe w ps = None \<or> positive_float amt = None \<or> dbe ''update_policy''
   \<Longrightarrow> snd (checkAndDeductDailyLimitUSD dbe now w amt ps) = ps"
  by (auto simp: checkAndDeductDailyLimitUSD_def Let_def split: option.splits prod.splits)

lemma release_unchanged:
  "load_active dbe w ps = None \<or> positive_float amt = None \<or> dbe ''update_policy''
   \<Longrightarrow> snd (releaseDailySpentUSD dbe now w amt ps) = ps"
  by (auto simp: releaseDailySpentUSD_def Let_def split: option.splits)

lemma usd_zero_not_positive: "usd s 0 \<Longrightarrow> positive_float s = None"
  by (simp add: usd_def positive_float_def bf_Sign_def)

subsection \<open>Runs of operations\<close>

datatype limit_op = Deduct db_faults int string | Release db_faults int string

primrec limit_step :: "string \<Rightarrow> limit_op \<Rightarrow> policies \<Rightarrow> policies" where
  "limit_step w (Deduct dbe now amt) ps = snd (checkAndDeductDailyLimitUSD dbe now w amt ps)"
| "limit_step w (Release dbe now amt) ps = snd (releaseDailySpentUSD dbe now w amt ps)"

primrec limit_ok :: "limit_op \<Rightarrow> bool" where
  "limit_ok (Deduct dbe now amt) = (\<exists>a \<le> usd_bound. usd amt a)"
| "limit_ok (Release dbe now amt) = (\<exists>a \<le> usd_bound. usd amt a)"

definition limit_inv :: "string \<Rightarrow> nat \<Rightarrow> policies \<Rightarrow> bool" where
  "limit_inv w l ps \<longleftrightarrow> distinct (map pol_ID ps) \<and> 0 < l \<and> l < usd_bound \<and>
     (\<forall>p. first_row (active w) ps = Some p \<longrightarrow>
        usd (pol_DailyLimitUSD p) l \<and> (\<exists>n \<le> l. usd (pol_DailySpentUSD p) n))"

lemma limit_inv_set_spent:
  assumes "limit_inv w l ps" "first_row (active w) ps = Some p" "n \<le> l"
  shows "limit_inv w l (set_spent p (fixed_text 6 n) d ps)"
  using assms usd_fixed_text [of n] first_row_set_spent [of w ps p "fixed_text 6 n" d]
  by (auto simp: limit_inv_def)

lemma limit_inv_deduct:
  assumes inv: "limit_inv w l ps" and amt: "usd amt a" "a \<le> usd_bound"
  shows "limit_inv w l (snd (checkAndDeductDailyLimitUSD dbe now w amt ps))"
proof (cases "load_active dbe w ps = None \<or> positive_float amt = None \<or> dbe ''update_policy''")
  case True
  then show ?thesis using inv by (simp add: deduct_unchanged)
next
  case False
  then obtain p where p: "load_active dbe w ps = Some p" and db: "\<not> dbe ''update_policy''" by auto
  have a: "0 < a" using False amt(1) usd_zero_not_positive [of amt] by (cases "a = 0") auto
  obtain n where n: "n \<le> l" "usd (pol_DailySpentUSD p) n" and l: "usd (pol_DailyLimitUSD p) l" "0 < l" "l < usd_bound"
    using inv p by (auto simp: limit_inv_def load_active_Some)
  obtain r ps' where res: "checkAndDeductDailyLimitUSD dbe now w amt ps = (r, ps')" by fastforce
  have fr: "first_row (active w) ps = Some p" using p by (simp add: load_active_Some)
  from p l(1,2) less_imp_le [OF l(3)] amt(1) a amt(2) n(2) order_trans [OF n(1) less_imp_le [OF l(3)]] db res
  show ?thesis
  proof (rule deduct_result)
    fix msg assume "r = Inr (True, msg)" "ps' = ps"
    then show ?thesis using inv res by simp
  next
    assume "today now p n + a \<le> l"
      and "ps' = set_spent p (fixed_text 6 (today now p n + a)) (snd (current_spent now p)) ps"
    then show ?thesis using limit_inv_set_spent [OF inv fr] res by simp
  qed
qed

lemma limit_inv_release:
  assumes inv: "limit_inv w l ps" and amt: "usd amt a" "a \<le> usd_bound"
  shows "limit_inv w l (snd (releaseDailySpentUSD dbe now w amt ps))"
proof (cases "load_active dbe w ps = None \<or> positive_float amt = None \<or> dbe ''update_policy''")
  case True
  then show ?thesis using inv by (simp add: release_unchanged)
next
  case False
  then obtain p where p: "load_active dbe w ps = Some p" and db: "\<not> dbe ''update_policy''" by auto
  have a: "0 < a" using False amt(1) usd_zero_not_positive [of amt] by (cases "a = 0") auto
  obtain n where n: "n \<le> l" "usd (pol_DailySpentUSD p) n" and l: "l < usd_bound"
    using inv p by (auto simp: limit_inv_def load_active_Some)
  have fr: "first_row (active w) ps = Some p" using p by (simp add: load_active_Some)
  have "limit_inv w l (set_spent p (fixed_text 6 (n - a)) (pol_DailyResetAt p) ps)"
    by (rule limit_inv_set_spent [OF inv fr]) (use n in simp)
  then show ?thesis
    using release_result [OF p amt(1) a amt(2) n(2) _ db, of now] n(1) l inv by simp
qed

interpretation limit_run: invariant_machine "limit_step w" "limit_inv w l" limit_ok for w l
proof
  fix a s assume "limit_ok a" "limit_inv w l s"
  then show "limit_inv w l (limit_step w a s)"
    by (cases a) (auto intro: limit_inv_deduct limit_inv_release)
qed

subsection \<open>Properties\<close>

text \<open>C11. Below the bound, \<open>checkAndDeductDailyLimitUSD\<close> on an enabled policy either refuses and leaves
  the table as it is, and then today's spending and the amount reach the limit, or it records exactly
  their sum in micro-dollars (starting from zero on a new day), and then the sum is within the limit.\<close>

theorem checkAndDeduct_exact:
  assumes "load_active dbe w ps = Some p" and "\<not> dbe ''update_policy''"
    and "usd (pol_DailyLimitUSD p) l" "0 < l" "l \<le> usd_bound"
    and "usd amt a" "0 < a" "a \<le> usd_bound" and "usd (pol_DailySpentUSD p) s" "s \<le> usd_bound"
  shows "(\<exists>msg. checkAndDeductDailyLimitUSD dbe now w amt ps = (Inr (True, msg), ps) \<and> l \<le> today now p s + a)
    \<or> (checkAndDeductDailyLimitUSD dbe now w amt ps =
         (Inr (False, []), set_spent p (fixed_text 6 (today now p s + a)) (snd (current_spent now p)) ps)
       \<and> today now p s + a \<le> l)"
proof -
  obtain r ps' where res: "checkAndDeductDailyLimitUSD dbe now w amt ps = (r, ps')" by fastforce
  from assms(1,3-10,2) res show ?thesis by (rule deduct_result) (simp_all add: res)
qed

definition sample_policy :: approval_policy where
  "sample_policy = \<lparr>pol_ID = 1, pol_WalletID = ''w1'', pol_ThresholdUSD = ''50'', pol_DailyLimitUSD = ''100.000000'',
     pol_DailySpentUSD = ''70.250000'', pol_DailyResetAt = 0, pol_Enabled = True, pol_CreatedAt = 0\<rparr>"

lemma replicate_5: "replicate 5 c = [c, c, c, c, c]"
  by (simp add: numeral_eq_Suc)

lemma sample_text:
  "fixed_text 6 100000000 = ''100.000000''" "fixed_text 6 70250000 = ''70.250000''"
  "fixed_text 6 25500000 = ''25.500000''" "fixed_text 6 600000 = ''0.600000''"
  "fixed_text 6 700000 = ''0.700000''" "fixed_text 6 100000 = ''0.100000''"
  by (simp_all add: fixed_text_def pad_zeros_def nat_text_def digs.simps digit_char_numeral replicate_5)

lemma sample_usd:
  "usd ''100.000000'' 100000000" "usd ''70.250000'' 70250000" "usd ''25.500000'' 25500000"
  "usd ''0.600000'' 600000" "usd ''0.700000'' 700000" "usd ''0.100000'' 100000"
  unfolding sample_text [symmetric] by (rule usd_fixed_text; simp)+

lemma sample_fields [simp]:
  "pol_ID sample_policy = 1" "pol_WalletID sample_policy = ''w1''" "pol_DailyLimitUSD sample_policy = ''100.000000''"
  "pol_DailySpentUSD sample_policy = ''70.250000''" "pol_DailyResetAt sample_policy = 0" "pol_Enabled sample_policy"
  by (simp_all add: sample_policy_def)

lemma sample_load: "load_active (\<lambda>_. False) ''w1'' [sample_policy] = Some sample_policy"
  by (simp add: load_active_def first_row_def active_def sample_policy_def)

theorem checkAndDeduct_exact_witness:
  "(\<exists>msg. checkAndDeductDailyLimitUSD (\<lambda>_. False) 7 ''w1'' ''25.500000'' [sample_policy] = (Inr (True, msg), [sample_policy])
      \<and> (100000000 :: nat) \<le> today 7 sample_policy 70250000 + 25500000)
    \<or> (checkAndDeductDailyLimitUSD (\<lambda>_. False) 7 ''w1'' ''25.500000'' [sample_policy] =
         (Inr (False, []), set_spent sample_policy (fixed_text 6 (today 7 sample_policy 70250000 + 25500000))
            (snd (current_spent 7 sample_policy)) [sample_policy])
       \<and> today 7 sample_policy 70250000 + 25500000 \<le> (100000000 :: nat))"
  using sample_usd by (intro checkAndDeduct_exact sample_load) (simp_all add: sample_policy_def)


lemma limit_ok_I:
  "usd t a \<Longrightarrow> a \<le> usd_bound \<Longrightarrow> limit_ok (Deduct dbe now t) \<and> limit_ok (Release dbe now t)"
  by auto

lemma limit_inv_sample: "limit_inv ''w1'' 100000000 [sample_policy]"
  using sample_usd by (auto simp: limit_inv_def first_row_def active_def sample_policy_def intro: exI [of _ 70250000])


text \<open>C12. Rolling back: a deduction that was accepted and is released on the same day leaves the counter
  at the amount it had before.\<close>

theorem release_undoes_deduct:
  assumes "first_row (active w) ps = Some p" and "distinct (map pol_ID ps)"
    and "usd (pol_DailyLimitUSD p) l" "0 < l" "l < usd_bound"
    and "usd amt a" "0 < a" "a \<le> usd_bound" and "usd (pol_DailySpentUSD p) s" "s \<le> usd_bound"
    and "utcStartOfDay later = utcStartOfDay now"
    and "checkAndDeductDailyLimitUSD (\<lambda>_. False) now w amt ps = (Inr (False, []), ps1)"
    and "releaseDailySpentUSD (\<lambda>_. False) later w amt ps1 = (r, ps2)"
  shows "\<exists>q. first_row (active w) ps2 = Some q \<and> pol_DailySpentUSD q = fixed_text 6 (today now p s)"
proof -
  have p: "load_active (\<lambda>_. False) w ps = Some p" using assms(1) by (simp add: load_active_Some)
  define m where "m = today now p s"
  define d where "d = snd (current_spent now p)"
  define q where "q = p\<lparr>pol_DailySpentUSD := fixed_text 6 (m + a), pol_DailyResetAt := d\<rparr>"
  have ma: "m + a \<le> l" "ps1 = set_spent p (fixed_text 6 (m + a)) d ps"
    using deduct_result [OF p assms(3,4) less_imp_le [OF assms(5)] assms(6-10) _ assms(12)]
    by (auto simp: m_def d_def)
  have q: "first_row (active w) ps1 = Some q" "distinct (map pol_ID ps1)"
    using first_row_set_spent [OF assms(1,2)] assms(2) by (simp_all add: ma q_def)
  have day: "\<not> pol_DailyResetAt q < utcStartOfDay later"
    using assms(11) by (auto simp: q_def d_def current_spent_def Let_def)
  have "ps2 = set_spent q (fixed_text 6 (m + a - a)) (pol_DailyResetAt q) ps1"
    using release_result [of "\<lambda>_. False" w ps1 q amt a "m + a" later] assms(5-8,13) ma q day usd_fixed_text [of "m + a"]
    by (simp add: load_active_Some q_def)
  then show ?thesis using first_row_set_spent [OF q] by (simp add: m_def)
qed

lemma today_sample: "today 7 sample_policy s = s" "current_spent 7 sample_policy = (''70.250000'', 0)"
  by (simp_all add: today_def current_spent_def sample_policy_def utcStartOfDay_def)

lemma sample_deduct:
  "checkAndDeductDailyLimitUSD (\<lambda>_. False) 7 ''w1'' ''25.500000'' [sample_policy]
   = (Inr (False, []), set_spent sample_policy (fixed_text 6 95750000) 0 [sample_policy])"
proof -
  obtain r ps' where res: "checkAndDeductDailyLimitUSD (\<lambda>_. False) 7 ''w1'' ''25.500000'' [sample_policy] = (r, ps')"
    by fastforce
  show ?thesis
    by (rule deduct_result [OF sample_load _ _ _ _ _ _ _ _ _ res, of 100000000 25500000 70250000])
      (use sample_usd res in \<open>simp_all add: today_sample\<close>)
qed

theorem release_undoes_deduct_witness:
  "\<exists>q. first_row (active ''w1'') (snd (releaseDailySpentUSD (\<lambda>_. False) 9 ''w1'' ''25.500000''
      (set_spent sample_policy (fixed_text 6 95750000) 0 [sample_policy]))) = Some q
    \<and> pol_DailySpentUSD q = fixed_text 6 (today 7 sample_policy 70250000)"
  by (rule release_undoes_deduct [of "''w1''" "[sample_policy]" _ 100000000 "''25.500000''" 25500000 _ 9, OF _ _ _ _ _ _ _ _ _ _ _ sample_deduct])
    (use sample_usd sample_load in \<open>simp_all add: load_active_Some utcStartOfDay_def prod_eq_iff\<close>)

text \<open>The comparison at the limit itself: the rounded sum of 0.1 and 0.6 lies above the rounded 0.7, so
  spending exactly up to a limit of 0.7 is refused.\<close>

lemma limit_boundary_refused:
  "fst (checkAndDeductDailyLimitUSD (\<lambda>_. False) 7 ''w1'' ''0.600000''
     [sample_policy\<lparr>pol_DailyLimitUSD := ''0.700000'', pol_DailySpentUSD := ''0.100000''\<rparr>])
   = Inr (True, ''daily spend limit exceeded: limit $0.700000 USD, already spent $0.100000 USD today'')"
proof -
  have "fl 64 (7 / 10) < fl 64 (fl 64 (1 / 10) + fl 64 (6 / 10))" by code_simp
  then show ?thesis
    using usd_positive [OF sample_usd(4)] usd_positive [OF sample_usd(5)] sample_usd(6)
    by (simp add: checkAndDeductDailyLimitUSD_def load_active_def first_row_def active_def sample_policy_def
        current_spent_def utcStartOfDay_def usd_def bf_Add_def bf_prec_of_def bf_gt_def)
qed

end
