(* ===== verification/Rpc.thy ===== *)
theory Rpc
  imports Json
begin

text \<open>
  The JSON-RPC client of \<open>chain/rpc.go\<close>: one HTTP exchange, the retry loop, the fallback endpoint,
  balance queries and read-only calls. The network is a parameter that answers a request from the
  history of the requests sent before it; the state records every request, so that the number of
  requests and their order can be stated. Waiting between attempts is not modelled. The theorems
  show that a call sends at most three requests per endpoint, that an application error ends it
  at once without the fallback, and that one good answer within the budget is enough.
\<close>

subsection \<open>The environment\<close>

text \<open>
  The outcome of an HTTP POST: a transport error (\<open>*url.Error\<close> with its inner error), or a status
  and the decoded body (\<open>None\<close> when it is not JSON). \<open>net_undef\<close> is the value that \<open>math/big\<close>
  leaves undefined after a failed \<open>SetString\<close>.
\<close>

datatype http_outcome = TransportErr string | HttpResp nat "json option"

type_synonym rpc_call = "string \<times> json"

record rpc_env =
  net :: "rpc_call list \<Rightarrow> string \<Rightarrow> json \<Rightarrow> http_outcome"
  rpcFallbacks :: "(string \<times> string) list"
  net_undef :: int

type_synonym 'e renv = "'e rpc_env_scheme"

record rpc_state =
  rpc_trace :: "rpc_call list"
  chainIDCache :: "(string \<times> 64 word) list"

definition SetRPCFallback :: "string \<Rightarrow> string \<Rightarrow> (string \<times> string) list \<Rightarrow> (string \<times> string) list" where
  "SetRPCFallback primary fallback m =
     (if primary = [] \<or> fallback = [] \<or> primary = fallback then m
      else (primary, fallback) # filter (\<lambda>kv. fst kv \<noteq> primary) m)"

primrec isAppError :: "gerr \<Rightarrow> bool" where
  "isAppError (Msg s) = False"
| "isAppError (Wrap s e) = isAppError e"
| "isAppError (AppErr s) = True"
| "isAppError (Panic s) = False"

text \<open>
  \<open>HostOnly\<close>: the authority of the URL without user information. Of \<open>url.Parse\<close> the scheme, the
  authority, control characters and the digits of the port are modelled; percent escapes and IPv6
  literals in the host are not.
\<close>

definition is_letter :: "char \<Rightarrow> bool" where
  "is_letter c \<longleftrightarrow> (let n = (of_char c :: nat) in (65 \<le> n \<and> n \<le> 90) \<or> (97 \<le> n \<and> n \<le> 122))"

definition is_digit :: "char \<Rightarrow> bool" where
  "is_digit c \<longleftrightarrow> (let n = (of_char c :: nat) in 48 \<le> n \<and> n \<le> 57)"

definition url_authority :: "string \<Rightarrow> string option" where
  "url_authority u = (case index_of (CHR '':'') u of
       None \<Rightarrow> None
     | Some i \<Rightarrow>
         let scheme = take i u; rest = drop (Suc i) u in
         if scheme \<noteq> [] \<and> is_letter (hd scheme)
            \<and> list_all (\<lambda>c. is_letter c \<or> is_digit c \<or> c \<in> set ''+-.'') scheme
            \<and> has_prefix rest ''//''
            \<and> list_all (\<lambda>c. 32 \<le> (of_char c :: nat) \<and> (of_char c :: nat) \<noteq> 127) u
         then Some (takeWhile (\<lambda>c. c \<notin> set ''/?#'') (drop 2 rest)) else None)"

definition HostOnly :: "string \<Rightarrow> string" where
  "HostOnly u = (case url_authority u of
       None \<Rightarrow> ''<invalid-url>''
     | Some auth \<Rightarrow>
         let host = (case last_index_of (CHR ''@'') auth of None \<Rightarrow> auth | Some i \<Rightarrow> drop (Suc i) auth);
             port_ok = (case last_index_of (CHR '':'') host of None \<Rightarrow> True
                          | Some i \<Rightarrow> list_all is_digit (drop (Suc i) host))
         in if host = [] \<or> \<not> port_ok then ''<invalid-url>'' else host)"

subsection \<open>One exchange and the retry loop\<close>

type_synonym 's rstate = "'s rpc_state_scheme"
type_synonym jobj = "(string \<times> json) list"

definition jsonRPC :: "'e renv \<Rightarrow> string \<Rightarrow> json \<Rightarrow> ('s rstate, jobj) io" where
  "jsonRPC env endpoint payload s =
     (let out = net env (rpc_trace s) endpoint payload;
          s' = s\<lparr>rpc_trace := rpc_trace s @ [(endpoint, payload)]\<rparr>
      in case out of
           TransportErr e \<Rightarrow> (Inl (Wrap (''rpc request to '' @ HostOnly endpoint @ '' failed'') (Msg e)), s')
         | HttpResp status body \<Rightarrow>
             if status < 200 \<or> 300 \<le> status
             then (Inl (Msg (''rpc http error: status '' @ nat_text 10 status)), s')
             else (case body of
                 None \<Rightarrow> (Inl (Wrap ''rpc decode failed'' (Msg ''encoding/json'')), s')
               | Some j \<Rightarrow> (case as_obj j of
                     None \<Rightarrow> (Inl (Wrap ''rpc decode failed'' (Msg ''encoding/json'')), s')
                   | Some result \<Rightarrow> (case jget ''error'' result of
                         None \<Rightarrow> (Inr result, s')
                       | Some JNull \<Rightarrow> (Inr result, s')
                       | Some errField \<Rightarrow> (Inl (AppErr (''rpc error: '' @ fmt_v errField)), s')))))"

primrec retry_loop :: "'e renv \<Rightarrow> nat \<Rightarrow> string \<Rightarrow> json \<Rightarrow> gerr \<Rightarrow> ('s rstate, jobj) io" where
  "retry_loop env 0 url payload lastErr s = (Inl lastErr, s)"
| "retry_loop env (Suc n) url payload lastErr s =
     (case jsonRPC env url payload s of
        (Inr body, s') \<Rightarrow> (Inr body, s')
      | (Inl e, s') \<Rightarrow> if isAppError e then (Inl e, s') else retry_loop env n url payload e s')"

definition retryJSONRPC :: "'e renv \<Rightarrow> string \<Rightarrow> json \<Rightarrow> ('s rstate, jobj) io" where
  "retryJSONRPC env url payload = retry_loop env 3 url payload (Msg [])"

definition jsonRPCWithRetry :: "'e renv \<Rightarrow> string \<Rightarrow> json \<Rightarrow> ('s rstate, jobj) io" where
  "jsonRPCWithRetry env primary payload s =
     (case retryJSONRPC env primary payload s of
        (Inr body, s1) \<Rightarrow> (Inr body, s1)
      | (Inl err, s1) \<Rightarrow>
          if isAppError err then (Inl (Wrap ''RPC failed'' err), s1)
          else (case map_of (rpcFallbacks env) primary of
              None \<Rightarrow> (Inl (Wrap ''RPC failed after 3 attempts'' err), s1)
            | Some fb \<Rightarrow> (case retryJSONRPC env fb payload s1 of
                  (Inr body, s2) \<Rightarrow> (Inr body, s2)
                | (Inl err2, s2) \<Rightarrow>
                    (Inl (Wrap (''RPC failed on primary ('' @ HostOnly primary @ '': '' @ err_text err @
                       '') and fallback ('' @ HostOnly fb @ '')'') err2), s2))))"

text \<open>The request body of a call.\<close>

definition rpc_request :: "string \<Rightarrow> json list \<Rightarrow> json" where
  "rpc_request meth params = JObj [(''jsonrpc'', JStr ''2.0''), (''method'', JStr meth),
     (''params'', JArr params), (''id'', jnat 1)]"

text \<open>\<open>raw["result"].(string)\<close>.\<close>

definition result_str :: "jobj \<Rightarrow> string option" where
  "result_str raw = (case jget ''result'' raw of Some (JStr h) \<Rightarrow> Some h | _ \<Rightarrow> None)"

subsection \<open>Balances and read-only calls\<close>

record balance_result =
  bal_Chain :: string
  bal_Address :: string
  bal_Balance :: string
  bal_Currency :: string
  bal_Raw :: string

definition getETHBalance :: "'e renv \<Rightarrow> string \<Rightarrow> string \<Rightarrow> string \<Rightarrow> string \<Rightarrow> ('s rstate, balance_result) io" where
  "getETHBalance env address rpcURL chainName currency =
     (if rpcURL = [] then fail (Msg ''ETH_RPC_URL is not configured'') else
      seq (jsonRPCWithRetry env rpcURL (rpc_request ''eth_getBalance'' [JStr address, JStr ''latest''])) (\<lambda>raw.
      case result_str raw of
        None \<Rightarrow> fail (Msg ''unexpected eth_getBalance response'')
      | Some h \<Rightarrow>
          let wei = (case set_string 16 (trim_prefix h ''0x'') of Some v \<Rightarrow> v | None \<Rightarrow> net_undef env)
          in (case bf_Quo 0 (bf_SetInt wei) (bf_SetFloat64 (Fin (10 ^ 18))) of
                None \<Rightarrow> fail (Panic ''big.ErrNaN'')
              | Some eth \<Rightarrow> ret \<lparr>bal_Chain = chainName, bal_Address = address, bal_Balance = bf_Text 8 eth,
                  bal_Currency = currency, bal_Raw = int_text 10 wei\<rparr>)))"

definition getSOLBalance :: "'e renv \<Rightarrow> string \<Rightarrow> string \<Rightarrow> string \<Rightarrow> string \<Rightarrow> ('s rstate, balance_result) io" where
  "getSOLBalance env address rpcURL chainName currency =
     (let url = (if rpcURL = [] then ''https://api.mainnet-beta.solana.com'' else rpcURL) in
      seq (jsonRPCWithRetry env url (rpc_request ''getBalance'' [JStr address])) (\<lambda>raw.
      case jget ''result'' raw of
        Some (JObj resultMap) \<Rightarrow>
          (case jget ''value'' resultMap of
             Some (JNum x) \<Rightarrow>
               (case num_int 64 x of
                  None \<Rightarrow> fail (Wrap ''invalid lamport value'' (Msg ''strconv''))
                | Some lamports \<Rightarrow>
                    (case bf_Quo 0 (bf_SetInt lamports) (bf_SetFloat64 (Fin (10 ^ 9))) of
                       None \<Rightarrow> fail (Panic ''big.ErrNaN'')
                     | Some sol \<Rightarrow> ret \<lparr>bal_Chain = chainName, bal_Address = address,
                         bal_Balance = bf_Text 9 sol, bal_Currency = currency, bal_Raw = int_text 10 lamports\<rparr>))
           | _ \<Rightarrow> fail (Msg ''unexpected lamport value type''))
      | _ \<Rightarrow> fail (Msg ''unexpected getBalance response'')))"

definition GetBalance :: "'e renv \<Rightarrow> string \<Rightarrow> string \<Rightarrow> string \<Rightarrow> string \<Rightarrow> string \<Rightarrow> ('s rstate, balance_result) io" where
  "GetBalance env family address rpcURL chainName currency =
     (if family = ''evm'' then getETHBalance env address rpcURL chainName currency
      else if family = ''solana'' then getSOLBalance env address rpcURL chainName currency
      else fail (Msg (''unsupported chain family: '' @ family)))"

definition ETHCall :: "'e renv \<Rightarrow> string \<Rightarrow> string \<Rightarrow> string \<Rightarrow> bytes \<Rightarrow> ('s rstate, bytes) io" where
  "ETHCall env rpcURL fromAddr toAddr calldata =
     (if rpcURL = [] then fail (Msg ''RPC URL is not configured'') else
      let callObj = JObj ([(''to'', JStr toAddr), (''data'', JStr (''0x'' @ hex_encode calldata))]
             @ (if fromAddr = [] then [] else [(''from'', JStr fromAddr)]))
      in seq (wrapping ''eth_call'' (jsonRPCWithRetry env rpcURL (rpc_request ''eth_call'' [callObj, JStr ''latest''])))
         (\<lambda>result. case result_str result of
              None \<Rightarrow> fail (Msg ''unexpected eth_call response'')
            | Some h \<Rightarrow> (case hex_decode (trim_prefix h ''0x'') of
                  None \<Rightarrow> fail (Msg ''encoding/hex'') | Some bs \<Rightarrow> ret bs)))"

subsection \<open>Request budget\<close>

text \<open>The state after \<open>k\<close> identical requests, and the result of the next one.\<close>

definition after_requests :: "nat \<Rightarrow> string \<Rightarrow> json \<Rightarrow> 's rstate \<Rightarrow> 's rstate" where
  "after_requests k url payload s = s\<lparr>rpc_trace := rpc_trace s @ replicate k (url, payload)\<rparr>"

definition attempt_result :: "'e renv \<Rightarrow> string \<Rightarrow> json \<Rightarrow> 's rstate \<Rightarrow> nat \<Rightarrow> jobj res" where
  "attempt_result env url payload s i = fst (jsonRPC env url payload (after_requests i url payload s))"

text \<open>An attempt settles the call when it succeeds or ends with an application error.\<close>

definition settled :: "jobj res \<Rightarrow> bool" where
  "settled r = (case r of Inr _ \<Rightarrow> True | Inl e \<Rightarrow> isAppError e)"

lemma jsonRPC_state: "snd (jsonRPC env url payload s) = after_requests 1 url payload s"
  by (simp add: jsonRPC_def Let_def after_requests_def split: http_outcome.splits option.splits json.splits)

lemma jsonRPC_pair:
  "jsonRPC env url payload s = (attempt_result env url payload s 0, after_requests 1 url payload s)"
  by (simp add: attempt_result_def prod_eq_iff jsonRPC_state) (simp add: after_requests_def)

lemma after_requests_add [simp]:
  "after_requests j url payload (after_requests k url payload s) = after_requests (k + j) url payload s"
  by (simp add: after_requests_def replicate_add)

lemma attempt_result_after [simp]:
  "attempt_result env url payload (after_requests k url payload s) i = attempt_result env url payload s (k + i)"
  by (simp add: attempt_result_def)

lemma after_requests_0 [simp]: "after_requests 0 url payload s = s"
  by (simp add: after_requests_def)

lemma retry_loop_Suc:
  "retry_loop env (Suc n) url payload e s =
     (let r = attempt_result env url payload s 0; s' = after_requests 1 url payload s
      in if settled r then (r, s') else retry_loop env n url payload (projl r) s')"
  by (simp add: jsonRPC_pair settled_def Let_def split: sum.splits)

lemma retry_three:
  "retryJSONRPC env url payload s =
     (let r = attempt_result env url payload s in
      if settled (r 0) then (r 0, after_requests 1 url payload s)
      else if settled (r 1) then (r 1, after_requests 2 url payload s)
      else (r 2, after_requests 3 url payload s))"
proof -
  have inl: "Inl (projl r) = r" if "\<not> settled r" for r :: "jobj res"
    using that by (cases r) (auto simp: settled_def)
  show ?thesis
    by (simp add: retryJSONRPC_def numeral_3_eq_3 retry_loop_Suc inl Let_def del: retry_loop.simps(2))
      (simp add: numeral_2_eq_2)
qed

lemma retry_state: "\<exists>j \<le> 3. snd (retryJSONRPC env url payload s) = after_requests j url payload s"
proof -
  define j :: nat where "j = (if settled (attempt_result env url payload s 0) then 1
     else if settled (attempt_result env url payload s 1) then 2 else 3)"
  have "snd (retryJSONRPC env url payload s) = after_requests j url payload s"
    by (simp add: retry_three Let_def j_def)
  moreover have "j \<le> 3" by (simp add: j_def)
  ultimately show ?thesis by blast
qed

text \<open>A good first answer is the answer of the call.\<close>

lemma jsonRPCWithRetry_first:
  assumes "net env (rpc_trace s) url payload = HttpResp 200 (Some (JObj obj))" and "jget ''error'' obj = None"
  shows "jsonRPCWithRetry env url payload s = (Inr obj, after_requests 1 url payload s)"
proof -
  have "attempt_result env url payload s 0 = Inr obj"
    using assms by (simp add: attempt_result_def jsonRPC_def as_obj_def)
  then show ?thesis by (simp add: jsonRPCWithRetry_def retry_three settled_def Let_def)
qed

text \<open>The retry loop returns the first of its at most three attempts that succeeds or ends with an
  application error, and the last one otherwise, having sent exactly the requests up to it.\<close>

theorem retryJSONRPC_first_settled:
  "retryJSONRPC env url payload s =
     (case find (\<lambda>i. settled (attempt_result env url payload s i)) [0, 1, 2] of
        Some i \<Rightarrow> (attempt_result env url payload s i, after_requests (Suc i) url payload s)
      | None \<Rightarrow> (attempt_result env url payload s 2, after_requests 3 url payload s))"
  by (simp add: retry_three Let_def numeral_2_eq_2 numeral_3_eq_3)

lemma jsonRPCWithRetry_trace:
  "\<exists>j k. j \<le> 3 \<and> k \<le> 3 \<and>
     snd (jsonRPCWithRetry env url payload s) =
       after_requests k (case map_of (rpcFallbacks env) url of None \<Rightarrow> url | Some fb \<Rightarrow> fb) payload
         (after_requests j url payload s) \<and>
     (k = 0 \<or> (j = 3 \<and> list_all (\<lambda>i. \<not> settled (attempt_result env url payload s i)) [0, 1, 2]))"
proof -
  define r where "r = attempt_result env url payload s"
  show ?thesis
  proof (cases "settled (r 0) \<or> settled (r 1) \<or> settled (r 2) \<or> map_of (rpcFallbacks env) url = None")
    case True
    obtain x t where retry: "retryJSONRPC env url payload s = (x, t)" by fastforce
    then obtain j where j: "j \<le> 3" "t = after_requests j url payload s"
      using retry_state [of env url payload s] by auto
    have "settled x \<or> map_of (rpcFallbacks env) url = None"
      using True retry unfolding retry_three r_def [symmetric] Let_def by (auto split: if_splits)
    then have "snd (jsonRPCWithRetry env url payload s) = after_requests j url payload s"
      by (auto simp: jsonRPCWithRetry_def retry j settled_def split: sum.splits)
    then show ?thesis using j(1) by (intro exI [of _ j] exI [of _ 0]) simp
  next
    case False
    then obtain fb where fb: "map_of (rpcFallbacks env) url = Some fb" by auto
    have "retryJSONRPC env url payload s = (r 2, after_requests 3 url payload s)"
      using False by (simp add: retry_three r_def Let_def)
    moreover obtain e where e: "r 2 = Inl e" "\<not> isAppError e"
      using False by (auto simp: settled_def split: sum.splits)
    moreover obtain k where "k \<le> 3"
      "snd (retryJSONRPC env fb payload (after_requests 3 url payload s)) = after_requests k fb payload (after_requests 3 url payload s)"
      using retry_state [of env fb payload "after_requests 3 url payload s"] by auto
    ultimately have "snd (jsonRPCWithRetry env url payload s) = after_requests k fb payload (after_requests 3 url payload s)"
      by (auto simp: jsonRPCWithRetry_def fb split: prod.splits sum.splits)
    then show ?thesis using False \<open>k \<le> 3\<close> fb
      by (intro exI [of _ 3] exI [of _ k]) (simp add: r_def)
  qed
qed

lemma jsonRPCWithRetry_keeps:
  "rpc_state.more (snd (jsonRPCWithRetry env url payload s)) = rpc_state.more s"
  "chainIDCache (snd (jsonRPCWithRetry env url payload s)) = chainIDCache s"
  using jsonRPCWithRetry_trace [of env url payload s] by (auto simp: after_requests_def)

text \<open>A call with retries sends at most three requests to the endpoint; it sends requests to the
  registered fallback, at most three, only after three attempts on the endpoint failed without an
  application error; and it changes nothing else.\<close>

theorem jsonRPCWithRetry_budget:
  "\<exists>j k. j \<le> 3 \<and> k \<le> 3 \<and>
     snd (jsonRPCWithRetry env url payload s) =
       after_requests k (case map_of (rpcFallbacks env) url of None \<Rightarrow> url | Some fb \<Rightarrow> fb) payload
         (after_requests j url payload s) \<and>
     (k = 0 \<or> (j = 3 \<and> list_all (\<lambda>i. \<not> settled (attempt_result env url payload s i)) [0, 1, 2]))"
  by (rule jsonRPCWithRetry_trace)

end
