(* ===== verification/TxEth.thy ===== *)
theory TxEth
  imports Rpc
begin

text \<open>
  Ethereum transactions (\<open>chain/tx_eth.go\<close>, \<open>chain/nonce.go\<close>): fetching nonce, fees and chain
  identifier, building transfers and contract calls, rebuilding a stored transaction, bumping the
  fees of a replacement, the signing hash, and assembling and broadcasting the signed transaction.
  go-ethereum is a parameter: Keccak, address parsing, the signing hash of a transaction, recovery
  of the signer, applying a signature and serialising. The two concurrent fee requests are sent in
  the order of the code. The address mutex of \<open>chain/addr_lock.go\<close> makes the sequences of one
  address atomic; a run of the model is one such sequence.
\<close>

subsection \<open>Transactions and the library\<close>

record dyn_tx =
  dt_ChainID :: int
  dt_Nonce :: u64
  dt_GasTipCap :: int
  dt_GasFeeCap :: int
  dt_Gas :: u64
  dt_To :: bytes
  dt_Value :: int
  dt_Data :: bytes

text \<open>
  \<open>signer_hash id tx\<close> is \<open>types.LatestSignerForChainID(id).Hash(tx)\<close>; \<open>sig_to_address\<close> is
  \<open>crypto.SigToPub\<close> with \<open>PubkeyToAddress\<close>; \<open>with_signature\<close> is the error of \<open>tx.WithSignature\<close>
  and \<open>marshal_tx\<close> is \<open>MarshalBinary\<close> of the transaction with that signature.
\<close>

record chain_env = rpc_env +
  keccak256 :: "bytes \<Rightarrow> bytes"
  HexToAddress :: "string \<Rightarrow> bytes"
  signer_hash :: "int \<Rightarrow> dyn_tx \<Rightarrow> bytes"
  sig_to_address :: "bytes \<Rightarrow> bytes \<Rightarrow> bytes option"
  with_signature :: "int \<Rightarrow> dyn_tx \<Rightarrow> bytes \<Rightarrow> gerr option"
  marshal_tx :: "dyn_tx \<Rightarrow> bytes \<Rightarrow> bytes res"
  isOnCurve :: "bytes \<Rightarrow> bool"

type_synonym 'e cenv = "'e chain_env_scheme"

record eth_tx_params =
  eth_Nonce :: u64
  eth_MaxFeePerGas :: string
  eth_MaxPriorityFeePerGas :: string
  eth_GasLimit :: u64
  eth_ChainID :: string
  eth_From :: string
  eth_To :: string
  eth_Value :: string
  eth_Data :: string
  eth_GasPrice :: string

record eth_tx_data =
  etd_Params :: eth_tx_params
  etd_SigningHash :: bytes

record eth_chain_params =
  cp_nonce :: u64
  cp_maxFeePerGas :: int
  cp_maxPriorityFeePerGas :: int
  cp_chainID :: int

text \<open>The struct as a JSON document, and back.\<close>

definition eth_to_json :: "eth_tx_params \<Rightarrow> json" where
  "eth_to_json p = JObj ([(''nonce'', jnat (unat (eth_Nonce p))), (''max_fee_per_gas'', JStr (eth_MaxFeePerGas p)),
     (''max_priority_fee_per_gas'', JStr (eth_MaxPriorityFeePerGas p)), (''gas_limit'', jnat (unat (eth_GasLimit p))),
     (''chain_id'', JStr (eth_ChainID p)), (''from'', JStr (eth_From p)), (''to'', JStr (eth_To p)),
     (''value'', JStr (eth_Value p))] @ omit_empty ''data'' (eth_Data p) @ omit_empty ''gas_price'' (eth_GasPrice p))"

definition eth_of_json :: "json \<Rightarrow> eth_tx_params option" where
  "eth_of_json j = (case as_obj j of None \<Rightarrow> None | Some o' \<Rightarrow>
     (case (fld_uint 64 ''nonce'' o', fld_str ''max_fee_per_gas'' o', fld_str ''max_priority_fee_per_gas'' o',
            fld_uint 64 ''gas_limit'' o', fld_str ''chain_id'' o', fld_str ''from'' o', fld_str ''to'' o',
            fld_str ''value'' o', fld_str ''data'' o', fld_str ''gas_price'' o') of
        (Some n, Some mf, Some mp, Some gl, Some ci, Some f, Some t, Some v, Some d, Some gp) \<Rightarrow>
          Some \<lparr>eth_Nonce = of_nat n, eth_MaxFeePerGas = mf, eth_MaxPriorityFeePerGas = mp, eth_GasLimit = of_nat gl,
            eth_ChainID = ci, eth_From = f, eth_To = t, eth_Value = v, eth_Data = d, eth_GasPrice = gp\<rparr>
      | _ \<Rightarrow> None))"

lemma eth_of_to_json [simp]: "eth_of_json (eth_to_json p) = Some p"
proof -
  have "unat x < 2 ^ 64" for x :: u64 using unsigned_less [of x] by simp
  then show ?thesis
    by (simp add: eth_to_json_def eth_of_json_def as_obj_def fld_uint_def fld_str_def json_simps jnat_def omit_empty_def)
qed

subsection \<open>Calldata of ERC-20 calls\<close>

definition encodeAddrAmountCalldata :: "'e cenv \<Rightarrow> string \<Rightarrow> string \<Rightarrow> int \<Rightarrow> bytes res" where
  "encodeAddrAmountCalldata env funcSig targetAddr amount =
     (if amount < 0 then Inl (Msg ''amount must not be negative'') else
      let amountBytes = be_bytes (nat amount) in
      if length amountBytes > 32 then Inl (Msg ''amount exceeds uint256 range'') else
      let selector = take 4 (keccak256 env (bytes_of_string funcSig));
          paddedAddr = replicate 12 0 @ HexToAddress env targetAddr;
          paddedAmount = replicate (32 - length amountBytes) 0 @ amountBytes
      in Inr (selector @ paddedAddr @ paddedAmount))"

definition EncodeERC20Transfer :: "'e cenv \<Rightarrow> string \<Rightarrow> int \<Rightarrow> bytes res" where
  "EncodeERC20Transfer env toAddr amount = encodeAddrAmountCalldata env ''transfer(address,uint256)'' toAddr amount"

definition EncodeERC20Approve :: "'e cenv \<Rightarrow> string \<Rightarrow> int \<Rightarrow> bytes res" where
  "EncodeERC20Approve env spenderAddr amount = encodeAddrAmountCalldata env ''approve(address,uint256)'' spenderAddr amount"

subsection \<open>Chain parameters\<close>

definition getCachedChainID :: "string \<Rightarrow> 's rstate \<Rightarrow> u64 option" where
  "getCachedChainID rpcURL s = map_of (chainIDCache s) rpcURL"

definition setCachedChainID :: "string \<Rightarrow> u64 \<Rightarrow> 's rstate \<Rightarrow> 's rstate" where
  "setCachedChainID rpcURL i s = s\<lparr>chainIDCache := (rpcURL, i) # filter (\<lambda>kv. fst kv \<noteq> rpcURL) (chainIDCache s)\<rparr>"

text \<open>\<open>x.Uint64()\<close>: the low 64 bits of the magnitude.\<close>

definition int_Uint64 :: "int \<Rightarrow> u64" where
  "int_Uint64 i = of_int \<bar>i\<bar>"

definition fetchNonceFromChain :: "'e cenv \<Rightarrow> string \<Rightarrow> string \<Rightarrow> ('s rstate, u64) io" where
  "fetchNonceFromChain env rpcURL address =
     seq (wrapping ''get nonce'' (jsonRPCWithRetry env rpcURL
            (rpc_request ''eth_getTransactionCount'' [JStr address, JStr ''pending'']))) (\<lambda>nonceRaw.
     case result_str nonceRaw of
       None \<Rightarrow> fail (Msg ''unexpected nonce response'')
     | Some h \<Rightarrow> if h = [] then fail (Msg ''unexpected nonce response'') else
         (case set_string 16 (trim_prefix h ''0x'') of
            None \<Rightarrow> fail (Msg (''invalid nonce value: '' @ h))
          | Some n \<Rightarrow> ret (int_Uint64 n)))"

definition FetchPendingNonce :: "'e cenv \<Rightarrow> string \<Rightarrow> string \<Rightarrow> ('s rstate, u64) io" where
  "FetchPendingNonce env rpcURL address = fetchNonceFromChain env rpcURL address"

text \<open>The answers of the two fee requests: the tip as hexadecimal text, the base fee or the empty text.\<close>

definition fetch_priority :: "'e cenv \<Rightarrow> string \<Rightarrow> ('s rstate, string) io" where
  "fetch_priority env rpcURL =
     seq (wrapping ''get max priority fee'' (jsonRPCWithRetry env rpcURL (rpc_request ''eth_maxPriorityFeePerGas'' [])))
       (\<lambda>raw. case result_str raw of
            None \<Rightarrow> fail (Msg ''unexpected max priority fee response'')
          | Some h \<Rightarrow> if h = [] then fail (Msg ''unexpected max priority fee response'') else ret h)"

definition fetch_base_fee :: "'e cenv \<Rightarrow> string \<Rightarrow> ('s rstate, string) io" where
  "fetch_base_fee env rpcURL =
     seq (wrapping ''get latest block'' (jsonRPCWithRetry env rpcURL
            (rpc_request ''eth_getBlockByNumber'' [JStr ''latest'', JBool False])))
       (\<lambda>raw. case jget ''result'' raw of
            Some (JObj block) \<Rightarrow> ret (str_or_empty ''baseFeePerGas'' block)
          | _ \<Rightarrow> fail (Msg ''unexpected block response''))"

definition fetch_chain_id :: "'e cenv \<Rightarrow> string \<Rightarrow> ('s rstate, u64) io" where
  "fetch_chain_id env rpcURL s = (case getCachedChainID rpcURL s of
       Some i \<Rightarrow> (Inr i, s)
     | None \<Rightarrow>
         seq (wrapping ''get chain id'' (jsonRPCWithRetry env rpcURL (rpc_request ''eth_chainId'' []))) (\<lambda>raw.
         case result_str raw of
           None \<Rightarrow> fail (Msg ''unexpected chain id response'')
         | Some h \<Rightarrow> if h = [] then fail (Msg ''unexpected chain id response'') else
             (case set_string 16 (trim_prefix h ''0x'') of
                None \<Rightarrow> fail (Msg (''invalid chain id: '' @ h))
              | Some i \<Rightarrow>
                  if i < 0 \<or> 2 ^ 64 \<le> i then fail (Msg (''chain id '' @ h @ '' exceeds uint64 range''))
                  else (\<lambda>s'. (Inr (of_int i), setCachedChainID rpcURL (of_int i) s')))) s)"

definition minPriority :: int where
  "minPriority = 1000000"

definition fetchGasFeesAndChainID :: "'e cenv \<Rightarrow> string \<Rightarrow> ('s rstate, int \<times> int \<times> int) io" where
  "fetchGasFeesAndChainID env rpcURL =
     seq (attempt (fetch_priority env rpcURL)) (\<lambda>prRes.
     seq (attempt (fetch_base_fee env rpcURL)) (\<lambda>bfRes.
     seq (lift prRes) (\<lambda>prHex.
     case set_string 16 (trim_prefix prHex ''0x'') of
       None \<Rightarrow> fail (Msg (''invalid max priority fee: '' @ prHex))
     | Some tip \<Rightarrow>
     seq (lift bfRes) (\<lambda>bfHex.
     case (if bfHex = [] then Some 0 else set_string 16 (trim_prefix bfHex ''0x'')) of
       None \<Rightarrow> fail (Msg (''invalid base fee: '' @ bfHex))
     | Some baseFee \<Rightarrow>
         let priorityFee = (if tip < minPriority then minPriority else tip);
             maxFee = baseFee * 2 + priorityFee
         in seq (fetch_chain_id env rpcURL) (\<lambda>i. ret (maxFee, priorityFee, int (unat i)))))))"

definition fetchETHChainParams :: "'e cenv \<Rightarrow> string \<Rightarrow> string \<Rightarrow> ('s rstate, eth_chain_params) io" where
  "fetchETHChainParams env rpcURL fromAddr =
     seq (fetchNonceFromChain env rpcURL fromAddr) (\<lambda>nonce.
     seq (fetchGasFeesAndChainID env rpcURL) (\<lambda>(maxFee, priorityFee, chainID).
     ret \<lparr>cp_nonce = nonce, cp_maxFeePerGas = maxFee, cp_maxPriorityFeePerGas = priorityFee, cp_chainID = chainID\<rparr>))"

subsection \<open>Building and rebuilding\<close>

definition buildDynamicTx :: "eth_chain_params \<Rightarrow> bytes \<Rightarrow> int \<Rightarrow> u64 \<Rightarrow> bytes \<Rightarrow> dyn_tx" where
  "buildDynamicTx cp to' value gasLimit data =
     \<lparr>dt_ChainID = cp_chainID cp, dt_Nonce = cp_nonce cp, dt_GasTipCap = cp_maxPriorityFeePerGas cp,
      dt_GasFeeCap = cp_maxFeePerGas cp, dt_Gas = gasLimit, dt_To = to', dt_Value = value, dt_Data = data\<rparr>"

definition ethDefaultGasLimit :: u64 where
  "ethDefaultGasLimit = 21000"

text \<open>Amount in ether to wei; the conversion of an infinity dereferences a nil integer.\<close>

definition eth_to_wei :: "bigfloat \<Rightarrow> int res" where
  "eth_to_wei amountETH = (case bf_Mul 256 amountETH (bf_SetInt (10 ^ 18)) of
       None \<Rightarrow> Inl (Panic ''big.ErrNaN'')
     | Some weiF \<Rightarrow> (case bf_Int weiF of None \<Rightarrow> Inl (Panic ''nil dereference'') | Some wei \<Rightarrow> Inr wei))"

definition BuildETHTx :: "'e cenv \<Rightarrow> string \<Rightarrow> string \<Rightarrow> string \<Rightarrow> bigfloat \<Rightarrow> ('s rstate, eth_tx_data) io" where
  "BuildETHTx env rpcURL fromAddr toAddr amountETH =
     (if rpcURL = [] then fail (Msg ''ETH_RPC_URL is not configured'') else
      seq (lift (eth_to_wei amountETH)) (\<lambda>wei.
      if wei \<le> 0 then fail (Msg ''amount must be positive'') else
      seq (fetchETHChainParams env rpcURL fromAddr) (\<lambda>cp.
      let tx = buildDynamicTx cp (HexToAddress env toAddr) wei ethDefaultGasLimit []
      in ret \<lparr>etd_Params = \<lparr>eth_Nonce = cp_nonce cp, eth_MaxFeePerGas = int_text 10 (cp_maxFeePerGas cp),
            eth_MaxPriorityFeePerGas = int_text 10 (cp_maxPriorityFeePerGas cp), eth_GasLimit = ethDefaultGasLimit,
            eth_ChainID = int_text 10 (cp_chainID cp), eth_From = fromAddr, eth_To = toAddr,
            eth_Value = int_text 10 wei, eth_Data = [], eth_GasPrice = []\<rparr>,
          etd_SigningHash = signer_hash env (cp_chainID cp) tx\<rparr>)))"

definition decode_calldata :: "string \<Rightarrow> string \<Rightarrow> bytes res" where
  "decode_calldata msg data = (if data = [] then Inr [] else
     case hex_decode (trim_prefix data ''0x'') of None \<Rightarrow> Inl (Wrap msg (Msg ''encoding/hex'')) | Some bs \<Rightarrow> Inr bs)"

definition RebuildETHTx :: "'e cenv \<Rightarrow> string \<Rightarrow> eth_tx_params \<Rightarrow> ('s rstate, eth_tx_data) io" where
  "RebuildETHTx env rpcURL params =
     (if rpcURL = [] then fail (Msg ''ETH_RPC_URL is not configured'') else
      seq (wrapping ''refresh chain params'' (fetchETHChainParams env rpcURL (eth_From params))) (\<lambda>cp.
      case set_string 10 (eth_Value params) of
        None \<Rightarrow> fail (Msg (''invalid value: '' @ eth_Value params))
      | Some value \<Rightarrow>
          seq (lift (decode_calldata ''invalid calldata hex in stored params'' (eth_Data params))) (\<lambda>txData.
          let tx = buildDynamicTx cp (HexToAddress env (eth_To params)) value (eth_GasLimit params) txData
          in ret \<lparr>etd_Params = \<lparr>eth_Nonce = cp_nonce cp, eth_MaxFeePerGas = int_text 10 (cp_maxFeePerGas cp),
                eth_MaxPriorityFeePerGas = int_text 10 (cp_maxPriorityFeePerGas cp), eth_GasLimit = eth_GasLimit params,
                eth_ChainID = int_text 10 (cp_chainID cp), eth_From = eth_From params, eth_To = eth_To params,
                eth_Value = eth_Value params, eth_Data = eth_Data params, eth_GasPrice = []\<rparr>,
              etd_SigningHash = signer_hash env (cp_chainID cp) tx\<rparr>)))"

definition BuildETHContractCallTx ::
    "'e cenv \<Rightarrow> string \<Rightarrow> string \<Rightarrow> string \<Rightarrow> bytes \<Rightarrow> int option \<Rightarrow> ('s rstate, eth_tx_data) io" where
  "BuildETHContractCallTx env rpcURL fromAddr contractAddr callData valueOpt =
     (if rpcURL = [] then fail (Msg ''ETH_RPC_URL is not configured'') else
      let value = (case valueOpt of None \<Rightarrow> 0 | Some v \<Rightarrow> v) in
      seq (fetchETHChainParams env rpcURL fromAddr) (\<lambda>cp.
      seq (wrapping ''estimate gas reverted or failed'' (jsonRPCWithRetry env rpcURL
             (rpc_request ''eth_estimateGas'' [JObj [(''from'', JStr fromAddr), (''to'', JStr contractAddr),
                (''value'', JStr (''0x'' @ int_text 16 value)), (''data'', JStr (''0x'' @ hex_encode callData))]]))) (\<lambda>estimateRaw.
      case result_str estimateRaw of
        None \<Rightarrow> fail (Msg ''unexpected gas estimate response'')
      | Some h \<Rightarrow> if h = [] then fail (Msg ''unexpected gas estimate response'') else
          (case set_string 16 (trim_prefix h ''0x'') of
             None \<Rightarrow> fail (Msg (''invalid gas estimate value: '' @ h))
           | Some estimatedGas \<Rightarrow>
               let gasLimit = int_Uint64 ((estimatedGas * 120) div 100);
                   tx = buildDynamicTx cp (HexToAddress env contractAddr) value gasLimit callData
               in ret \<lparr>etd_Params = \<lparr>eth_Nonce = cp_nonce cp, eth_MaxFeePerGas = int_text 10 (cp_maxFeePerGas cp),
                     eth_MaxPriorityFeePerGas = int_text 10 (cp_maxPriorityFeePerGas cp), eth_GasLimit = gasLimit,
                     eth_ChainID = int_text 10 (cp_chainID cp), eth_From = fromAddr, eth_To = contractAddr,
                     eth_Value = int_text 10 value, eth_Data = hex_encode callData, eth_GasPrice = []\<rparr>,
                   etd_SigningHash = signer_hash env (cp_chainID cp) tx\<rparr>))))"

subsection \<open>Replacement by fee\<close>

definition rbf_bump :: "int \<Rightarrow> int" where
  "rbf_bump v = (v * 125) div 100 + 1"

definition rbfPriorityFeeCapWei :: int where
  "rbfPriorityFeeCapWei = 10000000000"

text \<open>\<open>BumpETHGas\<close> on the pointed-to struct: the new value, or \<open>None\<close> when it returns false.\<close>

definition BumpETHGas :: "eth_tx_params \<Rightarrow> eth_tx_params option" where
  "BumpETHGas params =
     (case (set_string 10 (eth_MaxPriorityFeePerGas params), set_string 10 (eth_MaxFeePerGas params)) of
        (Some tip, Some maxFee) \<Rightarrow>
          let newTip = rbf_bump tip
          in if newTip > rbfPriorityFeeCapWei then None
             else Some (params\<lparr>eth_MaxPriorityFeePerGas := int_text 10 newTip,
                          eth_MaxFeePerGas := int_text 10 (rbf_bump maxFee)\<rparr>)
      | _ \<Rightarrow> None)"

definition IsReplacementUnderpriced :: "gerr \<Rightarrow> bool" where
  "IsReplacementUnderpriced err = (let msg = to_lower (err_text err) in
     contains msg ''replacement transaction underpriced'' \<or> contains msg ''replacement underpriced''
     \<or> contains msg ''transaction underpriced'')"

definition IsNonceTooLow :: "gerr \<Rightarrow> bool" where
  "IsNonceTooLow err = (let msg = to_lower (err_text err) in
     contains msg ''nonce too low'' \<or> contains msg ''already known'')"

subsection \<open>Signing hash and broadcast\<close>

definition eth_fees :: "eth_tx_params \<Rightarrow> (int \<times> int) res" where
  "eth_fees params =
     (if eth_MaxFeePerGas params \<noteq> [] then
        (case set_string 10 (eth_MaxFeePerGas params) of
           None \<Rightarrow> Inl (Msg (''invalid max fee per gas: '' @ eth_MaxFeePerGas params))
         | Some maxFee \<Rightarrow> (case set_string 10 (eth_MaxPriorityFeePerGas params) of
               None \<Rightarrow> Inl (Msg (''invalid max priority fee: '' @ eth_MaxPriorityFeePerGas params))
             | Some tip \<Rightarrow> Inr (maxFee, tip)))
      else if eth_GasPrice params \<noteq> [] then
        (case set_string 10 (eth_GasPrice params) of
           None \<Rightarrow> Inl (Msg (''invalid gas price: '' @ eth_GasPrice params))
         | Some g \<Rightarrow> Inr (g, g))
      else Inl (Msg ''no gas fee parameters provided''))"

text \<open>The transaction that both \<open>ETHSigningHash\<close> and \<open>AssembleAndBroadcastETH\<close> reconstruct.\<close>

definition tx_of_params :: "'e cenv \<Rightarrow> string \<Rightarrow> eth_tx_params \<Rightarrow> dyn_tx res" where
  "tx_of_params env dataMsg params =
     (case set_string 10 (eth_ChainID params) of
        None \<Rightarrow> Inl (Msg (''invalid chain id: '' @ eth_ChainID params))
      | Some chainID \<Rightarrow>
     (case set_string 10 (eth_Value params) of
        None \<Rightarrow> Inl (Msg (''invalid value: '' @ eth_Value params))
      | Some value \<Rightarrow>
          and_then (eth_fees params) (\<lambda>(maxFee, priorityFee).
          and_then (decode_calldata dataMsg (eth_Data params)) (\<lambda>txData.
          Inr \<lparr>dt_ChainID = chainID, dt_Nonce = eth_Nonce params, dt_GasTipCap = priorityFee, dt_GasFeeCap = maxFee,
               dt_Gas = eth_GasLimit params, dt_To = HexToAddress env (eth_To params), dt_Value = value,
               dt_Data = txData\<rparr>))))"

definition ETHSigningHash :: "'e cenv \<Rightarrow> eth_tx_params \<Rightarrow> bytes res" where
  "ETHSigningHash env params =
     and_then (tx_of_params env ''invalid calldata hex'' params) (\<lambda>tx. Inr (signer_hash env (dt_ChainID tx) tx))"

text \<open>The search for the recovery identifier: \<open>None\<close> when neither value recovers the sender.\<close>

primrec recover_loop :: "'e cenv \<Rightarrow> dyn_tx \<Rightarrow> bytes \<Rightarrow> bytes \<Rightarrow> byte list \<Rightarrow> bytes option res" where
  "recover_loop env tx sig fromAddress [] = Inr None"
| "recover_loop env tx sig fromAddress (v # vs) =
     (let sig65 = take 64 sig @ [v] in
      case sig_to_address env (signer_hash env (dt_ChainID tx) tx) sig65 of
        None \<Rightarrow> recover_loop env tx sig fromAddress vs
      | Some a \<Rightarrow>
          if a = fromAddress then
            (case with_signature env (dt_ChainID tx) tx sig65 of
               Some e \<Rightarrow> Inl (Wrap ''apply signature'' e) | None \<Rightarrow> Inr (Some sig65))
          else recover_loop env tx sig fromAddress vs)"

definition AssembleAndBroadcastETH ::
    "'e cenv \<Rightarrow> string \<Rightarrow> eth_tx_params \<Rightarrow> bytes \<Rightarrow> string \<Rightarrow> ('s rstate, string) io" where
  "AssembleAndBroadcastETH env rpcURL params sig fromAddr =
     (if length sig < 64 then fail (Msg ''signature too short'') else
      seq (lift (tx_of_params env ''invalid calldata hex in tx params'' params)) (\<lambda>tx.
      seq (lift (recover_loop env tx sig (HexToAddress env fromAddr) [0, 1])) (\<lambda>rec.
      case rec of
        None \<Rightarrow> fail (Msg (''could not determine valid recovery id for address '' @ fromAddr))
      | Some sig65 \<Rightarrow>
          seq (lift (wrap_err ''marshal tx'' (marshal_tx env tx sig65))) (\<lambda>rawBytes.
          seq (wrapping ''broadcast'' (jsonRPC env rpcURL
                 (rpc_request ''eth_sendRawTransaction'' [JStr (''0x'' @ hex_encode rawBytes)]))) (\<lambda>result.
          ret (str_or_empty ''result'' result))))))"

subsection \<open>Properties\<close>

lemma decode_calldata_hex [simp]: "decode_calldata m (hex_encode bs) = Inr bs"
  by (simp add: decode_calldata_def)

lemma decode_calldata_msg: "decode_calldata m d = Inr bs \<Longrightarrow> decode_calldata m' d = Inr bs"
  by (auto simp: decode_calldata_def split: if_splits option.splits)

text \<open>The parameters that the builders return, and the hash recomputed from them.\<close>

definition params_of :: "eth_chain_params \<Rightarrow> u64 \<Rightarrow> string \<Rightarrow> string \<Rightarrow> string \<Rightarrow> string \<Rightarrow> eth_tx_params" where
  "params_of cp gas from' to' value data = \<lparr>eth_Nonce = cp_nonce cp, eth_MaxFeePerGas = int_text 10 (cp_maxFeePerGas cp),
     eth_MaxPriorityFeePerGas = int_text 10 (cp_maxPriorityFeePerGas cp), eth_GasLimit = gas,
     eth_ChainID = int_text 10 (cp_chainID cp), eth_From = from', eth_To = to',
     eth_Value = value, eth_Data = data, eth_GasPrice = []\<rparr>"

lemma hash_params_of:
  assumes "set_string 10 value = Some v" and "decode_calldata m data = Inr bs"
  shows "ETHSigningHash env (params_of cp gas from' to' value data) =
    Inr (signer_hash env (cp_chainID cp) (buildDynamicTx cp (HexToAddress env to') v gas bs))"
  using assms(1) decode_calldata_msg [OF assms(2), of "''invalid calldata hex''"]
  by (simp add: ETHSigningHash_def tx_of_params_def eth_fees_def buildDynamicTx_def params_of_def)

lemma BuildETHTx_Inr:
  assumes "BuildETHTx env rpcURL fromAddr toAddr amount s = (Inr d, s')"
  obtains cp wei where "0 < wei" "eth_to_wei amount = Inr wei"
    "fetchETHChainParams env rpcURL fromAddr s = (Inr cp, s')"
    "etd_Params d = params_of cp ethDefaultGasLimit fromAddr toAddr (int_text 10 wei) []"
    "etd_SigningHash d = signer_hash env (cp_chainID cp) (buildDynamicTx cp (HexToAddress env toAddr) wei ethDefaultGasLimit [])"
  using assms unfolding BuildETHTx_def params_of_def by (auto simp: io_simps Let_def split: if_splits)

lemma BuildETHContractCallTx_Inr:
  assumes "BuildETHContractCallTx env rpcURL fromAddr toAddr callData valueOpt s = (Inr d, s')"
  obtains cp gas v where "v = (case valueOpt of None \<Rightarrow> 0 | Some v \<Rightarrow> v)"
    "etd_Params d = params_of cp gas fromAddr toAddr (int_text 10 v) (hex_encode callData)"
    "etd_SigningHash d = signer_hash env (cp_chainID cp) (buildDynamicTx cp (HexToAddress env toAddr) v gas callData)"
  using assms unfolding BuildETHContractCallTx_def params_of_def Let_def
  by (auto simp: wrapping_Inr split: if_splits option.splits)

lemma RebuildETHTx_Inr:
  assumes "RebuildETHTx env rpcURL params s = (Inr d, s')"
  obtains cp v bs where "set_string 10 (eth_Value params) = Some v"
    "decode_calldata ''invalid calldata hex in stored params'' (eth_Data params) = Inr bs"
    "etd_Params d = params_of cp (eth_GasLimit params) (eth_From params) (eth_To params) (eth_Value params) (eth_Data params)"
    "etd_SigningHash d = signer_hash env (cp_chainID cp)
       (buildDynamicTx cp (HexToAddress env (eth_To params)) v (eth_GasLimit params) bs)"
  using assms unfolding RebuildETHTx_def params_of_def by (auto simp: io_simps Let_def split: if_splits option.splits)

lemma BuildETHTx_hash:
  assumes "BuildETHTx env rpcURL fromAddr toAddr amount s = (Inr d, s')"
  shows "ETHSigningHash env (etd_Params d) = Inr (etd_SigningHash d)"
  using assms by (rule BuildETHTx_Inr) (simp add: hash_params_of [where m = "[]"] decode_calldata_def)

lemma BuildETHContractCallTx_hash:
  assumes "BuildETHContractCallTx env rpcURL fromAddr toAddr callData valueOpt s = (Inr d, s')"
  shows "ETHSigningHash env (etd_Params d) = Inr (etd_SigningHash d)"
  using assms by (rule BuildETHContractCallTx_Inr) (simp add: hash_params_of [where m = "[]"])

text \<open>The signing hash that building a transfer or a contract call returns is the hash that
  \<open>ETHSigningHash\<close> recomputes from the stored parameters: nothing of the transaction is lost in
  the decimal and hexadecimal text of the parameters.\<close>

theorem eth_build_hash_consistent:
  assumes "BuildETHTx env rpcURL fromAddr toAddr amount s = (Inr d, s')
    \<or> BuildETHContractCallTx env rpcURL fromAddr toAddr callData valueOpt s = (Inr d, s')"
  shows "ETHSigningHash env (etd_Params d) = Inr (etd_SigningHash d)"
  using assms BuildETHTx_hash BuildETHContractCallTx_hash by blast

text \<open>C24. Rebuilding a stored transaction at approval time keeps the sender, the recipient, the value,
  the calldata and the gas limit that were approved; only nonce, fees and chain identifier are
  fetched again, and the returned hash is the hash of the new parameters.\<close>

theorem RebuildETHTx_keeps_intent:
  assumes "RebuildETHTx env rpcURL params s = (Inr d, s')"
  shows "eth_From (etd_Params d) = eth_From params \<and> eth_To (etd_Params d) = eth_To params
    \<and> eth_Value (etd_Params d) = eth_Value params \<and> eth_Data (etd_Params d) = eth_Data params
    \<and> eth_GasLimit (etd_Params d) = eth_GasLimit params
    \<and> ETHSigningHash env (etd_Params d) = Inr (etd_SigningHash d)"
  using assms by (rule RebuildETHTx_Inr) (simp add: hash_params_of, simp add: params_of_def)

text \<open>A fee bump raises both fees by more than a quarter, keeps the tip within the cap and changes
  nothing else.\<close>

theorem BumpETHGas_raises:
  assumes "BumpETHGas p = Some q"
  shows "\<exists>tip fee tip' fee'. set_string 10 (eth_MaxPriorityFeePerGas p) = Some tip
    \<and> set_string 10 (eth_MaxFeePerGas p) = Some fee
    \<and> q = p\<lparr>eth_MaxPriorityFeePerGas := int_text 10 tip', eth_MaxFeePerGas := int_text 10 fee'\<rparr>
    \<and> 5 * tip < 4 * tip' \<and> 5 * fee < 4 * fee' \<and> tip' \<le> rbfPriorityFeeCapWei"
proof -
  have bump: "5 * v < 4 * rbf_bump v" for v unfolding rbf_bump_def by presburger
  from assms obtain tip fee where "set_string 10 (eth_MaxPriorityFeePerGas p) = Some tip"
    "set_string 10 (eth_MaxFeePerGas p) = Some fee" "rbf_bump tip \<le> rbfPriorityFeeCapWei"
    "q = p\<lparr>eth_MaxPriorityFeePerGas := int_text 10 (rbf_bump tip), eth_MaxFeePerGas := int_text 10 (rbf_bump fee)\<rparr>"
    by (auto simp: BumpETHGas_def Let_def not_less split: option.splits if_splits)
  with bump show ?thesis by blast
qed

text \<open>The fees of a new transaction: the tip is at least 0.001 gwei, the maximum fee is twice the base
  fee plus the tip, and the chain identifier fits 64 bits.\<close>

theorem fetchGasFees_floor:
  assumes "fetchGasFeesAndChainID env rpcURL s = (Inr (maxFee, tip, chainID), s')"
  shows "1000000 \<le> tip \<and> (\<exists>baseFee. maxFee = 2 * baseFee + tip) \<and> 0 \<le> chainID \<and> chainID < 2 ^ 64"
proof -
  have u: "int (unat x) < 2 ^ 64" for x :: u64
    using unsigned_less [of x] by (simp flip: of_nat_less_iff)
  from assms u show ?thesis
    by (auto simp: fetchGasFeesAndChainID_def io_simps Let_def minPriority_def algebra_simps
        split: option.splits if_splits)
qed

lemma recover_loop_Some:
  "recover_loop env tx sig a vs = Inr (Some sig65) \<Longrightarrow>
   \<exists>v \<in> set vs. sig65 = take 64 sig @ [v] \<and> sig_to_address env (signer_hash env (dt_ChainID tx) tx) sig65 = Some a"
  by (induction vs) (auto simp: Let_def split: option.splits if_splits)

text \<open>C25. Assembling and broadcasting sends nothing, or exactly one request: the serialised transaction of
  the given parameters under a signature whose recovered signer is the sending wallet.\<close>

theorem AssembleAndBroadcastETH_once:
  "rpc_trace (snd (AssembleAndBroadcastETH env rpcURL params sig fromAddr s)) = rpc_trace s
   \<or> (\<exists>tx v raw. tx_of_params env ''invalid calldata hex in tx params'' params = Inr tx
        \<and> sig_to_address env (signer_hash env (dt_ChainID tx) tx) (take 64 sig @ [v]) = Some (HexToAddress env fromAddr)
        \<and> marshal_tx env tx (take 64 sig @ [v]) = Inr raw
        \<and> rpc_trace (snd (AssembleAndBroadcastETH env rpcURL params sig fromAddr s)) =
            rpc_trace s @ [(rpcURL, rpc_request ''eth_sendRawTransaction'' [JStr (''0x'' @ hex_encode raw)])])"
proof (cases "tx_of_params env ''invalid calldata hex in tx params'' params")
  case (Inr tx)
  show ?thesis
  proof (cases "recover_loop env tx sig (HexToAddress env fromAddr) [0, 1]")
    case rec: (Inr r)
    show ?thesis
    proof (cases r)
      case (Some sig65)
      with rec obtain v where v: "sig65 = take 64 sig @ [v]"
        "sig_to_address env (signer_hash env (dt_ChainID tx) tx) sig65 = Some (HexToAddress env fromAddr)"
        using recover_loop_Some by blast
      show ?thesis
      proof (cases "marshal_tx env tx sig65")
        case raw: (Inr raw)
        define req where "req = rpc_request ''eth_sendRawTransaction'' [JStr (''0x'' @ hex_encode raw)]"
        have "snd (AssembleAndBroadcastETH env rpcURL params sig fromAddr s) =
            (if length sig < 64 then s else snd (jsonRPC env rpcURL req s))"
          using Inr rec Some raw
          by (auto simp: AssembleAndBroadcastETH_def seq_def wrapping_def req_def split: prod.splits sum.splits)
        then show ?thesis using Inr v raw
          by (auto simp: jsonRPC_state after_requests_def req_def)
      qed (use Inr rec Some in \<open>simp add: AssembleAndBroadcastETH_def seq_def\<close>)
    qed (use Inr rec in \<open>simp add: AssembleAndBroadcastETH_def seq_def\<close>)
  qed (use Inr in \<open>simp add: AssembleAndBroadcastETH_def seq_def\<close>)
qed (simp add: AssembleAndBroadcastETH_def seq_def)

text \<open>ERC-20 calldata exists exactly for amounts in the \<open>uint256\<close> range, and then it is the four-byte
  selector, twelve zero bytes, the address and the 32-byte big-endian amount.\<close>

theorem EncodeERC20Transfer_layout:
  "EncodeERC20Transfer env toAddr amount =
     (if 0 \<le> amount \<and> amount < 2 ^ 256
      then Inr (take 4 (keccak256 env (bytes_of_string ''transfer(address,uint256)'')) @ replicate 12 0
             @ HexToAddress env toAddr @ word32 (nat amount))
      else Inl (Msg (if amount < 0 then ''amount must not be negative'' else ''amount exceeds uint256 range'')))"
proof -
  have "length (be_bytes (nat amount)) > 32 \<longleftrightarrow> \<not> amount < 2 ^ 256" if "0 \<le> amount"
    using length_be_bytes_le_iff [of "nat amount" 32] that by (simp add: nat_less_iff not_less [symmetric]) blast
  then show ?thesis
    by (cases "amount < 0")
      (simp_all add: EncodeERC20Transfer_def encodeAddrAmountCalldata_def Let_def word32_def pad_left_def not_less)
qed

subsection \<open>A concrete endpoint\<close>

text \<open>An endpoint that answers every request, for the witnesses.\<close>

definition sample_net :: "rpc_call list \<Rightarrow> string \<Rightarrow> json \<Rightarrow> http_outcome" where
  "sample_net trace url payload = (case payload of
       JObj kvs \<Rightarrow> HttpResp 200 (Some (JObj [(''result'',
         if jget ''method'' kvs = Some (JStr ''eth_getBlockByNumber'') then JObj [(''baseFeePerGas'', JStr ''0x7'')]
         else JStr ''0x1'')]))
     | _ \<Rightarrow> HttpResp 400 None)"

definition sample_env :: chain_env where
  "sample_env = \<lparr>net = sample_net, rpcFallbacks = [], net_undef = 0, keccak256 = (\<lambda>_. replicate 32 0),
     HexToAddress = (\<lambda>_. replicate 20 0), signer_hash = (\<lambda>_ _. replicate 32 0),
     sig_to_address = (\<lambda>_ _. Some (replicate 20 0)), with_signature = (\<lambda>_ _ _. None),
     marshal_tx = (\<lambda>_ _. Inr []), isOnCurve = (\<lambda>_. False)\<rparr>"

lemma sample_call:
  "jsonRPCWithRetry sample_env url (rpc_request m ps) s =
     (Inr [(''result'', if m = ''eth_getBlockByNumber'' then JObj [(''baseFeePerGas'', JStr ''0x7'')] else JStr ''0x1'')],
      after_requests 1 url (rpc_request m ps) s)"
  by (rule jsonRPCWithRetry_first)
    (simp_all add: sample_env_def sample_net_def rpc_request_def jget_def)

lemma sample_hex: "set_string 16 (trim_prefix ''0x1'' ''0x'') = Some 1" "set_string 16 (trim_prefix ''0x7'' ''0x'') = Some 7"
  by code_simp+

lemma sample_params:
  "\<exists>cp s'. fetchETHChainParams sample_env url a s = (Inr cp, s')"
  by (simp add: fetchETHChainParams_def fetchNonceFromChain_def fetchGasFeesAndChainID_def fetch_priority_def
      fetch_base_fee_def fetch_chain_id_def seq_def wrapping_def attempt_def sample_call result_str_def jget_def
      sample_hex str_or_empty_def Let_def split: option.splits)

lemma sample_fees:
  "\<exists>s'. fetchGasFeesAndChainID sample_env url \<lparr>rpc_trace = [], chainIDCache = []\<rparr> = (Inr (1000014, 1000000, 1), s')"
  by (simp add: fetchGasFeesAndChainID_def fetch_priority_def minPriority_def getCachedChainID_def after_requests_def
      fetch_base_fee_def fetch_chain_id_def seq_def wrapping_def attempt_def sample_call result_str_def jget_def
      sample_hex str_or_empty_def Let_def)

lemma sample_wei: "eth_to_wei \<lparr>bf_prec = 64, bf_val = Fin 1\<rparr> = Inr 1000000000000000000"
  by code_simp

theorem eth_build_hash_consistent_witness:
  "\<exists>d s'. BuildETHTx sample_env ''http://node'' ''0xa'' ''0xb'' \<lparr>bf_prec = 64, bf_val = Fin 1\<rparr>
       \<lparr>rpc_trace = [], chainIDCache = []\<rparr> = (Inr d, s')
     \<and> ETHSigningHash sample_env (etd_Params d) = Inr (etd_SigningHash d)"
proof -
  obtain d s' where d: "BuildETHTx sample_env ''http://node'' ''0xa'' ''0xb'' \<lparr>bf_prec = 64, bf_val = Fin 1\<rparr>
      \<lparr>rpc_trace = [], chainIDCache = []\<rparr> = (Inr d, s')"
    using sample_params [of "''http://node''" "''0xa''" "\<lparr>rpc_trace = [], chainIDCache = []\<rparr>"]
    by (auto simp: BuildETHTx_def sample_wei seq_def Let_def)
  then show ?thesis using eth_build_hash_consistent [OF disjI1, OF d] by blast
qed

definition sample_stored :: eth_tx_params where
  "sample_stored = \<lparr>eth_Nonce = 3, eth_MaxFeePerGas = ''90'', eth_MaxPriorityFeePerGas = ''8'', eth_GasLimit = 21000,
     eth_ChainID = ''1'', eth_From = ''0xa'', eth_To = ''0xb'', eth_Value = ''5'', eth_Data = ''0xff'', eth_GasPrice = []\<rparr>"

theorem RebuildETHTx_keeps_intent_witness:
  "\<exists>d s'. RebuildETHTx sample_env ''http://node'' sample_stored \<lparr>rpc_trace = [], chainIDCache = []\<rparr> = (Inr d, s')
     \<and> eth_To (etd_Params d) = ''0xb'' \<and> eth_Value (etd_Params d) = ''5'' \<and> eth_Data (etd_Params d) = ''0xff''"
proof -
  have "set_string 10 ''5'' = Some 5" "hex_decode (trim_prefix ''0xff'' ''0x'') = Some [255]" by code_simp+
  then obtain d s' where d: "RebuildETHTx sample_env ''http://node'' sample_stored \<lparr>rpc_trace = [], chainIDCache = []\<rparr> = (Inr d, s')"
    using sample_params [of "''http://node''" "''0xa''" "\<lparr>rpc_trace = [], chainIDCache = []\<rparr>"]
    by (auto simp: RebuildETHTx_def seq_def Let_def sample_stored_def decode_calldata_def wrapping_def)
  then show ?thesis using RebuildETHTx_keeps_intent [OF d] by (auto simp: sample_stored_def)
qed

theorem BumpETHGas_raises_witness:
  "\<exists>q tip fee tip' fee'. BumpETHGas sample_stored = Some q \<and> set_string 10 (eth_MaxPriorityFeePerGas sample_stored) = Some tip
    \<and> set_string 10 (eth_MaxFeePerGas sample_stored) = Some fee
    \<and> q = sample_stored\<lparr>eth_MaxPriorityFeePerGas := int_text 10 tip', eth_MaxFeePerGas := int_text 10 fee'\<rparr>
    \<and> 5 * tip < 4 * tip' \<and> 5 * fee < 4 * fee' \<and> tip' \<le> rbfPriorityFeeCapWei"
proof -
  have "set_string 10 ''8'' = Some 8" "set_string 10 ''90'' = Some 90" by code_simp+
  then obtain q where q: "BumpETHGas sample_stored = Some q"
    by (auto simp: BumpETHGas_def sample_stored_def rbf_bump_def rbfPriorityFeeCapWei_def Let_def)
  then show ?thesis using BumpETHGas_raises [OF q] by blast
qed

theorem fetchGasFees_floor_witness:
  "(1000000 :: int) \<le> 1000000 \<and> (\<exists>baseFee. (1000014 :: int) = 2 * baseFee + 1000000) \<and> (0 :: int) \<le> 1 \<and> (1 :: int) < 2 ^ 64"
  using sample_fees [of "''http://node''"] fetchGasFees_floor [of sample_env "''http://node''" "\<lparr>rpc_trace = [], chainIDCache = []\<rparr>" 1000014 1000000 1]
  by blast

end
