(* ===== verification/Sha256.thy ===== *)
theory Sha256
  imports Numerals
begin

text \<open>
  The package \<open>crypto/sha256\<close> of the Go standard library, which the wallet uses to derive
  program addresses (\<open>chain/address.go\<close>), to hash e-mail codes
  (\<open>handler/email_verification.go\<close>) and, through \<open>crypto/hmac\<close>, API keys
  (\<open>handler/middleware.go\<close>). The function is FIPS 180-4 SHA-256 on byte strings.
\<close>

unbundle bit_operations_syntax

type_synonym w32 = "32 word"

definition sha_k :: "w32 list" where
  "sha_k = [
    1116352408, 1899447441, 3049323471, 3921009573, 961987163, 1508970993, 2453635748, 2870763221,
    3624381080, 310598401, 607225278, 1426881987, 1925078388, 2162078206, 2614888103, 3248222580,
    3835390401, 4022224774, 264347078, 604807628, 770255983, 1249150122, 1555081692, 1996064986,
    2554220882, 2821834349, 2952996808, 3210313671, 3336571891, 3584528711, 113926993, 338241895,
    666307205, 773529912, 1294757372, 1396182291, 1695183700, 1986661051, 2177026350, 2456956037,
    2730485921, 2820302411, 3259730800, 3345764771, 3516065817, 3600352804, 4094571909, 275423344,
    430227734, 506948616, 659060556, 883997877, 958139571, 1322822218, 1537002063, 1747873779,
    1955562222, 2024104815, 2227730452, 2361852424, 2428436474, 2756734187, 3204031479, 3329325298]"

definition sha_h0 :: "w32 list" where
  "sha_h0 = [1779033703, 3144134277, 1013904242, 2773480762, 1359893119, 2600822924, 528734635, 1541459225]"

definition rotr :: "nat \<Rightarrow> w32 \<Rightarrow> w32" where
  "rotr n x = drop_bit n x OR push_bit (32 - n) x"

definition sha_ch :: "w32 \<Rightarrow> w32 \<Rightarrow> w32 \<Rightarrow> w32" where
  "sha_ch x y z = (x AND y) XOR (NOT x AND z)"

definition sha_maj :: "w32 \<Rightarrow> w32 \<Rightarrow> w32 \<Rightarrow> w32" where
  "sha_maj x y z = (x AND y) XOR (x AND z) XOR (y AND z)"

definition be_word :: "bytes \<Rightarrow> w32" where
  "be_word bs = of_nat (be_val bs)"

definition word_bytes :: "w32 \<Rightarrow> bytes" where
  "word_bytes w = rev (le_bytes 4 (unat w))"

fun chunks :: "nat \<Rightarrow> 'a list \<Rightarrow> 'a list list" where
  "chunks k xs = (if k = 0 \<or> xs = [] then [] else take k xs # chunks k (drop k xs))"

declare chunks.simps [simp del]

definition sha_pad :: "bytes \<Rightarrow> bytes" where
  "sha_pad m = (let n = length m in
     m @ [0x80] @ replicate ((119 - n mod 64) mod 64) 0 @ rev (le_bytes 8 (8 * n)))"

definition sha_extend :: "w32 list \<Rightarrow> w32 list" where
  "sha_extend ws = (let n = length ws; x = ws ! (n - 15); y = ws ! (n - 2);
       s0 = rotr 7 x XOR rotr 18 x XOR drop_bit 3 x;
       s1 = rotr 17 y XOR rotr 19 y XOR drop_bit 10 y
     in ws @ [ws ! (n - 16) + s0 + ws ! (n - 7) + s1])"

definition sha_schedule :: "bytes \<Rightarrow> w32 list" where
  "sha_schedule blk = (sha_extend ^^ 48) (map be_word (chunks 4 blk))"

definition sha_round :: "w32 list \<Rightarrow> w32 \<times> w32 \<Rightarrow> w32 list" where
  "sha_round st kw = (case st of [a, b, c, d, e, f, g, h] \<Rightarrow>
       (let s1 = rotr 6 e XOR rotr 11 e XOR rotr 25 e;
            t1 = h + s1 + sha_ch e f g + fst kw + snd kw;
            s0 = rotr 2 a XOR rotr 13 a XOR rotr 22 a;
            t2 = s0 + sha_maj a b c
        in [t1 + t2, a, b, c, d + t1, e, f, g])
     | _ \<Rightarrow> st)"

definition sha_block :: "w32 list \<Rightarrow> bytes \<Rightarrow> w32 list" where
  "sha_block st blk = map2 (+) st (foldl sha_round st (zip sha_k (sha_schedule blk)))"

definition sha256 :: "bytes \<Rightarrow> bytes" where
  "sha256 m = concat (map word_bytes (foldl sha_block sha_h0 (chunks 64 (sha_pad m))))"

text \<open>\<open>crypto/hmac\<close> over SHA-256 (block size 64).\<close>

definition hmac_sha256 :: "bytes \<Rightarrow> bytes \<Rightarrow> bytes" where
  "hmac_sha256 key m =
     (let k0 = (if length key > 64 then sha256 key else key);
          k = k0 @ replicate (64 - length k0) 0
      in sha256 (map (\<lambda>b. b XOR 0x5c) k @ sha256 (map (\<lambda>b. b XOR 0x36) k @ m)))"

lemma length_word_bytes [simp]: "length (word_bytes w) = 4"
  by (simp add: word_bytes_def)

lemma length_sha_round [simp]: "length (sha_round st kw) = length st"
  by (auto simp: sha_round_def Let_def split: list.splits)

lemma length_foldl_sha_round [simp]: "length (foldl sha_round st kws) = length st"
  by (induction kws arbitrary: st) auto

lemma length_sha_block [simp]: "length (sha_block st blk) = length st"
  by (simp add: sha_block_def)

lemma length_foldl_sha_block [simp]: "length (foldl sha_block st blks) = length st"
  by (induction blks arbitrary: st) auto

lemma length_sha256 [simp, codec_simps]: "length (sha256 m) = 32"
  by (simp add: sha256_def length_concat comp_def sum_list_triv sha_h0_def)

end
