(* ===== verification/Address.thy ===== *)
theory Address
  imports Sha256
begin

text \<open>
  \<open>chain/address.go\<close>: base 58 in both directions, the derivation of chain addresses from public
  keys, and Solana program-derived addresses. Elliptic-curve operations of third-party packages
  (\<open>crypto.DecompressPubkey\<close> followed by \<open>PubkeyToAddress\<close>, and the curve test of
  \<open>edwards25519\<close>) are arguments.
\<close>

subsection \<open>Base 58\<close>

definition base58Alphabet :: string where
  "base58Alphabet = ''123456789ABCDEFGHJKLMNPQRSTUVWXYZabcdefghijkmnopqrstuvwxyz''"

text \<open>The table \<open>reverseBase58\<close>: the position of a character, or none (the \<open>-1\<close> entries).\<close>

definition reverseBase58 :: "char \<Rightarrow> nat option" where
  "reverseBase58 c = index_of c base58Alphabet"

primrec base58_number :: "nat \<Rightarrow> string \<Rightarrow> nat res" where
  "base58_number n [] = Inr n"
| "base58_number n (c # s) = (case reverseBase58 c of
     None \<Rightarrow> Inl (Msg ''invalid base58 character'')
   | Some v \<Rightarrow> base58_number (n * 58 + v) s)"

definition base58Decode :: "string \<Rightarrow> bytes res" where
  "base58Decode s = and_then (base58_number 0 s) (\<lambda>n.
     Inr (replicate (length (takeWhile (\<lambda>c. c = CHR ''1'') s)) 0 @ be_bytes n))"

text \<open>The inner loop of \<open>base58Encode\<close>: multiply the digits by 256 and add the carry.\<close>

primrec base58_carry :: "nat \<Rightarrow> nat list \<Rightarrow> nat list" where
  "base58_carry carry [] = digs 58 carry"
| "base58_carry carry (d # ds) =
     (carry + d * 256) mod 58 # base58_carry ((carry + d * 256) div 58) ds"

definition base58_digits :: "bytes \<Rightarrow> nat list" where
  "base58_digits input = foldl (\<lambda>ds b. base58_carry (unat b) ds) [] input"

definition base58Encode :: "bytes \<Rightarrow> string" where
  "base58Encode input =
     replicate (length (takeWhile (\<lambda>b. b = 0) input)) (base58Alphabet ! 0)
     @ map (\<lambda>d. base58Alphabet ! d) (rev (base58_digits input))"

lemma length_alphabet [simp]: "length base58Alphabet = 58"
  by (simp add: base58Alphabet_def)

lemma distinct_alphabet: "distinct base58Alphabet"
proof -
  have "successively (<) (map of_char base58Alphabet :: nat list)"
    by (simp add: base58Alphabet_def)
  then have "sorted_wrt (<) (map of_char base58Alphabet :: nat list)"
    by (simp add: successively_conv_sorted_wrt)
  then have "distinct (map of_char base58Alphabet :: nat list)"
    using strict_sorted_iff by blast
  then show ?thesis by (simp only: distinct_map)
qed

lemma alphabet_0 [simp]: "base58Alphabet ! 0 = CHR ''1''"
  by (simp add: base58Alphabet_def)

lemma index_of_Some_iff:
  "distinct xs \<Longrightarrow> index_of c xs = Some i \<longleftrightarrow> i < length xs \<and> xs ! i = c"
proof (induction xs arbitrary: i)
  case (Cons x xs)
  then have d: "distinct xs" and nin: "x \<notin> set xs" by simp_all
  show ?case
  proof (cases i)
    case 0
    then show ?thesis by auto
  next
    case (Suc j)
    have "xs ! j \<noteq> x" if "j < length xs" using that nin nth_mem by fastforce
    with Suc Cons.IH [OF d, of j] show ?thesis by auto
  qed
qed simp

lemma reverseBase58_iff: "reverseBase58 c = Some i \<longleftrightarrow> i < 58 \<and> base58Alphabet ! i = c"
  unfolding reverseBase58_def by (subst index_of_Some_iff [OF distinct_alphabet]) simp

lemma reverseBase58_nth [simp]: "i < 58 \<Longrightarrow> reverseBase58 (base58Alphabet ! i) = Some i"
  by (simp add: reverseBase58_iff)

lemma alphabet_eq_1_iff: "i < 58 \<Longrightarrow> base58Alphabet ! i = CHR ''1'' \<longleftrightarrow> i = 0"
  using distinct_alphabet nth_eq_iff_index_eq [of base58Alphabet i 0] by simp

lemma base58_number_map:
  "\<forall>d \<in> set ds. d < 58 \<Longrightarrow>
   base58_number n (map (\<lambda>d. base58Alphabet ! d) ds) = Inr (foldl (\<lambda>v d. v * 58 + d) n ds)"
  by (induction ds arbitrary: n) auto

lemma base58_number_Inr:
  "base58_number n s = Inr m \<longleftrightarrow>
   (\<exists>ds. (\<forall>d \<in> set ds. d < 58) \<and> s = map (\<lambda>d. base58Alphabet ! d) ds
      \<and> m = foldl (\<lambda>v d. v * 58 + d) n ds)"
proof
  assume "base58_number n s = Inr m"
  then show "\<exists>ds. (\<forall>d \<in> set ds. d < 58) \<and> s = map (\<lambda>d. base58Alphabet ! d) ds
      \<and> m = foldl (\<lambda>v d. v * 58 + d) n ds"
  proof (induction s arbitrary: n)
    case (Cons c s)
    then obtain v where v: "reverseBase58 c = Some v" and r: "base58_number (n * 58 + v) s = Inr m"
      by (auto split: option.splits)
    from Cons.IH [OF r] obtain ds where "\<forall>d \<in> set ds. d < 58"
      "s = map (\<lambda>d. base58Alphabet ! d) ds" "m = foldl (\<lambda>v d. v * 58 + d) (n * 58 + v) ds" by blast
    with v show ?case by (intro exI [of _ "v # ds"]) (auto simp: reverseBase58_iff)
  qed simp
next
  assume "\<exists>ds. (\<forall>d \<in> set ds. d < 58) \<and> s = map (\<lambda>d. base58Alphabet ! d) ds
      \<and> m = foldl (\<lambda>v d. v * 58 + d) n ds"
  then show "base58_number n s = Inr m" by (auto simp: base58_number_map)
qed

text \<open>The carry loop computes the canonical digits of the number read so far.\<close>

lemma undigs_base58_carry: "undigs 58 (base58_carry c ds) = 256 * undigs 58 ds + c"
proof (induction ds arbitrary: c)
  case (Cons d ds)
  have "undigs 58 (base58_carry c (d # ds)) =
      (c + d * 256) mod 58 + 58 * (256 * undigs 58 ds + (c + d * 256) div 58)"
    by (simp add: Cons.IH)
  also have "\<dots> = ((c + d * 256) mod 58 + 58 * ((c + d * 256) div 58)) + 58 * 256 * undigs 58 ds"
    by (simp only: distrib_left mult.assoc add.assoc add.commute add.left_commute)
  also have "\<dots> = (c + d * 256) + 58 * 256 * undigs 58 ds"
    by (simp only: mod_mult_div_eq)
  finally show ?case by simp
qed simp

lemma base58_carry_less: "d \<in> set (base58_carry c ds) \<Longrightarrow> d < 58"
  by (induction ds arbitrary: c) (auto dest: digs_less)

lemma length_base58_carry: "length ds \<le> length (base58_carry c ds)"
  by (induction ds arbitrary: c) auto

lemma base58_carry_digs: "base58_carry c (digs 58 n) = digs 58 (256 * n + c)"
proof (cases "n = 0")
  case False
  define ds where "ds = base58_carry c (digs 58 n)"
  have val: "undigs 58 ds = 256 * n + c" by (simp add: ds_def undigs_base58_carry)
  have len: "length (digs 58 n) \<le> length ds" by (simp add: ds_def length_base58_carry)
  have "last ds \<noteq> 0"
  proof (cases "length ds = length (digs 58 n)")
    case True
    from False have pos: "0 < length ds" using len by (cases "digs 58 n") (auto simp: True)
    show ?thesis
    proof
      assume "last ds = 0"
      with pos have "ds = butlast ds @ [0]" by (metis append_butlast_last_id length_greater_0_conv)
      then have "undigs 58 ds = undigs 58 (butlast ds)"
        by (metis add.right_neutral mult_0_right undigs.simps undigs_append)
      also have "\<dots> < 58 ^ length (butlast ds)"
        by (rule undigs_less) (auto simp: ds_def dest: in_set_butlastD base58_carry_less)
      finally have "n < 58 ^ (length ds - 1)" using val by simp
      then have "length (digs 58 n) \<le> length ds - 1" by (simp add: length_digs_le)
      with True pos show False by linarith
    qed
  next
    case False
    with len have lt: "length (digs 58 n) < length ds" by simp
    have "length xs < length (base58_carry c xs) \<Longrightarrow> last (base58_carry c xs) \<noteq> 0" for xs c
    proof (induction xs arbitrary: c)
      case Nil
      then show ?case by (cases "c = 0") (auto simp: last_digs)
    next
      case (Cons x xs)
      then have "last (base58_carry ((c + x * 256) div 58) xs) \<noteq> 0"
        and "base58_carry ((c + x * 256) div 58) xs \<noteq> []" by auto
      then show ?case by simp
    qed
    with lt show ?thesis by (simp add: ds_def)
  qed
  then have "digs 58 (undigs 58 ds) = ds"
    by (intro digs_undigs) (auto simp: ds_def dest: base58_carry_less)
  with val show ?thesis by (simp add: ds_def)
qed simp

lemma base58_digits_eq: "base58_digits input = digs 58 (be_val input)"
proof -
  have "foldl (\<lambda>ds b. base58_carry (unat b) ds) (digs 58 n) input
      = digs 58 (foldl (\<lambda>v d. v * 256 + d) n (map unat input))" for n
    by (induction input arbitrary: n) (auto simp: base58_carry_digs mult.commute)
  from this [of 0] show ?thesis by (simp add: base58_digits_def be_val_def horner_def)
qed

lemma leading_ones:
  "\<forall>d \<in> set ds. d < 58 \<Longrightarrow>
   takeWhile (\<lambda>c. c = CHR ''1'') (map (\<lambda>d. base58Alphabet ! d) ds)
   = replicate (length (takeWhile (\<lambda>d. d = 0) ds)) (CHR ''1'')"
  by (induction ds) (auto simp: alphabet_eq_1_iff)

lemma base58Encode_eq:
  "base58Encode input = map (\<lambda>d. base58Alphabet ! d)
     (replicate (length (takeWhile (\<lambda>b. b = 0) input)) 0 @ rev (digs 58 (be_val input)))"
  by (simp add: base58Encode_def base58_digits_eq)

lemma base58Decode_map:
  assumes "\<forall>d \<in> set ds. d < 58"
  shows "base58Decode (map (\<lambda>d. base58Alphabet ! d) ds)
    = Inr (replicate (length (takeWhile (\<lambda>d. d = 0) ds)) 0 @ be_bytes (horner 58 ds))"
  using assms by (simp add: base58Decode_def base58_number_map leading_ones horner_def)

lemma takeWhile_replicate_append:
  "xs = [] \<or> hd xs \<noteq> z \<Longrightarrow> length (takeWhile (\<lambda>d. d = z) (replicate k z @ xs)) = k"
  by (induction k) (cases xs, auto)+

lemma hd_rev_digs: "2 \<le> b \<Longrightarrow> rev (digs b n) = [] \<or> hd (rev (digs b n)) \<noteq> 0"
  by (cases "n = 0") (auto simp: hd_rev last_digs)

theorem base58Decode_Encode: "base58Decode (base58Encode bs) = Inr bs"
proof -
  define z where "z = length (takeWhile (\<lambda>b. b = 0) bs)"
  define ds where "ds = replicate z 0 @ rev (digs 58 (be_val bs))"
  have small: "\<forall>d \<in> set ds. d < 58" by (auto simp: ds_def dest: digs_less)
  have lead: "length (takeWhile (\<lambda>d. d = 0) ds) = z"
    unfolding ds_def by (rule takeWhile_replicate_append) (rule hd_rev_digs, simp)
  have val: "horner 58 ds = be_val bs" by (simp add: ds_def)
  have "base58Decode (base58Encode bs) = base58Decode (map (\<lambda>d. base58Alphabet ! d) ds)"
    by (simp add: base58Encode_eq ds_def z_def)
  also have "\<dots> = Inr (replicate z 0 @ be_bytes (be_val bs))"
    by (simp only: base58Decode_map [OF small] lead val)
  also have "\<dots> = Inr bs"
    using split_leading_zeros [of bs] by (simp add: be_bytes_be_val z_def)
  finally show ?thesis .
qed

theorem base58Encode_Decode: "base58Decode s = Inr bs \<Longrightarrow> base58Encode bs = s"
proof -
  assume d: "base58Decode s = Inr bs"
  then obtain n where "base58_number 0 s = Inr n" by (auto simp: base58Decode_def res_simps)
  then obtain ds where small: "\<forall>d \<in> set ds. d < 58" and s: "s = map (\<lambda>d. base58Alphabet ! d) ds"
    by (auto simp: base58_number_Inr)
  define z where "z = length (takeWhile (\<lambda>d. d = 0) ds)"
  from d s small have bs: "bs = replicate z 0 @ be_bytes (horner 58 ds)"
    by (simp add: base58Decode_map z_def)
  have nz: "be_bytes (horner 58 ds) = [] \<or> hd (be_bytes (horner 58 ds)) \<noteq> 0"
    using be_bytes_be_val [of "be_bytes (horner 58 ds)"]
    unfolding be_val_be_bytes using dropWhile_eq_self_iff [of "\<lambda>b. b = 0"] by metis
  have "length (takeWhile (\<lambda>b. b = 0) bs) = z"
    unfolding bs by (rule takeWhile_replicate_append [OF nz])
  moreover have "rev (digs 58 (be_val bs)) = dropWhile (\<lambda>d. d = 0) ds"
    using small by (simp add: bs digs_horner)
  ultimately have "base58Encode bs = map (\<lambda>d. base58Alphabet ! d) (replicate z 0 @ dropWhile (\<lambda>d. d = 0) ds)"
    by (simp add: base58Encode_eq)
  also have "replicate z 0 @ dropWhile (\<lambda>d. d = 0) ds = ds"
    unfolding z_def by (rule split_leading_zeros [symmetric])
  finally show ?thesis by (simp add: s)
qed

subsection \<open>Addresses from public keys\<close>

definition deriveEthAddress :: "(bytes \<Rightarrow> string option) \<Rightarrow> bytes \<Rightarrow> string res" where
  "deriveEthAddress pubkeyAddr compressed = (case pubkeyAddr compressed of
       None \<Rightarrow> Inl (Wrap ''decompress pubkey'' (Msg ''invalid public key''))
     | Some a \<Rightarrow> Inr a)"

definition deriveSolAddress :: "bytes \<Rightarrow> string res" where
  "deriveSolAddress pubBytes =
     (if length pubBytes = 33 \<and> pubBytes ! 0 \<noteq> 2 \<and> pubBytes ! 0 \<noteq> 3
      then Inl (Msg ''unexpected 33-byte key prefix'')
      else let raw = (if length pubBytes = 33 then drop 1 pubBytes else pubBytes)
           in if length raw \<noteq> 32 then Inl (Msg ''invalid ed25519 pubkey length'')
              else Inr (base58Encode raw))"

definition DeriveAddress :: "(bytes \<Rightarrow> string option) \<Rightarrow> string \<Rightarrow> string \<Rightarrow> string res" where
  "DeriveAddress pubkeyAddr family pubkeyHex =
     (case hex_decode (trim_prefix pubkeyHex ''0x'') of
       None \<Rightarrow> Inl (Wrap ''invalid pubkey hex'' (Msg ''encoding/hex''))
     | Some pub \<Rightarrow>
         if family = ''evm'' then deriveEthAddress pubkeyAddr pub
         else if family = ''solana'' then deriveSolAddress pub
         else Inl (Msg (''unsupported chain family: '' @ family)))"

subsection \<open>Program-derived addresses\<close>

definition splTokenProgramID :: string where
  "splTokenProgramID = ''TokenkegQfeZyiNwAJbNbGKPFXCWuBvf9Ss623VQ5DA''"

definition ataProgramID :: string where
  "ataProgramID = ''ATokenGPvbdGVxr1b2hvZbsiqW5xWH25efTNsLJA8knL''"

definition pda_candidate :: "bytes list \<Rightarrow> bytes \<Rightarrow> nat \<Rightarrow> bytes" where
  "pda_candidate seeds programID bump =
     sha256 (concat seeds @ [of_nat bump] @ programID @ bytes_of_string ''ProgramDerivedAddress'')"

text \<open>The loop over the bump byte, from its current value down to zero.\<close>

primrec pda_loop :: "(bytes \<Rightarrow> bool) \<Rightarrow> bytes list \<Rightarrow> bytes \<Rightarrow> nat \<Rightarrow> (bytes \<times> byte) res" where
  "pda_loop isOnCurve seeds programID 0 =
     (let c = pda_candidate seeds programID 0
      in if \<not> isOnCurve c then Inr (c, 0)
         else Inl (Msg ''could not find valid PDA (all 256 bumps are on curve)''))"
| "pda_loop isOnCurve seeds programID (Suc b) =
     (let c = pda_candidate seeds programID (Suc b)
      in if \<not> isOnCurve c then Inr (c, of_nat (Suc b))
         else pda_loop isOnCurve seeds programID b)"

definition FindProgramAddress :: "(bytes \<Rightarrow> bool) \<Rightarrow> bytes list \<Rightarrow> bytes \<Rightarrow> (bytes \<times> byte) res" where
  "FindProgramAddress isOnCurve seeds programID = pda_loop isOnCurve seeds programID 255"

definition DeriveATA :: "(bytes \<Rightarrow> bool) \<Rightarrow> string \<Rightarrow> string \<Rightarrow> bytes res" where
  "DeriveATA isOnCurve walletAddr mintAddr =
     and_then (wrap_err ''invalid wallet address'' (base58Decode walletAddr)) (\<lambda>wallet.
     and_then (wrap_err ''invalid token program ID'' (base58Decode splTokenProgramID)) (\<lambda>tokenProgram.
     and_then (wrap_err ''invalid mint address'' (base58Decode mintAddr)) (\<lambda>mint.
     and_then (wrap_err ''invalid ATA program ID'' (base58Decode ataProgramID)) (\<lambda>ataProgram.
     and_then (wrap_err ''derive ATA''
                (FindProgramAddress isOnCurve [wallet, tokenProgram, mint] ataProgram)) (\<lambda>(addr, _).
     Inr addr)))))"

lemma pda_loop_Inr_iff:
  "pda_loop oc seeds pid k = Inr (c, b) \<longleftrightarrow>
   (\<exists>n \<le> k. c = pda_candidate seeds pid n \<and> b = of_nat n \<and> \<not> oc c
      \<and> (\<forall>m. n < m \<and> m \<le> k \<longrightarrow> oc (pda_candidate seeds pid m)))"
proof (induction k)
  case 0
  then show ?case by (auto simp: Let_def)
next
  case (Suc k)
  show ?case
  proof (cases "oc (pda_candidate seeds pid (Suc k))")
    case True
    then have "pda_loop oc seeds pid (Suc k) = Inr (c, b) \<longleftrightarrow> pda_loop oc seeds pid k = Inr (c, b)"
      by (simp add: Let_def)
    with Suc True show ?thesis by (auto simp: le_Suc_eq)
  next
    case False
    then have "pda_loop oc seeds pid (Suc k) = Inr (pda_candidate seeds pid (Suc k), of_nat (Suc k))"
      by (simp add: Let_def)
    with False show ?thesis by (auto simp: le_Suc_eq)
  qed
qed

lemma pda_loop_Inl_iff:
  "(\<exists>e. pda_loop oc seeds pid k = Inl e) \<longleftrightarrow> (\<forall>m \<le> k. oc (pda_candidate seeds pid m))"
  by (induction k) (auto simp: Let_def le_Suc_eq)

lemma length_pda_candidate [simp]: "length (pda_candidate seeds pid n) = 32"
  by (simp add: pda_candidate_def)

lemma DeriveATA_length: "DeriveATA oc w m = Inr a \<Longrightarrow> length a = 32"
  by (auto simp: DeriveATA_def FindProgramAddress_def and_then_eq_Inr pda_loop_Inr_iff
      split: prod.splits)

subsection \<open>Properties\<close>

text \<open>C26. Base58 decoding and encoding are inverse to each other: a string decodes to a byte
  string exactly when it is the encoding of these bytes, leading zero bytes included.\<close>

theorem base58_roundtrip: "base58Decode s = Inr bs \<longleftrightarrow> base58Encode bs = s"
  using base58Decode_Encode [of bs] base58Encode_Decode [of s bs] by auto

text \<open>A Solana address is derived exactly from a 32-byte key, or from a 33-byte key whose
  prefix is \<open>0x02\<close> or \<open>0x03\<close>, and it decodes back to the 32 raw key bytes.\<close>

theorem deriveSolAddress_iff:
  "deriveSolAddress key = Inr a \<longleftrightarrow>
   (\<exists>raw. length raw = 32 \<and> (key = raw \<or> key = 2 # raw \<or> key = 3 # raw) \<and> base58Decode a = Inr raw)"
proof -
  have dec: "base58Encode raw = a \<longleftrightarrow> base58Decode a = Inr raw" for raw
    using base58Decode_Encode [of raw] base58Encode_Decode [of a raw] by auto
  show ?thesis
    by (cases key) (auto simp: deriveSolAddress_def Let_def dec)
qed

lemma pda_loop_find:
  "pda_loop oc seeds pid k =
     (case find (\<lambda>n. \<not> oc (pda_candidate seeds pid n)) (rev [0..<Suc k]) of
        None \<Rightarrow> Inl (Msg ''could not find valid PDA (all 256 bumps are on curve)'')
      | Some n \<Rightarrow> Inr (pda_candidate seeds pid n, of_nat n))"
  by (induction k) (auto simp: Let_def)

text \<open>C27. \<open>FindProgramAddress\<close> returns the candidate of the greatest bump in 255, 254, \<dots>, 0 whose
  hash is off the curve, together with that bump, and fails exactly when all 256 candidates are on
  the curve.\<close>

theorem FindProgramAddress_greatest:
  "FindProgramAddress oc seeds pid =
     (case find (\<lambda>n. \<not> oc (pda_candidate seeds pid n)) (rev [0..<256]) of
        None \<Rightarrow> Inl (Msg ''could not find valid PDA (all 256 bumps are on curve)'')
      | Some n \<Rightarrow> Inr (pda_candidate seeds pid n, of_nat n))"
  using pda_loop_find [of oc seeds pid 255] by (simp add: FindProgramAddress_def)

end
