(* ===== verification/TxSol.thy ===== *)
theory TxSol
  imports TxEth Address
begin

text \<open>
  Solana transactions (\<open>chain/tx_sol.go\<close>): the binary messages of a system transfer, an SPL token
  transfer, a generic program call and of wrapping and unwrapping SOL, the operations that fetch a
  recent blockhash and build or rebuild them, and assembling and broadcasting the signed
  transaction. Messages are compared with a decoder of the legacy Solana message format, which is
  defined in the theory that follows; here are the definitions of the code.
\<close>

subsection \<open>Encodings\<close>

definition compactU16_bytes :: "nat \<Rightarrow> bytes" where
  "compactU16_bytes v =
     (if v \<le> 127 then [of_nat v]
      else if v \<le> 16383 then [of_nat (v mod 128 + 128), of_nat (v div 128)]
      else [of_nat (v mod 128 + 128), of_nat (v div 128 mod 128 + 128), of_nat (v div 16384)])"

definition compactU16 :: "nat \<Rightarrow> bytes res" where
  "compactU16 v = (if v > 65535 then Inl (Panic ''compactU16: value out of range'') else Inr (compactU16_bytes v))"

text \<open>\<open>base64.StdEncoding.EncodeToString\<close>.\<close>

definition base64_alphabet :: string where
  "base64_alphabet = ''ABCDEFGHIJKLMNOPQRSTUVWXYZabcdefghijklmnopqrstuvwxyz0123456789+/''"

definition base64_char :: "nat \<Rightarrow> char" where
  "base64_char n = base64_alphabet ! (n mod 64)"

fun base64_encode :: "bytes \<Rightarrow> string" where
  "base64_encode [] = []"
| "base64_encode [a] = (let n = unat a * 16
     in [base64_char (n div 64), base64_char n, CHR ''='', CHR ''=''])"
| "base64_encode [a, b] = (let n = (unat a * 256 + unat b) * 4
     in [base64_char (n div 4096), base64_char (n div 64), base64_char n, CHR ''=''])"
| "base64_encode (a # b # c # r) = (let n = (unat a * 256 + unat b) * 256 + unat c
     in [base64_char (n div 262144), base64_char (n div 4096), base64_char (n div 64), base64_char n]
        @ base64_encode r)"

subsection \<open>Parameters\<close>

record sol_tx_params =
  sol_From :: string
  sol_To :: string
  sol_Lamports :: u64
  sol_Blockhash :: string

record sol_token_params =
  stp_From :: string
  stp_To :: string
  stp_Mint :: string
  stp_Amount :: u64
  stp_Decimals :: int
  stp_Blockhash :: string

record sol_account_meta =
  am_Pubkey :: string
  am_IsSigner :: bool
  am_IsWritable :: bool

record sol_program_params =
  spp_From :: string
  spp_ProgramID :: string
  spp_Accounts :: "sol_account_meta list"
  spp_Data :: string
  spp_Blockhash :: string

record sol_wrap_params =
  swp_From :: string
  swp_Lamports :: u64
  swp_Blockhash :: string
  swp_Wrap :: bool

text \<open>The built transaction: parameters and message bytes.\<close>

record 'p sol_tx_data =
  std_Params :: 'p
  std_MessageBytes :: bytes

subsection \<open>Messages\<close>

definition systemProgramID :: bytes where
  "systemProgramID = replicate 32 0"

definition nativeMintID :: string where
  "nativeMintID = ''So11111111111111111111111111111111111111112''"

text \<open>\<open>p, err := base58Decode(s)\<close> with the guard \<open>err != nil || len(p) != 32\<close>.\<close>

definition pub32 :: "string \<Rightarrow> string \<Rightarrow> bytes res" where
  "pub32 msg addr = (case base58Decode addr of
       Inl e \<Rightarrow> Inl (Msg msg) | Inr p \<Rightarrow> if length p \<noteq> 32 then Inl (Msg msg) else Inr p)"

definition transfer_data :: "u64 \<Rightarrow> bytes" where
  "transfer_data lamports = le_bytes 4 2 @ le_bytes 8 (unat lamports)"

definition buildSOLMessage :: "string \<Rightarrow> string \<Rightarrow> string \<Rightarrow> u64 \<Rightarrow> bytes res" where
  "buildSOLMessage fromAddr toAddr blockhash lamports =
     and_then (pub32 ''invalid from address'' fromAddr) (\<lambda>fromPub.
     and_then (pub32 ''invalid to address'' toAddr) (\<lambda>toPub.
     and_then (pub32 ''invalid blockhash'' blockhash) (\<lambda>bhBytes.
     let instrData = transfer_data lamports
     in Inr ([1, 0, 1] @ compactU16_bytes 3 @ fromPub @ toPub @ systemProgramID @ bhBytes
          @ compactU16_bytes 1 @ [2] @ compactU16_bytes 2 @ [0, 1]
          @ compactU16_bytes (length instrData) @ instrData))))"

definition token_data :: "u64 \<Rightarrow> int \<Rightarrow> bytes" where
  "token_data amount decimals = [12] @ le_bytes 8 (unat amount) @ [of_int decimals]"

definition buildSOLTokenTransferMessage ::
    "(bytes \<Rightarrow> bool) \<Rightarrow> string \<Rightarrow> string \<Rightarrow> string \<Rightarrow> u64 \<Rightarrow> int \<Rightarrow> string \<Rightarrow> bytes res" where
  "buildSOLTokenTransferMessage oc fromAddr toAddr mintAddr amount decimals blockhash =
     and_then (wrap_err ''derive source ATA'' (DeriveATA oc fromAddr mintAddr)) (\<lambda>srcATA.
     and_then (wrap_err ''derive dest ATA'' (DeriveATA oc toAddr mintAddr)) (\<lambda>dstATA.
     and_then (pub32 ''invalid from address'' fromAddr) (\<lambda>ownerPub.
     and_then (pub32 ''invalid to address'' toAddr) (\<lambda>destPub.
     and_then (pub32 ''invalid mint address'' mintAddr) (\<lambda>mintPub.
     and_then (pub32 ''invalid token program ID'' splTokenProgramID) (\<lambda>tokenProgramPub.
     and_then (pub32 ''invalid ATA program ID'' ataProgramID) (\<lambda>ataProgramPub.
     and_then (pub32 ''invalid blockhash'' blockhash) (\<lambda>bhBytes.
     let instrData = token_data amount decimals
     in Inr ([1, 0, 5] @ compactU16_bytes 8 @ ownerPub @ srcATA @ dstATA @ mintPub @ tokenProgramPub @ destPub
          @ systemProgramID @ ataProgramPub @ bhBytes @ compactU16_bytes 2
          @ [7] @ compactU16_bytes 6 @ [0, 2, 5, 3, 6, 4] @ compactU16_bytes 1 @ [1]
          @ [4] @ compactU16_bytes 4 @ [1, 3, 2, 0] @ compactU16_bytes (length instrData) @ instrData)))))))))"

definition buildSOLWrapMessage :: "(bytes \<Rightarrow> bool) \<Rightarrow> string \<Rightarrow> u64 \<Rightarrow> string \<Rightarrow> bytes res" where
  "buildSOLWrapMessage oc ownerAddr lamports blockhash =
     and_then (wrap_err ''derive wSOL ATA'' (DeriveATA oc ownerAddr nativeMintID)) (\<lambda>wsolATA.
     and_then (pub32 ''invalid owner address'' ownerAddr) (\<lambda>ownerPub.
     and_then (pub32 ''invalid native mint'' nativeMintID) (\<lambda>nativeMintPub.
     and_then (pub32 ''invalid token program'' splTokenProgramID) (\<lambda>tokenProgramPub.
     and_then (pub32 ''invalid ATA program'' ataProgramID) (\<lambda>ataProgramPub.
     and_then (pub32 ''invalid blockhash'' blockhash) (\<lambda>bhBytes.
     let transferData = transfer_data lamports
     in Inr ([1, 0, 4] @ compactU16_bytes 6 @ ownerPub @ wsolATA @ nativeMintPub @ tokenProgramPub
          @ systemProgramID @ ataProgramPub @ bhBytes @ compactU16_bytes 3
          @ [5] @ compactU16_bytes 6 @ [0, 1, 0, 2, 4, 3] @ compactU16_bytes 1 @ [1]
          @ [4] @ compactU16_bytes 2 @ [0, 1] @ compactU16_bytes (length transferData) @ transferData
          @ [3] @ compactU16_bytes 1 @ [1] @ compactU16_bytes 1 @ [17])))))))"

definition buildSOLUnwrapMessage :: "(bytes \<Rightarrow> bool) \<Rightarrow> string \<Rightarrow> string \<Rightarrow> bytes res" where
  "buildSOLUnwrapMessage oc ownerAddr blockhash =
     and_then (wrap_err ''derive wSOL ATA'' (DeriveATA oc ownerAddr nativeMintID)) (\<lambda>wsolATA.
     and_then (pub32 ''invalid owner address'' ownerAddr) (\<lambda>ownerPub.
     and_then (pub32 ''invalid token program'' splTokenProgramID) (\<lambda>tokenProgramPub.
     and_then (pub32 ''invalid blockhash'' blockhash) (\<lambda>bhBytes.
     Inr ([1, 0, 1] @ compactU16_bytes 3 @ ownerPub @ wsolATA @ tokenProgramPub @ bhBytes
          @ compactU16_bytes 1 @ [2] @ compactU16_bytes 3 @ [1, 0, 0] @ compactU16_bytes 1 @ [9])))))"

subsection \<open>The message of a generic program call\<close>

text \<open>Merging an instruction account into the list; the index kept by \<open>seen\<close> is the position of the
  key in it.\<close>

primrec merge_flags :: "sol_account_meta \<Rightarrow> sol_account_meta list \<Rightarrow> sol_account_meta list option" where
  "merge_flags a [] = None"
| "merge_flags a (x # xs) =
     (if am_Pubkey x = am_Pubkey a
      then Some (x\<lparr>am_IsSigner := am_IsSigner x \<or> am_IsSigner a, am_IsWritable := am_IsWritable x \<or> am_IsWritable a\<rparr> # xs)
      else map_option ((#) x) (merge_flags a xs))"

primrec collect_accounts :: "sol_account_meta list \<Rightarrow> sol_account_meta list \<Rightarrow> sol_account_meta list res" where
  "collect_accounts accts [] = Inr accts"
| "collect_accounts accts (a # as) = (case merge_flags a accts of
       Some accts' \<Rightarrow> collect_accounts accts' as
     | None \<Rightarrow> and_then (pub32 ''invalid account pubkey'' (am_Pubkey a)) (\<lambda>_.
                collect_accounts (accts @ [a]) as))"

definition acct_group :: "sol_account_meta \<Rightarrow> nat" where
  "acct_group a = (if am_IsSigner a \<and> am_IsWritable a then 0 else if am_IsSigner a then 1
     else if am_IsWritable a then 2 else 3)"

text \<open>The inner loop moves an element left past every element of a greater group; the sorted part is
  kept in reverse.\<close>

primrec shift_left :: "sol_account_meta \<Rightarrow> sol_account_meta list \<Rightarrow> sol_account_meta list" where
  "shift_left a [] = [a]"
| "shift_left a (x # xs) = (if acct_group a < acct_group x then x # shift_left a xs else a # x # xs)"

definition sort_accounts :: "sol_account_meta list \<Rightarrow> sol_account_meta list" where
  "sort_accounts accts = rev (foldl (\<lambda>done a. shift_left a done) [] accts)"

definition all_accounts :: "string \<Rightarrow> string \<Rightarrow> sol_account_meta list \<Rightarrow> sol_account_meta list res" where
  "all_accounts fromAddr programID accounts =
     and_then (collect_accounts [\<lparr>am_Pubkey = fromAddr, am_IsSigner = True, am_IsWritable = True\<rparr>] accounts) (\<lambda>accts.
     Inr (if programID \<in> set (map am_Pubkey accts) then accts
          else accts @ [\<lparr>am_Pubkey = programID, am_IsSigner = False, am_IsWritable = False\<rparr>]))"

text \<open>\<open>indexMap[k]\<close>: the last position of the key, and 0 for a missing key.\<close>

definition key_index :: "sol_account_meta list \<Rightarrow> string \<Rightarrow> nat" where
  "key_index sortedAccts k = (case map_of (rev (zip (map am_Pubkey sortedAccts) [0..<length sortedAccts])) k of
     None \<Rightarrow> 0 | Some i \<Rightarrow> i)"

definition buildSOLProgramCallMessage ::
    "string \<Rightarrow> string \<Rightarrow> sol_account_meta list \<Rightarrow> bytes \<Rightarrow> string \<Rightarrow> bytes res" where
  "buildSOLProgramCallMessage fromAddr programID accounts instrData blockhash =
     and_then (pub32 ''invalid from address'' fromAddr) (\<lambda>fromPub.
     and_then (pub32 ''invalid program ID'' programID) (\<lambda>progPub.
     and_then (pub32 ''invalid blockhash'' blockhash) (\<lambda>bhBytes.
     and_then (all_accounts fromAddr programID accounts) (\<lambda>accts.
     let sortedAccts = sort_accounts accts;
         numSigners = length (filter am_IsSigner sortedAccts);
         numReadonlySigned = length (filter (\<lambda>a. am_IsSigner a \<and> \<not> am_IsWritable a) sortedAccts);
         numReadonlyUnsigned = length (filter (\<lambda>a. \<not> am_IsSigner a \<and> \<not> am_IsWritable a) sortedAccts);
         keys = concat (map (\<lambda>a. case base58Decode (am_Pubkey a) of Inr p \<Rightarrow> p | Inl _ \<Rightarrow> []) sortedAccts);
         instrAcctIndices = map (\<lambda>a. of_nat (key_index sortedAccts (am_Pubkey a))) accounts
     in and_then (compactU16 (length sortedAccts)) (\<lambda>nKeys.
        and_then (compactU16 (length instrAcctIndices)) (\<lambda>nAccts.
        and_then (compactU16 (length instrData)) (\<lambda>nData.
        Inr ([of_nat numSigners, of_nat numReadonlySigned, of_nat numReadonlyUnsigned]
          @ nKeys @ keys @ bhBytes @ compactU16_bytes 1 @ [of_nat (key_index sortedAccts programID)]
          @ nAccts @ instrAcctIndices @ nData @ instrData))))))))"

subsection \<open>Building and rebuilding\<close>

definition as_map :: "json option \<Rightarrow> jobj" where
  "as_map j = (case j of Some (JObj kvs) \<Rightarrow> kvs | _ \<Rightarrow> [])"

definition sol_url :: "string \<Rightarrow> string" where
  "sol_url rpcURL = (if rpcURL = [] then ''https://api.mainnet-beta.solana.com'' else rpcURL)"

definition fetch_blockhash :: "'e cenv \<Rightarrow> string \<Rightarrow> ('s rstate, string) io" where
  "fetch_blockhash env url =
     seq (wrapping ''get blockhash'' (jsonRPCWithRetry env url
            (rpc_request ''getLatestBlockhash'' [JObj [(''commitment'', JStr ''finalized'')]]))) (\<lambda>result.
     let blockhash = str_or_empty ''blockhash'' (as_map (jget ''value'' (as_map (jget ''result'' result))))
     in if blockhash = [] then fail (Msg ''empty blockhash from RPC'') else ret blockhash)"

definition float_lamports :: "fval \<Rightarrow> u64 res" where
  "float_lamports amountSOL = (case bf_Mul 53 (bf_SetFloat64 amountSOL) (bf_SetFloat64 (Fin 1000000000)) of
     None \<Rightarrow> Inl (Panic ''big.ErrNaN'') | Some b \<Rightarrow> Inr (bf_Uint64 b))"

definition BuildSOLTx :: "'e cenv \<Rightarrow> string \<Rightarrow> string \<Rightarrow> string \<Rightarrow> fval \<Rightarrow> ('s rstate, sol_tx_params sol_tx_data) io" where
  "BuildSOLTx env rpcURL fromAddr toAddr amountSOL =
     (if fv_less amountSOL (Fin 0) then fail (Msg ''amount must not be negative'') else
      seq (lift (float_lamports amountSOL)) (\<lambda>lamports.
      if lamports = 0 then fail (Msg ''amount too small (rounds to 0 lamports)'') else
      seq (fetch_blockhash env (sol_url rpcURL)) (\<lambda>blockhash.
      seq (lift (buildSOLMessage fromAddr toAddr blockhash lamports)) (\<lambda>msgBytes.
      ret \<lparr>std_Params = \<lparr>sol_From = fromAddr, sol_To = toAddr, sol_Lamports = lamports, sol_Blockhash = blockhash\<rparr>,
           std_MessageBytes = msgBytes\<rparr>))))"

definition BuildSOLTxFromLamports ::
    "'e cenv \<Rightarrow> string \<Rightarrow> string \<Rightarrow> string \<Rightarrow> u64 \<Rightarrow> ('s rstate, sol_tx_params sol_tx_data) io" where
  "BuildSOLTxFromLamports env rpcURL fromAddr toAddr lamports =
     (if lamports = 0 then fail (Msg ''amount must be positive'') else
      seq (fetch_blockhash env (sol_url rpcURL)) (\<lambda>blockhash.
      seq (lift (buildSOLMessage fromAddr toAddr blockhash lamports)) (\<lambda>msgBytes.
      ret \<lparr>std_Params = \<lparr>sol_From = fromAddr, sol_To = toAddr, sol_Lamports = lamports, sol_Blockhash = blockhash\<rparr>,
           std_MessageBytes = msgBytes\<rparr>)))"

definition BuildSOLTokenTransferTx ::
    "'e cenv \<Rightarrow> string \<Rightarrow> string \<Rightarrow> string \<Rightarrow> string \<Rightarrow> u64 \<Rightarrow> int \<Rightarrow> ('s rstate, sol_token_params sol_tx_data) io" where
  "BuildSOLTokenTransferTx env rpcURL fromAddr toAddr mintAddr amount decimals =
     seq (fetch_blockhash env (sol_url rpcURL)) (\<lambda>blockhash.
     seq (lift (buildSOLTokenTransferMessage (isOnCurve env) fromAddr toAddr mintAddr amount decimals blockhash)) (\<lambda>msgBytes.
     ret \<lparr>std_Params = \<lparr>stp_From = fromAddr, stp_To = toAddr, stp_Mint = mintAddr, stp_Amount = amount,
            stp_Decimals = decimals, stp_Blockhash = blockhash\<rparr>, std_MessageBytes = msgBytes\<rparr>))"

definition RebuildSOLTokenTransferTx ::
    "'e cenv \<Rightarrow> string \<Rightarrow> sol_token_params \<Rightarrow> ('s rstate, sol_token_params sol_tx_data) io" where
  "RebuildSOLTokenTransferTx env rpcURL p =
     BuildSOLTokenTransferTx env rpcURL (stp_From p) (stp_To p) (stp_Mint p) (stp_Amount p) (stp_Decimals p)"

definition BuildSOLProgramCallTx ::
    "'e cenv \<Rightarrow> string \<Rightarrow> string \<Rightarrow> string \<Rightarrow> sol_account_meta list \<Rightarrow> bytes \<Rightarrow> ('s rstate, sol_program_params sol_tx_data) io" where
  "BuildSOLProgramCallTx env rpcURL fromAddr programID accounts instrData =
     seq (fetch_blockhash env (sol_url rpcURL)) (\<lambda>blockhash.
     seq (lift (buildSOLProgramCallMessage fromAddr programID accounts instrData blockhash)) (\<lambda>msgBytes.
     ret \<lparr>std_Params = \<lparr>spp_From = fromAddr, spp_ProgramID = programID, spp_Accounts = accounts,
            spp_Data = hex_encode instrData, spp_Blockhash = blockhash\<rparr>, std_MessageBytes = msgBytes\<rparr>))"

definition RebuildSOLProgramCallTx ::
    "'e cenv \<Rightarrow> string \<Rightarrow> sol_program_params \<Rightarrow> ('s rstate, sol_program_params sol_tx_data) io" where
  "RebuildSOLProgramCallTx env rpcURL p = (case hex_decode (spp_Data p) of
       None \<Rightarrow> fail (Wrap ''decode instruction data hex'' (Msg ''encoding/hex''))
     | Some instrData \<Rightarrow> BuildSOLProgramCallTx env rpcURL (spp_From p) (spp_ProgramID p) (spp_Accounts p) instrData)"

definition wrap_tx :: "'e cenv \<Rightarrow> string \<Rightarrow> string \<Rightarrow> u64 \<Rightarrow> ('s rstate, sol_wrap_params sol_tx_data) io" where
  "wrap_tx env rpcURL ownerAddr lamports =
     seq (fetch_blockhash env (sol_url rpcURL)) (\<lambda>blockhash.
     seq (lift (buildSOLWrapMessage (isOnCurve env) ownerAddr lamports blockhash)) (\<lambda>msgBytes.
     ret \<lparr>std_Params = \<lparr>swp_From = ownerAddr, swp_Lamports = lamports, swp_Blockhash = blockhash, swp_Wrap = True\<rparr>,
          std_MessageBytes = msgBytes\<rparr>))"

definition BuildSOLWrapTx :: "'e cenv \<Rightarrow> string \<Rightarrow> string \<Rightarrow> fval \<Rightarrow> ('s rstate, sol_wrap_params sol_tx_data) io" where
  "BuildSOLWrapTx env rpcURL ownerAddr amountSOL =
     seq (lift (float_lamports amountSOL)) (\<lambda>lamports.
     if lamports = 0 then fail (Msg ''amount too small (rounds to 0 lamports)'')
     else wrap_tx env rpcURL ownerAddr lamports)"

definition BuildSOLWrapTxFromLamports ::
    "'e cenv \<Rightarrow> string \<Rightarrow> string \<Rightarrow> u64 \<Rightarrow> ('s rstate, sol_wrap_params sol_tx_data) io" where
  "BuildSOLWrapTxFromLamports env rpcURL ownerAddr lamports =
     (if lamports = 0 then fail (Msg ''amount must be positive'') else wrap_tx env rpcURL ownerAddr lamports)"

definition buildSOLWrapTxFromLamports ::
    "'e cenv \<Rightarrow> string \<Rightarrow> string \<Rightarrow> u64 \<Rightarrow> ('s rstate, sol_wrap_params sol_tx_data) io" where
  "buildSOLWrapTxFromLamports env rpcURL ownerAddr lamports =
     (if lamports = 0 then fail (Msg ''amount too small (rounds to 0 lamports)'') else wrap_tx env rpcURL ownerAddr lamports)"

definition BuildSOLUnwrapTx :: "'e cenv \<Rightarrow> string \<Rightarrow> string \<Rightarrow> ('s rstate, sol_wrap_params sol_tx_data) io" where
  "BuildSOLUnwrapTx env rpcURL ownerAddr =
     seq (fetch_blockhash env (sol_url rpcURL)) (\<lambda>blockhash.
     seq (lift (buildSOLUnwrapMessage (isOnCurve env) ownerAddr blockhash)) (\<lambda>msgBytes.
     ret \<lparr>std_Params = \<lparr>swp_From = ownerAddr, swp_Lamports = 0, swp_Blockhash = blockhash, swp_Wrap = False\<rparr>,
          std_MessageBytes = msgBytes\<rparr>))"

definition RebuildSOLWrapTx :: "'e cenv \<Rightarrow> string \<Rightarrow> sol_wrap_params \<Rightarrow> ('s rstate, sol_wrap_params sol_tx_data) io" where
  "RebuildSOLWrapTx env rpcURL p =
     (if swp_Wrap p then buildSOLWrapTxFromLamports env rpcURL (swp_From p) (swp_Lamports p)
      else BuildSOLUnwrapTx env rpcURL (swp_From p))"

subsection \<open>Broadcast\<close>

text \<open>The common end of the four broadcast functions: the transaction with one signature in base64.\<close>

definition send_sol :: "'e cenv \<Rightarrow> string \<Rightarrow> bytes \<Rightarrow> bytes \<Rightarrow> ('s rstate, string) io" where
  "send_sol env url sig msgBytes =
     seq (wrapping ''broadcast'' (jsonRPC env url (rpc_request ''sendTransaction''
            [JStr (base64_encode ([1] @ take 64 sig @ msgBytes)), JObj [(''encoding'', JStr ''base64'')]]))) (\<lambda>result.
     let txSig = str_or_empty ''result'' result
     in if txSig = [] then fail (Msg ''broadcast returned empty transaction signature'') else ret txSig)"

definition AssembleAndBroadcastSOL :: "'e cenv \<Rightarrow> string \<Rightarrow> sol_tx_params \<Rightarrow> bytes \<Rightarrow> ('s rstate, string) io" where
  "AssembleAndBroadcastSOL env rpcURL p sig =
     (if length sig \<noteq> 64 then fail (Msg ''invalid Ed25519 signature length'') else
      seq (lift (buildSOLMessage (sol_From p) (sol_To p) (sol_Blockhash p) (sol_Lamports p)))
        (send_sol env (sol_url rpcURL) sig))"

definition AssembleAndBroadcastSOLToken :: "'e cenv \<Rightarrow> string \<Rightarrow> sol_token_params \<Rightarrow> bytes \<Rightarrow> ('s rstate, string) io" where
  "AssembleAndBroadcastSOLToken env rpcURL p sig =
     (if length sig \<noteq> 64 then fail (Msg ''invalid Ed25519 signature length'') else
      seq (lift (buildSOLTokenTransferMessage (isOnCurve env) (stp_From p) (stp_To p) (stp_Mint p) (stp_Amount p)
             (stp_Decimals p) (stp_Blockhash p)))
        (send_sol env (sol_url rpcURL) sig))"

definition AssembleAndBroadcastSOLProgram :: "'e cenv \<Rightarrow> string \<Rightarrow> sol_program_params \<Rightarrow> bytes \<Rightarrow> ('s rstate, string) io" where
  "AssembleAndBroadcastSOLProgram env rpcURL p sig =
     (if length sig \<noteq> 64 then fail (Msg ''invalid Ed25519 signature length'') else
      case hex_decode (spp_Data p) of
        None \<Rightarrow> fail (Wrap ''decode instruction data hex'' (Msg ''encoding/hex''))
      | Some instrData \<Rightarrow>
          seq (lift (buildSOLProgramCallMessage (spp_From p) (spp_ProgramID p) (spp_Accounts p) instrData (spp_Blockhash p)))
            (send_sol env (sol_url rpcURL) sig))"

definition AssembleAndBroadcastSOLWrap :: "'e cenv \<Rightarrow> string \<Rightarrow> sol_wrap_params \<Rightarrow> bytes \<Rightarrow> ('s rstate, string) io" where
  "AssembleAndBroadcastSOLWrap env rpcURL p sig =
     (if length sig \<noteq> 64 then fail (Msg ''invalid Ed25519 signature length'') else
      seq (lift (if swp_Wrap p then buildSOLWrapMessage (isOnCurve env) (swp_From p) (swp_Lamports p) (swp_Blockhash p)
                 else buildSOLUnwrapMessage (isOnCurve env) (swp_From p) (swp_Blockhash p)))
        (send_sol env (sol_url rpcURL) sig))"

end
