(* ===== verification/SolMessage.thy ===== *)
theory SolMessage
  imports TxSol
begin

text \<open>
  The legacy Solana message format, as a decoder that is independent of the code, and the theorems
  that the messages of \<open>TxSol\<close> decode to the intended accounts and instructions. The privileges of
  an account are read off its position the way the Solana runtime does it: the first
  \<open>num_required_signatures\<close> accounts sign, and within the signers and the others the last ones are
  read-only.
\<close>

subsection \<open>The format\<close>

record sol_instr =
  si_prog :: nat
  si_accts :: "nat list"
  si_data :: bytes

record sol_msg =
  sm_signers :: nat
  sm_ro_signed :: nat
  sm_ro_unsigned :: nat
  sm_keys :: "bytes list"
  sm_blockhash :: bytes
  sm_instrs :: "sol_instr list"

definition read_n :: "nat \<Rightarrow> bytes \<Rightarrow> (bytes \<times> bytes) option" where
  "read_n n bs = (if length bs < n then None else Some (take n bs, drop n bs))"

fun read_compact :: "bytes \<Rightarrow> (nat \<times> bytes) option" where
  "read_compact [] = None"
| "read_compact (b0 # r0) = (if unat b0 < 128 then Some (unat b0, r0) else
     case r0 of [] \<Rightarrow> None | b1 # r1 \<Rightarrow>
       if unat b1 < 128 then Some (unat b0 - 128 + 128 * unat b1, r1) else
       case r1 of [] \<Rightarrow> None | b2 # r2 \<Rightarrow>
         Some (unat b0 - 128 + 128 * (unat b1 - 128) + 16384 * unat b2, r2))"

primrec read_list :: "nat \<Rightarrow> (bytes \<Rightarrow> ('a \<times> bytes) option) \<Rightarrow> bytes \<Rightarrow> ('a list \<times> bytes) option" where
  "read_list 0 rd bs = Some ([], bs)"
| "read_list (Suc n) rd bs = (case rd bs of None \<Rightarrow> None | Some (x, r) \<Rightarrow>
     (case read_list n rd r of None \<Rightarrow> None | Some (xs, r') \<Rightarrow> Some (x # xs, r')))"

definition read_vec :: "bytes \<Rightarrow> (bytes \<times> bytes) option" where
  "read_vec bs = (case read_compact bs of None \<Rightarrow> None | Some (n, r) \<Rightarrow> read_n n r)"

fun read_instr :: "bytes \<Rightarrow> (sol_instr \<times> bytes) option" where
  "read_instr [] = None"
| "read_instr (p # r) = (case read_vec r of None \<Rightarrow> None | Some (accts, r1) \<Rightarrow>
     (case read_vec r1 of None \<Rightarrow> None | Some (dat, r2) \<Rightarrow>
        Some (\<lparr>si_prog = unat p, si_accts = map unat accts, si_data = dat\<rparr>, r2)))"

fun read_msg :: "bytes \<Rightarrow> sol_msg option" where
  "read_msg (s # rs # ru # r) = (case read_compact r of None \<Rightarrow> None | Some (n, r1) \<Rightarrow>
     (case read_list n (read_n 32) r1 of None \<Rightarrow> None | Some (keys, r2) \<Rightarrow>
     (case read_n 32 r2 of None \<Rightarrow> None | Some (bh, r3) \<Rightarrow>
     (case read_compact r3 of None \<Rightarrow> None | Some (k, r4) \<Rightarrow>
     (case read_list k read_instr r4 of
        Some (ins, []) \<Rightarrow> Some \<lparr>sm_signers = unat s, sm_ro_signed = unat rs, sm_ro_unsigned = unat ru,
          sm_keys = keys, sm_blockhash = bh, sm_instrs = ins\<rparr>
      | _ \<Rightarrow> None)))))"
| "read_msg _ = None"

text \<open>The privileges the runtime grants to the account at a position.\<close>

definition signs :: "sol_msg \<Rightarrow> nat \<Rightarrow> bool" where
  "signs m i \<longleftrightarrow> i < sm_signers m"

definition writes :: "sol_msg \<Rightarrow> nat \<Rightarrow> bool" where
  "writes m i \<longleftrightarrow> (if i < sm_signers m then i < sm_signers m - sm_ro_signed m
     else i < length (sm_keys m) - sm_ro_unsigned m)"

subsection \<open>Encoder of the format and round trip\<close>

definition enc_vec :: "bytes \<Rightarrow> bytes" where
  "enc_vec bs = compactU16_bytes (length bs) @ bs"

definition enc_instr :: "sol_instr \<Rightarrow> bytes" where
  "enc_instr i = [of_nat (si_prog i)] @ enc_vec (map of_nat (si_accts i)) @ enc_vec (si_data i)"

definition enc_msg :: "sol_msg \<Rightarrow> bytes" where
  "enc_msg m = [of_nat (sm_signers m), of_nat (sm_ro_signed m), of_nat (sm_ro_unsigned m)]
     @ compactU16_bytes (length (sm_keys m)) @ concat (sm_keys m) @ sm_blockhash m
     @ compactU16_bytes (length (sm_instrs m)) @ concat (map enc_instr (sm_instrs m))"

definition wf_instr :: "sol_instr \<Rightarrow> bool" where
  "wf_instr i \<longleftrightarrow> si_prog i < 256 \<and> list_all (\<lambda>a. a < 256) (si_accts i)
     \<and> length (si_accts i) \<le> 65535 \<and> length (si_data i) \<le> 65535"

definition wf_msg :: "sol_msg \<Rightarrow> bool" where
  "wf_msg m \<longleftrightarrow> sm_signers m < 256 \<and> sm_ro_signed m < 256 \<and> sm_ro_unsigned m < 256
     \<and> length (sm_keys m) \<le> 65535 \<and> list_all (\<lambda>k. length k = 32) (sm_keys m)
     \<and> length (sm_blockhash m) = 32 \<and> length (sm_instrs m) \<le> 65535 \<and> list_all wf_instr (sm_instrs m)"

lemma read_compact_bytes:
  assumes "v \<le> 65535"
  shows "read_compact (compactU16_bytes v @ r) = Some (v, r)"
proof -
  have m: "v mod 128 + 128 < 256" "v div 128 mod 128 + 128 < 256" using mod_less_divisor [of 128] by (simp_all add: less_diff_conv)
  consider "v \<le> 127" | "127 < v" "v \<le> 16383" | "16383 < v" by linarith
  then show ?thesis
  proof cases
    case 1
    then show ?thesis by (simp add: compactU16_bytes_def)
  next
    case 2
    then have "v div 128 < 128" by (simp add: less_mult_imp_div_less)
    with 2 m show ?thesis by (simp add: compactU16_bytes_def del: of_nat_add of_nat_numeral)
  next
    case 3
    then have "v div 16384 < 4" using assms by (simp add: less_mult_imp_div_less)
    moreover have "v div 128 div 128 = v div 16384" by (simp add: div_mult2_eq)
    then have "v mod 128 + 128 * (v div 128 mod 128) + 16384 * (v div 16384) = v"
      using mod_mult_div_eq [of v 128] mod_mult_div_eq [of "v div 128" 128] by linarith
    ultimately show ?thesis using 3 m by (simp add: compactU16_bytes_def del: of_nat_add of_nat_numeral)
  qed
qed

lemma read_n_append [simp]: "length bs = n \<Longrightarrow> read_n n (bs @ r) = Some (bs, r)"
  by (auto simp: read_n_def)

lemma read_vec_enc [simp]: "length bs \<le> 65535 \<Longrightarrow> read_vec (enc_vec bs @ r) = Some (bs, r)"
  by (simp add: read_vec_def enc_vec_def read_compact_bytes)

lemma read_list_enc:
  "(\<And>x r. x \<in> set xs \<Longrightarrow> rd (enc x @ r) = Some (x, r)) \<Longrightarrow>
   read_list (length xs) rd (concat (map enc xs) @ r) = Some (xs, r)"
  by (induction xs arbitrary: r) auto

lemma read_instr_enc: "wf_instr i \<Longrightarrow> read_instr (enc_instr i @ r) = Some (i, r)"
proof -
  assume i: "wf_instr i"
  then have "map unat (map of_nat (si_accts i) :: bytes) = si_accts i"
    by (auto simp: wf_instr_def list_all_iff intro: map_idI)
  then show ?thesis using i by (simp add: enc_instr_def wf_instr_def)
qed

theorem read_enc_msg: "wf_msg m \<Longrightarrow> read_msg (enc_msg m) = Some m"
proof -
  assume m: "wf_msg m"
  have keys: "read_list (length (sm_keys m)) (read_n 32) (concat (sm_keys m) @ r) = Some (sm_keys m, r)" for r
    using read_list_enc [of "sm_keys m" "read_n 32" "\<lambda>k. k" r] m by (simp add: wf_msg_def list_all_iff)
  have ins: "read_list (length (sm_instrs m)) read_instr (concat (map enc_instr (sm_instrs m))) = Some (sm_instrs m, [])"
    using read_list_enc [of "sm_instrs m" read_instr enc_instr "[]"] m read_instr_enc
    by (simp add: wf_msg_def list_all_iff)
  show ?thesis
    using m by (simp add: enc_msg_def wf_msg_def read_compact_bytes keys ins)
qed

subsection \<open>The fixed messages\<close>

lemma pub32_Inr [simp]: "pub32 m a = Inr p \<longleftrightarrow> base58Decode a = Inr p \<and> length p = 32"
  by (auto simp: pub32_def split: sum.splits)

lemma length_transfer_data [simp]: "length (transfer_data l) = 12"
  by (simp add: transfer_data_def)

lemma length_token_data [simp]: "length (token_data a d) = 10"
  by (simp add: token_data_def)

lemma length_systemProgramID [simp]: "length systemProgramID = 32"
  by (simp add: systemProgramID_def)

definition transfer_msg :: "bytes \<Rightarrow> bytes \<Rightarrow> bytes \<Rightarrow> u64 \<Rightarrow> sol_msg" where
  "transfer_msg fp tp h l = \<lparr>sm_signers = 1, sm_ro_signed = 0, sm_ro_unsigned = 1, sm_keys = [fp, tp, systemProgramID],
     sm_blockhash = h, sm_instrs = [\<lparr>si_prog = 2, si_accts = [0, 1], si_data = transfer_data l\<rparr>]\<rparr>"

definition token_msg :: "bytes list \<Rightarrow> bytes \<Rightarrow> u64 \<Rightarrow> int \<Rightarrow> sol_msg" where
  "token_msg keys h a d = \<lparr>sm_signers = 1, sm_ro_signed = 0, sm_ro_unsigned = 5, sm_keys = keys, sm_blockhash = h,
     sm_instrs = [\<lparr>si_prog = 7, si_accts = [0, 2, 5, 3, 6, 4], si_data = [1]\<rparr>,
                  \<lparr>si_prog = 4, si_accts = [1, 3, 2, 0], si_data = token_data a d\<rparr>]\<rparr>"

definition wrap_msg :: "bytes list \<Rightarrow> bytes \<Rightarrow> u64 \<Rightarrow> sol_msg" where
  "wrap_msg keys h l = \<lparr>sm_signers = 1, sm_ro_signed = 0, sm_ro_unsigned = 4, sm_keys = keys, sm_blockhash = h,
     sm_instrs = [\<lparr>si_prog = 5, si_accts = [0, 1, 0, 2, 4, 3], si_data = [1]\<rparr>,
                  \<lparr>si_prog = 4, si_accts = [0, 1], si_data = transfer_data l\<rparr>,
                  \<lparr>si_prog = 3, si_accts = [1], si_data = [17]\<rparr>]\<rparr>"

definition unwrap_msg :: "bytes list \<Rightarrow> bytes \<Rightarrow> sol_msg" where
  "unwrap_msg keys h = \<lparr>sm_signers = 1, sm_ro_signed = 0, sm_ro_unsigned = 1, sm_keys = keys, sm_blockhash = h,
     sm_instrs = [\<lparr>si_prog = 2, si_accts = [1, 0, 0], si_data = [9]\<rparr>]\<rparr>"

lemmas msg_defs = transfer_msg_def token_msg_def wrap_msg_def unwrap_msg_def wf_msg_def wf_instr_def
  enc_msg_def enc_instr_def enc_vec_def

text \<open>The message of a native transfer decodes to one signature by the sender, the accounts sender,
  recipient and system program, the given blockhash, and the single instruction \<open>Transfer\<close> of the
  given lamports from the first account to the second.\<close>

theorem buildSOLMessage_decodes:
  assumes "buildSOLMessage fromAddr toAddr blockhash lamports = Inr m"
  shows "\<exists>fp tp h. base58Decode fromAddr = Inr fp \<and> base58Decode toAddr = Inr tp \<and> base58Decode blockhash = Inr h
    \<and> read_msg m = Some (transfer_msg fp tp h lamports)"
proof -
  from assms obtain fp tp h where d: "base58Decode fromAddr = Inr fp" "base58Decode toAddr = Inr tp"
    "base58Decode blockhash = Inr h" and l: "length fp = 32" "length tp = 32" "length h = 32"
    and m: "m = enc_msg (transfer_msg fp tp h lamports)"
    by (auto simp: buildSOLMessage_def and_then_eq_Inr Let_def msg_defs compactU16_bytes_def)
  have "wf_msg (transfer_msg fp tp h lamports)" using l by (simp add: msg_defs)
  with d m show ?thesis by (simp add: read_enc_msg)
qed


text \<open>The wrap message creates the owner's token account of the native mint, transfers the given
  lamports to it and synchronises it; the unwrap message closes that account in favour of the owner.\<close>

theorem buildSOLWrapMessage_decodes:
  assumes "buildSOLWrapMessage oc owner lamports blockhash = Inr m" and "buildSOLUnwrapMessage oc owner blockhash = Inr u"
  shows "\<exists>p a mp tk ata h. base58Decode owner = Inr p \<and> DeriveATA oc owner nativeMintID = Inr a
    \<and> base58Decode nativeMintID = Inr mp \<and> base58Decode splTokenProgramID = Inr tk \<and> base58Decode ataProgramID = Inr ata
    \<and> base58Decode blockhash = Inr h
    \<and> read_msg m = Some (wrap_msg [p, a, mp, tk, systemProgramID, ata] h lamports) \<and> read_msg u = Some (unwrap_msg [p, a, tk] h)"
proof -
  from assms obtain p a mp tk ata h where d: "base58Decode owner = Inr p" "DeriveATA oc owner nativeMintID = Inr a"
    "base58Decode nativeMintID = Inr mp" "base58Decode splTokenProgramID = Inr tk" "base58Decode ataProgramID = Inr ata"
    "base58Decode blockhash = Inr h"
    and l: "length p = 32" "length mp = 32" "length tk = 32" "length ata = 32" "length h = 32"
    and m: "m = enc_msg (wrap_msg [p, a, mp, tk, systemProgramID, ata] h lamports)" "u = enc_msg (unwrap_msg [p, a, tk] h)"
    by (auto simp: buildSOLWrapMessage_def buildSOLUnwrapMessage_def and_then_eq_Inr Let_def msg_defs compactU16_bytes_def)
  have "length a = 32" using d DeriveATA_length by auto
  with l have "wf_msg (wrap_msg [p, a, mp, tk, systemProgramID, ata] h lamports)" "wf_msg (unwrap_msg [p, a, tk] h)"
    by (simp_all add: msg_defs)
  with d m show ?thesis by (simp add: read_enc_msg)
qed

subsection \<open>Accounts of a program call\<close>

text \<open>The privileges requested for a key: the fee payer signs and writes, and the flags of all accounts
  with that key are joined.\<close>

definition req_signer :: "string \<Rightarrow> sol_account_meta list \<Rightarrow> string \<Rightarrow> bool" where
  "req_signer payer as k \<longleftrightarrow> k = payer \<or> (\<exists>a \<in> set as. am_Pubkey a = k \<and> am_IsSigner a)"

definition req_writable :: "string \<Rightarrow> sol_account_meta list \<Rightarrow> string \<Rightarrow> bool" where
  "req_writable payer as k \<longleftrightarrow> k = payer \<or> (\<exists>a \<in> set as. am_Pubkey a = k \<and> am_IsWritable a)"

definition accounts_inv :: "string \<Rightarrow> sol_account_meta list \<Rightarrow> sol_account_meta list \<Rightarrow> bool" where
  "accounts_inv payer as accts \<longleftrightarrow> distinct (map am_Pubkey accts)
     \<and> am_Pubkey ` set accts = insert payer (am_Pubkey ` set as)
     \<and> accts \<noteq> [] \<and> am_Pubkey (hd accts) = payer
     \<and> (\<forall>x \<in> set accts. am_IsSigner x = req_signer payer as (am_Pubkey x)
          \<and> am_IsWritable x = req_writable payer as (am_Pubkey x))"

definition join_flags :: "sol_account_meta \<Rightarrow> sol_account_meta \<Rightarrow> sol_account_meta" where
  "join_flags a x = (if am_Pubkey x = am_Pubkey a
     then x\<lparr>am_IsSigner := am_IsSigner x \<or> am_IsSigner a, am_IsWritable := am_IsWritable x \<or> am_IsWritable a\<rparr> else x)"

lemma join_flags_pubkey [simp]: "am_Pubkey (join_flags a x) = am_Pubkey x"
  by (simp add: join_flags_def)

lemma comp_join_flags [simp]: "am_Pubkey \<circ> join_flags a = am_Pubkey"
  by (simp add: fun_eq_iff)

lemma merge_flags_eq:
  "distinct (map am_Pubkey xs) \<Longrightarrow>
   merge_flags a xs = (if am_Pubkey a \<in> am_Pubkey ` set xs then Some (map (join_flags a) xs) else None)"
proof (induction xs)
  case (Cons x xs)
  have "am_Pubkey y \<noteq> am_Pubkey x" if "y \<in> set xs" for y
    using Cons.prems that by (metis distinct.simps(2) image_eqI list.simps(9) list.set_map)
  then have "map (join_flags a) xs = xs" if "am_Pubkey x = am_Pubkey a"
    using that by (intro map_idI) (auto simp: join_flags_def)
  with Cons show ?case by (auto simp: join_flags_def [of a x])
qed simp

lemma accounts_inv_merge:
  assumes "accounts_inv payer as accts" and "am_Pubkey a \<in> am_Pubkey ` set accts"
  shows "accounts_inv payer (as @ [a]) (map (join_flags a) accts)"
proof -
  have hd: "am_Pubkey (hd (map (join_flags a) accts)) = am_Pubkey (hd accts)" if "accts \<noteq> []"
    using that by (simp add: hd_map)
  have keys: "am_Pubkey ` set (map (join_flags a) accts) = am_Pubkey ` set accts"
    by (simp add: image_image)
  have flags: "am_IsSigner (join_flags a x) = req_signer payer (as @ [a]) (am_Pubkey x)
      \<and> am_IsWritable (join_flags a x) = req_writable payer (as @ [a]) (am_Pubkey x)" if "x \<in> set accts" for x
    using assms(1) that by (auto simp: accounts_inv_def join_flags_def req_signer_def req_writable_def)
  show ?thesis
    using assms hd keys flags by (auto simp: accounts_inv_def insert_absorb)
qed

lemma accounts_inv_append:
  assumes "accounts_inv payer as accts" and "am_Pubkey a \<notin> am_Pubkey ` set accts"
  shows "accounts_inv payer (as @ [a]) (accts @ [a])"
proof -
  have "am_Pubkey b \<noteq> am_Pubkey a" if "b \<in> set as" for b
    using assms that by (metis accounts_inv_def image_eqI insertCI)
  then show ?thesis using assms by (auto simp: accounts_inv_def req_signer_def req_writable_def)
qed

lemma collect_accounts_inv:
  "collect_accounts accts as = Inr res \<Longrightarrow> accounts_inv payer done accts \<Longrightarrow> accounts_inv payer (done @ as) res"
proof (induction as arbitrary: accts "done")
  case (Cons a as)
  have dist: "distinct (map am_Pubkey accts)" using Cons.prems(2) by (simp add: accounts_inv_def)
  show ?case
  proof (cases "am_Pubkey a \<in> am_Pubkey ` set accts")
    case True
    then show ?thesis
      using Cons.IH [of "map (join_flags a) accts" "done @ [a]"] Cons.prems accounts_inv_merge [OF Cons.prems(2) True]
      by (simp add: merge_flags_eq [OF dist])
  next
    case False
    then show ?thesis
      using Cons.IH [of "accts @ [a]" "done @ [a]"] Cons.prems accounts_inv_append [OF Cons.prems(2) False]
      by (auto simp: merge_flags_eq [OF dist] and_then_eq_Inr)
  qed
qed simp

lemma accounts_inv_init: "accounts_inv payer [] [\<lparr>am_Pubkey = payer, am_IsSigner = True, am_IsWritable = True\<rparr>]"
  by (simp add: accounts_inv_def req_signer_def req_writable_def)

lemma all_accounts_inv:
  assumes "all_accounts payer prog as = Inr accts"
  shows "distinct (map am_Pubkey accts)" "am_Pubkey ` set accts = insert prog (insert payer (am_Pubkey ` set as))"
    "accts \<noteq> []" "am_Pubkey (hd accts) = payer"
    "\<And>x. x \<in> set accts \<Longrightarrow> am_IsSigner x = req_signer payer as (am_Pubkey x)
        \<and> am_IsWritable x = req_writable payer as (am_Pubkey x)"
proof -
  obtain base where base: "accounts_inv payer as base"
    and accts: "accts = (if prog \<in> am_Pubkey ` set base then base
       else base @ [\<lparr>am_Pubkey = prog, am_IsSigner = False, am_IsWritable = False\<rparr>])"
    using assms collect_accounts_inv [OF _ accounts_inv_init, of _ as] by (auto simp: all_accounts_def and_then_eq_Inr)
  from base show "distinct (map am_Pubkey accts)" "am_Pubkey ` set accts = insert prog (insert payer (am_Pubkey ` set as))"
    "accts \<noteq> []" "am_Pubkey (hd accts) = payer"
    by (auto simp: accts accounts_inv_def)
  from base show "am_IsSigner x = req_signer payer as (am_Pubkey x) \<and> am_IsWritable x = req_writable payer as (am_Pubkey x)"
    if "x \<in> set accts" for x
    using that by (auto simp: accts accounts_inv_def req_signer_def req_writable_def split: if_splits)
qed

subsection \<open>Order of the accounts\<close>

definition group_of :: "nat \<Rightarrow> sol_account_meta list \<Rightarrow> sol_account_meta list" where
  "group_of g xs = filter (\<lambda>a. acct_group a = g) xs"

definition by_group :: "sol_account_meta list \<Rightarrow> sol_account_meta list" where
  "by_group xs = group_of 0 xs @ group_of 1 xs @ group_of 2 xs @ group_of 3 xs"

lemma acct_group_le: "acct_group a \<le> 3"
  by (simp add: acct_group_def)

lemma shift_left_split:
  "\<forall>x \<in> set hi. acct_group a < acct_group x \<Longrightarrow> \<forall>x \<in> set lo. \<not> acct_group a < acct_group x \<Longrightarrow>
   shift_left a (hi @ lo) = hi @ a # lo"
  by (induction hi) (auto, cases lo, auto)

lemma shift_left_by_group: "shift_left a (rev (by_group xs)) = rev (by_group (xs @ [a]))"
proof -
  consider "acct_group a = 0" | "acct_group a = 1" | "acct_group a = 2" | "acct_group a = 3"
    using acct_group_le [of a] by linarith
  then show ?thesis
  proof cases
    case 1
    have "shift_left a (rev (group_of 1 xs @ group_of 2 xs @ group_of 3 xs) @ rev (group_of 0 xs)) = rev (group_of 1 xs @ group_of 2 xs @ group_of 3 xs) @ a # rev (group_of 0 xs)"
      using 1 by (intro shift_left_split) (auto simp: group_of_def)
    then show ?thesis using 1 by (simp add: by_group_def group_of_def)
  next
    case 2
    have "shift_left a (rev (group_of 2 xs @ group_of 3 xs) @ rev (group_of 0 xs @ group_of 1 xs)) = rev (group_of 2 xs @ group_of 3 xs) @ a # rev (group_of 0 xs @ group_of 1 xs)"
      using 2 by (intro shift_left_split) (auto simp: group_of_def)
    then show ?thesis using 2 by (simp add: by_group_def group_of_def)
  next
    case 3
    have "shift_left a (rev (group_of 3 xs) @ rev (group_of 0 xs @ group_of 1 xs @ group_of 2 xs)) = rev (group_of 3 xs) @ a # rev (group_of 0 xs @ group_of 1 xs @ group_of 2 xs)"
      using 3 by (intro shift_left_split) (auto simp: group_of_def)
    then show ?thesis using 3 by (simp add: by_group_def group_of_def)
  next
    case 4
    have "shift_left a (rev ([]) @ rev (group_of 0 xs @ group_of 1 xs @ group_of 2 xs @ group_of 3 xs)) = rev ([]) @ a # rev (group_of 0 xs @ group_of 1 xs @ group_of 2 xs @ group_of 3 xs)"
      using 4 by (intro shift_left_split) (auto simp: group_of_def)
    then show ?thesis using 4 by (simp add: by_group_def group_of_def)
  qed
qed

lemma sort_accounts_by_group: "sort_accounts xs = by_group xs"
proof -
  have "foldl (\<lambda>done a. shift_left a done) [] xs = rev (by_group xs)"
    by (induction xs rule: rev_induct) (simp add: by_group_def group_of_def, simp add: shift_left_by_group)
  then show ?thesis by (simp add: sort_accounts_def)
qed

text \<open>The counts of the header and the flags of the account at a position.\<close>

lemma length_groups:
  "length (filter am_IsSigner (by_group xs)) = length (group_of 0 xs) + length (group_of 1 xs)"
  "length (filter (\<lambda>a. am_IsSigner a \<and> \<not> am_IsWritable a) (by_group xs)) = length (group_of 1 xs)"
  "length (filter (\<lambda>a. \<not> am_IsSigner a \<and> \<not> am_IsWritable a) (by_group xs)) = length (group_of 3 xs)"
proof -
  have t: "filter P (group_of g xs) = group_of g xs" if "\<And>a. acct_group a = g \<Longrightarrow> P a" for P g
    using that by (auto simp: group_of_def filter_filter intro!: filter_cong)
  have f: "filter P (group_of g xs) = []" if "\<And>a. acct_group a = g \<Longrightarrow> \<not> P a" for P g
    using that by (auto simp: group_of_def filter_empty_conv)
  have G: "acct_group a = 0 \<longleftrightarrow> am_IsSigner a \<and> am_IsWritable a" "acct_group a = 1 \<longleftrightarrow> am_IsSigner a \<and> \<not> am_IsWritable a"
    "acct_group a = 2 \<longleftrightarrow> \<not> am_IsSigner a \<and> am_IsWritable a" "acct_group a = 3 \<longleftrightarrow> \<not> am_IsSigner a \<and> \<not> am_IsWritable a" for a
    by (auto simp: acct_group_def)
  show "length (filter am_IsSigner (by_group xs)) = length (group_of 0 xs) + length (group_of 1 xs)"
    unfolding by_group_def filter_append length_append by (subst (1) t, simp add: G, subst t, simp add: G [simplified], subst f, simp add: G, subst f, simp_all add: G)
  show "length (filter (\<lambda>a. am_IsSigner a \<and> \<not> am_IsWritable a) (by_group xs)) = length (group_of 1 xs)"
    unfolding by_group_def filter_append length_append by (subst f, simp add: G, subst t, simp add: G [simplified], subst f, simp add: G, subst f, simp_all add: G)
  show "length (filter (\<lambda>a. \<not> am_IsSigner a \<and> \<not> am_IsWritable a) (by_group xs)) = length (group_of 3 xs)"
    unfolding by_group_def filter_append length_append by (subst f, simp add: G, subst f, simp add: G [simplified], subst f, simp add: G, subst t, simp_all add: G)
qed

lemma flags_at:
  assumes "i < length (by_group xs)"
  shows "am_IsSigner (by_group xs ! i) \<longleftrightarrow> i < length (group_of 0 xs) + length (group_of 1 xs)"
    "am_IsWritable (by_group xs ! i) \<longleftrightarrow>
      (if i < length (group_of 0 xs) + length (group_of 1 xs) then i < length (group_of 0 xs)
       else i < length (by_group xs) - length (group_of 3 xs))"
proof -
  have n: "j < length (group_of g xs) \<Longrightarrow> acct_group (group_of g xs ! j) = g" for j g
    using nth_mem [of j "group_of g xs"] by (simp add: group_of_def)
  have G: "acct_group a = 0 \<Longrightarrow> am_IsSigner a \<and> am_IsWritable a" "acct_group a = 1 \<Longrightarrow> am_IsSigner a \<and> \<not> am_IsWritable a"
    "acct_group a = 2 \<Longrightarrow> \<not> am_IsSigner a \<and> am_IsWritable a" "acct_group a = 3 \<Longrightarrow> \<not> am_IsSigner a \<and> \<not> am_IsWritable a" for a
    by (auto simp: acct_group_def split: if_splits)
  have tot: "i < length (group_of 0 xs) + length (group_of 1 xs) + length (group_of 2 xs) + length (group_of 3 xs)"
    using assms by (simp add: by_group_def)
  have four: "i < a \<or> (\<exists>j. i = a + j \<and> j < b) \<or> (\<exists>j. i = a + b + j \<and> j < c) \<or> (\<exists>j. i = a + b + c + j \<and> j < d)"
    if "i < a + b + c + d" for a b c d :: nat using that by presburger
  consider "i < length (group_of 0 xs)"
    | j where "i = length (group_of 0 xs) + j" "j < length (group_of 1 xs)"
    | j where "i = length (group_of 0 xs) + length (group_of 1 xs) + j" "j < length (group_of 2 xs)"
    | j where "i = length (group_of 0 xs) + length (group_of 1 xs) + length (group_of 2 xs) + j" "j < length (group_of 3 xs)"
    using four [OF tot] by blast
  then show "am_IsSigner (by_group xs ! i) \<longleftrightarrow> i < length (group_of 0 xs) + length (group_of 1 xs)"
    "am_IsWritable (by_group xs ! i) \<longleftrightarrow>
      (if i < length (group_of 0 xs) + length (group_of 1 xs) then i < length (group_of 0 xs)
       else i < length (by_group xs) - length (group_of 3 xs))"
    by (cases; simp add: by_group_def nth_append G n)+
qed

lemma key_index_nth:
  assumes "distinct (map am_Pubkey xs)" "i < length xs"
  shows "key_index xs (am_Pubkey (xs ! i)) = i"
proof -
  have "(am_Pubkey (xs ! i), i) \<in> set (zip (map am_Pubkey xs) [0..<length xs])"
    using assms(2) by (auto simp: in_set_zip intro!: exI [of _ i])
  then have "map_of (rev (zip (map am_Pubkey xs) [0..<length xs])) (am_Pubkey (xs ! i)) = Some i"
    using assms(1) by (subst map_of_eq_Some_iff) (simp_all flip: rev_map)
  then show ?thesis by (simp add: key_index_def)
qed

lemma acct_group_cases: "acct_group a = 0 \<or> acct_group a = 1 \<or> acct_group a = 2 \<or> acct_group a = 3"
  using acct_group_le [of a] by linarith

lemma set_by_group: "set (by_group xs) = set xs"
proof -
  have "x \<in> set (by_group xs) \<longleftrightarrow> x \<in> set xs" for x
    using acct_group_cases [of x] by (auto simp: by_group_def group_of_def)
  then show ?thesis by blast
qed

lemma length_by_group: "length (by_group xs) = length xs"
proof (induction xs)
  case (Cons a xs)
  with acct_group_cases [of a] show ?case by (auto simp: by_group_def group_of_def)
qed (simp add: by_group_def group_of_def)

lemma distinct_by_group: "distinct (map am_Pubkey xs) \<Longrightarrow> distinct (map am_Pubkey (by_group xs))"
proof -
  assume d: "distinct (map am_Pubkey xs)"
  have "card (set (map am_Pubkey (by_group xs))) = length (map am_Pubkey (by_group xs))"
    using distinct_card [OF d] by (simp add: set_by_group length_by_group)
  then show ?thesis by (rule card_distinct)
qed

subsection \<open>The message of a program call\<close>

definition dec_key :: "sol_account_meta \<Rightarrow> bytes" where
  "dec_key a = (case base58Decode (am_Pubkey a) of Inr p \<Rightarrow> p | Inl _ \<Rightarrow> [])"

lemma dec_key_eta: "dec_key = (\<lambda>a. case base58Decode (am_Pubkey a) of Inr p \<Rightarrow> p | Inl _ \<Rightarrow> [])"
  by (simp add: fun_eq_iff dec_key_def)

definition call_msg :: "sol_account_meta list \<Rightarrow> bytes \<Rightarrow> string \<Rightarrow> sol_account_meta list \<Rightarrow> bytes \<Rightarrow> sol_msg" where
  "call_msg accts h prog accounts dat = (let srt = by_group accts in
     \<lparr>sm_signers = length (group_of 0 accts) + length (group_of 1 accts), sm_ro_signed = length (group_of 1 accts),
      sm_ro_unsigned = length (group_of 3 accts), sm_keys = map dec_key srt, sm_blockhash = h,
      sm_instrs = [\<lparr>si_prog = key_index srt prog, si_accts = map (\<lambda>a. key_index srt (am_Pubkey a)) accounts,
        si_data = dat\<rparr>]\<rparr>)"

lemma collect_accounts_keys:
  "collect_accounts accts as = Inr res \<Longrightarrow> \<forall>x \<in> set accts. length (dec_key x) = 32 \<Longrightarrow>
   distinct (map am_Pubkey accts) \<Longrightarrow> \<forall>x \<in> set res. length (dec_key x) = 32"
proof (induction as arbitrary: accts)
  case (Cons a as)
  have dk: "dec_key (join_flags a x) = dec_key x" for x by (simp add: dec_key_def)
  show ?case
  proof (cases "am_Pubkey a \<in> am_Pubkey ` set accts")
    case True
    then show ?thesis
      using Cons.IH [of "map (join_flags a) accts"] Cons.prems by (simp add: merge_flags_eq dk)
  next
    case False
    then show ?thesis
      using Cons.IH [of "accts @ [a]"] Cons.prems
      by (auto simp: merge_flags_eq and_then_eq_Inr dec_key_def)
  qed
qed simp

lemma collect_accounts_length:
  "collect_accounts accts as = Inr res \<Longrightarrow> distinct (map am_Pubkey accts) \<Longrightarrow> length res \<le> length accts + length as"
proof (induction as arbitrary: accts)
  case (Cons a as)
  show ?case
  proof (cases "am_Pubkey a \<in> am_Pubkey ` set accts")
    case True
    then show ?thesis using Cons.IH [of "map (join_flags a) accts"] Cons.prems by (simp add: merge_flags_eq)
  next
    case False
    then show ?thesis using Cons.IH [of "accts @ [a]"] Cons.prems by (auto simp: merge_flags_eq and_then_eq_Inr)
  qed
qed simp

lemma all_accounts_bounds:
  assumes "all_accounts payer prog as = Inr accts" "base58Decode payer = Inr p" "length p = 32"
    "base58Decode prog = Inr q" "length q = 32"
  shows "length accts \<le> length as + 2" "\<forall>x \<in> set accts. length (dec_key x) = 32"
proof -
  define init where "init = [\<lparr>am_Pubkey = payer, am_IsSigner = True, am_IsWritable = True\<rparr>]"
  obtain base where c: "collect_accounts init as = Inr base" and accts: "accts = (if prog \<in> am_Pubkey ` set base then base
       else base @ [\<lparr>am_Pubkey = prog, am_IsSigner = False, am_IsWritable = False\<rparr>])"
    using assms(1) by (auto simp: all_accounts_def and_then_eq_Inr init_def)
  show "length accts \<le> length as + 2"
    using collect_accounts_length [OF c] by (auto simp: accts init_def)
  show "\<forall>x \<in> set accts. length (dec_key x) = 32"
    using collect_accounts_keys [OF c] assms by (auto simp: accts init_def dec_key_def split: if_splits)
qed

lemma key_index_less: "xs \<noteq> [] \<Longrightarrow> key_index xs k < length xs"
proof -
  assume "xs \<noteq> []"
  moreover have "i < length xs" if "map_of (rev (zip (map am_Pubkey xs) [0..<length xs])) k = Some i" for i
    using map_of_SomeD [OF that] by (auto dest: set_zip_rightD)
  ultimately show ?thesis by (auto simp: key_index_def split: option.splits)
qed

lemma group_lengths: "length (group_of g xs) \<le> length xs" "length (group_of 0 xs) + length (group_of 1 xs) \<le> length xs"
  using length_by_group [of xs] by (auto simp: group_of_def by_group_def)

lemma buildSOLProgramCallMessage_Inr:
  assumes "buildSOLProgramCallMessage fromAddr programID accounts dat blockhash = Inr m"
    and few: "length accounts \<le> 253"
  obtains accts h where "all_accounts fromAddr programID accounts = Inr accts" "base58Decode blockhash = Inr h"
    "wf_msg (call_msg accts h programID accounts dat)" "m = enc_msg (call_msg accts h programID accounts dat)"
proof -
  from assms obtain accts h p q where a: "all_accounts fromAddr programID accounts = Inr accts"
    and d: "base58Decode blockhash = Inr h" "base58Decode fromAddr = Inr p" "base58Decode programID = Inr q"
    and l: "length h = 32" "length p = 32" "length q = 32" "length dat \<le> 65535"
    and m: "m = enc_msg (call_msg accts h programID accounts dat)"
    by (auto simp: buildSOLProgramCallMessage_def and_then_eq_Inr Let_def compactU16_def sort_accounts_by_group
        length_groups call_msg_def enc_msg_def enc_instr_def enc_vec_def comp_def dec_key_eta split: if_splits)
  have len: "length accts \<le> 255" using all_accounts_bounds(1) [OF a d(2) l(2) d(3) l(3)] few by simp
  have ne: "by_group accts \<noteq> []" using all_accounts_inv(3) [OF a] length_by_group [of accts] by auto
  have idx: "key_index (by_group accts) k < 256" for k
    using key_index_less [OF ne, of k] len by (simp add: length_by_group)
  have keys: "\<forall>x \<in> set (by_group accts). length (dec_key x) = 32"
    using all_accounts_bounds(2) [OF a d(2) l(2) d(3) l(3)] by (simp add: set_by_group)
  have "wf_msg (call_msg accts h programID accounts dat)"
    using len l idx keys few group_lengths(1) [of 1 accts] group_lengths(1) [of 3 accts] group_lengths(2) [of accts]
    by (auto simp: call_msg_def wf_msg_def wf_instr_def Let_def list_all_iff length_by_group)
  with a d m show thesis using that by blast
qed

text \<open>The position of a requested key carries the key and its privileges.\<close>

lemma call_msg_at:
  assumes a: "all_accounts payer prog accounts = Inr accts" and keys: "\<forall>x \<in> set accts. length (dec_key x) = 32"
    and k: "k \<in> am_Pubkey ` set accts" and msg: "msg = call_msg accts h prog accounts dat"
    and j: "j = key_index (by_group accts) k"
  shows "base58Decode k = Inr (sm_keys msg ! j)" "signs msg j = req_signer payer accounts k"
    "writes msg j = req_writable payer accounts k"
proof -
  have dist: "distinct (map am_Pubkey (by_group accts))"
    using all_accounts_inv(1) [OF a] by (rule distinct_by_group)
  from k obtain i where i: "i < length (by_group accts)" "am_Pubkey (by_group accts ! i) = k"
    by (metis imageE in_set_conv_nth set_by_group)
  then have ij: "j = i" using key_index_nth [OF dist i(1)] j by simp
  define x where "x = by_group accts ! i"
  have x: "x \<in> set accts" using i(1) by (metis nth_mem set_by_group x_def)
  have "length (dec_key x) = 32" using keys x by blast
  then show "base58Decode k = Inr (sm_keys msg ! j)"
    using i by (auto simp: msg call_msg_def Let_def ij dec_key_def x_def split: sum.splits)
  have "am_IsSigner x = req_signer payer accounts k" "am_IsWritable x = req_writable payer accounts k"
    using all_accounts_inv(5) [OF a x] i(2) by (simp_all add: x_def)
  then show "signs msg j = req_signer payer accounts k" "writes msg j = req_writable payer accounts k"
    using flags_at [OF i(1)] by (auto simp: signs_def writes_def msg call_msg_def Let_def ij x_def)
qed

lemma payer_first:
  assumes a: "all_accounts payer prog accounts = Inr accts"
  shows "key_index (by_group accts) payer = 0"
proof -
  obtain x xs where accts: "accts = x # xs" and x: "am_Pubkey x = payer"
    using all_accounts_inv(3,4) [OF a] by (cases accts) auto
  have "am_IsSigner x \<and> am_IsWritable x"
    using all_accounts_inv(5) [OF a, of x] x by (simp add: accts req_signer_def req_writable_def)
  then have "by_group accts ! 0 = x" "0 < length (by_group accts)"
    by (simp_all add: accts by_group_def group_of_def acct_group_def)
  moreover have "distinct (map am_Pubkey (by_group accts))"
    using all_accounts_inv(1) [OF a] by (rule distinct_by_group)
  ultimately show ?thesis using key_index_nth [of "by_group accts" 0] x by simp
qed

text \<open>C29. The message of a program call with at most 253 accounts decodes to a message whose first account
  is the fee payer, whose instruction names the program and, in the order of the request, the requested
  accounts, and in which the position of every requested account gives it exactly the joined signer and
  writable privileges that were requested for its key, the fee payer signing and writing.\<close>

theorem buildSOLProgramCallMessage_privileges:
  assumes "buildSOLProgramCallMessage fromAddr programID accounts dat blockhash = Inr m" and "length accounts \<le> 253"
  shows "\<exists>msg ins. read_msg m = Some msg \<and> sm_instrs msg = [ins] \<and> si_data ins = dat
    \<and> base58Decode fromAddr = Inr (sm_keys msg ! 0) \<and> base58Decode programID = Inr (sm_keys msg ! si_prog ins)
    \<and> signs msg 0 \<and> writes msg 0 \<and> length (si_accts ins) = length accounts
    \<and> (\<forall>i < length accounts. let k = am_Pubkey (accounts ! i); j = si_accts ins ! i in
         base58Decode k = Inr (sm_keys msg ! j)
         \<and> signs msg j = req_signer fromAddr accounts k \<and> writes msg j = req_writable fromAddr accounts k)"
proof -
  obtain accts h where a: "all_accounts fromAddr programID accounts = Inr accts" and h: "base58Decode blockhash = Inr h"
    and wf: "wf_msg (call_msg accts h programID accounts dat)" and m: "m = enc_msg (call_msg accts h programID accounts dat)"
    by (rule buildSOLProgramCallMessage_Inr [OF assms])
  define msg where "msg = call_msg accts h programID accounts dat"
  define ins where "ins = \<lparr>si_prog = key_index (by_group accts) programID,
    si_accts = map (\<lambda>a. key_index (by_group accts) (am_Pubkey a)) accounts, si_data = dat\<rparr>"
  have keys: "\<forall>x \<in> set accts. length (dec_key x) = 32"
    using wf by (simp add: wf_msg_def call_msg_def Let_def list_all_iff set_by_group)
  note at = call_msg_at [OF a keys _ msg_def refl]
  have mem: "fromAddr \<in> am_Pubkey ` set accts" "programID \<in> am_Pubkey ` set accts"
    "\<And>i. i < length accounts \<Longrightarrow> am_Pubkey (accounts ! i) \<in> am_Pubkey ` set accts"
    by (simp_all add: all_accounts_inv(2) [OF a])
  have "read_msg m = Some msg" using read_enc_msg [OF wf] by (simp add: m msg_def)
  moreover have "sm_instrs msg = [ins]" by (simp add: msg_def ins_def call_msg_def Let_def)
  moreover have "base58Decode fromAddr = Inr (sm_keys msg ! 0)" "signs msg 0" "writes msg 0"
    using at [OF mem(1)] payer_first [OF a] by (simp_all add: req_signer_def req_writable_def)
  moreover have "base58Decode programID = Inr (sm_keys msg ! si_prog ins)"
    using at(1) [OF mem(2)] by (simp add: ins_def)
  ultimately show ?thesis
    using at [OF mem(3)] by (intro exI [of _ msg] exI [of _ ins]) (simp add: ins_def Let_def)
qed

subsection \<open>Building, rebuilding and broadcasting\<close>



text \<open>
  A native transfer is rebuilt from the stored lamports divided by \<open>1e9\<close> as a \<open>float64\<close>. The product
  with \<open>1e9\<close> is truncated, so the rebuilt amount can be one lamport less than the approved one.
\<close>

lemma native_rebuild_loses_a_lamport: "float_lamports (round64 (15 / 1000000000)) = Inr 14"
proof -
  have "(case bf_Mul 53 (bf_SetFloat64 (round64 (15 / 1000000000))) (bf_SetFloat64 (Fin 1000000000)) of
      None \<Rightarrow> None | Some b \<Rightarrow> (case bf_val b of Fin r \<Rightarrow> Some \<lfloor>r\<rfloor> | _ \<Rightarrow> None)) = Some 14"
    by code_simp
  then obtain b r where b: "bf_Mul 53 (bf_SetFloat64 (round64 (15 / 1000000000))) (bf_SetFloat64 (Fin 1000000000)) = Some b"
    "bf_val b = Fin r" "\<lfloor>r\<rfloor> = 14"
    by (auto split: option.splits fval.splits)
  moreover have "\<not> r \<le> 0" using b(3) by linarith
  ultimately show ?thesis by (simp add: float_lamports_def bf_Uint64_def del: le_floor_iff floor_eq_iff)
qed

subsection \<open>Concrete messages\<close>

lemma reverseBase58_values:
  "reverseBase58 (CHR ''1'') = Some 0" "reverseBase58 (CHR ''2'') = Some 1" "reverseBase58 (CHR ''3'') = Some 2"
  "reverseBase58 (CHR ''5'') = Some 4" "reverseBase58 (CHR ''6'') = Some 5" "reverseBase58 (CHR ''8'') = Some 7"
  "reverseBase58 (CHR ''9'') = Some 8" "reverseBase58 (CHR ''A'') = Some 9" "reverseBase58 (CHR ''B'') = Some 10"
  "reverseBase58 (CHR ''C'') = Some 11" "reverseBase58 (CHR ''D'') = Some 12" "reverseBase58 (CHR ''F'') = Some 14"
  "reverseBase58 (CHR ''G'') = Some 15" "reverseBase58 (CHR ''H'') = Some 16" "reverseBase58 (CHR ''J'') = Some 17"
  "reverseBase58 (CHR ''K'') = Some 18" "reverseBase58 (CHR ''L'') = Some 19" "reverseBase58 (CHR ''N'') = Some 21"
  "reverseBase58 (CHR ''P'') = Some 22" "reverseBase58 (CHR ''Q'') = Some 23" "reverseBase58 (CHR ''S'') = Some 25"
  "reverseBase58 (CHR ''T'') = Some 26" "reverseBase58 (CHR ''V'') = Some 28" "reverseBase58 (CHR ''W'') = Some 29"
  "reverseBase58 (CHR ''X'') = Some 30" "reverseBase58 (CHR ''Z'') = Some 32" "reverseBase58 (CHR ''b'') = Some 34"
  "reverseBase58 (CHR ''d'') = Some 36" "reverseBase58 (CHR ''e'') = Some 37" "reverseBase58 (CHR ''f'') = Some 38"
  "reverseBase58 (CHR ''g'') = Some 39" "reverseBase58 (CHR ''h'') = Some 40" "reverseBase58 (CHR ''i'') = Some 41"
  "reverseBase58 (CHR ''k'') = Some 43" "reverseBase58 (CHR ''n'') = Some 45" "reverseBase58 (CHR ''o'') = Some 46"
  "reverseBase58 (CHR ''q'') = Some 48" "reverseBase58 (CHR ''r'') = Some 49" "reverseBase58 (CHR ''s'') = Some 50"
  "reverseBase58 (CHR ''u'') = Some 52" "reverseBase58 (CHR ''v'') = Some 53" "reverseBase58 (CHR ''w'') = Some 54"
  "reverseBase58 (CHR ''x'') = Some 55" "reverseBase58 (CHR ''y'') = Some 56"
  by code_simp+

lemma decode_number:
  assumes "base58_number 0 s = Inr n" "256 ^ 31 \<le> n" "n < 256 ^ 32" "hd s \<noteq> CHR ''1''" "s \<noteq> []"
  shows "\<exists>p. base58Decode s = Inr p \<and> length p = 32"
proof -
  have "takeWhile (\<lambda>c. c = CHR ''1'') s = []" using assms(4,5) by (cases s) auto
  moreover have "length (be_bytes n) = 32"
    using length_be_bytes_gt [OF assms(2)] length_be_bytes_le [OF assms(3)] by simp
  ultimately show ?thesis using assms(1) by (simp add: base58Decode_def)
qed

lemma program_ids:
  "\<exists>p. base58Decode splTokenProgramID = Inr p \<and> length p = 32"
  "\<exists>p. base58Decode ataProgramID = Inr p \<and> length p = 32"
  "\<exists>p. base58Decode nativeMintID = Inr p \<and> length p = 32"
proof -
  show "\<exists>p. base58Decode splTokenProgramID = Inr p \<and> length p = 32"
    unfolding splTokenProgramID_def
    by (rule decode_number [of _ 3106054211088883198575105191760876350940303353676611666299516346430146937001]) (simp_all add: reverseBase58_values)
  show "\<exists>p. base58Decode ataProgramID = Inr p \<and> length p = 32"
    unfolding ataProgramID_def
    by (rule decode_number [of _ 63590851936555425018482094543133168213809614203979002813017495418995103889497]) (simp_all add: reverseBase58_values)
  show "\<exists>p. base58Decode nativeMintID = Inr p \<and> length p = 32"
    unfolding nativeMintID_def
    by (rule decode_number [of _ 2988679396378646993494765771507681406623014513651778753134412041978399162369]) (simp_all add: reverseBase58_values)
qed

definition zero_addr :: string where
  "zero_addr = replicate 32 (CHR ''1'')"

lemma decode_zero_addr: "base58Decode zero_addr = Inr (replicate 32 0)"
proof -
  have n: "base58_number 0 (replicate k (CHR ''1'')) = Inr 0" for k
    by (induction k) (simp_all add: reverseBase58_values)
  have t: "takeWhile (\<lambda>c. c = CHR ''1'') (replicate k (CHR ''1'')) = replicate k (CHR ''1'')" for k
    by (induction k) simp_all
  show ?thesis by (simp add: base58Decode_def zero_addr_def n t be_bytes_def digs.simps)
qed

lemma DeriveATA_off_curve:
  "base58Decode w = Inr p \<Longrightarrow> base58Decode m = Inr q \<Longrightarrow> \<exists>a. DeriveATA (\<lambda>_. False) w m = Inr a"
  using program_ids(1,2) by (auto simp: DeriveATA_def FindProgramAddress_def numeral_eq_Suc Let_def)

theorem buildSOLMessage_decodes_witness:
  "\<exists>m. buildSOLMessage zero_addr zero_addr zero_addr 7 = Inr m
     \<and> read_msg m = Some (transfer_msg (replicate 32 0) (replicate 32 0) (replicate 32 0) 7)"
proof -
  obtain m where m: "buildSOLMessage zero_addr zero_addr zero_addr 7 = Inr m"
    by (simp add: buildSOLMessage_def pub32_def decode_zero_addr Let_def)
  then show ?thesis using buildSOLMessage_decodes [OF m] by (simp add: decode_zero_addr)
qed


theorem buildSOLWrapMessage_decodes_witness:
  "\<exists>m u p a mp tk ata h. buildSOLWrapMessage (\<lambda>_. False) zero_addr 7 zero_addr = Inr m
     \<and> buildSOLUnwrapMessage (\<lambda>_. False) zero_addr zero_addr = Inr u
     \<and> read_msg m = Some (wrap_msg [p, a, mp, tk, systemProgramID, ata] h 7) \<and> read_msg u = Some (unwrap_msg [p, a, tk] h)"
proof -
  obtain m where m: "buildSOLWrapMessage (\<lambda>_. False) zero_addr 7 zero_addr = Inr m"
    using program_ids DeriveATA_off_curve [OF decode_zero_addr]
    by (fastforce simp: buildSOLWrapMessage_def pub32_def decode_zero_addr Let_def)
  obtain u where u: "buildSOLUnwrapMessage (\<lambda>_. False) zero_addr zero_addr = Inr u"
    using program_ids DeriveATA_off_curve [OF decode_zero_addr]
    by (fastforce simp: buildSOLUnwrapMessage_def pub32_def decode_zero_addr Let_def)
  show ?thesis using buildSOLWrapMessage_decodes [OF m u] m u by blast
qed

theorem buildSOLProgramCallMessage_privileges_witness:
  "\<exists>m msg ins. buildSOLProgramCallMessage zero_addr splTokenProgramID
       [\<lparr>am_Pubkey = nativeMintID, am_IsSigner = False, am_IsWritable = True\<rparr>] [1, 2] zero_addr = Inr m
     \<and> read_msg m = Some msg \<and> sm_instrs msg = [ins] \<and> si_data ins = [1, 2] \<and> writes msg (si_accts ins ! 0)"
proof -
  let ?as = "[\<lparr>am_Pubkey = nativeMintID, am_IsSigner = False, am_IsWritable = True\<rparr>]"
  obtain m where m: "buildSOLProgramCallMessage zero_addr splTokenProgramID ?as [1, 2] zero_addr = Inr m"
    using program_ids
    by (fastforce simp: buildSOLProgramCallMessage_def pub32_def decode_zero_addr Let_def all_accounts_def compactU16_def
        sort_accounts_by_group length_by_group)
  then show ?thesis
    using buildSOLProgramCallMessage_privileges [OF m] by (auto simp: req_writable_def Let_def)
qed

definition sol_env :: chain_env where
  "sol_env = sample_env\<lparr>net := (\<lambda>_ _ _. HttpResp 200 (Some (JObj
     [(''result'', JObj [(''value'', JObj [(''blockhash'', JStr zero_addr)])])])))\<rparr>"

lemma sol_env_blockhash: "\<exists>s'. fetch_blockhash sol_env u s = (Inr zero_addr, s')"
proof -
  have "zero_addr \<noteq> []" by (simp add: zero_addr_def)
  moreover have "jsonRPCWithRetry sol_env u p s = (Inr [(''result'', JObj [(''value'', JObj [(''blockhash'', JStr zero_addr)])])],
      after_requests 1 u p s)" for p
    by (rule jsonRPCWithRetry_first) (simp_all add: sol_env_def jget_def)
  ultimately show ?thesis
    by (simp add: fetch_blockhash_def seq_def wrapping_def str_or_empty_def as_map_def jget_def Let_def)
qed



end
