(* ===== verification/Abi.thy ===== *)
theory Abi
  imports TxEth
begin

text \<open>
  The Solidity ABI encoder (\<open>chain/abi.go\<close>): types are strings that the encoder parses as it goes,
  arguments are the dynamic values that JSON decoding produces. A slice expression out of bounds is a
  panic. The recursion follows the nesting of the arguments for encoding and the length of the type
  for classification, and both are proved to terminate. The theorems give the value, range and
  errors of the elementary encodings, the alignment of every encoding, and that the head and tail
  layout can be read back through its offsets.
\<close>

subsection \<open>Values\<close>

text \<open>The cases of \<open>interface{}\<close> that the encoder distinguishes.\<close>

datatype goval = GNil | GBool bool | GStr string | GFloat fval | GNumber string | GBigInt int | GInt int
  | GBytes bytes | GList "goval list" | GMap "(string \<times> goval) list"

definition toBigInt :: "goval \<Rightarrow> int res" where
  "toBigInt v = (case v of
       GBigInt i \<Rightarrow> Inr i
     | GStr s \<Rightarrow>
         if has_prefix s ''0x'' \<or> has_prefix s ''0X'' then
           (case set_string 16 (drop 2 s) of None \<Rightarrow> Inl (Msg ''cannot parse as hex integer'') | Some n \<Rightarrow> Inr n)
         else (case set_string 10 s of None \<Rightarrow> Inl (Msg ''cannot parse as decimal integer'') | Some n \<Rightarrow> Inr n)
     | GFloat f \<Rightarrow> (case f of
           Fin r \<Rightarrow> if r = of_int \<lfloor>r\<rfloor> then Inr \<lfloor>r\<rfloor> else Inl (Msg ''float64 value is not an exact integer'')
         | _ \<Rightarrow> Inl (Msg ''float64 value is not an exact integer''))
     | GInt i \<Rightarrow> Inr i
     | GNumber s \<Rightarrow> (case set_string 10 s of None \<Rightarrow> Inl (Msg ''cannot parse json.Number as integer'') | Some n \<Rightarrow> Inr n)
     | _ \<Rightarrow> Inl (Msg ''unsupported numeric type''))"

definition toSlice :: "goval \<Rightarrow> goval list res" where
  "toSlice v = (case v of GList items \<Rightarrow> Inr items | _ \<Rightarrow> Inl (Msg ''expected array''))"

subsection \<open>Types\<close>

fun split_loop :: "int \<Rightarrow> string \<Rightarrow> string \<Rightarrow> string list" where
  "split_loop depth cur [] = [trim_space (rev cur)]"
| "split_loop depth cur (c # s) =
     (if c = CHR ''('' then split_loop (depth + 1) (c # cur) s
      else if c = CHR '')'' then split_loop (depth - 1) (c # cur) s
      else if c = CHR '','' \<and> depth = 0 then trim_space (rev cur) # split_loop depth [] s
      else split_loop depth (c # cur) s)"

definition splitTopLevel :: "string \<Rightarrow> string list" where
  "splitTopLevel s = split_loop 0 [] s"

definition parseParamTypes :: "string \<Rightarrow> string list res" where
  "parseParamTypes funcSig =
     (case (index_of (CHR ''('') funcSig, last_index_of (CHR '')'') funcSig) of
        (Some openParen, Some closeParen) \<Rightarrow>
          if closeParen \<le> openParen then Inl (Msg ''invalid function signature'')
          else if closeParen \<noteq> length funcSig - 1 then Inl (Msg ''invalid function signature: unexpected characters after closing paren'')
          else let inner = take (closeParen - Suc openParen) (drop (Suc openParen) funcSig)
               in if inner = [] then Inr [] else Inr (splitTopLevel inner)
      | _ \<Rightarrow> Inl (Msg ''invalid function signature''))"

text \<open>The position of the parenthesis that closes the first one.\<close>

fun close_index :: "int \<Rightarrow> nat \<Rightarrow> string \<Rightarrow> nat option" where
  "close_index depth i [] = None"
| "close_index depth i (c # s) =
     (if c = CHR ''('' then close_index (depth + 1) (Suc i) s
      else if c = CHR '')'' then (if depth - 1 = 0 then Some i else close_index (depth - 1) (Suc i) s)
      else close_index depth (Suc i) s)"

definition is_dec_digit :: "char \<Rightarrow> bool" where
  "is_dec_digit c \<longleftrightarrow> digit_in 10 c \<noteq> None"

text \<open>The regular expression for an array of fixed size splits at the last opening bracket.\<close>

definition match_fixed :: "string \<Rightarrow> (string \<times> string) option" where
  "match_fixed typ = (case last_index_of (CHR ''['') typ of
       None \<Rightarrow> None
     | Some i \<Rightarrow>
         let e = take i typ; r = drop (Suc i) typ
         in if e \<noteq> [] \<and> list_all (\<lambda>c. c \<noteq> CHR 0x0A) e \<and> r \<noteq> [] \<and> last r = CHR '']'' \<and> butlast r \<noteq> []
               \<and> list_all is_dec_digit (butlast r)
            then Some (e, butlast r) else None)"

definition parseFixedArray :: "string \<Rightarrow> (string \<times> nat) option" where
  "parseFixedArray typ =
     (if has_prefix typ ''('' then
        (case close_index 0 0 typ of
           None \<Rightarrow> None
         | Some closeIdx \<Rightarrow>
             if closeIdx < length typ - 1 then
               (let suffix = drop (Suc closeIdx) typ
                in if length suffix \<ge> 3 \<and> hd suffix = CHR ''['' \<and> last suffix = CHR '']'' then
                     (case num_int 64 (butlast (tl suffix)) of
                        Some n \<Rightarrow> if n > 0 then Some (take (Suc closeIdx) typ, nat n) else None
                      | None \<Rightarrow> None)
                   else None)
             else None)
      else (case match_fixed typ of
          None \<Rightarrow> None
        | Some (e, ds) \<Rightarrow> (case num_int 64 ds of
              Some n \<Rightarrow> if n = 0 then None else Some (e, nat n) | None \<Rightarrow> None)))"

text \<open>A search for the first true answer.\<close>

primrec any_res :: "('a \<Rightarrow> bool res) \<Rightarrow> 'a list \<Rightarrow> bool res" where
  "any_res f [] = Inr False"
| "any_res f (x # xs) = and_then (f x) (\<lambda>b. if b then Inr True else any_res f xs)"

lemma any_res_cong [fundef_cong]:
  "xs = ys \<Longrightarrow> (\<And>x. x \<in> set ys \<Longrightarrow> f x = g x) \<Longrightarrow> any_res f xs = any_res g ys"
proof -
  assume "xs = ys" "\<And>x. x \<in> set ys \<Longrightarrow> f x = g x"
  then show ?thesis by (induction ys arbitrary: xs) (auto simp: and_then_def split: sum.splits)
qed

lemma split_loop_length: "t \<in> set (split_loop d cur s) \<Longrightarrow> length t \<le> length cur + length s"
proof (induction s arbitrary: d cur)
  case Nil
  then show ?case using length_trim_space [of "rev cur"] by simp
next
  case (Cons c s)
  then show ?case using length_trim_space [of "rev cur"]
    by (auto split: if_splits) (fastforce dest: Cons.IH)+
qed

lemma splitTopLevel_length: "t \<in> set (splitTopLevel s) \<Longrightarrow> length t \<le> length s"
  using split_loop_length [of t 0 "[]" s] by (simp add: splitTopLevel_def)

lemma close_index_less: "close_index d i s = Some k \<Longrightarrow> i \<le> k \<and> k < i + length s"
  by (induction s arbitrary: d i) (fastforce split: if_splits)+

lemma index_of_less: "index_of c s = Some i \<Longrightarrow> i < length s"
  by (induction s arbitrary: i) (auto split: if_splits)

lemma parseFixedArray_shorter: "parseFixedArray typ = Some (e, n) \<Longrightarrow> length e < length typ"
proof (cases "has_prefix typ ''(''")
  case True
  assume "parseFixedArray typ = Some (e, n)"
  then show ?thesis using True
    by (auto simp: parseFixedArray_def Let_def split: option.splits if_splits)
next
  case False
  assume a: "parseFixedArray typ = Some (e, n)"
  then obtain ds where "match_fixed typ = Some (e, ds)"
    using False by (auto simp: parseFixedArray_def split: option.splits if_splits)
  then obtain i where "last_index_of (CHR ''['') typ = Some i" "e = take i typ"
    by (auto simp: match_fixed_def Let_def split: option.splits if_splits)
  then show ?thesis using index_of_less [of "CHR ''[''" "rev typ"] by (auto simp: last_index_of_def)
qed

function isDynamic :: "string \<Rightarrow> bool res" where
  "isDynamic typ =
     (if typ = ''bytes'' \<or> typ = ''string'' then Inr True
      else if has_suffix typ ''[]'' then Inr True
      else case parseFixedArray typ of
        Some (elemType, _) \<Rightarrow> isDynamic elemType
      | None \<Rightarrow>
          if has_prefix typ ''('' then
            if length typ < 2 then Inl (Panic ''slice bounds out of range'')
            else any_res isDynamic (splitTopLevel (take (length typ - 2) (drop 1 typ)))
          else Inr False)"
  by pat_completeness auto
termination
proof (relation "measure length")
  show "wf (measure length)" by simp
  show "(e, ty) \<in> measure length"
    if "parseFixedArray ty = Some x" "(e, n) = x" for ty e n and x :: "string \<times> nat"
    using that parseFixedArray_shorter by auto
  show "(t, ty) \<in> measure length"
    if "\<not> length ty < 2" "t \<in> set (splitTopLevel (take (length ty - 2) (drop 1 ty)))" for ty t
    using that splitTopLevel_length [OF that(2)] by simp
qed

declare isDynamic.simps [simp del]

subsection \<open>Elementary encodings\<close>

definition encodeUint :: "nat \<Rightarrow> goval \<Rightarrow> bytes res" where
  "encodeUint bits arg = and_then (toBigInt arg) (\<lambda>v.
     if v < 0 then Inl (Msg ''uint cannot be negative'')
     else if v \<ge> 2 ^ bits then Inl (Msg ''uint overflow'')
     else let b = be_bytes (nat v) in
       if length b > 32 then Inl (Msg ''uint overflow'') else Inr (replicate (32 - length b) 0 @ b))"

definition encodeInt256 :: "int \<Rightarrow> bytes res" where
  "encodeInt256 v =
     (if v \<ge> 2 ^ 255 then Inl (Msg ''int256 overflow'')
      else if v < - (2 ^ 255) then Inl (Msg ''int256 underflow'')
      else let b = be_bytes (nat (if v \<ge> 0 then v else 2 ^ 256 + v)) in Inr (replicate (32 - length b) 0 @ b))"

definition encodeIntN :: "nat \<Rightarrow> goval \<Rightarrow> bytes res" where
  "encodeIntN bits arg = and_then (toBigInt arg) (\<lambda>v.
     if v \<ge> 2 ^ (bits - 1) then Inl (Msg ''int overflow'')
     else if v < - (2 ^ (bits - 1)) then Inl (Msg ''int underflow'')
     else encodeInt256 v)"

definition encodeBytesN :: "nat \<Rightarrow> goval \<Rightarrow> bytes res" where
  "encodeBytesN n arg = (case arg of
       GStr s \<Rightarrow> (case hex_decode (trim_prefix s ''0x'') of
           None \<Rightarrow> Inl (Wrap ''bytes hex decode'' (Msg ''encoding/hex''))
         | Some decoded \<Rightarrow> if length decoded > n then Inl (Msg ''bytes: too long'')
             else Inr (decoded @ replicate (32 - length decoded) 0))
     | _ \<Rightarrow> Inl (Msg ''bytes requires hex string''))"

text \<open>A length or an offset is a machine integer; its big-endian word.\<close>

definition int_word :: "nat \<Rightarrow> bytes" where
  "int_word n = word32 (n mod 2 ^ 63)"

text \<open>The length word and the data padded to a multiple of 32 bytes.\<close>

definition pad32 :: "bytes \<Rightarrow> bytes" where
  "pad32 data = data @ (if length data mod 32 = 0 then [] else replicate (32 - length data mod 32) 0)"

definition encodeDynamicBytes :: "goval \<Rightarrow> bytes res" where
  "encodeDynamicBytes arg =
     and_then (case arg of
         GStr v \<Rightarrow> if has_prefix v ''0x''
                  then (case hex_decode (drop 2 v) of None \<Rightarrow> Inl (Wrap ''hex decode'' (Msg ''encoding/hex'')) | Some d \<Rightarrow> Inr d)
                  else Inr (bytes_of_string v)
       | GBytes v \<Rightarrow> Inr v
       | _ \<Rightarrow> Inl (Msg ''bytes/string requires string or []byte'')) (\<lambda>data.
     Inr (int_word (length data) @ pad32 data))"

definition sized_type :: "string \<Rightarrow> string \<Rightarrow> nat option" where
  "sized_type base typ = (if has_prefix typ base then
       let ds = drop (length base) typ
       in if ds \<noteq> [] \<and> list_all is_dec_digit ds then parse_nat 10 ds else None
     else None)"

text \<open>The cases of \<open>encodeStatic\<close> before the default one; \<open>None\<close> is the default.\<close>

definition encodeElementary :: "'e cenv \<Rightarrow> string \<Rightarrow> goval \<Rightarrow> bytes res option" where
  "encodeElementary env typ arg =
     (if typ = ''address'' then
        Some (case arg of GStr s \<Rightarrow> Inr (replicate 12 0 @ HexToAddress env s) | _ \<Rightarrow> Inl (Msg ''address requires string''))
      else if typ = ''bool'' then
        Some (case arg of GBool b \<Rightarrow> Inr (replicate 31 0 @ [if b then 1 else 0]) | _ \<Rightarrow> Inl (Msg ''bool requires bool''))
      else if typ = ''uint256'' then Some (encodeUint 256 arg)
      else if typ = ''int256'' then Some (and_then (toBigInt arg) encodeInt256)
      else case sized_type ''uint'' typ of
        Some bits \<Rightarrow> Some (if bits = 0 \<or> bits > 256 \<or> bits mod 8 \<noteq> 0 then Inl (Msg ''invalid uint size'') else encodeUint bits arg)
      | None \<Rightarrow> (case sized_type ''int'' typ of
          Some bits \<Rightarrow> Some (if bits = 0 \<or> bits > 256 \<or> bits mod 8 \<noteq> 0 then Inl (Msg ''invalid int size'') else encodeIntN bits arg)
        | None \<Rightarrow> (case sized_type ''bytes'' typ of
            Some n \<Rightarrow> Some (if n = 0 \<or> n > 32 then Inl (Msg ''invalid bytesN size'') else encodeBytesN n arg)
          | None \<Rightarrow> None)))"

subsection \<open>Head and tail\<close>

text \<open>An encoded argument: whether it is dynamic, and its bytes.\<close>

type_synonym part = "bool \<times> bytes"

definition head_size :: "part list \<Rightarrow> nat" where
  "head_size parts = sum_list (map (\<lambda>(d, b). if d then 32 else length b) parts)"

fun heads_from :: "nat \<Rightarrow> part list \<Rightarrow> bytes" where
  "heads_from tailOffset [] = []"
| "heads_from tailOffset ((d, b) # ps) =
     (if d then int_word tailOffset @ heads_from (tailOffset + length b) ps else b @ heads_from tailOffset ps)"

definition layout :: "part list \<Rightarrow> bytes" where
  "layout parts = (if \<not> list_ex fst parts then concat (map snd parts)
     else heads_from (head_size parts) parts @ concat (map snd (filter fst parts)))"

subsection \<open>Composite encodings\<close>

lemma toSlice_size: "toSlice arg = Inr items \<Longrightarrow> size_list size items < size arg"
  by (auto simp: toSlice_def split: goval.splits)

lemma zip_arg_size:
  "(i, t, a) \<in> set (zip is (zip ts args)) \<Longrightarrow> size a < size_list size args"
proof -
  assume "(i, t, a) \<in> set (zip is (zip ts args))"
  then have "a \<in> set args" by (metis set_zip_rightD)
  then show ?thesis by (induction args) auto
qed

function (sequential) encodeArgs :: "'e cenv \<Rightarrow> string list \<Rightarrow> goval list \<Rightarrow> bytes res"
  and encodeStatic :: "'e cenv \<Rightarrow> string \<Rightarrow> goval \<Rightarrow> bytes res"
  and encodeDynamic :: "'e cenv \<Rightarrow> string \<Rightarrow> goval \<Rightarrow> bytes res"
  and encodeDynamicArray :: "'e cenv \<Rightarrow> string \<Rightarrow> goval \<Rightarrow> bytes res"
  and encodeTuple :: "'e cenv \<Rightarrow> string \<Rightarrow> goval \<Rightarrow> bytes res"
  and encodeFixedArray :: "'e cenv \<Rightarrow> string \<times> nat \<Rightarrow> goval \<Rightarrow> bytes res" where
  "encodeArgs env types args =
     and_then (map_res (\<lambda>(i, t, arg).
         and_then (isDynamic t) (\<lambda>d.
         and_then (wrap_err (''arg '' @ nat_text 10 i @ '' ('' @ t @ '')'')
             (if d then encodeDynamic env t arg else encodeStatic env t arg)) (\<lambda>b. Inr (d, b))))
       (zip [0..<length types] (zip types args)))
     (\<lambda>parts. Inr (layout parts))"
| "encodeStatic env t arg =
     (case encodeElementary env t arg of
        Some r \<Rightarrow> r
      | None \<Rightarrow>
          and_then (case parseFixedArray t of None \<Rightarrow> Inr None
              | Some (e, n) \<Rightarrow> and_then (isDynamic e) (\<lambda>d. Inr (if d then None else Some (e, n)))) (\<lambda>fa.
          case fa of
            Some f \<Rightarrow> encodeFixedArray env f arg
          | None \<Rightarrow> if has_prefix t ''('' then encodeTuple env t arg
                    else Inl (Msg (''unsupported static type: '' @ t))))"
| "encodeDynamic env t arg =
     (if t = ''bytes'' then encodeDynamicBytes arg
      else if t = ''string'' then
        (case arg of GStr s \<Rightarrow> encodeDynamicBytes (GStr s) | _ \<Rightarrow> Inl (Msg ''string requires string''))
      else if has_suffix t ''[]'' then encodeDynamicArray env (take (length t - 2) t) arg
      else case parseFixedArray t of
        Some f \<Rightarrow> encodeFixedArray env f arg
      | None \<Rightarrow> if has_prefix t ''('' then encodeTuple env t arg
                else Inl (Msg (''unsupported dynamic type: '' @ t)))"
| "encodeDynamicArray env elemType arg =
     and_then (case arg of GList items \<Rightarrow> Inr items | _ \<Rightarrow> Inl (Msg ''array requires []interface{}'')) (\<lambda>items.
     and_then (encodeArgs env (replicate (length items) elemType) items) (\<lambda>encoded.
     Inr (int_word (length items) @ encoded)))"
| "encodeTuple env t arg =
     (if length t < 2 then Inl (Panic ''slice bounds out of range'')
      else let elemTypes = splitTopLevel (take (length t - 2) (drop 1 t)) in
        and_then (wrap_err ''tuple'' (toSlice arg)) (\<lambda>items.
        if length items \<noteq> length elemTypes then Inl (Msg ''tuple element count mismatch'')
        else encodeArgs env elemTypes items))"
| "encodeFixedArray env (e, n) arg =
     and_then (wrap_err (e @ ''['' @ nat_text 10 n @ '']'') (toSlice arg)) (\<lambda>items.
     if length items \<noteq> n then Inl (Msg (e @ ''['' @ nat_text 10 n @ '']: wrong element count''))
     else encodeArgs env (replicate n e) items)"
  by pat_completeness auto
termination
  by (relation "measure (case_sum
        (case_sum (\<lambda>(env, ts, args). 2 * size_list size args)
          (case_sum (\<lambda>(env, t, arg). 2 * size arg + 1) (\<lambda>(env, t, arg). 2 * size arg + 1)))
        (case_sum (\<lambda>(env, t, arg). 2 * size arg) (case_sum (\<lambda>(env, t, arg). 2 * size arg) (\<lambda>(env, f, arg). 2 * size arg))))")
    (auto dest: toSlice_size zip_arg_size split: goval.splits)

declare encodeArgs.simps [simp del] encodeStatic.simps [simp del] encodeDynamic.simps [simp del]
  encodeDynamicArray.simps [simp del] encodeTuple.simps [simp del] encodeFixedArray.simps [simp del]

definition EncodeCall :: "'e cenv \<Rightarrow> string \<Rightarrow> goval list \<Rightarrow> bytes res" where
  "EncodeCall env funcSig args =
     and_then (parseParamTypes funcSig) (\<lambda>paramTypes.
     if length paramTypes \<noteq> length args then Inl (Msg ''arg count mismatch'')
     else and_then (encodeArgs env paramTypes args) (\<lambda>encoded.
       Inr (take 4 (keccak256 env (bytes_of_string funcSig)) @ encoded)))"

subsection \<open>Elementary values\<close>

lemma word32_pad: "replicate (32 - length (be_bytes n)) 0 @ be_bytes n = word32 n"
  by (simp add: word32_def pad_left_def)

lemma encodeUint_Inr:
  assumes "bits \<le> 256"
  shows "encodeUint bits arg = Inr w \<longleftrightarrow> (\<exists>v. toBigInt arg = Inr v \<and> 0 \<le> v \<and> v < 2 ^ bits \<and> w = word32 (nat v))"
proof -
  have "length (be_bytes (nat v)) \<le> 32" if "0 \<le> v" "v < 2 ^ bits" for v
  proof -
    have "v < 2 ^ 256" using that(2) power_increasing [OF assms, of "2 :: int"] by simp
    then show ?thesis using that(1) length_be_bytes_le_iff [of "nat v" 32] by (simp add: nat_less_iff)
  qed
  note fits = this
  show ?thesis
  proof (cases "toBigInt arg")
    case (Inr v)
    then show ?thesis using fits [of v] by (auto simp: encodeUint_def Let_def word32_pad)
  qed (simp add: encodeUint_def)
qed

definition twos :: "int \<Rightarrow> nat" where
  "twos v = nat (v mod 2 ^ 256)"

lemma twos_small: "twos v < 2 ^ 256"
  by (simp add: twos_def nat_less_iff)

lemma encodeInt256_Inr:
  "encodeInt256 v = Inr w \<longleftrightarrow> - (2 ^ 255) \<le> v \<and> v < 2 ^ 255 \<and> w = word32 (twos v)"
proof -
  have "(if v \<ge> 0 then v else 2 ^ 256 + v) = v mod 2 ^ 256" if "- (2 ^ 255) \<le> v" "v < 2 ^ 255"
  proof (cases "0 \<le> v")
    case True
    with that show ?thesis by (simp add: mod_pos_pos_trivial)
  next
    case False
    then have "(2 ^ 256 + v) mod 2 ^ 256 = 2 ^ 256 + v" using that by (intro mod_pos_pos_trivial) auto
    with False show ?thesis by simp
  qed
  then show ?thesis by (auto simp: encodeInt256_def Let_def word32_pad twos_def not_le)
qed

text \<open>An unsigned integer of at most 256 bits is encoded exactly when the argument denotes a number in
  its range, as the 32-byte big-endian word of that number, which decodes to it.\<close>

theorem encodeUint_exact:
  "encodeUint (min bits 256) arg = Inr w \<longleftrightarrow>
   (\<exists>v. toBigInt arg = Inr v \<and> 0 \<le> v \<and> v < 2 ^ min bits 256 \<and> w = word32 (nat v) \<and> length w = 32 \<and> int (be_val w) = v)"
proof -
  have "length (word32 (nat v)) = 32 \<and> int (be_val (word32 (nat v))) = v" if "0 \<le> v" "v < 2 ^ min bits 256" for v
  proof -
    have "v < 2 ^ 256" using that(2) power_increasing [of "min bits 256" 256 "2 :: int"] by linarith
    then show ?thesis using that(1) by (simp add: nat_less_iff)
  qed
  then show ?thesis by (auto simp: encodeUint_Inr)
qed

text \<open>A signed integer is encoded exactly when it is in the range of \<open>int256\<close>, as its two's complement
  modulo \<open>2^256\<close>, and the top bit of the word is set exactly for negative numbers.\<close>

theorem encodeInt256_twos_complement:
  "encodeInt256 v = Inr w \<longleftrightarrow>
   - (2 ^ 255) \<le> v \<and> v < 2 ^ 255 \<and> w = word32 (nat (v mod 2 ^ 256)) \<and> length w = 32
   \<and> v = (if be_val w \<ge> 2 ^ 255 then int (be_val w) - 2 ^ 256 else int (be_val w))"
proof -
  have denoted: "v = (if twos v \<ge> 2 ^ 255 then int (twos v) - 2 ^ 256 else int (twos v))"
    if "- (2 ^ 255) \<le> v" "v < 2 ^ 255"
  proof (cases "0 \<le> v")
    case True
    with that have "int (twos v) = v" by (simp add: twos_def mod_pos_pos_trivial)
    with that show ?thesis by (simp flip: of_nat_le_iff)
  next
    case False
    then have "(2 ^ 256 + v) mod 2 ^ 256 = 2 ^ 256 + v" using that by (intro mod_pos_pos_trivial) auto
    then have "int (twos v) = 2 ^ 256 + v" using False that by (simp add: twos_def)
    with that False show ?thesis by (simp flip: of_nat_le_iff)
  qed
  have len: "length (word32 (twos v)) = 32" using twos_small [of v] by (rule length_word32)
  show ?thesis
    using denoted len by (auto simp: encodeInt256_Inr twos_def)
qed

subsection \<open>Dynamic bytes\<close>

lemma length_int_word [simp]: "length (int_word n) = 32"
proof -
  have "n mod 2 ^ 63 < 2 ^ 256" by (rule less_trans [of _ "2 ^ 63"]) (simp, rule power_strict_increasing, simp_all)
  then show ?thesis unfolding int_word_def by (rule length_word32)
qed

lemma be_val_int_word [simp]: "n < 2 ^ 63 \<Longrightarrow> be_val (int_word n) = n"
  by (simp add: int_word_def)

lemma length_pad32: "32 dvd length (pad32 d)"
proof -
  have "n + (32 - n mod 32) = 32 * (n div 32 + 1)" for n :: nat
  proof -
    have "n mod 32 < 32" by simp
    moreover have "32 * (n div 32) + n mod 32 = n" by simp
    ultimately show ?thesis unfolding distrib_left by linarith
  qed
  then show ?thesis unfolding pad32_def by (auto simp: mod_0_imp_dvd)
qed

definition dynamic_source :: "goval \<Rightarrow> bytes \<Rightarrow> bool" where
  "dynamic_source arg data \<longleftrightarrow> (case arg of
     GBytes b \<Rightarrow> data = b
   | GStr v \<Rightarrow> if has_prefix v ''0x'' then hex_decode (drop 2 v) = Some data else data = bytes_of_string v
   | _ \<Rightarrow> False)"

text \<open>Dynamic bytes are a length word and the data padded with zeros to a multiple of 32 bytes; below
  the range of machine integers the data is read back from them.\<close>

theorem encodeDynamicBytes_reads_back:
  assumes "encodeDynamicBytes arg = Inr bs" and "length bs < 2 ^ 63"
  shows "32 dvd length bs \<and> (\<exists>data. dynamic_source arg data \<and> take (be_val (take 32 bs)) (drop 32 bs) = data)"
proof -
  obtain data where d: "bs = int_word (length data) @ pad32 data" and src: "dynamic_source arg data"
    using assms(1) unfolding encodeDynamicBytes_def dynamic_source_def and_then_eq_Inr
    by (auto split: goval.splits if_splits option.splits)
  have "length data < 2 ^ 63" using assms(2) by (simp add: d pad32_def)
  then have "take (be_val (take 32 bs)) (drop 32 bs) = data" by (simp add: d pad32_def)
  moreover have "32 dvd length bs" using length_pad32 [of data] by (simp add: d)
  ultimately show ?thesis using src by blast
qed

subsection \<open>Reading a layout\<close>

lemma head_size_simps [simp]:
  "head_size [] = 0" "head_size ((d, b) # ps) = (if d then 32 else length b) + head_size ps"
  "head_size (ps @ qs) = head_size ps + head_size qs"
  by (simp_all add: head_size_def)

lemma length_heads_from [simp]: "length (heads_from k ps) = head_size ps"
  by (induction k ps rule: heads_from.induct) auto

lemma heads_from_static: "\<not> list_ex fst ps \<Longrightarrow> heads_from k ps = concat (map snd ps) \<and> filter fst ps = []"
  by (induction k ps rule: heads_from.induct) auto

lemma layout_heads_tails: "layout ps = heads_from (head_size ps) ps @ concat (map snd (filter fst ps))"
  by (auto simp: layout_def heads_from_static)

lemma heads_from_append:
  "heads_from k (ps @ qs) = heads_from k ps @ heads_from (k + length (concat (map snd (filter fst ps)))) qs"
  by (induction k ps rule: heads_from.induct) (auto simp: add.assoc)

text \<open>The bytes of a part found through the head at position \<open>p\<close>, the way a contract reads it: in place
  when the part is static, at the offset the head holds when it is dynamic.\<close>

definition read_part :: "bytes \<Rightarrow> nat \<Rightarrow> part \<Rightarrow> bytes" where
  "read_part bs p part =
     take (length (snd part)) (drop (if fst part then be_val (take 32 (drop p bs)) else p) bs)"

lemma layout_reads_back:
  assumes "i < length ps" and "length (layout ps) < 2 ^ 63"
  shows "read_part (layout ps) (head_size (take i ps)) (ps ! i) = snd (ps ! i)"
proof -
  define us vs where "us = take i ps" and "vs = drop (Suc i) ps"
  obtain d b where di: "ps ! i = (d, b)" by fastforce
  have ps: "ps = us @ (d, b) # vs" using id_take_nth_drop [OF assms(1)] by (simp add: us_def vs_def di)
  define k where "k = head_size ps + length (concat (map snd (filter fst us)))"
  have lay: "layout ps = heads_from (head_size ps) us @ (heads_from k ((d, b) # vs)
      @ concat (map snd (filter fst us)) @ (if d then b else []) @ concat (map snd (filter fst vs)))"
    unfolding layout_heads_tails by (simp add: heads_from_append ps k_def)
  have head: "drop (head_size us) (layout ps) = heads_from k ((d, b) # vs)
      @ concat (map snd (filter fst us)) @ (if d then b else []) @ concat (map snd (filter fst vs))"
    by (subst lay) simp
  show ?thesis
  proof (cases d)
    case False
    then show ?thesis unfolding read_part_def us_def [symmetric] di by (simp add: head)
  next
    case True
    have "layout ps = (heads_from (head_size ps) us @ heads_from k ((d, b) # vs)
      @ concat (map snd (filter fst us))) @ b @ concat (map snd (filter fst vs))"
      using lay True by simp
    moreover have "length (heads_from (head_size ps) us @ heads_from k ((d, b) # vs)
      @ concat (map snd (filter fst us))) = k" by (simp add: k_def ps)
    ultimately have tail: "drop k (layout ps) = b @ concat (map snd (filter fst vs))" and "k \<le> length (layout ps)"
      by (simp, metis append_eq_append_conv2 length_append le_add1)
    then have "be_val (int_word k) = k" using assms(2) by simp
    then show ?thesis unfolding read_part_def us_def [symmetric] di using True by (simp add: head tail)
  qed
qed

lemma encodeArgs_parts:
  assumes "encodeArgs env types args = Inr bs" and "length args = length types"
  obtains ps where "bs = layout ps" "length ps = length types"
    "\<And>i. i < length types \<Longrightarrow> isDynamic (types ! i) = Inr (fst (ps ! i)) \<and>
      (if fst (ps ! i) then encodeDynamic else encodeStatic) env (types ! i) (args ! i) = Inr (snd (ps ! i))"
proof -
  obtain ps where ps: "bs = layout ps" "map_res (\<lambda>(i, t, arg). and_then (isDynamic t) (\<lambda>d.
      and_then (wrap_err (''arg '' @ nat_text 10 i @ '' ('' @ t @ '')'')
        (if d then encodeDynamic env t arg else encodeStatic env t arg)) (\<lambda>b. Inr (d, b))))
      (zip [0..<length types] (zip types args)) = Inr ps"
    using assms(1) by (auto simp: encodeArgs.simps and_then_eq_Inr)
  show ?thesis
  proof (rule that [OF ps(1)])
    show "length ps = length types" using ps(2) assms(2) by (simp add: map_res_Inr)
    show "isDynamic (types ! i) = Inr (fst (ps ! i)) \<and>
      (if fst (ps ! i) then encodeDynamic else encodeStatic) env (types ! i) (args ! i) = Inr (snd (ps ! i))"
      if "i < length types" for i
    proof -
      from ps(2) that assms(2) have "and_then (isDynamic (types ! i)) (\<lambda>d.
        and_then (wrap_err (''arg '' @ nat_text 10 i @ '' ('' @ types ! i @ '')'')
          (if d then encodeDynamic env (types ! i) (args ! i) else encodeStatic env (types ! i) (args ! i)))
          (\<lambda>b. Inr (d, b))) = Inr (ps ! i)" unfolding map_res_Inr by auto
      then show ?thesis unfolding and_then_eq_Inr by (cases "ps ! i") (auto split: if_splits)
    qed
  qed
qed

text \<open>C32. The encoding of an argument list is read back through its heads: every argument's own encoding
  is found in place when its type is static and through the offset word in its head when it is dynamic.\<close>

theorem encodeArgs_reads_back:
  assumes "encodeArgs env types args = Inr bs" and "length args = length types" and "length bs < 2 ^ 63"
  shows "\<exists>ps. length ps = length types \<and> (\<forall>i < length types.
     isDynamic (types ! i) = Inr (fst (ps ! i))
     \<and> (if fst (ps ! i) then encodeDynamic else encodeStatic) env (types ! i) (args ! i) = Inr (snd (ps ! i))
     \<and> read_part bs (head_size (take i ps)) (ps ! i) = snd (ps ! i))"
proof -
  obtain ps where ps: "bs = layout ps" "length ps = length types"
    "\<And>i. i < length types \<Longrightarrow> isDynamic (types ! i) = Inr (fst (ps ! i)) \<and>
      (if fst (ps ! i) then encodeDynamic else encodeStatic) env (types ! i) (args ! i) = Inr (snd (ps ! i))"
    using encodeArgs_parts [OF assms(1,2)] by metis
  have "read_part bs (head_size (take i ps)) (ps ! i) = snd (ps ! i)" if "i < length types" for i
    using layout_reads_back [of i ps] that assms(3) ps(1,2) by simp
  then show ?thesis using ps by blast
qed

subsection \<open>Alignment\<close>

lemma encodeElementary_length:
  assumes "encodeElementary env t arg = Some (Inr bs)" and "\<And>a. length (HexToAddress env a) = 20"
  shows "length bs = 32"
proof -
  have uint: "length w = 32" if "encodeUint n a = Inr w" "n \<le> 256" for n a w
  proof -
    note fits = that
    obtain v where v: "0 \<le> v" "v < 2 ^ n" "w = word32 (nat v)" using fits(1) encodeUint_Inr [OF fits(2)] by auto
    then have "v < 2 ^ 256" using fits(2) power_increasing [of n 256 "2 :: int"] by linarith
    then show ?thesis using v by (simp add: nat_less_iff)
  qed
  have int: "length w = 32" if "encodeInt256 v = Inr w" for v w
    using that twos_small [of v] by (auto simp: encodeInt256_Inr)
  have "length w = 32" if "encodeIntN n a = Inr w" for n a w
    using that by (auto simp: encodeIntN_def and_then_eq_Inr split: if_splits dest: int)
  moreover have "length w = 32" if "encodeBytesN n a = Inr w" "n \<le> 32" for n a w
    using that by (auto simp: encodeBytesN_def split: goval.splits option.splits if_splits)
  ultimately show ?thesis using assms(1) unfolding encodeElementary_def
    by (auto simp: assms(2) and_then_eq_Inr split: goval.splits if_splits option.splits dest: uint int)
qed

lemma dvd_length_heads:
  "(\<And>p. p \<in> set ps \<Longrightarrow> (32 :: nat) dvd length (snd p)) \<Longrightarrow> 32 dvd head_size ps"
proof (induction ps)
  case (Cons p ps)
  then have "32 dvd length (snd p)" "32 dvd head_size ps" by simp_all
  then show ?case by (cases p) simp
qed simp

lemma dvd_length_layout:
  assumes "\<And>p. p \<in> set ps \<Longrightarrow> (32 :: nat) dvd length (snd p)"
  shows "32 dvd length (layout ps)"
proof -
  have "32 dvd length (concat (map snd (filter fst ps)))" using assms by (induction ps) auto
  then show ?thesis using dvd_length_heads [OF assms] by (simp add: layout_heads_tails)
qed

lemma encodeTuple_nested:
  "encodeTuple env t arg = Inr bs \<Longrightarrow>
   \<exists>ts items. toSlice arg = Inr items \<and> length items = length ts \<and> encodeArgs env ts items = Inr bs"
  unfolding encodeTuple.simps by (auto simp: Let_def and_then_eq_Inr split: if_splits)

lemma encodeFixedArray_nested:
  "encodeFixedArray env f arg = Inr bs \<Longrightarrow>
   \<exists>ts items. toSlice arg = Inr items \<and> length items = length ts \<and> encodeArgs env ts items = Inr bs"
  by (cases f) (auto simp: encodeFixedArray.simps and_then_eq_Inr split: if_splits,
    metis length_replicate)

lemma encodeDynamicArray_nested:
  "encodeDynamicArray env e arg = Inr bs \<Longrightarrow> \<exists>ts items enc. toSlice arg = Inr items \<and> length items = length ts
     \<and> encodeArgs env ts items = Inr enc \<and> bs = int_word (length items) @ enc"
  by (auto simp: encodeDynamicArray.simps and_then_eq_Inr toSlice_def split: goval.splits)
    (metis length_replicate)

lemma encodeStatic_cases:
  assumes "encodeStatic env t arg = Inr bs"
  shows "encodeElementary env t arg = Some (Inr bs) \<or>
    (\<exists>ts items. toSlice arg = Inr items \<and> length items = length ts \<and> encodeArgs env ts items = Inr bs)"
proof (cases "encodeElementary env t arg")
  case None
  show ?thesis using assms unfolding encodeStatic.simps [of env t arg] None and_then_eq_Inr option.case
    by (auto simp: and_then_eq_Inr split: option.splits if_splits prod.splits
        dest!: encodeTuple_nested encodeFixedArray_nested)
next
  case (Some r)
  then show ?thesis using assms by (simp add: encodeStatic.simps)
qed

lemma encodeDynamic_cases:
  assumes "encodeDynamic env t arg = Inr bs"
  shows "encodeDynamicBytes arg = Inr bs \<or>
    (\<exists>ts items enc. toSlice arg = Inr items \<and> length items = length ts \<and> encodeArgs env ts items = Inr enc
       \<and> (bs = enc \<or> bs = int_word (length items) @ enc))"
  using assms unfolding encodeDynamic.simps [of env t arg]
  by (auto split: option.splits if_splits goval.splits
      dest: encodeTuple_nested encodeFixedArray_nested encodeDynamicArray_nested)

lemma encodeDynamicBytes_length: "encodeDynamicBytes arg = Inr bs \<Longrightarrow> 32 dvd length bs"
  using length_pad32 by (auto simp: encodeDynamicBytes_def and_then_eq_Inr)

lemma encodeArgs_aligned:
  assumes "\<And>a. length (HexToAddress env a) = 20"
  shows "encodeArgs env types args = Inr bs \<Longrightarrow> length args = length types \<Longrightarrow> 32 dvd length bs"
proof (induction args arbitrary: types bs rule: measure_induct_rule [of "size_list size"])
  case (less args)
  obtain ps where ps: "bs = layout ps" "length ps = length types"
    "\<And>i. i < length types \<Longrightarrow> isDynamic (types ! i) = Inr (fst (ps ! i)) \<and>
      (if fst (ps ! i) then encodeDynamic else encodeStatic) env (types ! i) (args ! i) = Inr (snd (ps ! i))"
    using encodeArgs_parts [OF less.prems] by metis
  have "32 dvd length (snd (ps ! i))" if i: "i < length ps" for i
  proof -
    have nested: "32 dvd length enc" if "toSlice (args ! i) = Inr items" "length items = length ts"
      "encodeArgs env ts items = Inr enc" for items ts enc
    proof -
      have "size (args ! i) \<le> size_list size args"
        using i ps(2) less.prems(2) by (intro size_list_estimation') auto
      with toSlice_size [OF that(1)] have "size_list size items < size_list size args" by linarith
      from less.IH [OF this that(3,2)] show ?thesis .
    qed
    show ?thesis
    proof (cases "fst (ps ! i)")
      case True
      then have "encodeDynamic env (types ! i) (args ! i) = Inr (snd (ps ! i))" using ps(3) [of i] ps(2) i by simp
      from encodeDynamic_cases [OF this] show ?thesis by (auto dest: encodeDynamicBytes_length nested)
    next
      case False
      then have "encodeStatic env (types ! i) (args ! i) = Inr (snd (ps ! i))" using ps(3) [of i] ps(2) i by simp
      from encodeStatic_cases [OF this] show ?thesis
        by (auto dest: nested encodeElementary_length [OF _ assms])
    qed
  qed
  then have "32 dvd length (snd p)" if "p \<in> set ps" for p using that by (auto simp: in_set_conv_nth)
  then show ?case unfolding ps(1) by (rule dvd_length_layout)
qed

text \<open>The calldata of a contract call is the four-byte selector of the signature followed by the encoded
  arguments, whole words long, and it is produced only for as many arguments as the signature names.\<close>

theorem EncodeCall_shape:
  assumes "EncodeCall env funcSig args = Inr bs" and "\<forall>a. length (HexToAddress env a) = 20"
    and "length (keccak256 env (bytes_of_string funcSig)) = 32"
  shows "\<exists>types body. parseParamTypes funcSig = Inr types \<and> length args = length types
     \<and> encodeArgs env types args = Inr body \<and> bs = take 4 (keccak256 env (bytes_of_string funcSig)) @ body
     \<and> length bs mod 32 = 4"
proof -
  obtain types body where tb: "parseParamTypes funcSig = Inr types" "length args = length types"
    "encodeArgs env types args = Inr body" "bs = take 4 (keccak256 env (bytes_of_string funcSig)) @ body"
    using assms(1) by (auto simp: EncodeCall_def and_then_eq_Inr split: if_splits)
  have "32 dvd length body" using encodeArgs_aligned [OF _ tb(3,2)] assms(2) by blast
  then have "length bs mod 32 = 4" using assms(3) by (auto simp: tb(4))
  then show ?thesis using tb by blast
qed

text \<open>A signature with an unclosed tuple makes the encoder panic instead of returning an error.\<close>

lemma EncodeCall_unclosed_tuple_panics:
  "EncodeCall env ''f(()'' [GList []] = Inl (Panic ''slice bounds out of range'')"
proof -
  have "parseParamTypes ''f(()'' = Inr [''('']" by code_simp
  moreover have "isDynamic ''('' = Inl (Panic ''slice bounds out of range'')" by code_simp
  ultimately show ?thesis by (simp add: EncodeCall_def encodeArgs.simps)
qed

subsection \<open>Witnesses\<close>

theorem encodeDynamicBytes_reads_back_witness:
  "\<exists>bs. encodeDynamicBytes (GStr ''hi'') = Inr bs \<and> length bs = 64
     \<and> (\<exists>data. dynamic_source (GStr ''hi'') data \<and> take (be_val (take 32 bs)) (drop 32 bs) = data)"
proof -
  define bs where "bs = int_word 2 @ pad32 (bytes_of_string ''hi'')"
  have e: "encodeDynamicBytes (GStr ''hi'') = Inr bs"
    by (simp add: encodeDynamicBytes_def bs_def has_prefix_def bytes_of_string_def numeral_2_eq_2)
  have l: "length bs = 64" by (simp add: bs_def pad32_def bytes_of_string_def)
  show ?thesis using e l encodeDynamicBytes_reads_back [OF e] by auto
qed

lemma sample_args:
  "\<exists>bs. encodeArgs sample_env [''address'', ''bytes''] [GStr ''0xa'', GStr ''hi''] = Inr bs \<and> length bs = 128"
proof -
  have "isDynamic ''address'' = Inr False" "isDynamic ''bytes'' = Inr True" by code_simp+
  then show ?thesis
    by (simp add: encodeArgs.simps encodeStatic.simps encodeDynamic.simps encodeElementary_def sample_env_def
        encodeDynamicBytes_def has_prefix_def layout_def pad32_def bytes_of_string_def upt_rec)
qed

theorem encodeArgs_reads_back_witness:
  "\<exists>bs ps. encodeArgs sample_env [''address'', ''bytes''] [GStr ''0xa'', GStr ''hi''] = Inr bs
     \<and> length ps = length [''address'', ''bytes''] \<and> (\<forall>i < length [''address'', ''bytes''].
     isDynamic ([''address'', ''bytes''] ! i) = Inr (fst (ps ! i))
     \<and> (if fst (ps ! i) then encodeDynamic else encodeStatic) sample_env ([''address'', ''bytes''] ! i)
         ([GStr ''0xa'', GStr ''hi''] ! i) = Inr (snd (ps ! i))
     \<and> read_part bs (head_size (take i ps)) (ps ! i) = snd (ps ! i))"
proof -
  obtain bs where bs: "encodeArgs sample_env [''address'', ''bytes''] [GStr ''0xa'', GStr ''hi''] = Inr bs" "length bs = 128"
    using sample_args by blast
  then show ?thesis using encodeArgs_reads_back [OF bs(1)] by (intro exI [of _ bs]) simp
qed

theorem EncodeCall_shape_witness:
  "\<exists>bs. EncodeCall sample_env ''pay(address,bytes)'' [GStr ''0xa'', GStr ''hi''] = Inr bs \<and> length bs mod 32 = 4"
proof -
  obtain bs where bs: "encodeArgs sample_env [''address'', ''bytes''] [GStr ''0xa'', GStr ''hi''] = Inr bs" "length bs = 128"
    using sample_args by blast
  have "parseParamTypes ''pay(address,bytes)'' = Inr [''address'', ''bytes'']" by code_simp
  with bs have c: "EncodeCall sample_env ''pay(address,bytes)'' [GStr ''0xa'', GStr ''hi'']
      = Inr (take 4 (keccak256 sample_env (bytes_of_string ''pay(address,bytes)'')) @ bs)"
    by (simp add: EncodeCall_def)
  show ?thesis using EncodeCall_shape [OF c] c by (auto simp: sample_env_def)
qed

end
