(* ===== verification/RateLimit.thy ===== *)
theory RateLimit
  imports Prelude "HOL-Library.AList"
begin

text \<open>
  The sliding-window rate limiters of \<open>handler/ratelimit.go\<close>: \<open>RateLimiter\<close>, keyed by user or
  API key, and \<open>IPRateLimiter\<close>, keyed by client address, with their background clean-ups. Both
  are instances of one interface, the locale \<open>sliding_window\<close>, in which the guarantee of the
  window is proved for every run of requests and clean-ups whose clock does not go backwards:
  no window of the configured length holds more accepted requests than the limit, and a request
  is refused only when the window that ends with it is full. Each operation runs under the mutex
  of its limiter, so a run is a sequence of whole operations.
\<close>

subsection \<open>The limiters\<close>

record rate_limiter =
  rl_windows :: "(string \<times> int list) list"
  rl_limit :: int
  rl_window :: int

definition NewRateLimiter :: "int \<Rightarrow> int \<Rightarrow> rate_limiter" where
  "NewRateLimiter limit window = \<lparr>rl_windows = [], rl_limit = limit, rl_window = window\<rparr>"

definition lookup_times :: "(string \<times> int list) list \<Rightarrow> string \<Rightarrow> int list" where
  "lookup_times m k = (case map_of m k of None \<Rightarrow> [] | Some ts \<Rightarrow> ts)"

definition Allow :: "int \<Rightarrow> string \<Rightarrow> rate_limiter \<Rightarrow> bool \<times> rate_limiter" where
  "Allow now key rl =
     (let cutoff = now - rl_window rl;
          valid = filter (\<lambda>t. t > cutoff) (lookup_times (rl_windows rl) key)
      in if int (length valid) \<ge> rl_limit rl
         then (False, rl\<lparr>rl_windows := AList.update key valid (rl_windows rl)\<rparr>)
         else (True, rl\<lparr>rl_windows := AList.update key (valid @ [now]) (rl_windows rl)\<rparr>))"

definition RateLimiter_cleanup :: "int \<Rightarrow> rate_limiter \<Rightarrow> rate_limiter" where
  "RateLimiter_cleanup now rl =
     (let cutoff = now - rl_window rl
      in rl\<lparr>rl_windows := filter (\<lambda>(key, _). list_ex (\<lambda>t. t > cutoff) (lookup_times (rl_windows rl) key)) (rl_windows rl)\<rparr>)"

record rate_limit_entry =
  rle_times :: "int list"

record ip_rate_limiter =
  ipl_limits :: "(string \<times> rate_limit_entry) list"
  ipl_max :: int
  ipl_window :: int

definition NewIPRateLimiter :: "int \<Rightarrow> int \<Rightarrow> ip_rate_limiter" where
  "NewIPRateLimiter max' window = \<lparr>ipl_limits = [], ipl_max = max', ipl_window = window\<rparr>"

definition lookup_entry :: "(string \<times> rate_limit_entry) list \<Rightarrow> string \<Rightarrow> rate_limit_entry" where
  "lookup_entry m ip = (case map_of m ip of None \<Rightarrow> \<lparr>rle_times = []\<rparr> | Some e \<Rightarrow> e)"

definition Exceeded :: "int \<Rightarrow> string \<Rightarrow> ip_rate_limiter \<Rightarrow> bool \<times> ip_rate_limiter" where
  "Exceeded now ip l =
     (let cutoff = now - ipl_window l;
          entry = lookup_entry (ipl_limits l) ip;
          valid = filter (\<lambda>t. t > cutoff) (rle_times entry)
      in if int (length valid) \<ge> ipl_max l
         then (True, l\<lparr>ipl_limits := AList.update ip (entry\<lparr>rle_times := valid\<rparr>) (ipl_limits l)\<rparr>)
         else (False, l\<lparr>ipl_limits := AList.update ip (entry\<lparr>rle_times := valid @ [now]\<rparr>) (ipl_limits l)\<rparr>))"

definition IPRateLimiter_cleanup :: "int \<Rightarrow> ip_rate_limiter \<Rightarrow> ip_rate_limiter" where
  "IPRateLimiter_cleanup now l =
     (let cutoff = now - ipl_window l
      in l\<lparr>ipl_limits := filter (\<lambda>(ip, _). list_ex (\<lambda>t. t > cutoff) (rle_times (lookup_entry (ipl_limits l) ip))) (ipl_limits l)\<rparr>)"

subsection \<open>Runs\<close>

text \<open>What happens to a limiter: a request of a key at a time, or a tick of the clean-up.\<close>

datatype rl_event = Request int string | Cleanup int

primrec event_time :: "rl_event \<Rightarrow> int" where
  "event_time (Request t k) = t"
| "event_time (Cleanup t) = t"

primrec event_key :: "rl_event \<Rightarrow> string option" where
  "event_key (Request t k) = Some k"
| "event_key (Cleanup t) = None"

text \<open>The events of a run with the decision on each request.\<close>

type_synonym rl_log = "(rl_event \<times> bool) list"

definition accepted :: "rl_log \<Rightarrow> string \<Rightarrow> int list" where
  "accepted lg k = map (event_time \<circ> fst) (filter (\<lambda>(e, b). b \<and> event_key e = Some k) lg)"

definition in_window :: "int \<Rightarrow> int \<Rightarrow> int \<Rightarrow> bool" where
  "in_window w t u \<longleftrightarrow> t - w < u \<and> u \<le> t"

text \<open>The log of a run, for a limiter given by its decision and clean-up functions.\<close>

primrec limiter_run ::
    "(int \<Rightarrow> string \<Rightarrow> 's \<Rightarrow> bool \<times> 's) \<Rightarrow> (int \<Rightarrow> 's \<Rightarrow> 's) \<Rightarrow> rl_event list \<Rightarrow> 's \<Rightarrow> rl_log \<Rightarrow> rl_log" where
  "limiter_run decide gc [] s lg = lg"
| "limiter_run decide gc (e # es) s lg = (case e of
      Request now k \<Rightarrow> limiter_run decide gc es (snd (decide now k s)) (lg @ [(e, fst (decide now k s))])
    | Cleanup now \<Rightarrow> limiter_run decide gc es (gc now s) (lg @ [(e, True)]))"

text \<open>The guarantee over the log of a run: no window holds more than \<open>B\<close> accepted requests of a key, and
  every decision is the one on the requests accepted before it in the window that ends with it.\<close>

definition window_guarantee :: "int \<Rightarrow> int \<Rightarrow> rl_log \<Rightarrow> bool" where
  "window_guarantee B w lg \<longleftrightarrow>
     (\<forall>k t. int (length (filter (in_window w t) (accepted lg k))) \<le> max 0 B) \<and>
     (\<forall>pre now k b post. lg = pre @ (Request now k, b) # post \<longrightarrow>
        b = (int (length (filter (in_window w now) (accepted pre k))) < B))"

lemma accepted_Nil [simp]: "accepted [] k = []"
  by (simp add: accepted_def)

lemma accepted_append [simp]: "accepted (xs @ ys) k = accepted xs k @ accepted ys k"
  by (simp add: accepted_def)

lemma accepted_single [simp]:
  "accepted [(Request t k', b)] k = (if b \<and> k' = k then [t] else [])"
  "accepted [(Cleanup t, b)] k = []"
  by (simp_all add: accepted_def)

lemma accepted_times: "u \<in> set (accepted lg k) \<Longrightarrow> \<exists>eb \<in> set lg. event_time (fst eb) = u"
  by (force simp: accepted_def)

lemma window_guarantee_Nil [simp]: "window_guarantee B w []"
  by (simp add: window_guarantee_def)

text \<open>A decision in an extended log is the last one or one of the log before.\<close>

lemma snoc_decision:
  "lg @ [x] = pre @ y # post \<Longrightarrow> (pre = lg \<and> y = x) \<or> (\<exists>post'. lg = pre @ y # post')"
  by (cases post rule: rev_cases) auto

lemma window_guarantee_cleanup:
  assumes "window_guarantee B w lg"
  shows "window_guarantee B w (lg @ [(Cleanup t, True)])"
proof -
  have "b = (int (length (filter (in_window w now) (accepted pre k))) < B)"
    if "lg @ [(Cleanup t, True)] = pre @ (Request now k, b) # post" for pre now k b post
    using snoc_decision [OF that] assms by (auto simp: window_guarantee_def)
  then show ?thesis using assms by (auto simp: window_guarantee_def)
qed

lemma length_filter_mono: "(\<And>x. x \<in> set xs \<Longrightarrow> P x \<Longrightarrow> Q x) \<Longrightarrow> length (filter P xs) \<le> length (filter Q xs)"
  by (induction xs) (auto simp: le_SucI)

lemma window_guarantee_request:
  assumes g: "window_guarantee B w lg" and past: "\<And>eb. eb \<in> set lg \<Longrightarrow> event_time (fst eb) \<le> now"
    and b: "b = (int (length (filter (in_window w now) (accepted lg k))) < B)"
  shows "window_guarantee B w (lg @ [(Request now k, b)])"
proof -
  let ?lg = "lg @ [(Request now k, b)]"
  have "int (length (filter (in_window w t) (accepted ?lg k'))) \<le> max 0 B" for k' t
  proof (cases "b \<and> k' = k \<and> in_window w t now")
    case False
    then show ?thesis using g by (auto simp: window_guarantee_def)
  next
    case True
    have "in_window w now u" if "u \<in> set (accepted lg k)" "in_window w t u" for u
      using that True past accepted_times [of u lg k] by (force simp: in_window_def)
    then have "length (filter (in_window w t) (accepted lg k)) \<le> length (filter (in_window w now) (accepted lg k))"
      by (intro length_filter_mono) auto
    then show ?thesis using True b by simp
  qed
  moreover have "b' = (int (length (filter (in_window w t) (accepted pre k'))) < B)"
    if "?lg = pre @ (Request t k', b') # post" for pre t k' b' post
    using snoc_decision [OF that] g b by (auto simp: window_guarantee_def)
  ultimately show ?thesis by (auto simp: window_guarantee_def)
qed

locale sliding_window =
  fixes decide :: "int \<Rightarrow> string \<Rightarrow> 's \<Rightarrow> bool \<times> 's" and gc :: "int \<Rightarrow> 's \<Rightarrow> 's"
    and times :: "'s \<Rightarrow> string \<Rightarrow> int list" and bound :: "'s \<Rightarrow> int" and window :: "'s \<Rightarrow> int"
  assumes decide_answer: "fst (decide now k s) \<longleftrightarrow> int (length (filter (\<lambda>t. t > now - window s) (times s k))) < bound s"
    and decide_key: "times (snd (decide now k s)) k =
        filter (\<lambda>t. t > now - window s) (times s k) @ (if fst (decide now k s) then [now] else [])"
    and decide_other: "k' \<noteq> k \<Longrightarrow> times (snd (decide now k s)) k' = times s k'"
    and gc_times: "filter (\<lambda>t. t > now - window s) (times (gc now s) k) = filter (\<lambda>t. t > now - window s) (times s k)"
    and config: "bound (snd (decide now k s)) = bound s" "window (snd (decide now k s)) = window s"
        "bound (gc now s) = bound s" "window (gc now s) = window s"
begin

text \<open>The limiter remembers the accepted requests that a window ending now can hold.\<close>

definition remembers :: "int \<Rightarrow> 's \<Rightarrow> rl_log \<Rightarrow> bool" where
  "remembers now s lg \<longleftrightarrow> (\<forall>k. filter (\<lambda>t. t > now - window s) (times s k) = filter (\<lambda>t. t > now - window s) (accepted lg k))"

lemma remembers_later:
  assumes "remembers now s lg" and "now \<le> later"
  shows "remembers later s lg"
proof -
  have "filter (\<lambda>t. t > later - window s) xs = filter (\<lambda>t. t > later - window s) (filter (\<lambda>t. t > now - window s) xs)"
    for xs :: "int list" using assms(2) by (auto intro: filter_cong)
  then show ?thesis using assms(1) unfolding remembers_def by metis
qed

lemma remembers_gc: "remembers now s lg \<Longrightarrow> remembers now (gc now s) (lg @ [(Cleanup now, True)])"
  by (simp add: remembers_def config gc_times)

lemma remembers_decide:
  "remembers now s lg \<Longrightarrow> remembers now (snd (decide now k s)) (lg @ [(Request now k, fst (decide now k s))])"
proof -
  assume r: "remembers now s lg"
  have "filter (\<lambda>t. t > now - window s) (times (snd (decide now k s)) k')
      = filter (\<lambda>t. t > now - window s) (accepted (lg @ [(Request now k, fst (decide now k s))]) k')" for k'
    using r by (cases "k' = k") (simp_all add: remembers_def decide_key decide_other)
  then show ?thesis by (simp add: remembers_def config)
qed

lemma decide_window:
  assumes "remembers now s lg" and "\<And>eb. eb \<in> set lg \<Longrightarrow> event_time (fst eb) \<le> now"
  shows "fst (decide now k s) = (int (length (filter (in_window (window s) now) (accepted lg k))) < bound s)"
proof -
  have "filter (in_window (window s) now) (accepted lg k) = filter (\<lambda>t. t > now - window s) (accepted lg k)"
    using accepted_times assms(2) by (force simp: in_window_def intro: filter_cong)
  then show ?thesis using assms(1) by (simp add: decide_answer remembers_def)
qed

lemma run_guarantee:
  assumes "remembers now s lg" and "\<And>eb. eb \<in> set lg \<Longrightarrow> event_time (fst eb) \<le> now"
    and "window_guarantee (bound s) (window s) lg"
    and "sorted (now # map event_time es)"
  shows "window_guarantee (bound s) (window s) (limiter_run decide gc es s lg)"
  using assms
proof (induction es arbitrary: now s lg)
  case (Cons e es)
  show ?case
  proof (cases e)
    case (Request t k)
    then have r: "remembers t s lg" and le: "\<And>eb. eb \<in> set lg \<Longrightarrow> event_time (fst eb) \<le> t"
      using Cons.prems by (auto intro: remembers_later order_trans)
    have "window_guarantee (bound s) (window s) (limiter_run decide gc es (snd (decide t k s)) (lg @ [(e, fst (decide t k s))]))"
      using Cons.IH [OF remembers_decide [OF r], of k] window_guarantee_request [OF Cons.prems(3) le decide_window [OF r le]]
        Cons.prems(4) le by (fastforce simp: Request config)
    then show ?thesis by (simp add: Request)
  next
    case (Cleanup t)
    then have r: "remembers t s lg" and le: "\<And>eb. eb \<in> set lg \<Longrightarrow> event_time (fst eb) \<le> t"
      using Cons.prems by (auto intro: remembers_later order_trans)
    have "window_guarantee (bound s) (window s) (limiter_run decide gc es (gc t s) (lg @ [(e, True)]))"
      using Cons.IH [OF remembers_gc [OF r]] window_guarantee_cleanup [OF Cons.prems(3)]
        Cons.prems(4) le by (fastforce simp: Cleanup config)
    then show ?thesis by (simp add: Cleanup)
  qed
qed simp

lemma fresh_guarantee:
  assumes "\<And>k. times s k = []" and "sorted (map event_time es)"
  shows "window_guarantee (bound s) (window s) (limiter_run decide gc es s [])"
proof (cases es)
  case (Cons e es')
  have "remembers (event_time e) s []" by (simp add: remembers_def assms(1))
  then show ?thesis using run_guarantee [of "event_time e" s "[]" es] assms(2) by (simp add: Cons)
qed simp

end

subsection \<open>The guarantee of both limiters\<close>

lemma map_of_filter_keys: "map_of (filter (\<lambda>(k, _). Q k) m) k = (if Q k then map_of m k else None)"
  by (induction m) auto

lemma lookup_times_update: "lookup_times (AList.update k v m) k' = (if k' = k then v else lookup_times m k')"
  by (simp add: lookup_times_def update_conv')

lemma lookup_entry_update: "lookup_entry (AList.update k v m) k' = (if k' = k then v else lookup_entry m k')"
  by (simp add: lookup_entry_def update_conv')

lemma filter_none: "\<not> list_ex P xs \<Longrightarrow> filter P xs = []"
  by (induction xs) auto

lemma lookup_times_gc:
  "filter P (lookup_times (filter (\<lambda>(key, _). list_ex P (lookup_times m key)) m) k) = filter P (lookup_times m k)"
  using filter_none [of P "lookup_times m k"]
  by (auto simp: lookup_times_def map_of_filter_keys split: option.splits)

lemma lookup_entry_gc:
  "filter P (rle_times (lookup_entry (filter (\<lambda>(key, _). list_ex P (rle_times (lookup_entry m key))) m) k))
   = filter P (rle_times (lookup_entry m k))"
  using filter_none [of P "rle_times (lookup_entry m k)"]
  by (auto simp: lookup_entry_def map_of_filter_keys split: option.splits)

text \<open>The address limiter answers whether the limit is exceeded; its decision to let a request pass is the
  negation.\<close>

definition Passes :: "int \<Rightarrow> string \<Rightarrow> ip_rate_limiter \<Rightarrow> bool \<times> ip_rate_limiter" where
  "Passes now ip l = (case Exceeded now ip l of (x, l') \<Rightarrow> (\<not> x, l'))"

interpretation api_limiter: sliding_window Allow RateLimiter_cleanup "\<lambda>rl. lookup_times (rl_windows rl)" rl_limit rl_window
  by unfold_locales (auto simp: Allow_def RateLimiter_cleanup_def Let_def lookup_times_update lookup_times_gc)

interpretation ip_limiter: sliding_window Passes IPRateLimiter_cleanup
    "\<lambda>l ip. rle_times (lookup_entry (ipl_limits l) ip)" ipl_max ipl_window
  by unfold_locales
    (auto simp: Passes_def Exceeded_def IPRateLimiter_cleanup_def Let_def lookup_entry_update lookup_entry_gc)

text \<open>C33. Over any run of requests and clean-ups in clock order, a limiter created for \<open>limit\<close> requests per
  \<open>window\<close> accepts at most \<open>limit\<close> requests of a key in every window, and refuses a request only when
  the window ending with it already holds \<open>limit\<close> accepted ones; both limiters do.\<close>

theorem rate_limit_window:
  assumes "sorted (map event_time es)"
  shows "window_guarantee limit window (limiter_run Allow RateLimiter_cleanup es (NewRateLimiter limit window) []) \<and>
    window_guarantee limit window (limiter_run Passes IPRateLimiter_cleanup es (NewIPRateLimiter limit window) [])"
  using api_limiter.fresh_guarantee [OF _ assms, of "NewRateLimiter limit window"]
    ip_limiter.fresh_guarantee [OF _ assms, of "NewIPRateLimiter limit window"]
  by (simp_all add: NewRateLimiter_def NewIPRateLimiter_def lookup_times_def lookup_entry_def)

theorem rate_limit_window_witness:
  "limiter_run Allow RateLimiter_cleanup [Request 0 ''a'', Request 5 ''a'', Cleanup 6, Request 7 ''a'', Request 10 ''a'']
       (NewRateLimiter 2 10) []
     = [(Request 0 ''a'', True), (Request 5 ''a'', True), (Cleanup 6, True), (Request 7 ''a'', False), (Request 10 ''a'', True)]
   \<and> window_guarantee 2 10 [(Request 0 ''a'', True), (Request 5 ''a'', True), (Cleanup 6, True), (Request 7 ''a'', False), (Request 10 ''a'', True)]"
proof -
  have r: "limiter_run Allow RateLimiter_cleanup [Request 0 ''a'', Request 5 ''a'', Cleanup 6, Request 7 ''a'', Request 10 ''a'']
       (NewRateLimiter 2 10) []
     = [(Request 0 ''a'', True), (Request 5 ''a'', True), (Cleanup 6, True), (Request 7 ''a'', False), (Request 10 ''a'', True)]"
    by code_simp
  show ?thesis
    using rate_limit_window [of "[Request 0 ''a'', Request 5 ''a'', Cleanup 6, Request 7 ''a'', Request 10 ''a'']" 2 10] r
    by simp
qed

end
