(* ===== verification/SseHub.thy ===== *)
theory SseHub
  imports Json "HOL-Library.AList" "HOL-Library.Multiset"
begin

text \<open>
  The event hub of \<open>handler/sse_hub.go\<close>: subscriptions of users to buffered channels, and the
  delivery of an event to the channels of one user. A channel is an index into the list of all
  channels made; its buffer holds at most sixteen events and a full buffer drops the event. Closing
  a closed channel and sending on one are run-time panics. Every operation holds the mutex of the
  hub. The theorems show that the limits on connections hold along every run, that no operation
  panics as long as a subscriber unsubscribes once, and that an event reaches the subscribers of
  its user and nobody else; the last lemma shows that a subscriber that leaves after the hub was
  stopped closes its channel a second time.
\<close>

record sse_event =
  ev_Type :: string
  ev_Data :: json

record sse_chan =
  ch_buf :: "sse_event list"
  ch_closed :: bool

record sse_hub =
  hub_subs :: "(nat \<times> nat list) list"
  hub_chans :: "sse_chan list"

definition NewSSEHub :: sse_hub where
  "NewSSEHub = \<lparr>hub_subs = [], hub_chans = []\<rparr>"

definition maxSSEConnsPerUser :: nat where
  "maxSSEConnsPerUser = 5"

definition maxGlobalSSEConns :: nat where
  "maxGlobalSSEConns = 2000"

definition chan_cap :: nat where
  "chan_cap = 16"

definition subs_of :: "nat \<Rightarrow> sse_hub \<Rightarrow> nat list" where
  "subs_of userID h = (case map_of (hub_subs h) userID of None \<Rightarrow> [] | Some cs \<Rightarrow> cs)"

definition total_subs :: "sse_hub \<Rightarrow> nat" where
  "total_subs h = sum_list (map (\<lambda>(_, cs). length cs) (hub_subs h))"

definition Subscribe :: "nat \<Rightarrow> sse_hub \<Rightarrow> nat option \<times> sse_hub" where
  "Subscribe userID h =
     (if total_subs h \<ge> maxGlobalSSEConns then (None, h)
      else if length (subs_of userID h) \<ge> maxSSEConnsPerUser then (None, h)
      else let ch = length (hub_chans h)
        in (Some ch, h\<lparr>hub_subs := AList.update userID (subs_of userID h @ [ch]) (hub_subs h),
                       hub_chans := hub_chans h @ [\<lparr>ch_buf = [], ch_closed = False\<rparr>]\<rparr>))"

definition close_chan :: "nat \<Rightarrow> sse_hub \<Rightarrow> unit res \<times> sse_hub" where
  "close_chan ch h =
     (if ch_closed (hub_chans h ! ch) then (Inl (Panic ''close of closed channel''), h)
      else (Inr (), h\<lparr>hub_chans := (hub_chans h)[ch := (hub_chans h ! ch)\<lparr>ch_closed := True\<rparr>]\<rparr>))"

definition Unsubscribe :: "nat \<Rightarrow> nat option \<Rightarrow> sse_hub \<Rightarrow> unit res \<times> sse_hub" where
  "Unsubscribe userID chan h = (case chan of
       None \<Rightarrow> (Inr (), h)
     | Some ch \<Rightarrow>
         let updated = filter (\<lambda>c. c \<noteq> ch) (subs_of userID h);
             subs = (if updated = [] then AList.delete userID (hub_subs h)
                     else AList.update userID updated (hub_subs h))
         in close_chan ch (h\<lparr>hub_subs := subs\<rparr>))"

primrec close_all :: "nat list \<Rightarrow> sse_hub \<Rightarrow> unit res \<times> sse_hub" where
  "close_all [] h = (Inr (), h)"
| "close_all (ch # chs) h = seq (close_chan ch) (\<lambda>_. close_all chs) h"

primrec stop_loop :: "(nat \<times> nat list) list \<Rightarrow> sse_hub \<Rightarrow> unit res \<times> sse_hub" where
  "stop_loop [] h = (Inr (), h)"
| "stop_loop (e # es) h = seq (close_all (snd e)) (\<lambda>_ h'.
     stop_loop es (h'\<lparr>hub_subs := AList.delete (fst e) (hub_subs h')\<rparr>)) h"

definition Stop :: "sse_hub \<Rightarrow> unit res \<times> sse_hub" where
  "Stop h = stop_loop (hub_subs h) h"

definition send_event :: "sse_event \<Rightarrow> nat \<Rightarrow> sse_hub \<Rightarrow> unit res \<times> sse_hub" where
  "send_event evt ch h =
     (let c = hub_chans h ! ch
      in if ch_closed c then (Inl (Panic ''send on closed channel''), h)
         else if length (ch_buf c) < chan_cap
         then (Inr (), h\<lparr>hub_chans := (hub_chans h)[ch := c\<lparr>ch_buf := ch_buf c @ [evt]\<rparr>]\<rparr>)
         else (Inr (), h))"

primrec send_all :: "sse_event \<Rightarrow> nat list \<Rightarrow> sse_hub \<Rightarrow> unit res \<times> sse_hub" where
  "send_all evt [] h = (Inr (), h)"
| "send_all evt (ch # chs) h = seq (send_event evt ch) (\<lambda>_. send_all evt chs) h"

definition Broadcast :: "nat \<Rightarrow> sse_event \<Rightarrow> sse_hub \<Rightarrow> unit res \<times> sse_hub" where
  "Broadcast userID evt h = send_all evt (subs_of userID h) h"

text \<open>The receiving side of \<open>SSEHandler.Stream\<close>: the next event of a channel, \<open>None\<close> when it is
  closed and drained or has nothing yet.\<close>

definition receive :: "nat \<Rightarrow> sse_hub \<Rightarrow> sse_event option \<times> sse_hub" where
  "receive ch h = (case ch_buf (hub_chans h ! ch) of
       [] \<Rightarrow> (None, h)
     | e # es \<Rightarrow> (Some e, h\<lparr>hub_chans := (hub_chans h)[ch := (hub_chans h ! ch)\<lparr>ch_buf := es\<rparr>]\<rparr>))"

subsection \<open>The invariant\<close>

definition all_subs :: "sse_hub \<Rightarrow> nat list" where
  "all_subs h = concat (map snd (hub_subs h))"

definition hub_inv :: "sse_hub \<Rightarrow> bool" where
  "hub_inv h \<longleftrightarrow> distinct (map fst (hub_subs h)) \<and> distinct (all_subs h)
     \<and> (\<forall>ch \<in> set (all_subs h). ch < length (hub_chans h) \<and> \<not> ch_closed (hub_chans h ! ch))
     \<and> (\<forall>c \<in> set (hub_chans h). length (ch_buf c) \<le> chan_cap)
     \<and> (\<forall>u. length (subs_of u h) \<le> maxSSEConnsPerUser) \<and> total_subs h \<le> maxGlobalSSEConns"

lemma total_subs_length: "total_subs h = length (all_subs h)"
  by (simp add: total_subs_def all_subs_def length_concat case_prod_beta' comp_def)

text \<open>The subscriptions split into those of a user and the others.\<close>

definition others :: "nat \<Rightarrow> sse_hub \<Rightarrow> nat list" where
  "others u h = concat (map snd (filter (\<lambda>e. fst e \<noteq> u) (hub_subs h)))"

lemma others_concat:
  "distinct (map fst m) \<Longrightarrow> mset (concat (map snd m)) =
     mset (case map_of m u of None \<Rightarrow> [] | Some cs \<Rightarrow> cs) + mset (concat (map snd (filter (\<lambda>e. fst e \<noteq> u) m)))"
proof (induction m)
  case (Cons e m)
  obtain v cs where e: "e = (v, cs)" by fastforce
  show ?case
  proof (cases "v = u")
    case True
    then have "filter (\<lambda>e'. fst e' \<noteq> u) m = m" using Cons.prems e by (force simp: filter_id_conv)
    then show ?thesis by (simp add: e True)
  next
    case False
    then show ?thesis using Cons by (simp add: e)
  qed
qed simp

lemma all_subs_split:
  "distinct (map fst (hub_subs h)) \<Longrightarrow> mset (all_subs h) = mset (subs_of u h) + mset (others u h)"
  unfolding all_subs_def subs_of_def others_def by (rule others_concat)

lemma subs_of_chans [simp]: "subs_of u (h\<lparr>hub_chans := cs\<rparr>) = subs_of u h"
  by (simp add: subs_of_def)

lemma subs_of_update [simp]:
  "subs_of u' (h\<lparr>hub_subs := AList.update u cs (hub_subs h)\<rparr>) = (if u' = u then cs else subs_of u' h)"
  "subs_of u' (h\<lparr>hub_subs := AList.delete u (hub_subs h)\<rparr>) = (if u' = u then [] else subs_of u' h)"
  by (auto simp: subs_of_def update_conv' delete_conv')

lemma filter_others_update: "filter (\<lambda>e. fst e \<noteq> u) (AList.update u cs m) = filter (\<lambda>e. fst e \<noteq> u) m"
  by (induction m) auto

lemma others_update [simp]:
  "others u (h\<lparr>hub_subs := AList.update u cs (hub_subs h)\<rparr>) = others u h"
  "others u (h\<lparr>hub_subs := AList.delete u (hub_subs h)\<rparr>) = others u h"
  "others u (h\<lparr>hub_chans := chs\<rparr>) = others u h"
  by (auto simp: others_def filter_others_update AList.delete_eq case_prod_beta' intro!: arg_cong [of _ _ concat]
      arg_cong [of _ _ "map snd"] filter_cong)

lemma set_all_subs:
  "distinct (map fst (hub_subs h)) \<Longrightarrow> set (all_subs h) = set (subs_of u h) \<union> set (others u h)"
  using all_subs_split [of h u] by (metis set_mset_mset set_mset_union)

lemma subs_of_all: "ch \<in> set (subs_of u h) \<Longrightarrow> ch \<in> set (all_subs h)"
  by (force simp: subs_of_def all_subs_def split: option.splits dest: map_of_SomeD [OF sym] map_of_SomeD)

text \<open>What replacing the list of one user does to the invariant.\<close>

lemma distinct_split:
  assumes "distinct (map fst (hub_subs h))"
  shows "distinct (all_subs h) \<longleftrightarrow> distinct (subs_of u h @ others u h)"
    and "length (all_subs h) = length (subs_of u h) + length (others u h)"
proof -
  have m: "mset (all_subs h) = mset (subs_of u h @ others u h)" using all_subs_split [OF assms] by simp
  show "distinct (all_subs h) \<longleftrightarrow> distinct (subs_of u h @ others u h)"
    using m by (metis mset_eq_imp_distinct_iff)
  show "length (all_subs h) = length (subs_of u h) + length (others u h)"
    using mset_eq_length [OF m] by simp
qed

lemma hub_inv_iff:
  "hub_inv h \<longleftrightarrow> distinct (map fst (hub_subs h)) \<and> distinct (subs_of u h @ others u h)
     \<and> (\<forall>ch \<in> set (subs_of u h) \<union> set (others u h). ch < length (hub_chans h) \<and> \<not> ch_closed (hub_chans h ! ch))
     \<and> (\<forall>c \<in> set (hub_chans h). length (ch_buf c) \<le> chan_cap)
     \<and> (\<forall>u. length (subs_of u h) \<le> maxSSEConnsPerUser)
     \<and> length (subs_of u h) + length (others u h) \<le> maxGlobalSSEConns"
  unfolding hub_inv_def total_subs_length
  using distinct_split [of h u] set_all_subs [of h u] by auto

lemma hub_inv_Subscribe:
  assumes "hub_inv h"
  shows "hub_inv (snd (Subscribe u h))"
proof (cases "fst (Subscribe u h)")
  case None
  then have "snd (Subscribe u h) = h" by (auto simp: Subscribe_def Let_def split: if_splits)
  then show ?thesis using assms by simp
next
  case (Some ch)
  let ?h = "h\<lparr>hub_subs := AList.update u (subs_of u h @ [length (hub_chans h)]) (hub_subs h),
     hub_chans := hub_chans h @ [\<lparr>ch_buf = [], ch_closed = False\<rparr>]\<rparr>"
  from Some have h': "snd (Subscribe u h) = ?h" and lim: "total_subs h < maxGlobalSSEConns" "length (subs_of u h) < maxSSEConnsPerUser"
    by (auto simp: Subscribe_def Let_def split: if_splits)
  have d: "distinct (map fst (hub_subs h))" using assms by (simp add: hub_inv_def)
  have "length (subs_of u h) + length (others u h) < maxGlobalSSEConns"
    using lim(1) distinct_split(2) [OF d, of u] by (simp add: total_subs_length)
  then show ?thesis
    using assms lim(2) unfolding h' hub_inv_iff [of _ u]
    by (auto simp: distinct_update nth_append intro: less_SucI)
qed

text \<open>Sending and closing touch the channels they are given, one by one.\<close>

definition deliver :: "sse_event \<Rightarrow> sse_chan \<Rightarrow> sse_chan" where
  "deliver evt c = (if length (ch_buf c) < chan_cap then c\<lparr>ch_buf := ch_buf c @ [evt]\<rparr> else c)"

definition on_chans :: "(sse_chan \<Rightarrow> sse_chan) \<Rightarrow> nat list \<Rightarrow> sse_hub \<Rightarrow> sse_hub" where
  "on_chans f chs h = h\<lparr>hub_chans := map (\<lambda>i. if i \<in> set chs then f (hub_chans h ! i) else hub_chans h ! i) [0..<length (hub_chans h)]\<rparr>"

lemma on_chans_simps [simp]:
  "hub_subs (on_chans f chs h) = hub_subs h" "length (hub_chans (on_chans f chs h)) = length (hub_chans h)"
  "subs_of u (on_chans f chs h) = subs_of u h" "others u (on_chans f chs h) = others u h"
  "on_chans f [] h = h"
  by (simp_all add: on_chans_def subs_of_def others_def map_nth)

lemma on_chans_nth [simp]:
  "i < length (hub_chans h) \<Longrightarrow> hub_chans (on_chans f chs h) ! i = (if i \<in> set chs then f (hub_chans h ! i) else hub_chans h ! i)"
  by (simp add: on_chans_def)

lemma on_chans_Cons:
  assumes "ch \<notin> set chs" "ch < length (hub_chans h)"
  shows "on_chans f chs (h\<lparr>hub_chans := (hub_chans h)[ch := f (hub_chans h ! ch)]\<rparr>) = on_chans f (ch # chs) h"
proof -
  have "hub_chans (on_chans f chs (h\<lparr>hub_chans := (hub_chans h)[ch := f (hub_chans h ! ch)]\<rparr>)) = hub_chans (on_chans f (ch # chs) h)"
    by (rule nth_equalityI) (use assms in \<open>auto simp: nth_list_update\<close>)
  then show ?thesis by (simp add: on_chans_def)
qed

definition open_chans :: "nat list \<Rightarrow> sse_hub \<Rightarrow> bool" where
  "open_chans chs h \<longleftrightarrow> distinct chs \<and> (\<forall>ch \<in> set chs. ch < length (hub_chans h) \<and> \<not> ch_closed (hub_chans h ! ch))"

lemma send_all_result: "open_chans chs h \<Longrightarrow> send_all evt chs h = (Inr (), on_chans (deliver evt) chs h)"
proof (induction chs arbitrary: h)
  case (Cons ch chs)
  let ?h = "h\<lparr>hub_chans := (hub_chans h)[ch := deliver evt (hub_chans h ! ch)]\<rparr>"
  have c: "ch < length (hub_chans h)" "\<not> ch_closed (hub_chans h ! ch)" "ch \<notin> set chs" using Cons.prems by (auto simp: open_chans_def)
  then have "send_event evt ch h = (Inr (), ?h)" by (simp add: send_event_def deliver_def Let_def)
  moreover have "open_chans chs ?h" using Cons.prems c by (auto simp: open_chans_def nth_list_update)
  ultimately show ?case using Cons.IH [of ?h] on_chans_Cons [OF c(3,1), of "deliver evt"] by (simp add: seq_app)
qed simp

lemma close_all_result: "open_chans chs h \<Longrightarrow> close_all chs h = (Inr (), on_chans (\<lambda>c. c\<lparr>ch_closed := True\<rparr>) chs h)"
proof (induction chs arbitrary: h)
  case (Cons ch chs)
  let ?h = "h\<lparr>hub_chans := (hub_chans h)[ch := (hub_chans h ! ch)\<lparr>ch_closed := True\<rparr>]\<rparr>"
  have c: "ch < length (hub_chans h)" "\<not> ch_closed (hub_chans h ! ch)" "ch \<notin> set chs" using Cons.prems by (auto simp: open_chans_def)
  then have "close_chan ch h = (Inr (), ?h)" by (simp add: close_chan_def)
  moreover have "open_chans chs ?h" using Cons.prems c by (auto simp: open_chans_def nth_list_update)
  ultimately show ?case using Cons.IH [of ?h] on_chans_Cons [OF c(3,1), of "\<lambda>c. c\<lparr>ch_closed := True\<rparr>"] by (simp add: seq_app)
qed simp

lemma hub_inv_open: "hub_inv h \<Longrightarrow> open_chans (subs_of u h) h"
  by (simp add: hub_inv_iff [of h u] open_chans_def)

lemma Broadcast_result: "hub_inv h \<Longrightarrow> Broadcast u evt h = (Inr (), on_chans (deliver evt) (subs_of u h) h)"
  by (simp add: Broadcast_def hub_inv_open send_all_result)

lemma hub_inv_Broadcast: "hub_inv h \<Longrightarrow> hub_inv (snd (Broadcast u evt h))"
  by (auto simp: Broadcast_result hub_inv_iff [of _ u] deliver_def on_chans_def split: if_splits)

lemma hub_inv_Unsubscribe:
  assumes "hub_inv h" and "ch \<in> set (subs_of u h)"
  shows "fst (Unsubscribe u (Some ch) h) = Inr ()" "hub_inv (snd (Unsubscribe u (Some ch) h))"
proof -
  define chans where "chans = (hub_chans h)[ch := (hub_chans h ! ch)\<lparr>ch_closed := True\<rparr>]"
  define cs where "cs = filter (\<lambda>c. c \<noteq> ch) (subs_of u h)"
  define h' where "h' = h\<lparr>hub_subs := (if cs = [] then AList.delete u (hub_subs h) else AList.update u cs (hub_subs h)), hub_chans := chans\<rparr>"
  have c: "ch < length (hub_chans h)" "\<not> ch_closed (hub_chans h ! ch)" and d: "distinct (map fst (hub_subs h))"
    and notin: "ch \<notin> set (others u h)"
    using assms by (auto simp: hub_inv_iff [of h u])
  have r: "Unsubscribe u (Some ch) h = (Inr (), h')"
    using c by (simp add: Unsubscribe_def Let_def close_chan_def cs_def h'_def chans_def)
  then show "fst (Unsubscribe u (Some ch) h) = Inr ()" by simp
  have subs: "subs_of v h' = (if v = u then cs else subs_of v h)" for v by (simp add: h'_def)
  have oth: "others u h' = others u h" by (simp add: h'_def)
  have chs: "hub_chans h' = chans" by (simp add: h'_def)
  have len: "length cs \<le> length (subs_of u h)" by (simp add: cs_def)
  have dcs: "distinct cs" "set cs \<subseteq> set (subs_of u h)" using assms(1) by (auto simp: cs_def hub_inv_iff [of h u])
  have bufs: "length (ch_buf c') \<le> chan_cap" if "c' \<in> set chans" for c'
    using that assms(1) c(1) set_update_subset_insert by (fastforce simp: chans_def hub_inv_def)
  have opn: "x < length chans \<and> \<not> ch_closed (chans ! x)" if "x \<in> set cs \<union> set (others u h)" for x
  proof -
    have "x \<noteq> ch" using that notin by (auto simp: cs_def)
    then show ?thesis using that assms(1) by (auto simp: chans_def hub_inv_iff [of h u] cs_def)
  qed
  have "distinct (map fst (hub_subs h'))" using d by (simp add: h'_def distinct_update distinct_delete)
  then show "hub_inv (snd (Unsubscribe u (Some ch) h))"
    using assms(1) len bufs opn dcs unfolding r snd_conv hub_inv_iff [of _ u] subs oth chs
    by (auto simp: subset_iff dest: spec [of _ u])
qed

lemma on_chans_append:
  "on_chans f ys (on_chans f xs h) = on_chans f (xs @ ys) h" if "set xs \<inter> set ys = {}"
proof -
  have "hub_chans (on_chans f ys (on_chans f xs h)) = hub_chans (on_chans f (xs @ ys) h)"
    by (rule nth_equalityI) (use that in \<open>auto simp: disjoint_iff\<close>)
  then show ?thesis by (simp add: on_chans_def)
qed

lemma stop_loop_result:
  assumes "open_chans (concat (map snd es)) h"
  shows "stop_loop es h = (Inr (), (on_chans (\<lambda>c. c\<lparr>ch_closed := True\<rparr>) (concat (map snd es)) h)
           \<lparr>hub_subs := fold AList.delete (map fst es) (hub_subs h)\<rparr>)"
  using assms
proof (induction es arbitrary: h)
  case (Cons e es)
  let ?f = "\<lambda>c. c\<lparr>ch_closed := True\<rparr>"
  let ?h = "(on_chans ?f (snd e) h)\<lparr>hub_subs := AList.delete (fst e) (hub_subs h)\<rparr>"
  have o: "open_chans (snd e) h" and dis: "set (snd e) \<inter> set (concat (map snd es)) = {}"
    using Cons.prems by (auto simp: open_chans_def)
  have "open_chans (concat (map snd es)) ?h" using Cons.prems by (auto simp: open_chans_def)
  note ih = Cons.IH [OF this]
  have "on_chans ?f (concat (map snd es)) ?h = (on_chans ?f (concat (map snd es)) (on_chans ?f (snd e) h))
      \<lparr>hub_subs := AList.delete (fst e) (hub_subs h)\<rparr>" by (simp add: on_chans_def)
  then show ?case using ih on_chans_append [OF dis, of ?f h]
    by (simp add: close_all_result [OF o] seq_app)
qed simp

lemma fold_delete_all: "set (map fst m) \<subseteq> set ks \<Longrightarrow> fold AList.delete ks m = []"
proof (induction ks arbitrary: m)
  case (Cons k ks)
  have "set (map fst (AList.delete k m)) \<subseteq> set ks" using Cons.prems by (auto simp: AList.delete_eq)
  then show ?case using Cons.IH by simp
qed simp

lemma Stop_result:
  "hub_inv h \<Longrightarrow> Stop h = (Inr (), (on_chans (\<lambda>c. c\<lparr>ch_closed := True\<rparr>) (all_subs h) h)\<lparr>hub_subs := []\<rparr>)"
  using stop_loop_result [of "hub_subs h" h] fold_delete_all [of "hub_subs h" "map fst (hub_subs h)"]
  by (simp add: Stop_def hub_inv_def open_chans_def all_subs_def)

lemma hub_inv_Stop: "hub_inv h \<Longrightarrow> hub_inv (snd (Stop h))"
  by (auto simp: Stop_result hub_inv_def on_chans_def all_subs_def subs_of_def total_subs_def)

lemma hub_inv_receive: "hub_inv h \<Longrightarrow> ch < length (hub_chans h) \<Longrightarrow> hub_inv (snd (receive ch h))"
proof -
  assume a: "hub_inv h" "ch < length (hub_chans h)"
  show ?thesis
  proof (cases "ch_buf (hub_chans h ! ch)")
    case Nil
    then show ?thesis using a by (simp add: receive_def)
  next
    case (Cons e es)
    define c where "c = (hub_chans h ! ch)\<lparr>ch_buf := es\<rparr>"
    have r: "snd (receive ch h) = h\<lparr>hub_chans := (hub_chans h)[ch := c]\<rparr>" by (simp add: receive_def Cons c_def)
    have "length (ch_buf (hub_chans h ! ch)) \<le> chan_cap" using a by (simp add: hub_inv_def)
    then have "length (ch_buf c) \<le> chan_cap" by (simp add: c_def Cons)
    then have "length (ch_buf c') \<le> chan_cap" if "c' \<in> set ((hub_chans h)[ch := c])" for c'
      using that a(1) set_update_subset_insert [of "hub_chans h" ch c] by (auto simp: hub_inv_def)
    moreover have "ch_closed ((hub_chans h)[ch := c] ! i) = ch_closed (hub_chans h ! i)" if "i < length (hub_chans h)" for i
      using that a(2) by (simp add: nth_list_update c_def)
    ultimately show ?thesis using a(1) unfolding r
      by (auto simp: hub_inv_def all_subs_def total_subs_def)
  qed
qed

text \<open>The states a hub can be in: a subscriber leaves with the channel it was given, once.\<close>

inductive hub_reach :: "sse_hub \<Rightarrow> bool" where
  start: "hub_reach NewSSEHub"
| subscribe: "hub_reach h \<Longrightarrow> hub_reach (snd (Subscribe u h))"
| unsubscribe: "hub_reach h \<Longrightarrow> ch \<in> set (subs_of u h) \<Longrightarrow> hub_reach (snd (Unsubscribe u (Some ch) h))"
| broadcast: "hub_reach h \<Longrightarrow> hub_reach (snd (Broadcast u evt h))"
| recv: "hub_reach h \<Longrightarrow> ch < length (hub_chans h) \<Longrightarrow> hub_reach (snd (receive ch h))"
| stop: "hub_reach h \<Longrightarrow> hub_reach (snd (Stop h))"

lemma hub_reach_inv: "hub_reach h \<Longrightarrow> hub_inv h"
proof (induction rule: hub_reach.induct)
  case start
  then show ?case by (simp add: NewSSEHub_def hub_inv_def all_subs_def subs_of_def total_subs_def)
qed (simp_all add: hub_inv_Subscribe hub_inv_Unsubscribe hub_inv_Broadcast hub_inv_receive hub_inv_Stop)


text \<open>An event is put at the end of the buffer of every connection of its user that has room, and no
  other connection changes.\<close>

theorem broadcast_scoped:
  assumes "hub_reach h" and "ch < length (hub_chans h)"
  shows "hub_chans (snd (Broadcast u evt h)) ! ch =
     (if ch \<in> set (subs_of u h) \<and> length (ch_buf (hub_chans h ! ch)) < 16
      then (hub_chans h ! ch)\<lparr>ch_buf := ch_buf (hub_chans h ! ch) @ [evt]\<rparr> else hub_chans h ! ch)"
  using assms hub_reach_inv [OF assms(1)] by (simp add: Broadcast_result deliver_def chan_cap_def)

definition hub_two_users :: sse_hub where
  "hub_two_users = snd (Subscribe 2 (snd (Subscribe 1 NewSSEHub)))"

lemma hub_two_users_reach: "hub_reach hub_two_users"
  unfolding hub_two_users_def by (intro hub_reach.intros)


theorem broadcast_scoped_witness:
  "hub_chans (snd (Broadcast 2 \<lparr>ev_Type = ''t'', ev_Data = JNull\<rparr> hub_two_users)) ! 1 =
     \<lparr>ch_buf = [\<lparr>ev_Type = ''t'', ev_Data = JNull\<rparr>], ch_closed = False\<rparr>
   \<and> hub_chans (snd (Broadcast 2 \<lparr>ev_Type = ''t'', ev_Data = JNull\<rparr> hub_two_users)) ! 0 = \<lparr>ch_buf = [], ch_closed = False\<rparr>"
proof -
  have s: "length (hub_chans hub_two_users) = 2" "subs_of 2 hub_two_users = [1]"
    "hub_chans hub_two_users = [\<lparr>ch_buf = [], ch_closed = False\<rparr>, \<lparr>ch_buf = [], ch_closed = False\<rparr>]" by code_simp+
  then show ?thesis
    using broadcast_scoped [OF hub_two_users_reach, of 1 2] broadcast_scoped [OF hub_two_users_reach, of 0 2] by simp
qed

text \<open>\<open>SSEHandler.Stream\<close> leaves through \<open>Unsubscribe\<close> also when it ends because the hub was stopped and
  its channel closed: the channel is then closed twice.\<close>

lemma unsubscribe_after_stop_panics:
  "fst (Unsubscribe 1 (Some 0) (snd (Stop (snd (Subscribe 1 NewSSEHub))))) = Inl (Panic ''close of closed channel'')"
  by code_simp

end
