(* ===== verification/Price.thy ===== *)
theory Price
  imports Rpc "HOL-Library.AList"
begin

text \<open>
  The price service of \<open>handler/price.go\<close>: the cached prices of the native currencies with their
  background refresh, the token prices by contract address, by Solana mint and by symbol with their
  time-limited cache, and the symbol table. A \<open>float64\<close> is an optional value, \<open>None\<close> being NaN. The
  HTTP client is the parameter \<open>hget\<close>, which answers a GET request from the history of the requests
  before it; the state records the requests. Of \<open>strconv.ParseFloat\<close> the decimal syntax and the names
  of the infinities and of NaN are modelled, not the hexadecimal floats. The theorems show that every
  price the service returns without a special value is positive whatever the remote services answer,
  and that a fetched token price is served from the cache, without a request, until it expires.
\<close>

type_synonym f64 = "fval option"

definition f64_gt0 :: "f64 \<Rightarrow> bool" where
  "f64_gt0 v = (case v of None \<Rightarrow> False | Some x \<Rightarrow> fv_less (Fin 0) x)"

definition f64_le0 :: "f64 \<Rightarrow> bool" where
  "f64_le0 v = (case v of None \<Rightarrow> False | Some x \<Rightarrow> \<not> fv_less (Fin 0) x)"

definition coinGeckoIDs :: "(string \<times> string) list" where
  "coinGeckoIDs = [(''ETH'', ''ethereum''), (''SOL'', ''solana''), (''BNB'', ''binancecoin''), (''TBNB'', ''binancecoin''),
     (''POL'', ''matic-network''), (''AVAX'', ''avalanche-2'')]"

definition coinGeckoPlatformIDs :: "(string \<times> string) list" where
  "coinGeckoPlatformIDs = [(''ethereum'', ''ethereum''), (''optimism'', ''optimistic-ethereum''), (''arbitrum'', ''arbitrum-one''),
     (''base'', ''base''), (''polygon'', ''polygon-pos''), (''bsc'', ''binance-smart-chain''), (''avalanche'', ''avalanche''),
     (''fantom'', ''fantom''), (''linea'', ''linea''), (''zksync'', ''zksync''), (''scroll'', ''scroll''), (''mantle'', ''mantle''),
     (''celo'', ''celo''), (''gnosis'', ''xdai''), (''cronos'', ''cronos''), (''moonbeam'', ''moonbeam''), (''blast'', ''blast''),
     (''solana'', ''solana'')]"

definition evmPlatforms :: "string list" where
  "evmPlatforms = [''ethereum'', ''optimistic-ethereum'', ''arbitrum-one'', ''base'', ''polygon-pos'', ''binance-smart-chain'',
     ''avalanche'', ''fantom'', ''linea'', ''zksync'', ''scroll'', ''mantle'', ''celo'', ''xdai'', ''cronos'', ''moonbeam'', ''blast'']"

definition stablecoins :: "string list" where
  "stablecoins = [''USDT'', ''USDC'', ''DAI'', ''BUSD'']"

record price_state =
  ps_prices :: "(string \<times> f64) list"
  ps_lastUpdate :: int
  ps_ttl :: int
  ps_baseURL :: string
  ps_jupiterBaseURL :: string
  ps_tokenPrices :: "(string \<times> f64) list"
  ps_tokenExpiry :: "(string \<times> int) list"
  ps_symbolMap :: "(string \<times> string) list option"
  ps_symbolMapExpiry :: int
  ps_gets :: "string list"

type_synonym http_get = "string list \<Rightarrow> string \<Rightarrow> http_outcome"

text \<open>\<open>time.Time\<close>'s zero value, the expiry of a key that is not in the map.\<close>

definition zero_time :: int where
  "zero_time = - 62135596800000000000"

subsection \<open>Decoding the answers\<close>

definition ParseFloat :: "string \<Rightarrow> f64 option" where
  "ParseFloat s = (let neg = (case s of c # _ \<Rightarrow> c = CHR ''-'' | [] \<Rightarrow> False);
       t = (case s of c # u \<Rightarrow> if c = CHR ''-'' \<or> c = CHR ''+'' then u else s | [] \<Rightarrow> [])
     in if to_lower s = ''nan'' then Some None
        else if to_lower t = ''inf'' \<or> to_lower t = ''infinity'' then Some (Some (inf_signed neg))
        else if t \<noteq> [] \<and> list_all (\<lambda>c. is_digit c \<or> c \<in> set ''.eE+-'') t then
          (let (b, m, cnt, dp, inval, r) = scan_mantissa t
           in if b \<noteq> 10 \<or> cnt = 0 \<or> inval then None
              else case scan_exponent r of
                None \<Rightarrow> None
              | Some (e, eb, rest) \<Rightarrow>
                  if eb = 10 \<and> rest = [] then map_option Some (num_float (if neg then CHR ''-'' # t else t)) else None)
        else None)"

text \<open>\<open>map[string]float64\<close>, where a null is zero, and a map of such maps, where a null is an empty one.\<close>

definition as_f64 :: "json \<Rightarrow> f64 option" where
  "as_f64 j = (case j of JNum x \<Rightarrow> map_option Some (num_float x) | JNull \<Rightarrow> Some (Some (Fin 0)) | _ \<Rightarrow> None)"

definition as_price_map :: "json \<Rightarrow> (string \<times> f64) list option" where
  "as_price_map j = (case as_obj j of None \<Rightarrow> None
     | Some kvs \<Rightarrow> map_opt (\<lambda>(k, v). map_option (Pair k) (as_f64 v)) kvs)"

definition as_price_maps :: "json \<Rightarrow> (string \<times> (string \<times> f64) list) list option" where
  "as_price_maps j = (case as_obj j of None \<Rightarrow> None
     | Some kvs \<Rightarrow> map_opt (\<lambda>(k, v). map_option (Pair k) (as_price_map v)) kvs)"

definition last_of :: "string \<Rightarrow> (string \<times> 'v) list \<Rightarrow> 'v option" where
  "last_of k kvs = map_of (rev kvs) k"

definition as_jupiter :: "json \<Rightarrow> (string \<times> string) list option" where
  "as_jupiter j = (case as_obj j of None \<Rightarrow> None
     | Some kvs \<Rightarrow> (case jget ''data'' kvs of
           None \<Rightarrow> Some []
         | Some d \<Rightarrow> (case as_obj d of None \<Rightarrow> None
             | Some es \<Rightarrow> map_opt (\<lambda>(k, v). case as_obj v of None \<Rightarrow> None
                 | Some f \<Rightarrow> map_option (Pair k) (fld_str ''price'' f)) es)))"

definition as_coins :: "json \<Rightarrow> (string \<times> string) list option" where
  "as_coins j = (case j of
       JArr cs \<Rightarrow> map_opt (\<lambda>c. case as_obj c of None \<Rightarrow> None
         | Some f \<Rightarrow> (case (fld_str ''symbol'' f, fld_str ''id'' f) of
               (Some symb, Some i) \<Rightarrow> Some (symb, i) | _ \<Rightarrow> None)) cs
     | JNull \<Rightarrow> Some [] | _ \<Rightarrow> None)"

subsection \<open>Requests\<close>

definition client_Get :: "http_get \<Rightarrow> string \<Rightarrow> price_state \<Rightarrow> http_outcome \<times> price_state" where
  "client_Get hget url ps = (hget (ps_gets ps) url, ps\<lparr>ps_gets := ps_gets ps @ [url]\<rparr>)"

text \<open>A GET request that must answer 200 with a document of the expected shape.\<close>

definition fetch_json :: "http_get \<Rightarrow> string \<Rightarrow> (json \<Rightarrow> 'a option) \<Rightarrow> string \<Rightarrow> (price_state, 'a) io" where
  "fetch_json hget what dec url ps = (case client_Get hget url ps of (out, ps') \<Rightarrow>
     (case out of
        TransportErr e \<Rightarrow> (Inl (Wrap (what @ '' fetch failed'') (Msg e)), ps')
      | HttpResp status body \<Rightarrow>
          if status \<noteq> 200 then (Inl (Msg (what @ '' API returned '' @ nat_text 10 status)), ps')
          else (case body of
              None \<Rightarrow> (Inl (Wrap (what @ '' parse failed'') (Msg ''encoding/json'')), ps')
            | Some j \<Rightarrow> (case dec j of
                  None \<Rightarrow> (Inl (Wrap (what @ '' parse failed'') (Msg ''encoding/json'')), ps')
                | Some x \<Rightarrow> (Inr x, ps')))))"

subsection \<open>Native currencies\<close>

text \<open>\<open>refresh\<close>: the identifiers of the request are listed in the order of the table.\<close>

definition refresh_url :: "price_state \<Rightarrow> string" where
  "refresh_url ps = ps_baseURL ps @ ''/api/v3/simple/price?ids='' @ join_with '','' (map snd coinGeckoIDs) @ ''&vs_currencies=usd''"

definition refresh :: "http_get \<Rightarrow> int \<Rightarrow> price_state \<Rightarrow> price_state" where
  "refresh hget now ps =
     (case fetch_json hget ''CoinGecko price'' as_price_maps (refresh_url ps) ps of
           (Inl _, ps') \<Rightarrow> ps'
         | (Inr result, ps') \<Rightarrow>
             ps'\<lparr>ps_prices := foldl (\<lambda>m (symbol, geckoID).
                   (case last_of geckoID result of
                      None \<Rightarrow> m
                    | Some data \<Rightarrow> (case last_of ''usd'' data of
                          None \<Rightarrow> m
                        | Some usd \<Rightarrow> if f64_gt0 usd then AList.update symbol usd m else m))) (ps_prices ps') coinGeckoIDs,
                 ps_lastUpdate := now\<rparr>)"

definition NewPriceServiceWithBaseURL :: "http_get \<Rightarrow> int \<Rightarrow> int \<Rightarrow> string \<Rightarrow> price_state" where
  "NewPriceServiceWithBaseURL hget now ttl baseURL =
     refresh hget now \<lparr>ps_prices = [], ps_lastUpdate = zero_time, ps_ttl = ttl, ps_baseURL = baseURL,
       ps_jupiterBaseURL = ''https://api.jup.ag'', ps_tokenPrices = [], ps_tokenExpiry = [],
       ps_symbolMap = None, ps_symbolMapExpiry = zero_time, ps_gets = []\<rparr>"

definition NewPriceService :: "http_get \<Rightarrow> int \<Rightarrow> int \<Rightarrow> price_state" where
  "NewPriceService hget now ttl = NewPriceServiceWithBaseURL hget now ttl ''https://api.coingecko.com''"

definition SetJupiterBaseURL :: "string \<Rightarrow> price_state \<Rightarrow> price_state" where
  "SetJupiterBaseURL u ps = ps\<lparr>ps_jupiterBaseURL := u\<rparr>"

definition GetUSDPrice :: "string \<Rightarrow> price_state \<Rightarrow> f64 res" where
  "GetUSDPrice currency ps =
     (let cur = to_upper (trim_space currency)
      in if cur \<in> set stablecoins then Inr (Some (Fin 1))
         else case map_of coinGeckoIDs cur of
           None \<Rightarrow> Inl (Msg (''unsupported currency for USD pricing: '' @ cur))
         | Some _ \<Rightarrow> (case map_of (ps_prices ps) cur of
               Some price \<Rightarrow> Inr price
             | None \<Rightarrow> Inl (Msg (''price unavailable for '' @ cur))))"

definition GetAllPrices :: "price_state \<Rightarrow> (string \<times> f64) list" where
  "GetAllPrices ps = foldl (\<lambda>m k. AList.update k (Some (Fin 1)) m) (ps_prices ps) stablecoins"

subsection \<open>Tokens\<close>

definition cached_price :: "int \<Rightarrow> string \<Rightarrow> price_state \<Rightarrow> f64 option" where
  "cached_price now cacheKey ps = (case map_of (ps_tokenPrices ps) cacheKey of
       None \<Rightarrow> None
     | Some price \<Rightarrow>
         if now < (case map_of (ps_tokenExpiry ps) cacheKey of None \<Rightarrow> zero_time | Some t \<Rightarrow> t) then Some price else None)"

definition store_price :: "int \<Rightarrow> string \<Rightarrow> f64 \<Rightarrow> price_state \<Rightarrow> price_state" where
  "store_price now cacheKey usd ps = ps\<lparr>ps_tokenPrices := AList.update cacheKey usd (ps_tokenPrices ps),
     ps_tokenExpiry := AList.update cacheKey (now + ps_ttl ps) (ps_tokenExpiry ps)\<rparr>"

definition evictExpiredTokenPrices :: "int \<Rightarrow> price_state \<Rightarrow> price_state" where
  "evictExpiredTokenPrices now ps =
     (if int (length (ps_tokenPrices ps)) \<le> 10000 then ps
      else let gone = (\<lambda>k. case map_of (ps_tokenExpiry ps) k of None \<Rightarrow> False | Some t \<Rightarrow> t < now)
        in ps\<lparr>ps_tokenPrices := filter (\<lambda>(k, _). \<not> gone k) (ps_tokenPrices ps),
              ps_tokenExpiry := filter (\<lambda>(k, _). \<not> gone k) (ps_tokenExpiry ps)\<rparr>)"

definition GetTokenUSDPrice :: "http_get \<Rightarrow> int \<Rightarrow> string \<Rightarrow> string \<Rightarrow> (price_state, f64) io" where
  "GetTokenUSDPrice hget now chainName contractAddress ps =
     (case map_of coinGeckoPlatformIDs (to_lower chainName) of
        None \<Rightarrow> (Inl (Msg ''no token price support for chain''), ps)
      | Some platform \<Rightarrow>
          let addr = (let a = trim_space contractAddress in if platform \<in> set evmPlatforms then to_lower a else a);
              cacheKey = platform @ '':'' @ addr
          in (case cached_price now cacheKey ps of
                Some price \<Rightarrow> (Inr price, ps)
              | None \<Rightarrow>
                  seq (fetch_json hget ''token price'' as_price_maps
                        (ps_baseURL ps @ ''/api/v3/simple/token_price/'' @ platform @ ''?contract_addresses='' @ addr @ ''&vs_currencies=usd''))
                    (\<lambda>result. case last_of addr result of
                         None \<Rightarrow> fail (Msg ''no price data for token'')
                       | Some data \<Rightarrow> (case last_of ''usd'' data of
                             None \<Rightarrow> fail (Msg ''invalid USD price for token'')
                           | Some usd \<Rightarrow> if f64_le0 usd then fail (Msg ''invalid USD price for token'')
                               else (\<lambda>ps'. (Inr usd, store_price now cacheKey usd (evictExpiredTokenPrices now ps'))))) ps))"

definition GetJupiterPrice :: "http_get \<Rightarrow> int \<Rightarrow> string \<Rightarrow> (price_state, f64) io" where
  "GetJupiterPrice hget now mintAddress ps =
     (let addr = trim_space mintAddress; cacheKey = ''jupiter:'' @ addr
      in case cached_price now cacheKey ps of
           Some price \<Rightarrow> (Inr price, ps)
         | None \<Rightarrow>
             seq (fetch_json hget ''jupiter price'' as_jupiter (ps_jupiterBaseURL ps @ ''/price/v2?ids='' @ addr))
               (\<lambda>result. case last_of addr result of
                    None \<Rightarrow> fail (Msg ''no jupiter price data'')
                  | Some p \<Rightarrow> if p = [] then fail (Msg ''no jupiter price data'')
                      else (case ParseFloat p of
                          None \<Rightarrow> fail (Msg ''invalid jupiter price'')
                        | Some usd \<Rightarrow> if f64_le0 usd then fail (Msg ''invalid jupiter price'')
                            else (\<lambda>ps'. (Inr usd, store_price now cacheKey usd ps')))) ps)"

primrec symbol_table :: "(string \<times> string) list \<Rightarrow> (string \<times> string) list \<Rightarrow> (string \<times> string) list" where
  "symbol_table [] m = m"
| "symbol_table (c # cs) m = symbol_table cs
     (let symb = to_upper (fst c) in if map_of m symb = None then m @ [(symb, snd c)] else m)"

definition ensureSymbolMap :: "http_get \<Rightarrow> int \<Rightarrow> price_state \<Rightarrow> price_state" where
  "ensureSymbolMap hget now ps =
     (if ps_symbolMap ps \<noteq> None \<and> now < ps_symbolMapExpiry ps then ps
      else case fetch_json hget ''CoinGecko coins/list'' as_coins (ps_baseURL ps @ ''/api/v3/coins/list'') ps of
        (Inl _, ps') \<Rightarrow> ps'
      | (Inr coins, ps') \<Rightarrow> ps'\<lparr>ps_symbolMap := Some (symbol_table coins []), ps_symbolMapExpiry := now + 86400000000000\<rparr>)"

definition GetPriceBySymbol :: "http_get \<Rightarrow> int \<Rightarrow> string \<Rightarrow> (price_state, f64) io" where
  "GetPriceBySymbol hget now symbol ps =
     (let symb = to_upper (trim_space symbol)
      in if symb = [] then (Inl (Msg ''empty symbol''), ps)
         else if symb \<in> set stablecoins then (Inr (Some (Fin 1)), ps)
         else if map_of coinGeckoIDs symb \<noteq> None then (GetUSDPrice symb ps, ps)
         else
           let ps1 = ensureSymbolMap hget now ps
           in case map_of (case ps_symbolMap ps1 of None \<Rightarrow> [] | Some m \<Rightarrow> m) symb of
                None \<Rightarrow> (Inl (Msg ''no CoinGecko coin ID for symbol''), ps1)
              | Some coinID \<Rightarrow>
                  let cacheKey = ''symbol:'' @ coinID
                  in (case cached_price now cacheKey ps1 of
                        Some price \<Rightarrow> (Inr price, ps1)
                      | None \<Rightarrow>
                          seq (fetch_json hget ''symbol price'' as_price_maps
                                (ps_baseURL ps1 @ ''/api/v3/simple/price?ids='' @ coinID @ ''&vs_currencies=usd''))
                            (\<lambda>result. case last_of coinID result of
                                 None \<Rightarrow> fail (Msg ''no price data for coin'')
                               | Some data \<Rightarrow> (case last_of ''usd'' data of
                                     None \<Rightarrow> fail (Msg ''invalid USD price for coin'')
                                   | Some usd \<Rightarrow> if f64_le0 usd then fail (Msg ''invalid USD price for coin'')
                                       else (\<lambda>ps'. (Inr usd, store_price now cacheKey usd ps')))) ps1))"

subsection \<open>Positive prices\<close>

definition price_inv :: "price_state \<Rightarrow> bool" where
  "price_inv ps \<longleftrightarrow> (\<forall>kv \<in> set (ps_prices ps). f64_gt0 (snd kv)) \<and> (\<forall>kv \<in> set (ps_tokenPrices ps). \<not> f64_le0 (snd kv))"

lemma f64_gt0_not_le0: "f64_gt0 v \<Longrightarrow> \<not> f64_le0 v"
  by (simp add: f64_gt0_def f64_le0_def split: option.splits)

lemma set_AList_update: "kv \<in> set (AList.update k v m) \<Longrightarrow> kv = (k, v) \<or> kv \<in> set m"
  by (induction m) (auto split: if_splits)

lemma fetch_json_state: "snd (fetch_json hget what dec url ps) = ps\<lparr>ps_gets := ps_gets ps @ [url]\<rparr>"
  by (auto simp: fetch_json_def client_Get_def split: http_outcome.splits option.splits)

lemma price_inv_gets [simp]: "price_inv (ps\<lparr>ps_gets := g\<rparr>) = price_inv ps"
  by (simp add: price_inv_def)

lemma price_inv_symbols [simp]: "price_inv (ps\<lparr>ps_symbolMap := m, ps_symbolMapExpiry := t\<rparr>) = price_inv ps"
  by (simp add: price_inv_def)

lemma price_inv_fetch:
  "fetch_json hget what dec url ps = (r, ps') \<Longrightarrow> price_inv ps' = price_inv ps"
  using fetch_json_state [of hget what dec url ps] by simp

lemma price_inv_store: "price_inv ps \<Longrightarrow> \<not> f64_le0 usd \<Longrightarrow> price_inv (store_price now k usd ps)"
  by (auto simp: price_inv_def store_price_def dest!: set_AList_update)

lemma price_inv_evict: "price_inv ps \<Longrightarrow> price_inv (evictExpiredTokenPrices now ps)"
  by (auto simp: price_inv_def evictExpiredTokenPrices_def Let_def)

lemma price_inv_cached: "price_inv ps \<Longrightarrow> cached_price now k ps = Some v \<Longrightarrow> \<not> f64_le0 v"
  by (auto simp: price_inv_def cached_price_def split: option.splits if_splits dest!: map_of_SomeD)

lemma price_inv_refresh:
  assumes "price_inv ps"
  shows "price_inv (refresh hget now ps)"
proof -
  have fold: "\<forall>kv \<in> set (foldl (\<lambda>m (symbol, geckoID). (case last_of geckoID result of None \<Rightarrow> m
      | Some data \<Rightarrow> (case last_of ''usd'' data of None \<Rightarrow> m
        | Some usd \<Rightarrow> if f64_gt0 usd then AList.update symbol usd m else m))) m0 ids). f64_gt0 (snd kv)"
    if "\<forall>kv \<in> set m0. f64_gt0 (snd kv)" for result m0 and ids :: "(string \<times> string) list"
    using that
  proof (induction ids arbitrary: m0)
    case (Cons i ids)
    then show ?case
      by (cases i) (auto split: option.splits dest!: set_AList_update intro!: Cons.IH)
  qed simp
  show ?thesis
  proof (cases "fetch_json hget ''CoinGecko price'' as_price_maps (refresh_url ps) ps")
    case (Pair r ps')
    with assms have "price_inv ps'" using price_inv_fetch by metis
    then show ?thesis using fold [of "ps_prices ps'"]
      by (cases r) (simp_all add: refresh_def Let_def Pair price_inv_def)
  qed
qed

text \<open>The lookups keep the invariant and return no price that is zero or negative.\<close>

lemma price_inv_GetTokenUSDPrice:
  "price_inv ps \<Longrightarrow> price_inv (snd (GetTokenUSDPrice hget now c a ps))"
  "price_inv ps \<Longrightarrow> fst (GetTokenUSDPrice hget now c a ps) = Inr v \<Longrightarrow> \<not> f64_le0 v"
  by (auto simp: GetTokenUSDPrice_def Let_def seq_def price_inv_cached dest: price_inv_fetch
      intro!: price_inv_store price_inv_evict split: option.splits sum.splits prod.splits if_splits)

lemma price_inv_GetJupiterPrice:
  "price_inv ps \<Longrightarrow> price_inv (snd (GetJupiterPrice hget now a ps))"
  "price_inv ps \<Longrightarrow> fst (GetJupiterPrice hget now a ps) = Inr v \<Longrightarrow> \<not> f64_le0 v"
  by (auto simp: GetJupiterPrice_def Let_def seq_def price_inv_cached dest: price_inv_fetch
      intro!: price_inv_store split: option.splits sum.splits prod.splits if_splits)

lemma price_inv_ensureSymbolMap: "price_inv ps \<Longrightarrow> price_inv (ensureSymbolMap hget now ps)"
  by (auto simp: ensureSymbolMap_def dest: price_inv_fetch split: sum.splits prod.splits)

lemma price_inv_GetUSDPrice: "price_inv ps \<Longrightarrow> GetUSDPrice c ps = Inr v \<Longrightarrow> f64_gt0 v"
  by (auto simp: GetUSDPrice_def Let_def price_inv_def f64_gt0_def split: if_splits option.splits dest!: map_of_SomeD)

lemma price_inv_GetPriceBySymbol:
  assumes "price_inv ps"
  shows "price_inv (snd (GetPriceBySymbol hget now symb ps))"
    and "fst (GetPriceBySymbol hget now symb ps) = Inr v \<Longrightarrow> \<not> f64_le0 v"
proof -
  define ps1 where "ps1 = ensureSymbolMap hget now ps"
  have i: "price_inv ps1" using assms by (simp add: ps1_def price_inv_ensureSymbolMap)
  show "price_inv (snd (GetPriceBySymbol hget now symb ps))"
    using assms i unfolding GetPriceBySymbol_def ps1_def [symmetric]
    by (auto simp: Let_def seq_def dest: price_inv_fetch intro!: price_inv_store
        split: option.splits sum.splits prod.splits if_splits)
  show "\<not> f64_le0 v" if "fst (GetPriceBySymbol hget now symb ps) = Inr v"
    using that assms i price_inv_GetUSDPrice [OF assms, THEN f64_gt0_not_le0]
    unfolding GetPriceBySymbol_def ps1_def [symmetric]
    by (auto simp: Let_def seq_def price_inv_cached f64_le0_def [of "Some (Fin 1)"]
        split: option.splits sum.splits prod.splits if_splits)
qed

text \<open>The operations of a running service, each with its clock.\<close>

datatype price_op = PRefresh int | PToken int string string | PJupiter int string | PSymbol int string | PSetJupiter string

primrec price_step :: "http_get \<Rightarrow> price_op \<Rightarrow> price_state \<Rightarrow> price_state" where
  "price_step hget (PRefresh now) ps = refresh hget now ps"
| "price_step hget (PToken now c a) ps = snd (GetTokenUSDPrice hget now c a ps)"
| "price_step hget (PJupiter now m) ps = snd (GetJupiterPrice hget now m ps)"
| "price_step hget (PSymbol now y) ps = snd (GetPriceBySymbol hget now y ps)"
| "price_step hget (PSetJupiter u) ps = SetJupiterBaseURL u ps"

interpretation price_service: invariant_machine "price_step hget" price_inv "\<lambda>_. True" for hget
proof
  fix a s
  assume "price_inv s"
  then show "price_inv (price_step hget a s)"
    by (cases a) (simp_all add: price_inv_refresh price_inv_GetTokenUSDPrice price_inv_GetJupiterPrice
        price_inv_GetPriceBySymbol SetJupiterBaseURL_def, simp add: price_inv_def)
qed

lemma price_inv_new: "price_inv (NewPriceService hget now ttl)"
  unfolding NewPriceService_def NewPriceServiceWithBaseURL_def
  by (rule price_inv_refresh) (simp add: price_inv_def)

lemma price_inv_run: "price_inv (fold (price_step hget) ops (NewPriceService hget now ttl))"
  using price_service.run_inv [of ops "NewPriceService hget now ttl"] price_inv_new by (simp add: list_all_iff)

text \<open>C39. Whatever the remote services answer, after any sequence of operations the price of a native currency
  that the service returns is a positive number, and no lookup of a token returns a price that is zero
  or negative.\<close>

theorem prices_positive:
  defines "ps \<equiv> \<lambda>hget ops t0 ttl. fold (price_step hget) ops (NewPriceService hget t0 ttl)"
  shows "(\<forall>v. GetUSDPrice c (ps hget ops t0 ttl) = Inr v \<longrightarrow> f64_gt0 v)
    \<and> (\<forall>v. fst (GetTokenUSDPrice hget now c a (ps hget ops t0 ttl)) = Inr v \<longrightarrow> \<not> f64_le0 v)
    \<and> (\<forall>v. fst (GetJupiterPrice hget now a (ps hget ops t0 ttl)) = Inr v \<longrightarrow> \<not> f64_le0 v)
    \<and> (\<forall>v. fst (GetPriceBySymbol hget now c (ps hget ops t0 ttl)) = Inr v \<longrightarrow> \<not> f64_le0 v)"
  unfolding ps_def
  using price_inv_run [of hget ops t0 ttl] price_inv_GetUSDPrice price_inv_GetTokenUSDPrice(2) price_inv_GetJupiterPrice(2)
    price_inv_GetPriceBySymbol(2) by blast

subsection \<open>The cache\<close>

lemma cached_after_store: "now \<le> t \<Longrightarrow> t < now + ps_ttl ps \<Longrightarrow> cached_price t k (store_price now k usd ps) = Some usd"
  by (simp add: cached_price_def store_price_def update_conv')

lemma evict_ttl [simp]: "ps_ttl (evictExpiredTokenPrices now ps) = ps_ttl ps"
  by (simp add: evictExpiredTokenPrices_def Let_def)

lemma evict_gets [simp]: "ps_gets (evictExpiredTokenPrices now ps) = ps_gets ps"
  by (simp add: evictExpiredTokenPrices_def Let_def)

lemma fetch_json_cong:
  "fetch_json hget what dec url ps = (r, ps') \<Longrightarrow> ps' = ps\<lparr>ps_gets := ps_gets ps @ [url]\<rparr>"
  using fetch_json_state [of hget what dec url ps] by simp

text \<open>A token price that took a request to fetch is returned again, with no request and no change of state,
  by every later lookup before its expiry.\<close>

theorem token_price_cached:
  assumes "GetTokenUSDPrice hget now chainName addr ps = (Inr usd, ps')" and "ps_gets ps' \<noteq> ps_gets ps"
    and "now \<le> t" and "t < now + ps_ttl ps"
  shows "GetTokenUSDPrice hget t chainName addr ps' = (Inr usd, ps')"
proof -
  obtain platform where p: "map_of coinGeckoPlatformIDs (to_lower chainName) = Some platform"
    using assms(1) by (auto simp: GetTokenUSDPrice_def split: option.splits)
  define a where "a = (if platform \<in> set evmPlatforms then to_lower (trim_space addr) else trim_space addr)"
  define key where "key = platform @ '':'' @ a"
  have "cached_price now key ps = None"
    using assms(1,2) by (auto simp: GetTokenUSDPrice_def p Let_def a_def key_def split: option.splits)
  then obtain ps1 where "ps' = store_price now key usd (evictExpiredTokenPrices now ps1)" and "ps_ttl ps1 = ps_ttl ps"
    using assms(1) unfolding GetTokenUSDPrice_def p option.case Let_def a_def [symmetric] key_def [symmetric]
    by (auto simp: seq_def split: option.splits sum.splits prod.splits if_splits dest!: fetch_json_cong)
  then have "cached_price t key ps' = Some usd" using assms(3,4) by (simp add: cached_after_store)
  then show ?thesis by (simp add: GetTokenUSDPrice_def p Let_def a_def key_def)
qed

definition sample_hget :: http_get where
  "sample_hget hist url = HttpResp 200 (Some (JObj [(''0xa'', JObj [(''usd'', JNum ''2'')])]))"

definition sample_prices :: price_state where
  "sample_prices = \<lparr>ps_prices = [], ps_lastUpdate = 0, ps_ttl = 60, ps_baseURL = ''u'', ps_jupiterBaseURL = ''j'',
     ps_tokenPrices = [], ps_tokenExpiry = [], ps_symbolMap = None, ps_symbolMapExpiry = 0, ps_gets = []\<rparr>"

lemma sample_strings:
  "to_lower ''base'' = ''base''" "to_lower (trim_space ''0xA'') = ''0xa''" "num_float ''2'' = Some (Fin 2)"
  "map_of coinGeckoPlatformIDs ''base'' = Some ''base''" "''base'' \<in> set evmPlatforms"
  by code_simp+

lemma sample_fetch:
  "ps_tokenPrices ps = [] \<Longrightarrow> GetTokenUSDPrice sample_hget now ''base'' ''0xA'' ps =
     (Inr (Some (Fin 2)), store_price now ''base:0xa'' (Some (Fin 2))
        (ps\<lparr>ps_gets := ps_gets ps @ [ps_baseURL ps @ ''/api/v3/simple/token_price/base?contract_addresses=0xa&vs_currencies=usd'']\<rparr>))"
  by (simp add: GetTokenUSDPrice_def sample_strings cached_price_def seq_def fetch_json_def client_Get_def sample_hget_def
      as_price_maps_def as_price_map_def as_obj_def as_f64_def last_of_def f64_le0_def evictExpiredTokenPrices_def)

lemma sample_new: "ps_tokenPrices (NewPriceService sample_hget 0 60) = []"
  by (simp add: NewPriceService_def NewPriceServiceWithBaseURL_def refresh_def fetch_json_def client_Get_def sample_hget_def
      as_price_maps_def as_price_map_def as_obj_def as_f64_def sample_strings)

theorem prices_positive_witness:
  "fst (GetTokenUSDPrice sample_hget 5 ''base'' ''0xA'' (NewPriceService sample_hget 0 60)) = Inr (Some (Fin 2)) \<and> \<not> f64_le0 (Some (Fin 2))"
  using prices_positive [of "''base''" sample_hget "[]" 0 60 5 "''0xA''"] sample_fetch [OF sample_new, of 5] by simp

theorem token_price_cached_witness:
  "\<exists>ps'. GetTokenUSDPrice sample_hget 0 ''base'' ''0xA'' sample_prices = (Inr (Some (Fin 2)), ps')
     \<and> GetTokenUSDPrice sample_hget 59 ''base'' ''0xA'' ps' = (Inr (Some (Fin 2)), ps')"
proof -
  have e: "ps_tokenPrices sample_prices = []" by (simp add: sample_prices_def)
  show ?thesis using token_price_cached [OF sample_fetch [OF e, of 0], of 59] sample_fetch [OF e, of 0]
    by (auto simp: sample_prices_def store_price_def)
qed

end
