(* ===== verification/Http.thy ===== *)
theory Http
  imports Store Rpc
begin

text \<open>
  The request context and the responses of the handlers: \<open>handler/response.go\<close>, the context helpers of
  \<open>handler/helpers.go\<close>, \<open>handler/auth.go\<close> and \<open>handler/middleware.go\<close>. A handler is a stateful computation whose error is the
  response it ends with; a panic below it is recovered by the server into a 500 response. The request
  carries one instant for all its calls of \<open>time.Now\<close> and the random request identifier of the internal
  errors. Header names are looked up as written. The theorem on \<open>sanitizeErrString\<close> shows that no URL is left in a
  sanitized text.
\<close>

subsection \<open>Requests and responses\<close>

record ctx =
  c_now :: int
  c_method :: string
  c_headers :: "(string \<times> string) list"
  c_host :: string
  c_tls :: bool
  c_ip :: string
  c_id :: string
  c_cid :: string
  c_chain :: string
  c_query :: "(string \<times> string) list"
  c_body :: "json option"
  c_reqid :: string
  c_userID :: "nat option"
  c_authMode :: string
  c_apiKeyPrefix :: string
  c_sessionToken :: string
  c_csrfToken :: string

record http_resp =
  rs_status :: nat
  rs_body :: json

type_synonym ('s, 'a) handler = "'s \<Rightarrow> (http_resp + 'a) \<times> 's"

definition JSON :: "nat \<Rightarrow> jobj \<Rightarrow> http_resp" where
  "JSON status body = \<lparr>rs_status = status, rs_body = JObj body\<rparr>"

definition jsonError :: "nat \<Rightarrow> string \<Rightarrow> http_resp" where
  "jsonError status msg = JSON status [(''success'', JBool False), (''error'', JStr msg)]"

definition jsonErrorDetails :: "nat \<Rightarrow> string \<Rightarrow> jobj \<Rightarrow> http_resp" where
  "jsonErrorDetails status msg details = JSON status ([(''success'', JBool False), (''error'', JStr msg)] @
     filter (\<lambda>(k, _). k \<noteq> ''success'' \<and> k \<noteq> ''error'') details)"

definition respondInternalError :: "ctx \<Rightarrow> string \<Rightarrow> jobj \<Rightarrow> http_resp" where
  "respondInternalError c msg extra = jsonErrorDetails 500 msg
     ((''request_id'', JStr (c_reqid c)) # filter (\<lambda>(k, _). k \<noteq> ''request_id'') extra)"

definition header :: "ctx \<Rightarrow> string \<Rightarrow> string" where
  "header c k = (case map_of (c_headers c) k of None \<Rightarrow> [] | Some v \<Rightarrow> v)"

definition query :: "ctx \<Rightarrow> string \<Rightarrow> string" where
  "query c k = (case map_of (c_query c) k of None \<Rightarrow> [] | Some v \<Rightarrow> v)"

text \<open>The server recovers a panic; every other error goes to the code that called.\<close>

definition panic_resp :: http_resp where
  "panic_resp = \<lparr>rs_status = 500, rs_body = JNull\<rparr>"

definition recovered :: "('s, 'a) io \<Rightarrow> ('s, 'a res) handler" where
  "recovered m s = (case m s of
       (Inl (Panic p), s') \<Rightarrow> (Inl panic_resp, s') | (r, s') \<Rightarrow> (Inr r, s'))"

text \<open>The response of a handler and the state it leaves.\<close>

definition respond :: "('s, http_resp) handler \<Rightarrow> 's \<Rightarrow> http_resp \<times> 's" where
  "respond h s = (case h s of (Inl r, s') \<Rightarrow> (r, s') | (Inr r, s') \<Rightarrow> (r, s'))"

definition mustUserID :: "ctx \<Rightarrow> ('s, nat) handler" where
  "mustUserID c = (case c_userID c of
       None \<Rightarrow> fail (JSON 401 [(''error'', JStr ''authentication required'')]) | Some u \<Rightarrow> ret u)"

definition isPasskeyAuth :: "ctx \<Rightarrow> bool" where
  "isPasskeyAuth c \<longleftrightarrow> c_authMode c = ''passkey''"

definition authInfo :: "ctx \<Rightarrow> string \<times> string" where
  "authInfo c = (c_authMode c, c_apiKeyPrefix c)"

text \<open>\<open>passkeyUserIDFromCtx\<close> returns the identifier of the wallet user.\<close>

definition passkeyUserIDFromCtx :: "ctx \<Rightarrow> nat option" where
  "passkeyUserIDFromCtx c = c_userID c"

definition normalizeEVMAddress :: "string \<Rightarrow> string res" where
  "normalizeEVMAddress addr =
     (let a = to_lower (trim_space addr)
      in if \<not> has_prefix a ''0x'' \<or> length a \<noteq> 42 then Inl (Msg ''must be a 20-byte hex address (0x...)'')
         else case hex_decode (drop 2 a) of
           None \<Rightarrow> Inl (Msg ''contains invalid hex characters'') | Some _ \<Rightarrow> Inr a)"

definition trim_right_slash :: "string \<Rightarrow> string" where
  "trim_right_slash s = rev (dropWhile (\<lambda>c. c = CHR ''/'') (rev s))"

definition requestBaseURL :: "ctx \<Rightarrow> string \<Rightarrow> string" where
  "requestBaseURL c fallback =
     (let host = (if header c ''X-Forwarded-Host'' \<noteq> [] then header c ''X-Forwarded-Host''
                  else if header c ''X-Real-Host'' \<noteq> [] then header c ''X-Real-Host'' else c_host c)
      in if host = [] then fallback
         else let scheme = (if header c ''X-Forwarded-Proto'' \<noteq> [] then header c ''X-Forwarded-Proto''
                            else if c_tls c then ''https'' else ''http'');
                  base = scheme @ ''://'' @ trim_right_slash host;
                  inst = header c ''X-App-Instance-ID''
              in if inst \<noteq> [] then base @ ''/instance/'' @ inst else base)"

definition respondPendingApproval :: "ctx \<Rightarrow> string \<Rightarrow> nat \<Rightarrow> string \<Rightarrow> http_resp" where
  "respondPendingApproval c baseURL approvalID message = JSON 202
     [(''success'', JBool True), (''status'', JStr ''pending_approval''), (''approval_id'', jnat approvalID),
      (''approval_url'', JStr (requestBaseURL c baseURL @ ''/#/approve/'' @ nat_text 10 approvalID)), (''message'', JStr message)]"

definition contains_any :: "string \<Rightarrow> string list \<Rightarrow> bool" where
  "contains_any s ps \<longleftrightarrow> list_ex (contains s) ps"

text \<open>The errors of the SDK are plain texts, so the two tests on wrapped context errors never decide.\<close>

definition categorizeSigningError :: "string \<Rightarrow> string" where
  "categorizeSigningError msg =
     (let s = to_lower msg
      in if contains_any s [''context deadline exceeded'', ''timeout'', ''timed out''] then ''timeout''
         else if contains_any s [''connection refused'', ''unavailable'', ''transport is closing''] then ''tee_unavailable''
         else if contains_any s [''threshold'', ''not enough participants'', ''insufficient''] then ''threshold_not_reached''
         else if contains_any s [''canceled'', ''cancelled''] then ''cancelled''
         else ''sdk_error'')"

subsection \<open>Redacting URLs\<close>

text \<open>
  The pattern \<open>(?i)\b(?:https?|grpc)://\S+\<close>, replaced by \<open><url>\<close> wherever it matches. The scan carries whether the last
  character is a word character and whether the rest of a match is being skipped.
\<close>

definition is_word_char :: "char \<Rightarrow> bool" where
  "is_word_char c \<longleftrightarrow> is_letter c \<or> is_digit c \<or> c = CHR ''_''"

definition re_space :: "char \<Rightarrow> bool" where
  "re_space c \<longleftrightarrow> (let n = (of_char c :: nat) in n = 32 \<or> n = 9 \<or> n = 10 \<or> n = 12 \<or> n = 13)"

definition scheme_then :: "string \<Rightarrow> string \<Rightarrow> bool" where
  "scheme_then p s \<longleftrightarrow> has_prefix (to_lower s) p \<and> (case drop (length p) s of [] \<Rightarrow> False | c # _ \<Rightarrow> \<not> re_space c)"

definition url_here :: "string \<Rightarrow> bool" where
  "url_here s \<longleftrightarrow> scheme_then ''http://'' s \<or> scheme_then ''https://'' s \<or> scheme_then ''grpc://'' s"

fun redact :: "bool \<Rightarrow> bool \<Rightarrow> string \<Rightarrow> string" where
  "redact skip word [] = []"
| "redact skip word (c # s) =
     (if skip \<and> \<not> re_space c then redact True word s
      else if \<not> word \<and> url_here (c # s) then ''<url>'' @ redact True False s
      else c # redact False (is_word_char c) s)"

definition sanitizeString :: "string \<Rightarrow> string" where
  "sanitizeString s = redact False False s"

definition sanitizeErrString :: "gerr \<Rightarrow> string" where
  "sanitizeErrString err = sanitizeString (err_text err)"

definition respondBroadcastErrorDetails :: "gerr \<Rightarrow> jobj \<Rightarrow> http_resp" where
  "respondBroadcastErrorDetails err details =
     (let safeMsg = sanitizeErrString err; ds = filter (\<lambda>(k, _). k \<noteq> ''stage'') details @ [(''stage'', JStr ''broadcast'')]
      in if contains (err_text err) ''rpc error:'' then jsonErrorDetails 400 (''transaction rejected: '' @ safeMsg) ds
         else jsonErrorDetails 422 (''broadcast failed: '' @ safeMsg) ds)"

text \<open>A text in which the pattern matches nowhere.\<close>

primrec url_free :: "bool \<Rightarrow> string \<Rightarrow> bool" where
  "url_free word [] = True"
| "url_free word (c # s) = (\<not> (\<not> word \<and> url_here (c # s)) \<and> url_free (is_word_char c) s)"

definition starts_nonspace :: "string \<Rightarrow> bool" where
  "starts_nonspace s = (case s of [] \<Rightarrow> False | c # _ \<Rightarrow> \<not> re_space c)"

lemma scheme_first: "scheme_then p (c # s) \<Longrightarrow> p = d # ds \<Longrightarrow> lower_char c = d"
  by (simp add: scheme_then_def has_prefix_def to_lower_def)

lemma url_here_first: "url_here (c # s) \<Longrightarrow> lower_char c = CHR ''h'' \<or> lower_char c = CHR ''g''"
  by (auto simp: url_here_def dest: scheme_first)

lemma lower_space: "re_space c \<Longrightarrow> lower_char c = c"
  by (auto simp: re_space_def lower_char_def Let_def)

lemma url_here_nonspace: "url_here (c # s) \<Longrightarrow> \<not> re_space c"
proof
  assume "url_here (c # s)" "re_space c"
  then have "c = CHR ''h'' \<or> c = CHR ''g''" using url_here_first lower_space by metis
  then show False using \<open>re_space c\<close> by (auto simp: re_space_def)
qed

text \<open>Up to the first redaction the text is unchanged.\<close>

lemma redact_prefix:
  "CHR ''<'' \<notin> set (take n (redact False w s)) \<Longrightarrow>
   take n (redact False w s) = take n s \<and> starts_nonspace (drop n (redact False w s)) = starts_nonspace (drop n s)"
proof (induction s arbitrary: n w)
  case (Cons c s)
  show ?case
  proof (cases "\<not> w \<and> url_here (c # s)")
    case True
    then have "n = 0" using Cons.prems by (cases n) auto
    then show ?thesis using True url_here_nonspace [of c s] by (simp add: starts_nonspace_def re_space_def)
  next
    case False
    then show ?thesis using Cons.prems Cons.IH [of "n - 1" "is_word_char c"]
      by (cases n) (auto simp: starts_nonspace_def)
  qed
qed simp

lemma scheme_redact:
  assumes "scheme_then p (c # redact False w s)" and "CHR ''<'' \<notin> set p" and "p = d # ds"
  shows "scheme_then p (c # s)"
proof -
  let ?r = "redact False w s" and ?n = "length ds"
  have pre: "take (Suc ?n) (to_lower (c # ?r)) = p" and ns: "starts_nonspace (drop ?n ?r)"
    using assms by (auto simp: scheme_then_def has_prefix_def starts_nonspace_def)
  have ds: "map lower_char (take ?n ?r) = ds" using pre assms(3) by (simp add: to_lower_def take_map)
  have "CHR ''<'' \<notin> set (take ?n ?r)"
  proof
    assume "CHR ''<'' \<in> set (take ?n ?r)"
    then have "lower_char (CHR ''<'') \<in> set ds" using ds by (metis image_eqI set_map)
    then show False using assms(2,3) by (simp add: lower_char_def)
  qed
  from redact_prefix [OF this] ds ns show ?thesis
    using pre assms(3) by (simp add: scheme_then_def has_prefix_def to_lower_def take_map starts_nonspace_def)
qed

lemma url_here_redact: "url_here (c # redact False w s) \<Longrightarrow> url_here (c # s)"
  unfolding url_here_def by (auto dest!: scheme_redact)

lemma redact_skip_first: "redact True w s = [] \<or> re_space (hd (redact True w s))"
proof (induction s arbitrary: w)
  case (Cons c s)
  then show ?case using url_here_nonspace [of c s] by auto
qed simp

lemma url_free_redact: "url_free w (redact False w s) \<and> url_free False (redact True w' s)"
proof (induction s arbitrary: w w')
  case (Cons c s)
  have keep: "url_free v (c # redact False (is_word_char c) s)" if "v \<or> \<not> url_here (c # s)" for v
    using that Cons.IH url_here_redact by auto
  have rest: "url_free False (redact True False s)" using Cons.IH by blast
  have "url_free v (''<url>'' @ redact True False s)" for v
  proof -
    have "lower_char d \<noteq> CHR ''h'' \<and> lower_char d \<noteq> CHR ''g''" if "d \<in> set ''<url>''" for d
      using that by (auto simp: lower_char_def)
    then have "\<not> url_here (d # t)" if "d \<in> set ''<url>''" for d t using that url_here_first by metis
    moreover have "\<not> is_word_char (CHR ''>'')" by code_simp
    ultimately show ?thesis using rest by simp
  qed
  note marker = this
  have "url_free w (redact False w (c # s))"
    using keep [of w] marker [of w] unfolding redact.simps by (simp only: simp_thms if_cancel split: if_split) blast
  moreover have "url_free False (redact True w' (c # s))"
    using keep [of False] marker [of False] Cons.IH url_here_nonspace [of c s] by auto
  ultimately show ?case by blast
qed simp

lemma url_free_append:
  "url_free w (pre @ post) \<Longrightarrow> url_free (if pre = [] then w else is_word_char (last pre)) post"
  by (induction pre arbitrary: w) (auto split: if_splits)

text \<open>C40. A sanitized error text contains no URL: nowhere does it have, at a word boundary, one of the
  schemes http, https or grpc followed by a non-blank character, so that a provider token in the path of an
  endpoint is not shown.\<close>

theorem sanitizeErrString_redacts:
  "sanitizeErrString err = pre @ post \<Longrightarrow> pre = [] \<or> \<not> is_word_char (last pre) \<Longrightarrow> \<not> url_here post"
proof -
  assume e: "sanitizeErrString err = pre @ post" and b: "pre = [] \<or> \<not> is_word_char (last pre)"
  have "url_free False (pre @ post)"
    using url_free_redact [of False "err_text err"] e by (simp add: sanitizeErrString_def sanitizeString_def)
  from url_free_append [OF this] b have "url_free False post" by (auto split: if_splits)
  moreover have "\<not> url_here []" by (simp add: url_here_def scheme_then_def)
  ultimately show ?thesis by (cases post) auto
qed

theorem sanitizeErrString_redacts_witness:
  "sanitizeErrString (Msg ''Post https://a/key: eof'') = ''Post '' @ ''<url> eof'' \<and> \<not> url_here ''<url> eof''"
proof -
  have e: "sanitizeErrString (Msg ''Post https://a/key: eof'') = ''Post '' @ ''<url> eof''" by code_simp
  moreover have "\<not> is_word_char (last ''Post '')" by code_simp
  ultimately show ?thesis using sanitizeErrString_redacts [OF e] by blast
qed

end
