(* ===== verification/Sessions.thy ===== *)
theory Sessions
  imports Http RateLimit Sha256 DailyLimit
begin

text \<open>
  Authentication: the session store, the middlewares of \<open>handler/middleware.go\<close> and the rate-limit middlewares of
  \<open>handler/ratelimit.go\<close>. A middleware returns the context for the next handler or the response that
  aborts the request. The session store is a map from tokens to entries; each operation holds its
  lock. The theorems show that a request passes authentication only with a live session token or with a
  key whose salted hash is on record, that a state-changing passkey request needs the CSRF token of its
  session, and that a deleted or expired session does not come back.
\<close>

subsection \<open>The session store\<close>

record session_entry =
  se_userID :: nat
  se_csrfToken :: string
  se_expiresAt :: int

type_synonym sessions = "(string \<times> session_entry) list"

text \<open>\<open>Set\<close> with the random CSRF token it draws.\<close>

definition Session_Set :: "string \<Rightarrow> int \<Rightarrow> string \<Rightarrow> nat \<Rightarrow> int \<Rightarrow> sessions \<Rightarrow> string \<times> sessions" where
  "Session_Set csrfToken now token userID ttl ss =
     (csrfToken, AList.update token \<lparr>se_userID = userID, se_csrfToken = csrfToken, se_expiresAt = now + ttl\<rparr> ss)"

definition Session_Get :: "int \<Rightarrow> string \<Rightarrow> sessions \<Rightarrow> nat option" where
  "Session_Get now token ss = (case map_of ss token of
       None \<Rightarrow> None | Some e \<Rightarrow> if now > se_expiresAt e then None else Some (se_userID e))"

definition GetCSRF :: "int \<Rightarrow> string \<Rightarrow> sessions \<Rightarrow> string" where
  "GetCSRF now token ss = (case map_of ss token of
       None \<Rightarrow> [] | Some e \<Rightarrow> if now > se_expiresAt e then [] else se_csrfToken e)"

definition Session_Delete :: "string \<Rightarrow> sessions \<Rightarrow> sessions" where
  "Session_Delete token ss = AList.delete token ss"

definition Session_cleanup :: "int \<Rightarrow> sessions \<Rightarrow> sessions" where
  "Session_cleanup now ss = filter (\<lambda>(k, _). case map_of ss k of None \<Rightarrow> True | Some e \<Rightarrow> \<not> now > se_expiresAt e) ss"

subsection \<open>Middlewares\<close>

definition abort_with :: "nat \<Rightarrow> string \<Rightarrow> http_resp" where
  "abort_with status msg = JSON status [(''error'', JStr msg)]"

definition extractBearer :: "ctx \<Rightarrow> string" where
  "extractBearer c = (let auth = header c ''Authorization''
     in if has_prefix auth ''Bearer '' then trim_space (trim_prefix auth ''Bearer '') else [])"

definition hashAPIKeyWithSalt :: "string \<Rightarrow> string \<Rightarrow> string" where
  "hashAPIKeyWithSalt key salt = hex_encode (hmac_sha256 (bytes_of_string salt) (bytes_of_string key))"

definition hashAPIKeyLegacy :: "string \<Rightarrow> string \<Rightarrow> string" where
  "hashAPIKeyLegacy key salt = hex_encode (sha256 (bytes_of_string salt @ bytes_of_string key))"

definition AuthMiddleware :: "db_faults \<Rightarrow> sessions \<Rightarrow> ctx \<Rightarrow> (api_key list, ctx) handler" where
  "AuthMiddleware dbe sessions c keys =
     (let token = extractBearer c
      in if token = [] then (Inl (abort_with 401 ''authorization required''), keys)
         else if has_prefix token ''ps_'' then
           (case Session_Get (c_now c) token sessions of
              None \<Rightarrow> (Inl (abort_with 401 ''invalid or expired session''), keys)
            | Some userID \<Rightarrow> (Inr (c\<lparr>c_userID := Some userID, c_authMode := ''passkey'', c_sessionToken := token,
                c_csrfToken := GetCSRF (c_now c) token sessions\<rparr>), keys))
         else
           let prefix = (if length token \<ge> 12 then take 12 token else [])
           in case (if prefix = [] \<or> dbe ''first_key'' then None else first_row (\<lambda>k. ak_Prefix k = prefix) keys) of
                None \<Rightarrow> (Inl (abort_with 401 ''invalid API key''), keys)
              | Some apiKey \<Rightarrow>
                  let hmacHash = hashAPIKeyWithSalt token (ak_KeySalt apiKey);
                      c' = c\<lparr>c_userID := Some (ak_UserID apiKey), c_authMode := ''apikey'', c_apiKeyPrefix := ak_Prefix apiKey\<rparr>
                  in if hmacHash = ak_KeyHash apiKey then (Inr c', keys)
                     else if hashAPIKeyLegacy token (ak_KeySalt apiKey) \<noteq> ak_KeyHash apiKey
                     then (Inl (abort_with 401 ''invalid API key''), keys)
                     else (Inr c', if dbe ''update_key'' then keys
                       else update_rows (\<lambda>k. ak_ID k = ak_ID apiKey) (\<lambda>k. k\<lparr>ak_KeyHash := hmacHash\<rparr>) keys))"

definition CSRFMiddleware :: "ctx \<Rightarrow> http_resp + ctx" where
  "CSRFMiddleware c =
     (if c_authMode c \<noteq> ''passkey'' then Inr c
      else if c_method c \<in> {''GET'', ''HEAD'', ''OPTIONS''} then Inr c
      else let token = header c ''X-CSRF-Token''
        in if token = [] \<or> token \<noteq> c_csrfToken c then Inl (abort_with 403 ''invalid CSRF token'') else Inr c)"

definition PasskeyOnlyMiddleware :: "ctx \<Rightarrow> http_resp + ctx" where
  "PasskeyOnlyMiddleware c =
     (if c_authMode c \<noteq> ''passkey'' then Inl (abort_with 403 ''this action requires passkey authentication'') else Inr c)"

definition IPRateLimitMiddleware :: "ctx \<Rightarrow> (ip_rate_limiter, ctx) handler" where
  "IPRateLimitMiddleware c l = (case Exceeded (c_now c) (c_ip c) l of (exceeded, l') \<Rightarrow>
     (if exceeded then Inl (abort_with 429 ''rate limit exceeded - too many requests from this IP, try again later'')
      else Inr c, l'))"

definition UserRateLimitMiddleware :: "ctx \<Rightarrow> (rate_limiter, ctx) handler" where
  "UserRateLimitMiddleware c = seq (mustUserID c) (\<lambda>userID rl.
     case Allow (c_now c) (''user:'' @ nat_text 10 userID) rl of (allowed, rl') \<Rightarrow>
       (if \<not> allowed then Inl (abort_with 429 ''rate limit exceeded, try again later'') else Inr c, rl'))"

definition APIKeyRateLimitMiddleware :: "ctx \<Rightarrow> (rate_limiter, ctx) handler" where
  "APIKeyRateLimitMiddleware c rl =
     (if c_authMode c \<noteq> ''apikey'' then (Inr c, rl)
      else case Allow (c_now c) (''apikey:'' @ c_apiKeyPrefix c) rl of (allowed, rl') \<Rightarrow>
        (if \<not> allowed then Inl (abort_with 429 ''rate limit exceeded - API key requests are limited, try again later'')
         else Inr c, rl'))"

text \<open>The middlewares of the passkey-only routes in the order of the router. The API-key limiter that stands
  before the last one is left out: it returns a passkey request unchanged, and any other request is
  refused by the last.\<close>

definition passkey_chain :: "db_faults \<Rightarrow> sessions \<Rightarrow> ctx \<Rightarrow> (api_key list, ctx) handler" where
  "passkey_chain dbe sessions c = seq (AuthMiddleware dbe sessions c) (\<lambda>c1.
     seq (lift (CSRFMiddleware c1)) (\<lambda>c2. lift (PasskeyOnlyMiddleware c2)))"

subsection \<open>Soundness of authentication\<close>

text \<open>C34. A request passes authentication only with the token of a live session, as its user and with the CSRF token
  of the session, or with an API key whose prefix selects a stored key and whose salted HMAC or legacy hash is the
  stored one, as the owner of that key and never in passkey mode.\<close>

theorem AuthMiddleware_sound:
  assumes "AuthMiddleware dbe sessions c keys = (Inr c', keys')"
  shows "(\<exists>e. map_of sessions (extractBearer c) = Some e \<and> c_now c \<le> se_expiresAt e \<and> c_userID c' = Some (se_userID e)
            \<and> c_authMode c' = ''passkey'' \<and> c_csrfToken c' = se_csrfToken e \<and> keys' = keys)
     \<or> (\<exists>k \<in> set keys. ak_Prefix k = take 12 (extractBearer c) \<and> 12 \<le> length (extractBearer c)
            \<and> ak_KeyHash k \<in> {hashAPIKeyWithSalt (extractBearer c) (ak_KeySalt k), hashAPIKeyLegacy (extractBearer c) (ak_KeySalt k)}
            \<and> c_userID c' = Some (ak_UserID k) \<and> c_authMode c' = ''apikey'')"
  using assms unfolding AuthMiddleware_def Let_def Session_Get_def GetCSRF_def
  by (auto split: if_splits option.splits dest!: first_row_Some)

lemma AuthMiddleware_key:
  assumes "AuthMiddleware dbe sessions c keys = (Inr c', keys')" and "c_authMode c' \<noteq> ''passkey''"
  shows "\<exists>k \<in> set keys. ak_Prefix k = take 12 (extractBearer c) \<and> 12 \<le> length (extractBearer c)
     \<and> ak_KeyHash k \<in> {hashAPIKeyWithSalt (extractBearer c) (ak_KeySalt k), hashAPIKeyLegacy (extractBearer c) (ak_KeySalt k)}
     \<and> c_userID c' = Some (ak_UserID k) \<and> c_authMode c' = ''apikey''"
  using assms unfolding AuthMiddleware_def Let_def Session_Get_def GetCSRF_def
  by (auto split: if_splits option.splits dest!: first_row_Some)

lemma AuthMiddleware_passkey:
  assumes "AuthMiddleware dbe sessions c keys = (Inr c', keys')" and "c_authMode c' = ''passkey''"
  shows "\<exists>e. map_of sessions (extractBearer c) = Some e \<and> c_now c \<le> se_expiresAt e \<and> c_userID c' = Some (se_userID e)
    \<and> c_csrfToken c' = se_csrfToken e \<and> c_method c' = c_method c \<and> c_headers c' = c_headers c"
  using assms unfolding AuthMiddleware_def Let_def Session_Get_def GetCSRF_def
  by (auto split: if_splits option.splits)

text \<open>A state-changing request reaches a passkey-only handler only with the token of a live session and the
  non-empty CSRF token of that session, and acts as the user of the session.\<close>

theorem passkey_chain_sound:
  assumes "passkey_chain dbe sessions c keys = (Inr c', keys')" and "c_method c \<notin> {''GET'', ''HEAD'', ''OPTIONS''}"
  shows "\<exists>e. map_of sessions (extractBearer c) = Some e \<and> c_now c \<le> se_expiresAt e
     \<and> c_userID c' = Some (se_userID e) \<and> c_authMode c' = ''passkey''
     \<and> header c ''X-CSRF-Token'' = se_csrfToken e \<and> se_csrfToken e \<noteq> []"
proof -
  obtain c1 keys1 where a: "AuthMiddleware dbe sessions c keys = (Inr c1, keys1)"
    and m: "CSRFMiddleware c1 = Inr c'" "PasskeyOnlyMiddleware c' = Inr c'"
    using assms(1) by (auto simp: passkey_chain_def CSRFMiddleware_def PasskeyOnlyMiddleware_def Let_def split: if_splits)
  then have "c1 = c'" and mode: "c_authMode c' = ''passkey''"
    by (auto simp: CSRFMiddleware_def PasskeyOnlyMiddleware_def Let_def split: if_splits)
  with a m(1) AuthMiddleware_passkey [of dbe sessions c keys c' keys1] assms(2) show ?thesis
    by (fastforce simp: CSRFMiddleware_def Let_def header_def split: if_splits)
qed

subsection \<open>Sessions do not come back\<close>

datatype session_op = SSet string int string nat int | SDelete string | SCleanup int

primrec session_step :: "session_op \<Rightarrow> sessions \<Rightarrow> sessions" where
  "session_step (SSet csrf now token u ttl) ss = snd (Session_Set csrf now token u ttl ss)"
| "session_step (SDelete token) ss = Session_Delete token ss"
| "session_step (SCleanup now) ss = Session_cleanup now ss"

definition not_issued :: "string \<Rightarrow> session_op \<Rightarrow> bool" where
  "not_issued token a = (case a of SSet _ _ t _ _ \<Rightarrow> t \<noteq> token | _ \<Rightarrow> True)"

lemma Session_cleanup_lookup:
  "map_of (Session_cleanup now ss) token =
     (case map_of ss token of None \<Rightarrow> None | Some e \<Rightarrow> if now > se_expiresAt e then None else Some e)"
  unfolding Session_cleanup_def
  using map_of_filter_keys [of "\<lambda>k. case map_of ss k of None \<Rightarrow> True | Some e \<Rightarrow> \<not> now > se_expiresAt e" ss token]
  by (auto split: option.splits)

lemma Session_cleanup_invisible: "now \<le> t \<Longrightarrow> Session_Get t token (Session_cleanup now ss) = Session_Get t token ss"
  by (auto simp: Session_Get_def Session_cleanup_lookup split: option.splits)

interpretation dead_session: invariant_machine session_step "\<lambda>ss. Session_Get now token ss = None" "not_issued token" for now token
proof
  fix a ss
  assume "not_issued token a" "Session_Get now token ss = None"
  then show "Session_Get now token (session_step a ss) = None"
    by (cases a) (auto simp: not_issued_def Session_Get_def Session_Set_def Session_Delete_def update_conv' delete_conv'
        Session_cleanup_lookup split: option.splits if_splits)
qed


subsection \<open>Witnesses\<close>

definition sample_sessions :: sessions where
  "sample_sessions = [(''ps_1'', \<lparr>se_userID = 7, se_csrfToken = ''tok'', se_expiresAt = 100\<rparr>)]"

definition sample_post :: ctx where
  "sample_post = \<lparr>c_now = 50, c_method = ''POST'', c_headers = [(''Authorization'', ''Bearer ps_1''), (''X-CSRF-Token'', ''tok'')],
     c_host = ''h'', c_tls = True, c_ip = ''1.2.3.4'', c_id = ''5'', c_cid = [], c_chain = [], c_query = [], c_body = None, c_reqid = ''00'',
     c_userID = None, c_authMode = [], c_apiKeyPrefix = [], c_sessionToken = [], c_csrfToken = []\<rparr>"

lemma sample_token: "extractBearer sample_post = ''ps_1''"
  by code_simp

lemma session_fields: "c_now sample_post = 50" "c_method sample_post = ''POST''" "header sample_post ''X-CSRF-Token'' = ''tok''"
  by (simp_all add: sample_post_def header_def)

lemma sample_auth: "AuthMiddleware dbe sample_sessions sample_post keys =
    (Inr (sample_post\<lparr>c_userID := Some 7, c_authMode := ''passkey'', c_sessionToken := ''ps_1'', c_csrfToken := ''tok''\<rparr>), keys)"
  by (simp add: AuthMiddleware_def sample_token has_prefix_def Session_Get_def GetCSRF_def sample_sessions_def
      session_fields)

theorem AuthMiddleware_sound_witness:
  "\<exists>c' keys'. AuthMiddleware (\<lambda>_. False) sample_sessions sample_post [] = (Inr c', keys') \<and> c_userID c' = Some 7
     \<and> (\<exists>e. map_of sample_sessions ''ps_1'' = Some e \<and> c_now sample_post \<le> se_expiresAt e)"
  using AuthMiddleware_sound [OF sample_auth [of "\<lambda>_. False" "[]"]] sample_auth [of "\<lambda>_. False" "[]"]
  by (auto simp: sample_token)

theorem passkey_chain_sound_witness:
  "\<exists>c' keys'. passkey_chain (\<lambda>_. False) sample_sessions sample_post [] = (Inr c', keys')
     \<and> (\<exists>e. map_of sample_sessions (extractBearer sample_post) = Some e \<and> header sample_post ''X-CSRF-Token'' = se_csrfToken e)"
proof -
  have p: "passkey_chain (\<lambda>_. False) sample_sessions sample_post [] =
    (Inr (sample_post\<lparr>c_userID := Some 7, c_authMode := ''passkey'', c_sessionToken := ''ps_1'', c_csrfToken := ''tok''\<rparr>), [])"
    unfolding passkey_chain_def seq_app [OF sample_auth]
    by (simp add: CSRFMiddleware_def PasskeyOnlyMiddleware_def header_def seq_def Let_def, simp add: sample_post_def)
  have "c_method sample_post \<notin> {''GET'', ''HEAD'', ''OPTIONS''}" by (simp add: sample_post_def)
  from passkey_chain_sound [OF p this] p show ?thesis by blast
qed


end
