(* ===== verification/Server.thy ===== *)
theory Server
  imports Sessions SseHub Price TxSol
begin

text \<open>
  The state of the wallet server and the operations that several handlers share: the database tables, the
  journals of the signing requests sent to the TEE, of the mails sent and of the deletions asked of the SDK, the event hub and the price service; the audit log
  (\<open>handler/audit.go\<close>), the idempotency records (\<open>handler/idempotency.go\<close>), pending approvals (\<open>handler/helpers.go\<close>), loading a wallet
  or an approval of the user, and the fresh passkey check (\<open>handler/approval.go\<close>). The environment holds what
  the program calls outside itself: the TEE and passkey services of the SDK, the HTTP client of the price service and
  the database failures. A record type extends \<^typ>\<open>rpc_state\<close>, so the chain operations run on the
  server state directly.
\<close>

subsection \<open>State and environment\<close>

datatype sign_outcome = SignErr string | SignRes bool bytes string

datatype keygen_outcome = KeyErr string | KeyRes bool string string string

datatype sdk_deletion = DeletedKey string | DeletedPasskey nat

type_synonym sign_request = "bytes \<times> string"

record server = rpc_state +
  t_wallets :: "wallet list"
  t_policies :: "approval_policy list"
  t_approvals :: "approval_request list"
  t_contracts :: "allowed_contract list"
  t_entries :: "address_book_entry list"
  t_users :: "user list"
  t_keys :: "api_key list"
  t_audit :: "audit_log list"
  t_idem :: "idempotency_record list"
  sv_sessions :: sessions
  sv_hub :: sse_hub
  sv_prices :: "price_state option"
  sv_signs :: "sign_request list"
  t_emails :: "email_verification list"
  sv_mails :: "(string \<times> string) list"
  sv_deletions :: "sdk_deletion list"

text \<open>
  \<open>tee_sign\<close> answers a signing request from the journal of the earlier ones, \<open>passkey_verify_as\<close> is
  \<open>PasskeyLoginVerifyAs\<close> (\<open>None\<close> is an error, else success and the error text), \<open>sdk_nil\<close> and \<open>gin_test\<close> are the
  test mode without an SDK, \<open>id_draws\<close> the random draws for an approval identifier, \<open>new_uuid\<close> the identifier of a new wallet,
  \<open>bind_error\<close> the text gin reports for a request body that does not bind and \<open>db_fails\<close> the failing database calls.
\<close>

record server_env = chain_env +
  tee_sign :: "sign_request list \<Rightarrow> bytes \<Rightarrow> string \<Rightarrow> sign_outcome"
  tee_keygen :: "string \<Rightarrow> string \<Rightarrow> keygen_outcome"
  passkey_verify_as :: "nat \<Rightarrow> json \<Rightarrow> nat \<Rightarrow> (bool \<times> string) option"
  price_get :: http_get
  db_fails :: db_faults
  env_chains :: chains
  sdk_nil :: bool
  gin_test :: bool
  id_draws :: "nat option list"
  new_uuid :: string
  bind_error :: "ctx \<Rightarrow> string"
  approvalExpiry :: int
  baseURL :: string
  maxWallets :: int
  idem_store :: bool

type_synonym 'a h = "(server, 'a) handler"

abbreviation stop :: "http_resp \<Rightarrow> 'a h" where
  "stop \<equiv> fail"

text \<open>Reading and updating the state inside a handler.\<close>

definition getting :: "(server \<Rightarrow> 'a) \<Rightarrow> ('a \<Rightarrow> 'b h) \<Rightarrow> 'b h" where
  "getting f k s = k (f s) s"

definition modify :: "(server \<Rightarrow> server) \<Rightarrow> 'b h \<Rightarrow> 'b h" where
  "modify f k s = k (f s)"

lemma getting_app [simp, io_simps]: "getting f k s = k (f s) s"
  by (simp add: getting_def)

lemma modify_app [simp, io_simps]: "modify f k s = k (f s)"
  by (simp add: modify_def)

subsection \<open>Rows as documents\<close>

definition opt_json :: "('a \<Rightarrow> json) \<Rightarrow> 'a option \<Rightarrow> json" where
  "opt_json f x = (case x of None \<Rightarrow> JNull | Some v \<Rightarrow> f v)"

definition wallet_json :: "wallet \<Rightarrow> json" where
  "wallet_json w = JObj [(''id'', JStr (w_ID w)), (''user_id'', jnat (w_UserID w)), (''chain'', JStr (w_Chain w)),
     (''key_name'', JStr (w_KeyName w)), (''public_key'', JStr (w_PublicKey w)), (''address'', JStr (w_Address w)),
     (''label'', JStr (w_Label w)), (''curve'', JStr (w_Curve w)), (''protocol'', JStr (w_Protocol w)), (''status'', JStr (w_Status w)),
     (''created_at'', jint (w_CreatedAt w))]"

subsection \<open>Audit log\<close>

text \<open>The length limit on the text of the details is not modelled.\<close>

definition writeAuditLog ::
    "db_faults \<Rightarrow> int \<Rightarrow> nat \<Rightarrow> string \<Rightarrow> string \<Rightarrow> string \<Rightarrow> string \<Rightarrow> string option \<Rightarrow> json option \<Rightarrow> string \<Rightarrow> nat \<Rightarrow> server \<Rightarrow> server" where
  "writeAuditLog dbe now userID action status authMode ip walletID details apiKeyPrefix approvalID s =
     (if dbe ''create_audit'' then s
      else s\<lparr>t_audit := t_audit s @ [\<lparr>al_ID = next_id al_ID (t_audit s), al_UserID = userID, al_Action = action, al_WalletID = walletID,
        al_ApprovalID = (if approvalID > 0 then Some approvalID else None), al_Details = details, al_AuthMode = authMode,
        al_APIKeyPrefix = apiKeyPrefix, al_IP = ip, al_Status = status, al_CreatedAt = now, al_ApprovedAt = None\<rparr>]\<rparr>)"

definition merge_details :: "json option \<Rightarrow> jobj \<Rightarrow> json" where
  "merge_details old extra =
     (let existing = (case old of Some j \<Rightarrow> (case as_obj j of Some kvs \<Rightarrow> kvs | None \<Rightarrow> []) | None \<Rightarrow> [])
      in JObj (filter (\<lambda>(k, _). k \<notin> fst ` set extra) existing @ extra))"

definition updateAuditByApprovalID :: "db_faults \<Rightarrow> int \<Rightarrow> nat \<Rightarrow> string \<Rightarrow> jobj \<Rightarrow> server \<Rightarrow> server" where
  "updateAuditByApprovalID dbe now approvalID newStatus extraDetails s =
     (case (if dbe ''first_audit'' then None
            else first_row (\<lambda>l. al_ApprovalID l = Some approvalID \<and> al_Status l = ''pending'') (t_audit s)) of
        None \<Rightarrow> s
      | Some entry \<Rightarrow>
          if dbe ''update_audit'' then s
          else s\<lparr>t_audit := update_rows (\<lambda>l. al_ID l = al_ID entry) (\<lambda>l. l\<lparr>al_Status := newStatus, al_ApprovedAt := Some now,
                 al_Details := Some (merge_details (al_Details entry) extraDetails)\<rparr>) (t_audit s)\<rparr>)"

definition writeAuditCtx ::
    "db_faults \<Rightarrow> ctx \<Rightarrow> string \<Rightarrow> string \<Rightarrow> string option \<Rightarrow> json option \<Rightarrow> nat \<Rightarrow> server \<Rightarrow> server" where
  "writeAuditCtx dbe c action status walletID details approvalID s = (case c_userID c of
       None \<Rightarrow> s
     | Some userID \<Rightarrow> (case authInfo c of (authMode, apiKeyPrefix) \<Rightarrow>
         writeAuditLog dbe (c_now c) userID action status authMode (c_ip c) walletID details apiKeyPrefix approvalID s))"

subsection \<open>Idempotency\<close>

definition idempotencyTTL :: int where
  "idempotencyTTL = 24 * 3600000000000"

definition same_idem :: "string \<Rightarrow> nat \<Rightarrow> string \<Rightarrow> idempotency_record \<Rightarrow> bool" where
  "same_idem key userID walletID r \<longleftrightarrow> idr_Key r = key \<and> idr_UserID r = userID \<and> idr_WalletID r = walletID"

definition Idem_Check :: "db_faults \<Rightarrow> ctx \<Rightarrow> string \<Rightarrow> nat \<Rightarrow> idempotency_record list \<Rightarrow> http_resp option" where
  "Idem_Check dbe c key userID rs =
     (if key = [] \<or> dbe ''first_idem'' then None
      else case first_row (\<lambda>r. same_idem key userID (c_id c) r \<and> idr_ExpiresAt r > c_now c) rs of
        None \<Rightarrow> None
      | Some r \<Rightarrow> Some \<lparr>rs_status = idr_StatusCode r, rs_body = idr_Response r\<rparr>)"

text \<open>The table has a unique index on the key, the user and the wallet: a second record is refused.\<close>

definition Idem_Save :: "db_faults \<Rightarrow> ctx \<Rightarrow> string \<Rightarrow> nat \<Rightarrow> http_resp \<Rightarrow> idempotency_record list \<Rightarrow> idempotency_record list" where
  "Idem_Save dbe c key userID resp rs =
     (if key = [] \<or> dbe ''create_idem'' \<or> list_ex (same_idem key userID (c_id c)) rs then rs
      else rs @ [\<lparr>idr_Key = key, idr_UserID = userID, idr_WalletID = c_id c, idr_StatusCode = rs_status resp, idr_Response = rs_body resp,
        idr_ExpiresAt = c_now c + idempotencyTTL, idr_CreatedAt = c_now c\<rparr>])"

text \<open>What a clean-up is for: no expired record is left.\<close>

definition Idem_cleanup :: "int \<Rightarrow> idempotency_record list \<Rightarrow> idempotency_record list" where
  "Idem_cleanup now rs = filter (\<lambda>r. \<not> idr_ExpiresAt r < now) rs"

text \<open>The loop of the clean-up: one statement deletes at most a thousand expired records, and the loop ends when a statement fails or deletes fewer. The
  result is the number of statements and the records that are left.\<close>

fun delete_batch :: "nat \<Rightarrow> int \<Rightarrow> idempotency_record list \<Rightarrow> nat \<times> idempotency_record list" where
  "delete_batch n now [] = (0, [])"
| "delete_batch n now (r # rs) =
     (if idr_ExpiresAt r < now \<and> n > 0 then (case delete_batch (n - 1) now rs of (k, qs) \<Rightarrow> (Suc k, qs))
      else (case delete_batch n now rs of (k, qs) \<Rightarrow> (k, r # qs)))"

lemma delete_batch_length: "delete_batch n now rs = (k, qs) \<Longrightarrow> length rs = k + length qs"
  by (induction n now rs arbitrary: k qs rule: delete_batch.induct) (auto split: if_splits prod.splits)

function cleanup_loop :: "db_faults \<Rightarrow> int \<Rightarrow> idempotency_record list \<Rightarrow> nat \<times> idempotency_record list" where
  "cleanup_loop dbe now rs =
     (if dbe ''delete_idem'' then (1, rs)
      else case delete_batch 1000 now rs of (affected, qs) \<Rightarrow>
        if affected < 1000 then (1, qs) else (case cleanup_loop dbe now qs of (k, left) \<Rightarrow> (Suc k, left)))"
  by pat_completeness auto

termination
  by (relation "measure (\<lambda>(dbe, now, rs). length rs)") (auto dest!: delete_batch_length [OF sym])

declare cleanup_loop.simps [simp del]

definition IdempotencyKey :: "ctx \<Rightarrow> string" where
  "IdempotencyKey c = header c ''Idempotency-Key''"

definition CheckIdempotency :: "'e server_env_scheme \<Rightarrow> ctx \<Rightarrow> string \<Rightarrow> nat \<Rightarrow> unit h" where
  "CheckIdempotency env c key userID = getting t_idem (\<lambda>rs.
     if \<not> idem_store env \<or> key = [] then ret ()
     else case Idem_Check (db_fails env) c key userID rs of None \<Rightarrow> ret () | Some r \<Rightarrow> stop r)"

definition respondWithIdempotency :: "'e server_env_scheme \<Rightarrow> ctx \<Rightarrow> string \<Rightarrow> nat \<Rightarrow> http_resp \<Rightarrow> http_resp h" where
  "respondWithIdempotency env c key userID resp =
     modify (\<lambda>s. if idem_store env \<and> key \<noteq> [] then s\<lparr>t_idem := Idem_Save (db_fails env) c key userID resp (t_idem s)\<rparr> else s) (ret resp)"

subsection \<open>Pending approvals\<close>

text \<open>\<open>db.Create\<close> of an approval request: the hook draws its identifier, and an empty type or status gets the
  default of its column.\<close>

definition approval_defaults :: "approval_request \<Rightarrow> approval_request" where
  "approval_defaults a = a\<lparr>apr_ApprovalType := (if apr_ApprovalType a = [] then ''sign'' else apr_ApprovalType a),
     apr_Status := (if apr_Status a = [] then ''pending'' else apr_Status a)\<rparr>"

definition create_approval :: "'e server_env_scheme \<Rightarrow> approval_request \<Rightarrow> server \<Rightarrow> approval_request res \<times> server" where
  "create_approval env a s =
     (case BeforeCreate (id_draws env) (t_approvals s) a of
        Inl e \<Rightarrow> (Inl e, s)
      | Inr a' \<Rightarrow> if db_fails env ''create_approval'' then (Inl (Msg ''db''), s)
          else (Inr (approval_defaults a'), s\<lparr>t_approvals := t_approvals s @ [approval_defaults a']\<rparr>))"

definition defaultApprovalExpiry :: int where
  "defaultApprovalExpiry = 30 * 60000000000"

definition createPendingApproval ::
    "'e server_env_scheme \<Rightarrow> ctx \<Rightarrow> string option \<Rightarrow> string \<Rightarrow> json \<Rightarrow> int option \<Rightarrow> approval_request h" where
  "createPendingApproval env c walletID approvalType policyData expiry =
     seq (mustUserID c) (\<lambda>userID s.
       let dur = (case expiry of Some d \<Rightarrow> if d > 0 then d else defaultApprovalExpiry | None \<Rightarrow> defaultApprovalExpiry);
           a = \<lparr>apr_ID = 0, apr_WalletID = walletID, apr_UserID = userID, apr_ApprovalType = approvalType, apr_Message = [],
                 apr_TxContext = None, apr_TxParams = None, apr_PolicyData = Some policyData, apr_TxHash = [], apr_Status = ''pending'',
                 apr_Signature = [], apr_ApprovedBy = None, apr_AuthMode = fst (authInfo c), apr_APIKeyPrefix = snd (authInfo c),
                 apr_CreatedAt = c_now c, apr_ExpiresAt = c_now c + dur\<rparr>
       in case create_approval env a s of
            (Inl e, s') \<Rightarrow> (Inl (respondInternalError c ''failed to create approval request'' [(''stage'', JStr ''create_approval'')]), s')
          | (Inr a', s') \<Rightarrow> (Inr a', s'))"

subsection \<open>Loading the objects of the user\<close>

definition loadUserWallet :: "'e server_env_scheme \<Rightarrow> ctx \<Rightarrow> wallet h" where
  "loadUserWallet env c = seq (mustUserID c) (\<lambda>userID.
     if c_id c = [] then stop (jsonError 400 ''invalid wallet id'')
     else getting t_wallets (\<lambda>ws.
       case (if db_fails env ''first_wallet'' then None else first_row (\<lambda>w. w_ID w = c_id c \<and> w_UserID w = userID) ws) of
         None \<Rightarrow> stop (jsonError 404 ''wallet not found'')
       | Some w \<Rightarrow> ret w))"

definition loadUserApproval :: "'e server_env_scheme \<Rightarrow> ctx \<Rightarrow> approval_request h" where
  "loadUserApproval env c = seq (mustUserID c) (\<lambda>userID.
     case num_uint 64 (c_id c) of
       None \<Rightarrow> stop (jsonError 400 ''invalid approval id'')
     | Some i \<Rightarrow> getting t_approvals (\<lambda>as.
         case (if db_fails env ''first_approval'' then None else first_row (\<lambda>a. apr_ID a = i) as) of
           None \<Rightarrow> stop (jsonError 404 ''approval not found'')
         | Some a \<Rightarrow> if apr_UserID a \<noteq> userID then stop (jsonError 403 ''access denied'') else ret a))"

subsection \<open>Fresh passkey verification\<close>

definition verifyFreshPasskeyParsed :: "'e server_env_scheme \<Rightarrow> ctx \<Rightarrow> nat \<Rightarrow> json option \<Rightarrow> unit h" where
  "verifyFreshPasskeyParsed env c loginSessionID credential =
     (if sdk_nil env then
        if gin_test env then ret () else stop (jsonError 422 ''passkey verification unavailable'')
      else case credential of
        None \<Rightarrow> stop (jsonError 400 ''login_session_id and credential are required for this action'')
      | Some cred \<Rightarrow>
          if loginSessionID = 0 then stop (jsonError 400 ''login_session_id and credential are required for this action'')
          else seq (mustUserID c) (\<lambda>sessionUserID. getting t_users (\<lambda>us.
            case (if db_fails env ''first_user'' then None else first_row (\<lambda>u. u_ID u = sessionUserID) us) of
              None \<Rightarrow> stop (respondInternalError c ''failed to verify user identity''
                 [(''stage'', JStr ''passkey_verify''), (''user_id'', jnat sessionUserID)])
            | Some user \<Rightarrow> (case passkey_verify_as env loginSessionID cred (u_PasskeyUserID user) of
                  None \<Rightarrow> stop (jsonError 403 ''passkey verification failed'')
                | Some (success, err) \<Rightarrow>
                    if success then ret ()
                    else stop (jsonError 403 (if err \<noteq> [] then err else ''passkey verification failed''))))))"

definition verifyFreshPasskey :: "'e server_env_scheme \<Rightarrow> ctx \<Rightarrow> unit h" where
  "verifyFreshPasskey env c =
     (if sdk_nil env then
        if gin_test env then ret () else stop (jsonError 422 ''passkey verification unavailable'')
      else
        let bad = stop (jsonError 400 ''login_session_id and credential are required for this action'')
        in case c_body c of
             None \<Rightarrow> bad
           | Some j \<Rightarrow> (case as_obj j of
                 None \<Rightarrow> bad
               | Some o' \<Rightarrow> (case (fld_uint 64 ''login_session_id'' o', jget ''credential'' o') of
                     (Some n, Some cred) \<Rightarrow> if n = 0 \<or> cred = JNull then bad else verifyFreshPasskeyParsed env c n (Some cred)
                   | _ \<Rightarrow> bad)))"

subsection \<open>Approval events\<close>

definition broadcastApproval :: "'e server_env_scheme \<Rightarrow> approval_request \<Rightarrow> string \<Rightarrow> string \<Rightarrow> server \<Rightarrow> unit res \<times> server" where
  "broadcastApproval env approval status txHash s =
     (let evtData = [(''approval_id'', jnat (apr_ID approval)), (''status'', JStr status), (''approval_type'', JStr (apr_ApprovalType approval))]
            @ (if txHash \<noteq> [] then [(''tx_hash'', JStr txHash)] else [])
            @ (case apr_WalletID approval of
                 None \<Rightarrow> []
               | Some wid \<Rightarrow> (''wallet_id'', JStr wid) #
                   (case (if db_fails env ''first_wallet'' then None else first_row (\<lambda>w. w_ID w = wid) (t_wallets s)) of
                      None \<Rightarrow> [] | Some w \<Rightarrow> [(''chain'', JStr (w_Chain w))]))
      in case Broadcast (apr_UserID approval) \<lparr>ev_Type = ''approval_resolved'', ev_Data = JObj evtData\<rparr> (sv_hub s) of
           (r, hub) \<Rightarrow> (r, s\<lparr>sv_hub := hub\<rparr>))"

subsection \<open>A sample server\<close>

definition demo_chain :: chain_config where
  "demo_chain = mk_chain ''ethereum'' ''Ethereum Mainnet'' ''ecdsa'' ''secp256k1'' ''ETH'' ''evm'' ''http://node'' False"

text \<open>A node that answers every call with \<open>0x1\<close>, but the latest block with a base fee and a balance with a large one.\<close>

definition demo_answer :: "string \<Rightarrow> json" where
  "demo_answer m = (if m = ''eth_getBlockByNumber'' then JObj [(''baseFeePerGas'', JStr ''0x7'')]
     else if m = ''eth_getBalance'' then JStr ''0xffffffffffffffffffff'' else JStr ''0x1'')"

definition demo_net :: "rpc_call list \<Rightarrow> string \<Rightarrow> json \<Rightarrow> http_outcome" where
  "demo_net h url p = (case p of
       JObj kvs \<Rightarrow> HttpResp 200 (Some (JObj [(''result'', demo_answer (str_or_empty ''method'' kvs))])) | _ \<Rightarrow> HttpResp 400 None)"

definition demo_env :: server_env where
  "demo_env = chain_env.extend (sample_env\<lparr>net := demo_net\<rparr>) \<lparr>tee_sign = (\<lambda>_ _ _. SignRes True [7] []), tee_keygen = (\<lambda>_ _. KeyErr ''keygen''),
     passkey_verify_as = (\<lambda>_ _ _. Some (True, [])), price_get = (\<lambda>_ _. TransportErr ''down''), db_fails = (\<lambda>_. False),
     env_chains = [(''ethereum'', demo_chain)], sdk_nil = False, gin_test = False, id_draws = [Some 5], new_uuid = ''w2'', bind_error = (\<lambda>_. ''EOF''),
     approvalExpiry = 1800000000000, baseURL = ''https://wallet'', maxWallets = 20, idem_store = True\<rparr>"

definition demo_wallet :: wallet where
  "demo_wallet = \<lparr>w_ID = ''w1'', w_UserID = 1, w_Chain = ''ethereum'', w_KeyName = ''key1'', w_PublicKey = [], w_Address = ''0xa'', w_Label = [],
     w_Curve = ''secp256k1'', w_Protocol = ''ecdsa'', w_Status = ''ready'', w_CreatedAt = 0\<rparr>"

definition demo_server :: server where
  "demo_server = \<lparr>rpc_trace = [], chainIDCache = [], t_wallets = [demo_wallet], t_policies = [], t_approvals = [], t_contracts = [],
     t_entries = [], t_users = [], t_keys = [], t_audit = [], t_idem = [], sv_sessions = [], sv_hub = NewSSEHub, sv_prices = None, sv_signs = [], t_emails = [], sv_mails = [],
     sv_deletions = []\<rparr>"

lemmas demo_defs = demo_env_def demo_wallet_def demo_server_def demo_chain_def sample_env_def chain_env.defs mk_chain_def

lemma demo_call:
  "jsonRPCWithRetry demo_env url (rpc_request m ps) s = (Inr [(''result'', demo_answer m)], after_requests 1 url (rpc_request m ps) s)"
  by (rule jsonRPCWithRetry_first) (simp_all add: demo_defs demo_net_def rpc_request_def jget_def str_or_empty_def)

lemma demo_params:
  "\<exists>s'. fetchETHChainParams demo_env url a s =
     (Inr \<lparr>cp_nonce = 1, cp_maxFeePerGas = 1000014, cp_maxPriorityFeePerGas = 1000000,
        cp_chainID = (case getCachedChainID url s of None \<Rightarrow> 1 | Some i \<Rightarrow> int (unat i))\<rparr>, s')"
  by (simp add: fetchETHChainParams_def fetchNonceFromChain_def fetchGasFeesAndChainID_def fetch_priority_def int_Uint64_def minPriority_def
      fetch_base_fee_def fetch_chain_id_def seq_def wrapping_def attempt_def demo_call demo_answer_def result_str_def jget_def
      sample_hex str_or_empty_def Let_def getCachedChainID_def after_requests_def split: option.splits)

end
