(* ===== verification/Email.thy ===== *)
theory Email
  imports Server
begin

text \<open>
  Email ownership (\<open>handler/email_verification.go\<close>): a code is mailed, checked with a bounded number of guesses, exchanged for a
  verification identifier and consumed by the registration. The mail journal of the server records the codes that were sent. The random draws and the mail
  server are parameters.
\<close>

record email_config =
  ecf_CodeTTL :: int
  ecf_ResendCooldown :: int
  ecf_MaxAttempts :: int
  ecf_FixedCode :: string

definition NewEmailVerificationService :: "email_config \<Rightarrow> email_config" where
  "NewEmailVerificationService cfg = cfg\<lparr>
     ecf_CodeTTL := (if ecf_CodeTTL cfg \<le> 0 then 600000000000 else ecf_CodeTTL cfg),
     ecf_ResendCooldown := (if ecf_ResendCooldown cfg \<le> 0 then 60000000000 else ecf_ResendCooldown cfg),
     ecf_MaxAttempts := (if ecf_MaxAttempts cfg \<le> 0 then 5 else ecf_MaxAttempts cfg)\<rparr>"

text \<open>The draws are \<open>None\<close> when the random source fails.\<close>

definition GenerateVerificationCode :: "nat option \<Rightarrow> string" where
  "GenerateVerificationCode draw = (case draw of None \<Rightarrow> ''000000''
     | Some n \<Rightarrow> (let t = nat_text 10 (n mod 1000000) in replicate (6 - length t) (CHR ''0'') @ t))"

definition HashCode :: "string \<Rightarrow> string" where
  "HashCode code = hex_encode (sha256 (bytes_of_string code))"

definition GenerateVerificationID :: "bytes option \<Rightarrow> string" where
  "GenerateVerificationID draw = (case draw of None \<Rightarrow> [] | Some bs \<Rightarrow> hex_encode bs)"

definition NormalizeEmail :: "string \<Rightarrow> string" where
  "NormalizeEmail email = to_lower (trim_space email)"

definition ValidateEmailFormat :: "string \<Rightarrow> bool" where
  "ValidateEmailFormat email =
     (let domain = tl (dropWhile (\<lambda>c. c \<noteq> CHR ''@'') email)
      in 5 \<le> length email \<and> length email \<le> 254 \<and> count_list email (CHR ''@'') = 1 \<and> hd email \<noteq> CHR ''@'' \<and> domain \<noteq> [] \<and> CHR ''.'' \<in> set domain)"

datatype email_error = ErrEmailInvalid | ErrEmailAlreadyTaken | ErrCooldown | ErrSMTPSend | ErrNoPendingCode | ErrCodeExpired | ErrCodeInvalid
  | ErrAttemptsExhausted | ErrVerificationIDBad | ErrDatabase

text \<open>\<open>mail_ok\<close> tells whether a mail goes out; \<open>commit_email\<close> is a commit that fails after the mail was sent.\<close>

record email_env =
  em_cfg :: email_config
  em_dbe :: db_faults
  code_draw :: "nat option"
  vid_draw :: "bytes option"
  mail_ok :: "string \<Rightarrow> string \<Rightarrow> bool"

subsection \<open>Sending a code\<close>

definition email_row :: "email_env \<Rightarrow> int \<Rightarrow> string \<Rightarrow> string \<Rightarrow> email_verification list \<Rightarrow> email_verification" where
  "email_row ee now email code rows = \<lparr>em_ID = next_id em_ID rows, em_Email = email, em_CodeHash = HashCode code, em_Attempts = 0,
     em_ExpiresAt = now + ecf_CodeTTL (em_cfg ee), em_VerifiedAt = None, em_ConsumedAt = None, em_VerificationID = None, em_CreatedAt = now, em_LastSentAt = now\<rparr>"

definition in_cooldown :: "email_env \<Rightarrow> int \<Rightarrow> string \<Rightarrow> email_verification list \<Rightarrow> bool" where
  "in_cooldown ee now email rows = (case latest_row em_LastSentAt (filter (\<lambda>r. em_Email r = email \<and> em_ExpiresAt r > now) rows) of
       None \<Rightarrow> False | Some r \<Rightarrow> now - em_LastSentAt r < ecf_ResendCooldown (em_cfg ee))"

definition insert_and_send :: "email_env \<Rightarrow> int \<Rightarrow> string \<Rightarrow> string \<Rightarrow> server \<Rightarrow> (email_error + unit) \<times> server" where
  "insert_and_send ee now email code s =
     (if em_dbe ee ''create_email'' then (Inl ErrDatabase, s)
      else if \<not> mail_ok ee email code then (Inl ErrSMTPSend, s)
      else let s' = s\<lparr>sv_mails := sv_mails s @ [(email, code)]\<rparr>
           in if em_dbe ee ''commit_email'' then (Inl ErrDatabase, s')
              else (Inr (), s'\<lparr>t_emails := t_emails s @ [email_row ee now email code (t_emails s)]\<rparr>))"

definition Email_SendCode :: "email_env \<Rightarrow> int \<Rightarrow> string \<Rightarrow> server \<Rightarrow> (email_error + unit) \<times> server" where
  "Email_SendCode ee now rawEmail s =
     (let email = NormalizeEmail rawEmail
      in if \<not> ValidateEmailFormat email then (Inl ErrEmailInvalid, s)
         else if em_dbe ee ''count_users'' then (Inl ErrDatabase, s)
         else if count_rows (\<lambda>u. u_Email u = Some email) (t_users s) > 0 then (Inl ErrEmailAlreadyTaken, s)
         else if em_dbe ee ''first_email'' then (Inl ErrDatabase, s)
         else if in_cooldown ee now email (t_emails s) then (Inl ErrCooldown, s)
         else if em_dbe ee ''delete_email'' then (Inl ErrDatabase, s)
         else let s1 = s\<lparr>t_emails := delete_rows (\<lambda>r. em_Email r = email \<and> em_ExpiresAt r \<le> now) (t_emails s)\<rparr>;
                  code = (if ecf_FixedCode (em_cfg ee) \<noteq> [] then ecf_FixedCode (em_cfg ee) else GenerateVerificationCode (code_draw ee))
              in insert_and_send ee now email code s1)"

subsection \<open>Checking a code\<close>

definition set_email :: "email_env \<Rightarrow> email_verification \<Rightarrow> (email_verification \<Rightarrow> email_verification) \<Rightarrow> server \<Rightarrow> server" where
  "set_email ee row f s = (if em_dbe ee ''update_email'' then s else s\<lparr>t_emails := update_rows (\<lambda>r. em_ID r = em_ID row) f (t_emails s)\<rparr>)"

definition pending_code :: "string \<Rightarrow> email_verification list \<Rightarrow> email_verification option" where
  "pending_code email rows = latest_row em_CreatedAt (filter (\<lambda>r. em_Email r = email \<and> em_ConsumedAt r = None) rows)"

definition issued_id :: "email_verification \<Rightarrow> string option" where
  "issued_id row = (case (em_VerifiedAt row, em_VerificationID row) of (Some _, Some v) \<Rightarrow> if v = [] then None else Some v | _ \<Rightarrow> None)"

definition Email_VerifyCode :: "email_env \<Rightarrow> int \<Rightarrow> string \<Rightarrow> string \<Rightarrow> server \<Rightarrow> (email_error + string) \<times> server" where
  "Email_VerifyCode ee now rawEmail code s =
     (if em_dbe ee ''first_email'' then (Inl ErrDatabase, s)
      else case pending_code (NormalizeEmail rawEmail) (t_emails s) of
        None \<Rightarrow> (Inl ErrNoPendingCode, s)
      | Some row \<Rightarrow>
          if now > em_ExpiresAt row then (Inl ErrCodeExpired, s)
          else if em_Attempts row \<ge> ecf_MaxAttempts (em_cfg ee)
          then (Inl ErrAttemptsExhausted, set_email ee row (\<lambda>r. r\<lparr>em_ExpiresAt := now - 1000000000\<rparr>) s)
          else if HashCode code \<noteq> em_CodeHash row
          then (Inl ErrCodeInvalid, set_email ee row (\<lambda>r. r\<lparr>em_Attempts := em_Attempts row + 1\<rparr>) s)
          else (case issued_id row of
              Some v \<Rightarrow> (Inr v, s)
            | None \<Rightarrow> let vid = GenerateVerificationID (vid_draw ee)
                in if em_dbe ee ''update_email'' \<or> list_ex (\<lambda>r. em_ID r \<noteq> em_ID row \<and> em_VerificationID r = Some vid) (t_emails s) then (Inl ErrDatabase, s)
                   else (Inr vid, set_email ee row (\<lambda>r. r\<lparr>em_VerifiedAt := Some now, em_VerificationID := Some vid\<rparr>) s)))"

subsection \<open>Using a verification\<close>

definition verified_row :: "int \<Rightarrow> string \<Rightarrow> email_verification \<Rightarrow> bool" where
  "verified_row now vid r \<longleftrightarrow> em_VerificationID r = Some vid \<and> em_VerifiedAt r \<noteq> None \<and> em_ConsumedAt r = None \<and> em_ExpiresAt r > now"

definition LookupVerification :: "email_env \<Rightarrow> int \<Rightarrow> string \<Rightarrow> email_verification list \<Rightarrow> email_error + string" where
  "LookupVerification ee now vid rows =
     (if vid = [] then Inl ErrVerificationIDBad
      else if em_dbe ee ''first_email'' then Inl ErrDatabase
      else case first_row (verified_row now vid) rows of None \<Rightarrow> Inl ErrVerificationIDBad | Some r \<Rightarrow> Inr (em_Email r))"

definition ConsumeVerification :: "email_env \<Rightarrow> int \<Rightarrow> string \<Rightarrow> email_verification list \<Rightarrow> email_error + (string \<times> email_verification list)" where
  "ConsumeVerification ee now vid rows =
     (if vid = [] then Inl ErrVerificationIDBad
      else if em_dbe ee ''first_email'' then Inl ErrDatabase
      else case first_row (verified_row now vid) rows of
        None \<Rightarrow> Inl ErrVerificationIDBad
      | Some r \<Rightarrow> if em_dbe ee ''delete_email'' then Inl ErrDatabase else Inr (em_Email r, delete_rows (\<lambda>q. em_ID q = em_ID r) rows))"

subsection \<open>Endpoints\<close>

definition invalid_json :: http_resp where
  "invalid_json = jsonError 400 ''invalid json''"

definition send_error :: "ctx \<Rightarrow> email_error \<Rightarrow> http_resp" where
  "send_error c e = (case e of
       ErrEmailInvalid \<Rightarrow> jsonError 400 ''invalid email format''
     | ErrEmailAlreadyTaken \<Rightarrow> jsonError 409 ''email already registered''
     | ErrCooldown \<Rightarrow> jsonError 429 ''please wait before requesting another code''
     | ErrSMTPSend \<Rightarrow> jsonError 500 ''failed to send verification email''
     | _ \<Rightarrow> respondInternalError c ''failed to send verification code'' [(''stage'', JStr ''send_code'')])"

definition verify_error :: "ctx \<Rightarrow> email_error \<Rightarrow> http_resp" where
  "verify_error c e = (case e of
       ErrNoPendingCode \<Rightarrow> jsonError 404 ''no pending code for this email''
     | ErrCodeExpired \<Rightarrow> jsonError 410 ''code expired''
     | ErrCodeInvalid \<Rightarrow> jsonError 401 ''invalid code''
     | ErrAttemptsExhausted \<Rightarrow> jsonError 423 ''too many failed attempts, please request a new code''
     | _ \<Rightarrow> respondInternalError c ''failed to verify code'' [(''stage'', JStr ''verify_code'')])"

definition body_of :: "ctx \<Rightarrow> (json \<Rightarrow> 'a option) \<Rightarrow> 'a option" where
  "body_of c dec = (case c_body c of None \<Rightarrow> None | Some j \<Rightarrow> dec j)"

definition seconds :: "int \<Rightarrow> json" where
  "seconds d = jint (d div 1000000000)"

definition SendCode :: "email_env \<Rightarrow> ctx \<Rightarrow> http_resp h" where
  "SendCode ee c s = (case body_of c (\<lambda>j. case as_obj j of None \<Rightarrow> None | Some o' \<Rightarrow> fld_str ''email'' o') of
       None \<Rightarrow> (Inl invalid_json, s)
     | Some email \<Rightarrow> (case Email_SendCode ee (c_now c) email s of
           (Inl e, s') \<Rightarrow> (Inl (send_error c e), s')
         | (Inr _, s') \<Rightarrow> (Inr (JSON 200 [(''success'', JBool True), (''message'', JStr ''code sent''), (''expires_in'', seconds (ecf_CodeTTL (em_cfg ee))),
              (''resend_cooldown'', seconds (ecf_ResendCooldown (em_cfg ee)))]), s')))"

definition VerifyCode :: "email_env \<Rightarrow> ctx \<Rightarrow> http_resp h" where
  "VerifyCode ee c s = (case body_of c (\<lambda>j. case as_obj j of None \<Rightarrow> None | Some o' \<Rightarrow>
         (case (fld_str ''email'' o', fld_str ''code'' o') of (Some e, Some k) \<Rightarrow> Some (e, k) | _ \<Rightarrow> None)) of
       None \<Rightarrow> (Inl invalid_json, s)
     | Some (email, code) \<Rightarrow>
         if email = [] \<or> code = [] then (Inl (jsonError 400 ''email and code are required''), s)
         else (case Email_VerifyCode ee (c_now c) email code s of
             (Inl e, s') \<Rightarrow> (Inl (verify_error c e), s')
           | (Inr vid, s') \<Rightarrow> (Inr (JSON 200 [(''success'', JBool True), (''verification_id'', JStr vid), (''expires_in'', seconds (ecf_CodeTTL (em_cfg ee)))]), s')))"

subsection \<open>Guessing a code\<close>

lemma latest_row_map: "(\<And>r. key (g r) = key r) \<Longrightarrow> latest_row key (map g t) = map_option g (latest_row key t)"
  by (induction t) (auto split: option.splits)

lemma pending_code_update:
  assumes "\<And>r. em_Email (f r) = em_Email r \<and> em_ConsumedAt (f r) = em_ConsumedAt r \<and> em_CreatedAt (f r) = em_CreatedAt r"
    and "pending_code email rows = Some row"
  shows "pending_code email (update_rows (\<lambda>r. em_ID r = em_ID row) f rows) = Some (f row)"
proof -
  let ?g = "\<lambda>r. if em_ID r = em_ID row then f r else r"
  have "filter (\<lambda>r. em_Email r = email \<and> em_ConsumedAt r = None) (map ?g rows) = map ?g (filter (\<lambda>r. em_Email r = email \<and> em_ConsumedAt r = None) rows)"
    using assms(1) by (induction rows) auto
  then show ?thesis using assms latest_row_map [of em_CreatedAt ?g] by (simp add: pending_code_def update_rows_def)
qed

lemma pending_code_row: "pending_code email rows = Some row \<Longrightarrow> row \<in> set rows \<and> em_Email row = email"
  by (auto simp: pending_code_def dest: latest_row_Some)

text \<open>What one guess does to the pending row.\<close>

lemma guess_step:
  assumes "Email_VerifyCode ee now raw code s = (r, s')" and "\<not> em_dbe ee ''update_email''"
    and "pending_code (NormalizeEmail raw) (t_emails s) = Some row"
  shows "\<exists>row'. pending_code (NormalizeEmail raw) (t_emails s') = Some row' \<and> em_CodeHash row' = em_CodeHash row
     \<and> em_Attempts row' = em_Attempts row + (if r = Inl ErrCodeInvalid then 1 else 0)
     \<and> (r = Inl ErrCodeInvalid \<longrightarrow> em_Attempts row < ecf_MaxAttempts (em_cfg ee)) \<and> ((\<exists>v. r = Inr v) \<longrightarrow> em_Attempts row < ecf_MaxAttempts (em_cfg ee))"
  using assms pending_code_update [OF _ assms(3), of "\<lambda>r. r\<lparr>em_ExpiresAt := x\<rparr>" for x]
    pending_code_update [OF _ assms(3), of "\<lambda>r. r\<lparr>em_Attempts := x\<rparr>" for x]
    pending_code_update [OF _ assms(3), of "\<lambda>r. r\<lparr>em_VerifiedAt := x, em_VerificationID := y\<rparr>" for x y]
  by (auto simp: Email_VerifyCode_def set_email_def Let_def split: if_splits option.splits)

lemma guess_none:
  "Email_VerifyCode ee now raw code s = (r, s') \<Longrightarrow> pending_code (NormalizeEmail raw) (t_emails s) = None \<Longrightarrow> s' = s \<and> r \<noteq> Inl ErrCodeInvalid \<and> (\<forall>v. r \<noteq> Inr v)"
  by (auto simp: Email_VerifyCode_def split: if_splits)

text \<open>A sequence of guesses for one address, each at its time, and their results.\<close>

fun guesses :: "email_env \<Rightarrow> string \<Rightarrow> (int \<times> string) list \<Rightarrow> server \<Rightarrow> (email_error + string) list \<times> server" where
  "guesses ee raw [] s = ([], s)"
| "guesses ee raw ((now, code) # gs) s = (case Email_VerifyCode ee now raw code s of (r, s1) \<Rightarrow>
     (case guesses ee raw gs s1 of (rs, s2) \<Rightarrow> (r # rs, s2)))"

definition wrong_guesses :: "(email_error + string) list \<Rightarrow> nat" where
  "wrong_guesses rs = length (filter (\<lambda>r. r = Inl ErrCodeInvalid) rs)"

lemma guesses_none:
  "guesses ee raw gs s = (rs, s') \<Longrightarrow> pending_code (NormalizeEmail raw) (t_emails s) = None \<Longrightarrow> wrong_guesses rs = 0"
proof (induction gs arbitrary: s rs)
  case (Cons g gs)
  then show ?case by (cases g) (auto simp: wrong_guesses_def split: prod.splits dest!: guess_none)
qed (simp add: wrong_guesses_def)

lemma guesses_attempts:
  assumes "guesses ee raw gs s = (rs, s')" and "\<not> em_dbe ee ''update_email''" and "pending_code (NormalizeEmail raw) (t_emails s) = Some row"
  shows "em_Attempts row + int (wrong_guesses rs) \<le> max (em_Attempts row) (ecf_MaxAttempts (em_cfg ee))"
  using assms
proof (induction gs arbitrary: s rs row)
  case (Cons g gs)
  obtain now code where g: "g = (now, code)" by fastforce
  obtain r s1 where one: "Email_VerifyCode ee now raw code s = (r, s1)" by fastforce
  obtain rs1 where rest: "guesses ee raw gs s1 = (rs1, s')" "rs = r # rs1" using Cons.prems(1) g one by (auto split: prod.splits)
  obtain row' where row': "pending_code (NormalizeEmail raw) (t_emails s1) = Some row'"
      "em_Attempts row' = em_Attempts row + (if r = Inl ErrCodeInvalid then 1 else 0)" "r = Inl ErrCodeInvalid \<longrightarrow> em_Attempts row < ecf_MaxAttempts (em_cfg ee)"
    using guess_step [OF one Cons.prems(2,3)] by auto
  then show ?case using Cons.IH [OF rest(1) Cons.prems(2) row'(1)] rest(2) by (auto simp: wrong_guesses_def split: if_splits)
qed (simp add: wrong_guesses_def)


text \<open>When the guesses are used up the row is made to expire, so the next attempt is answered with an expired code, not
  with a missing one.\<close>

lemma exhausted_then_expired:
  assumes "Email_VerifyCode ee now raw code s = (Inl ErrAttemptsExhausted, s1)" and "\<not> em_dbe ee ''update_email''" and "now \<le> later"
  shows "Email_VerifyCode ee later raw code' s1 = (Inl ErrCodeExpired, s1)"
proof -
  obtain row where row: "pending_code (NormalizeEmail raw) (t_emails s) = Some row" "\<not> em_dbe ee ''first_email''"
      "s1 = set_email ee row (\<lambda>r. r\<lparr>em_ExpiresAt := now - 1000000000\<rparr>) s"
    using assms(1) by (auto simp: Email_VerifyCode_def Let_def split: if_splits option.splits)
  then have "pending_code (NormalizeEmail raw) (t_emails s1) = Some (row\<lparr>em_ExpiresAt := now - 1000000000\<rparr>)"
    using assms(2) pending_code_update [OF _ row(1), of "\<lambda>r. r\<lparr>em_ExpiresAt := now - 1000000000\<rparr>"] by (simp add: set_email_def)
  then show ?thesis using row(2) assms(3) by (simp add: Email_VerifyCode_def)
qed

definition demo_mail :: email_env where
  "demo_mail = \<lparr>em_cfg = \<lparr>ecf_CodeTTL = 600000000000, ecf_ResendCooldown = 60000000000, ecf_MaxAttempts = 1, ecf_FixedCode = ''123456''\<rparr>, em_dbe = (\<lambda>_. False),
     code_draw = Some 123456, vid_draw = Some [1, 2], mail_ok = (\<lambda>_ _. True)\<rparr>"

definition demo_coded :: server where
  "demo_coded = demo_server\<lparr>t_emails := [\<lparr>em_ID = 1, em_Email = ''a@b.c'', em_CodeHash = ''h'', em_Attempts = 0, em_ExpiresAt = 100, em_VerifiedAt = None,
     em_ConsumedAt = None, em_VerificationID = None, em_CreatedAt = 0, em_LastSentAt = 0\<rparr>]\<rparr>"


subsection \<open>Authenticity of a verified address\<close>

text \<open>The history of the service: codes that were mailed, codes that were accepted and verifications that were used.\<close>

datatype email_event = Sent string string | Accepted string string string | Consumed string string

inductive email_run :: "email_event list \<Rightarrow> server \<Rightarrow> bool" where
  run_start: "t_emails s = [] \<Longrightarrow> sv_mails s = [] \<Longrightarrow> email_run [] s"
| run_send: "email_run h s \<Longrightarrow> Email_SendCode ee now raw s = (r, s') \<Longrightarrow> email_run (h @ map (\<lambda>m. Sent (fst m) (snd m)) (drop (length (sv_mails s)) (sv_mails s'))) s'"
| run_refused: "email_run h s \<Longrightarrow> Email_VerifyCode ee now raw code s = (Inl e, s') \<Longrightarrow> email_run h s'"
| run_accepted: "email_run h s \<Longrightarrow> Email_VerifyCode ee now raw code s = (Inr vid, s') \<Longrightarrow> email_run (h @ [Accepted (NormalizeEmail raw) code vid]) s'"
| run_consumed: "email_run h s \<Longrightarrow> ConsumeVerification ee now vid (t_emails s) = Inr (email, rows) \<Longrightarrow> email_run (h @ [Consumed email vid]) (s\<lparr>t_emails := rows\<rparr>)"
| run_other: "email_run h s \<Longrightarrow> t_emails s' = t_emails s \<Longrightarrow> sv_mails s' = sv_mails s \<Longrightarrow> email_run h s'"

definition mailed :: "email_event list \<Rightarrow> email_verification \<Rightarrow> bool" where
  "mailed h r \<longleftrightarrow> (\<exists>code. Sent (em_Email r) code \<in> set h \<and> em_CodeHash r = HashCode code)"

definition accepted :: "email_event list \<Rightarrow> email_verification \<Rightarrow> bool" where
  "accepted h r \<longleftrightarrow> (\<forall>v. em_VerifiedAt r \<noteq> None \<longrightarrow> em_VerificationID r = Some v \<longrightarrow> (\<exists>code. Accepted (em_Email r) code v \<in> set h \<and> HashCode code = em_CodeHash r))"

definition email_inv :: "email_event list \<Rightarrow> server \<Rightarrow> bool" where
  "email_inv h s \<longleftrightarrow> (\<forall>r \<in> set (t_emails s). mailed h r \<and> accepted h r)"

lemma grown_history: "mailed h r \<Longrightarrow> mailed (h @ h') r" "accepted h r \<Longrightarrow> accepted (h @ h') r"
  by (auto simp: mailed_def accepted_def)

lemma SendCode_rows:
  assumes "Email_SendCode ee now raw s = (r, s')" and "x \<in> set (t_emails s')"
  shows "x \<in> set (t_emails s) \<or> (\<exists>code. sv_mails s' = sv_mails s @ [(em_Email x, code)] \<and> em_CodeHash x = HashCode code \<and> em_VerifiedAt x = None)"
  using assms by (auto simp: Email_SendCode_def insert_and_send_def email_row_def Let_def split: if_splits)

definition marks :: "(email_error + string) \<Rightarrow> (email_verification \<Rightarrow> email_verification) \<Rightarrow> bool" where
  "marks r f \<longleftrightarrow> (\<forall>x. em_ID (f x) = em_ID x \<and> em_Email (f x) = em_Email x \<and> em_CodeHash (f x) = em_CodeHash x
     \<and> (em_VerifiedAt (f x) = em_VerifiedAt x \<and> em_VerificationID (f x) = em_VerificationID x \<or> (\<exists>vid. r = Inr vid \<and> em_VerificationID (f x) = Some vid)))"

lemma marks_updates:
  "marks r (\<lambda>x. x\<lparr>em_ExpiresAt := t\<rparr>)" "marks r (\<lambda>x. x\<lparr>em_Attempts := n\<rparr>)" "marks (Inr v) (\<lambda>x. x\<lparr>em_VerifiedAt := w, em_VerificationID := Some v\<rparr>)"
  by (auto simp: marks_def)

lemma VerifyCode_rows:
  assumes "Email_VerifyCode ee now raw code s = (r, s')"
  shows "sv_mails s' = sv_mails s \<and> (t_emails s' = t_emails s \<or> (\<exists>row f. pending_code (NormalizeEmail raw) (t_emails s) = Some row \<and> marks r f
     \<and> t_emails s' = update_rows (\<lambda>x. em_ID x = em_ID row) f (t_emails s)))"
  using assms by (auto simp: Email_VerifyCode_def set_email_def Let_def split: if_splits option.splits) (use marks_updates in metis)+

lemma VerifyCode_accepts:
  assumes "Email_VerifyCode ee now raw code s = (Inr vid, s')"
  shows "\<exists>row. pending_code (NormalizeEmail raw) (t_emails s) = Some row \<and> HashCode code = em_CodeHash row"
  using assms by (auto simp: Email_VerifyCode_def split: if_splits option.splits)

abbreviation email_ids :: "server \<Rightarrow> bool" where
  "email_ids s \<equiv> distinct (map em_ID (t_emails s))"

lemma SendCode_ids:
  assumes "Email_SendCode ee now raw s = (r, s')" and "email_ids s"
  shows "email_ids s'"
proof -
  let ?rest = "delete_rows (\<lambda>r. em_Email r = NormalizeEmail raw \<and> em_ExpiresAt r \<le> now) (t_emails s)"
  have d: "distinct (map em_ID ?rest)" using assms(2) by (rule distinct_delete_rows)
  have "distinct (map em_ID (?rest @ [email_row ee now e c ?rest]))" for e c
    using next_id_distinct [OF d] by (auto simp: email_row_def)
  then show ?thesis using assms d by (auto simp: Email_SendCode_def insert_and_send_def Let_def split: if_splits)
qed

lemma VerifyCode_inv:
  assumes "Email_VerifyCode ee now raw code s = (r, s')" and "email_ids s" and "email_inv h s"
    and "\<And>vid. r = Inr vid \<Longrightarrow> Accepted (NormalizeEmail raw) code vid \<in> set h'"
  shows "email_ids s' \<and> email_inv (h @ h') s'"
proof -
  from VerifyCode_rows [OF assms(1)] consider "t_emails s' = t_emails s"
    | row f where "pending_code (NormalizeEmail raw) (t_emails s) = Some row" "marks r f" "t_emails s' = update_rows (\<lambda>x. em_ID x = em_ID row) f (t_emails s)"
    by blast
  then show ?thesis
  proof cases
    case 1
    then show ?thesis using assms(2,3) grown_history by (auto simp: email_inv_def)
  next
    case (2 row f)
    have row: "row \<in> set (t_emails s)" "em_Email row = NormalizeEmail raw" using pending_code_row [OF 2(1)] by auto
    have "map em_ID (t_emails s') = map em_ID (t_emails s)" using 2(2,3) by (auto simp: update_rows_def marks_def)
    moreover have "mailed (h @ h') x \<and> accepted (h @ h') x" if new: "x \<in> set (t_emails s')" for x
    proof (cases "x \<in> set (t_emails s)")
      case True
      then show ?thesis using assms(3) grown_history by (auto simp: email_inv_def)
    next
      case False
      then obtain q where q: "x = f q" "q \<in> set (t_emails s)" "em_ID q = em_ID row" using new 2(3) by (auto simp: update_rows_def split: if_splits)
      then have "q = row" using row(1) assms(2) by (simp add: distinct_map inj_on_def)
      then have x: "x = f row" using q(1) by simp
      have old: "mailed (h @ h') row" "accepted (h @ h') row" using assms(3) row(1) grown_history by (auto simp: email_inv_def)
      have f: "em_Email x = em_Email row" "em_CodeHash x = em_CodeHash row" using 2(2) x by (auto simp: marks_def)
      from 2(2) x have "em_VerifiedAt x = em_VerifiedAt row \<and> em_VerificationID x = em_VerificationID row \<or> (\<exists>vid. r = Inr vid \<and> em_VerificationID x = Some vid)"
        by (simp add: marks_def)
      then have "accepted (h @ h') x"
      proof
        assume "em_VerifiedAt x = em_VerifiedAt row \<and> em_VerificationID x = em_VerificationID row"
        then show ?thesis using old(2) f by (simp add: accepted_def)
      next
        assume "\<exists>vid. r = Inr vid \<and> em_VerificationID x = Some vid"
        then obtain vid where v: "r = Inr vid" "em_VerificationID x = Some vid" by blast
        have "HashCode code = em_CodeHash row" using VerifyCode_accepts assms(1) v(1) 2(1) by fastforce
        then show ?thesis using v assms(4) [OF v(1)] f row(2) by (auto simp: accepted_def)
      qed
      then show ?thesis using old(1) f by (simp add: mailed_def)
    qed
    ultimately show ?thesis using assms(2) by (simp add: email_inv_def)
  qed
qed

lemma SendCode_inv:
  assumes "Email_SendCode ee now raw s = (r, s')" and "email_inv h s"
  shows "email_inv (h @ map (\<lambda>m. Sent (fst m) (snd m)) (drop (length (sv_mails s)) (sv_mails s'))) s'"
  (is "email_inv (h @ ?sent) s'")
proof -
  have "mailed (h @ ?sent) x \<and> accepted (h @ ?sent) x" if "x \<in> set (t_emails s')" for x
  proof (cases "x \<in> set (t_emails s)")
    case True
    then show ?thesis using assms(2) grown_history by (simp add: email_inv_def)
  next
    case False
    then show ?thesis using SendCode_rows [OF assms(1) that] by (auto simp: mailed_def accepted_def)
  qed
  then show ?thesis by (simp add: email_inv_def)
qed

lemma Consume_rows:
  assumes "ConsumeVerification ee now vid rows = Inr (email, rows')"
  shows "(\<exists>r \<in> set rows. em_Email r = email \<and> em_VerificationID r = Some vid \<and> em_VerifiedAt r \<noteq> None) \<and> set rows' \<subseteq> set rows
     \<and> (distinct (map em_ID rows) \<longrightarrow> distinct (map em_ID rows'))"
  using assms by (auto simp: ConsumeVerification_def verified_row_def distinct_delete_rows split: if_splits option.splits dest!: first_row_Some)

lemma email_run_inv: "email_run h s \<Longrightarrow> email_ids s \<and> email_inv h s"
proof (induction rule: email_run.induct)
  case (run_start s)
  then show ?case by (simp add: email_inv_def)
next
  case (run_send h s ee now raw r s')
  then show ?case using SendCode_ids SendCode_inv by blast
next
  case (run_refused h s ee now raw code e s')
  then show ?case using VerifyCode_inv [of ee now raw code s "Inl e" s' h "[]"] by simp
next
  case (run_accepted h s ee now raw code vid s')
  then show ?case using VerifyCode_inv [of ee now raw code s "Inr vid" s' h "[Accepted (NormalizeEmail raw) code vid]"] by simp
next
  case (run_consumed h s ee now vid email rows)
  then show ?case using Consume_rows [OF run_consumed.hyps(2)] grown_history by (auto simp: email_inv_def)
qed (simp add: email_inv_def)

text \<open>C16. A verification of an address can be used only after a code was mailed to that very address and after a code with
  the same digest was submitted for it and accepted with that identifier, along every history of the service that starts
  with an empty table.\<close>

theorem verified_address_authentic:
  assumes "email_run h s" and "ConsumeVerification ee now vid (t_emails s) = Inr (email, rows)"
  shows "\<exists>sent code. Sent email sent \<in> set h \<and> Accepted email code vid \<in> set h \<and> HashCode code = HashCode sent"
proof -
  obtain r where r: "r \<in> set (t_emails s)" "em_Email r = email" "em_VerificationID r = Some vid" "em_VerifiedAt r \<noteq> None"
    using Consume_rows [OF assms(2)] by blast
  then have "mailed h r" "accepted h r" using email_run_inv [OF assms(1)] by (auto simp: email_inv_def)
  then show ?thesis using r by (fastforce simp: mailed_def accepted_def)
qed

text \<open>A history that ends with a verification in use.\<close>

definition demo_sent :: server where
  "demo_sent = snd (Email_SendCode demo_mail 0 ''a@b.c'' demo_server)"

definition demo_verified :: server where
  "demo_verified = snd (Email_VerifyCode demo_mail 5 ''a@b.c'' ''123456'' demo_sent)"

lemma demo_texts: "NormalizeEmail ''a@b.c'' = ''a@b.c''" "ValidateEmailFormat ''a@b.c''" "GenerateVerificationID (Some [1, 2]) = ''0102''"
  by code_simp+

lemma demo_sent_rows: "t_emails demo_sent = [email_row demo_mail 0 ''a@b.c'' ''123456'' []]" "sv_mails demo_sent = [(''a@b.c'', ''123456'')]"
  "fst (Email_SendCode demo_mail 0 ''a@b.c'' demo_server) = Inr ()"
  by (simp_all add: demo_sent_def Email_SendCode_def insert_and_send_def in_cooldown_def demo_texts demo_server_def demo_mail_def delete_rows_def Let_def)

lemma demo_verify: "Email_VerifyCode demo_mail 5 ''a@b.c'' ''123456'' demo_sent = (Inr ''0102'', demo_verified)"
  by (simp add: demo_verified_def Email_VerifyCode_def demo_texts demo_sent_rows pending_code_def email_row_def demo_mail_def issued_id_def Let_def)

theorem verified_address_authentic_witness:
  "\<exists>h s rows. email_run h s \<and> ConsumeVerification demo_mail 9 ''0102'' (t_emails s) = Inr (''a@b.c'', rows) \<and> (\<exists>sent. Sent ''a@b.c'' sent \<in> set h)"
proof -
  have "Email_SendCode demo_mail 0 ''a@b.c'' demo_server = (Inr (), demo_sent)" using demo_sent_rows(3) by (simp add: demo_sent_def prod_eq_iff)
  from run_send [OF run_start this] have "email_run [Sent ''a@b.c'' ''123456''] demo_sent" by (simp add: demo_server_def demo_sent_rows)
  from run_accepted [OF this demo_verify] have run: "email_run [Sent ''a@b.c'' ''123456'', Accepted ''a@b.c'' ''123456'' ''0102''] demo_verified"
    by (simp add: demo_texts)
  have use: "ConsumeVerification demo_mail 9 ''0102'' (t_emails demo_verified) = Inr (''a@b.c'', [])"
    by (simp add: demo_verified_def Email_VerifyCode_def demo_texts demo_sent_rows pending_code_def email_row_def demo_mail_def issued_id_def Let_def
        set_email_def update_rows_def ConsumeVerification_def first_row_def verified_row_def delete_rows_def)
  from verified_address_authentic [OF run use] run use show ?thesis by blast
qed

end
