(* ===== verification/Frame.thy ===== *)
theory Frame
  imports TxSol
begin

text \<open>
  What the chain operations leave alone: a computation \<^emph>\<open>keeps\<close> the rest of a state that extends \<^typ>\<open>rpc_state\<close> when it
  changes only the request journal and the chain-identifier cache. The rules follow the shape of the
  computations, so that each operation of \<open>src/chain\<close> is settled by unfolding it. The handlers rely on
  this: no chain operation touches a table, the signing journal or the event hub.
\<close>

named_theorems keeps_intro \<open>rules for the rest of the state\<close>

definition keeps :: "('s rstate \<Rightarrow> ('e + 'a) \<times> 's rstate) \<Rightarrow> bool" where
  "keeps m \<longleftrightarrow> (\<forall>s. rpc_state.more (snd (m s)) = rpc_state.more s)"

lemma keepsD: "keeps m \<Longrightarrow> m s = (r, s') \<Longrightarrow> rpc_state.more s' = rpc_state.more s"
  by (metis keeps_def snd_conv)

lemma keeps_snd: "keeps m \<Longrightarrow> rpc_state.more (snd (m s)) = rpc_state.more s"
  by (simp add: keeps_def)

lemma keeps_basic [keeps_intro]: "keeps (ret x)" "keeps (fail e)" "keeps (lift r)"
  by (simp_all add: keeps_def)

lemma keeps_seq [keeps_intro]: "keeps m \<Longrightarrow> (\<And>x. keeps (f x)) \<Longrightarrow> keeps (seq m f)"
  by (auto simp: keeps_def seq_def split: prod.splits sum.splits) (metis snd_conv)+

lemma keeps_wrapping [keeps_intro]: "keeps m \<Longrightarrow> keeps (wrapping t m)"
  by (simp add: keeps_def)

lemma keeps_attempt [keeps_intro]: "keeps m \<Longrightarrow> keeps (attempt m)"
  by (simp add: keeps_def)

lemma keeps_branch [keeps_intro]:
  "keeps m \<Longrightarrow> keeps n \<Longrightarrow> keeps (if b then m else n)"
  "keeps n \<Longrightarrow> (\<And>x. keeps (f x)) \<Longrightarrow> keeps (case o' of None \<Rightarrow> n | Some x \<Rightarrow> f x)"
  "(\<And>x y. keeps (g x y)) \<Longrightarrow> keeps (case p of (x, y) \<Rightarrow> g x y)"
  "(\<And>x. keeps (f x)) \<Longrightarrow> keeps (Let v f)"
  by (simp_all split: option.splits prod.splits)

lemma keeps_jsonRPC [keeps_intro]: "keeps (jsonRPC env url p)"
  by (auto simp: keeps_def jsonRPC_def Let_def split: http_outcome.splits option.splits json.splits)

lemma keeps_jsonRPCWithRetry [keeps_intro]: "keeps (jsonRPCWithRetry env url p)"
  by (simp add: keeps_def jsonRPCWithRetry_keeps)

lemma keeps_setCached [keeps_intro]: "keeps (\<lambda>s. (Inr i, setCachedChainID url j s))"
  by (simp add: keeps_def setCachedChainID_def)

lemma keeps_fetch_chain_id [keeps_intro]: "keeps (fetch_chain_id env url)"
  unfolding keeps_def
proof
  fix s
  show "rpc_state.more (snd (fetch_chain_id env url s)) = rpc_state.more s"
  proof (cases "getCachedChainID url s")
    case None
    show ?thesis unfolding fetch_chain_id_def None option.case by (rule keeps_snd, intro keeps_intro)
  qed (simp add: fetch_chain_id_def)
qed

lemma keeps_fetchNonce [keeps_intro]: "keeps (fetchNonceFromChain env url a)" "keeps (FetchPendingNonce env url a)"
  unfolding FetchPendingNonce_def fetchNonceFromChain_def by (intro keeps_intro)+

lemma keeps_fetch_fees [keeps_intro]: "keeps (fetch_priority env url)" "keeps (fetch_base_fee env url)"
  unfolding fetch_priority_def fetch_base_fee_def by (intro keeps_intro, auto intro!: keeps_intro split: option.splits json.splits)+

lemma keeps_fetchGasFees [keeps_intro]: "keeps (fetchGasFeesAndChainID env url)"
  unfolding fetchGasFeesAndChainID_def by (intro keeps_intro)

lemma keeps_fetchETHChainParams [keeps_intro]: "keeps (fetchETHChainParams env url a)"
  unfolding fetchETHChainParams_def by (intro keeps_intro)

lemma keeps_build_eth [keeps_intro]:
  "keeps (BuildETHTx env url f t a)" "keeps (RebuildETHTx env url p)" "keeps (BuildETHContractCallTx env url f t d v)"
  "keeps (AssembleAndBroadcastETH env url p sig addr)"
  unfolding BuildETHTx_def RebuildETHTx_def BuildETHContractCallTx_def AssembleAndBroadcastETH_def by (intro keeps_intro)+

lemma keeps_fetch_blockhash [keeps_intro]: "keeps (fetch_blockhash env url)"
  unfolding fetch_blockhash_def by (intro keeps_intro)

lemma keeps_send_sol [keeps_intro]: "keeps (send_sol env url sig m)"
  unfolding send_sol_def by (intro keeps_intro)

lemma keeps_wrap_tx [keeps_intro]: "keeps (wrap_tx env url f l)"
  unfolding wrap_tx_def by (intro keeps_intro)

lemma keeps_build_sol [keeps_intro]:
  "keeps (BuildSOLTx env url f t a)" "keeps (BuildSOLTxFromLamports env url f t l)"
  "keeps (BuildSOLTokenTransferTx env url f t m n d)" "keeps (RebuildSOLTokenTransferTx env url tp)"
  "keeps (BuildSOLProgramCallTx env url f g accts bs)" "keeps (RebuildSOLProgramCallTx env url pp)"
  "keeps (BuildSOLWrapTxFromLamports env url f l)" "keeps (buildSOLWrapTxFromLamports env url f l)"
  "keeps (BuildSOLUnwrapTx env url f)" "keeps (RebuildSOLWrapTx env url wp)"
  unfolding BuildSOLTx_def BuildSOLTxFromLamports_def BuildSOLTokenTransferTx_def RebuildSOLTokenTransferTx_def
    BuildSOLProgramCallTx_def RebuildSOLProgramCallTx_def BuildSOLWrapTxFromLamports_def buildSOLWrapTxFromLamports_def
    BuildSOLUnwrapTx_def RebuildSOLWrapTx_def
  by (intro keeps_intro)+

lemma keeps_broadcast_sol [keeps_intro]:
  "keeps (AssembleAndBroadcastSOL env url p sig)" "keeps (AssembleAndBroadcastSOLToken env url tp sig)"
  "keeps (AssembleAndBroadcastSOLProgram env url pp sig)" "keeps (AssembleAndBroadcastSOLWrap env url wp sig)"
  unfolding AssembleAndBroadcastSOL_def AssembleAndBroadcastSOLToken_def AssembleAndBroadcastSOLProgram_def
    AssembleAndBroadcastSOLWrap_def by (intro keeps_intro)+

lemma keeps_GetBalance [keeps_intro]: "keeps (GetBalance env family a url n c)"
  unfolding GetBalance_def getETHBalance_def getSOLBalance_def
  by (intro keeps_intro, auto intro!: keeps_intro split: option.splits json.splits)

end
