(* ===== verification/SignTx.thy ===== *)
theory SignTx
  imports Server Frame
begin

text \<open>
  Signing and broadcasting (\<open>handler/wallet.go\<close>): the stored form of the transaction parameters, the choice of the
  assembler for a stored document (\<open>broadcastSigned\<close>), the choice of the rebuilder in \<open>ApprovalHandler.Approve\<close>, and the
  signing loop with its retries (\<open>signAndBroadcast\<close>). The theorems show that a stored document of every kind is
  dispatched to its own assembler and its own rebuilder, and that the loop makes at most four signatures, each with
  the key of the wallet and each over a transaction with the recipient, value, calldata and chain of the original.
\<close>

subsection \<open>Stored parameters\<close>

definition sol_to_json :: "sol_tx_params \<Rightarrow> json" where
  "sol_to_json p = JObj [(''from'', JStr (sol_From p)), (''to'', JStr (sol_To p)), (''lamports'', jnat (unat (sol_Lamports p))),
     (''blockhash'', JStr (sol_Blockhash p))]"

definition sol_of_json :: "json \<Rightarrow> sol_tx_params option" where
  "sol_of_json j = (case as_obj j of None \<Rightarrow> None | Some o' \<Rightarrow>
     (case (fld_str ''from'' o', fld_str ''to'' o', fld_uint 64 ''lamports'' o', fld_str ''blockhash'' o') of
        (Some f, Some t, Some l, Some b) \<Rightarrow> Some \<lparr>sol_From = f, sol_To = t, sol_Lamports = of_nat l, sol_Blockhash = b\<rparr>
      | _ \<Rightarrow> None))"

definition token_to_json :: "sol_token_params \<Rightarrow> json" where
  "token_to_json p = JObj [(''from'', JStr (stp_From p)), (''to'', JStr (stp_To p)), (''mint'', JStr (stp_Mint p)),
     (''amount'', jnat (unat (stp_Amount p))), (''decimals'', jint (stp_Decimals p)), (''blockhash'', JStr (stp_Blockhash p))]"

definition token_of_json :: "json \<Rightarrow> sol_token_params option" where
  "token_of_json j = (case as_obj j of None \<Rightarrow> None | Some o' \<Rightarrow>
     (case (fld_str ''from'' o', fld_str ''to'' o', fld_str ''mint'' o', fld_uint 64 ''amount'' o', fld_int 64 ''decimals'' o',
            fld_str ''blockhash'' o') of
        (Some f, Some t, Some m, Some a, Some d, Some b) \<Rightarrow>
          Some \<lparr>stp_From = f, stp_To = t, stp_Mint = m, stp_Amount = of_nat a, stp_Decimals = d, stp_Blockhash = b\<rparr>
      | _ \<Rightarrow> None))"

definition meta_to_json :: "sol_account_meta \<Rightarrow> json" where
  "meta_to_json m = JObj [(''pubkey'', JStr (am_Pubkey m)), (''is_signer'', JBool (am_IsSigner m)), (''is_writable'', JBool (am_IsWritable m))]"

definition meta_of_json :: "json \<Rightarrow> sol_account_meta option" where
  "meta_of_json j = (case as_obj j of None \<Rightarrow> None | Some o' \<Rightarrow>
     (case (fld_str ''pubkey'' o', fld_bool ''is_signer'' o', fld_bool ''is_writable'' o') of
        (Some p, Some s, Some w) \<Rightarrow> Some \<lparr>am_Pubkey = p, am_IsSigner = s, am_IsWritable = w\<rparr> | _ \<Rightarrow> None))"

definition fld_metas :: "string \<Rightarrow> jobj \<Rightarrow> sol_account_meta list option" where
  "fld_metas k kvs = (case jget k kvs of None \<Rightarrow> Some [] | Some JNull \<Rightarrow> Some []
     | Some (JArr js) \<Rightarrow> map_opt meta_of_json js | _ \<Rightarrow> None)"

definition program_to_json :: "sol_program_params \<Rightarrow> json" where
  "program_to_json p = JObj [(''from'', JStr (spp_From p)), (''program_id'', JStr (spp_ProgramID p)),
     (''accounts'', JArr (map meta_to_json (spp_Accounts p))), (''data'', JStr (spp_Data p)), (''blockhash'', JStr (spp_Blockhash p))]"

definition program_of_json :: "json \<Rightarrow> sol_program_params option" where
  "program_of_json j = (case as_obj j of None \<Rightarrow> None | Some o' \<Rightarrow>
     (case (fld_str ''from'' o', fld_str ''program_id'' o', fld_metas ''accounts'' o', fld_str ''data'' o', fld_str ''blockhash'' o') of
        (Some f, Some g, Some a, Some d, Some b) \<Rightarrow>
          Some \<lparr>spp_From = f, spp_ProgramID = g, spp_Accounts = a, spp_Data = d, spp_Blockhash = b\<rparr>
      | _ \<Rightarrow> None))"

definition wrap_to_json :: "sol_wrap_params \<Rightarrow> json" where
  "wrap_to_json p = JObj [(''from'', JStr (swp_From p)), (''lamports'', jnat (unat (swp_Lamports p))), (''blockhash'', JStr (swp_Blockhash p)),
     (''wrap'', JBool (swp_Wrap p))]"

definition wrap_of_json :: "json \<Rightarrow> sol_wrap_params option" where
  "wrap_of_json j = (case as_obj j of None \<Rightarrow> None | Some o' \<Rightarrow>
     (case (fld_str ''from'' o', fld_uint 64 ''lamports'' o', fld_str ''blockhash'' o', fld_bool ''wrap'' o') of
        (Some f, Some l, Some b, Some w) \<Rightarrow> Some \<lparr>swp_From = f, swp_Lamports = of_nat l, swp_Blockhash = b, swp_Wrap = w\<rparr>
      | _ \<Rightarrow> None))"

subsection \<open>Dispatch\<close>

datatype sol_kind = KToken sol_token_params | KProgram sol_program_params | KWrap sol_wrap_params | KNative sol_tx_params | KBad

text \<open>A document is taken for a token transfer or a program call when it decodes with a mint or a program.\<close>

definition as_token :: "json \<Rightarrow> sol_token_params option" where
  "as_token j = (case token_of_json j of Some tp \<Rightarrow> if stp_Mint tp \<noteq> [] then Some tp else None | None \<Rightarrow> None)"

definition as_program :: "json \<Rightarrow> sol_program_params option" where
  "as_program j = (case program_of_json j of Some pp \<Rightarrow> if spp_ProgramID pp \<noteq> [] then Some pp else None | None \<Rightarrow> None)"

text \<open>The choice of \<open>broadcastSigned\<close>, and the choice of \<open>Approve\<close> for the rebuild, which recognises a wrap by other
  fields.\<close>

definition broadcast_kind :: "json \<Rightarrow> sol_kind" where
  "broadcast_kind j = (case as_token j of
       Some tp \<Rightarrow> KToken tp
     | None \<Rightarrow> (case as_program j of
           Some pp \<Rightarrow> KProgram pp
         | None \<Rightarrow> (case (case wrap_of_json j of
                 None \<Rightarrow> None
               | Some wp \<Rightarrow> if swp_From wp \<noteq> [] \<and> swp_Blockhash wp \<noteq> [] \<and>
                     (case sol_of_json j of None \<Rightarrow> True | Some np \<Rightarrow> sol_To np = []) then Some wp else None) of
               Some wp \<Rightarrow> KWrap wp
             | None \<Rightarrow> (case sol_of_json j of Some np \<Rightarrow> KNative np | None \<Rightarrow> KBad))))"

definition rebuild_kind :: "json \<Rightarrow> sol_kind" where
  "rebuild_kind j = (case as_token j of
       Some tp \<Rightarrow> KToken tp
     | None \<Rightarrow> (case as_program j of
           Some pp \<Rightarrow> KProgram pp
         | None \<Rightarrow> (case (case wrap_of_json j of
                 None \<Rightarrow> None
               | Some wp \<Rightarrow> if swp_Blockhash wp \<noteq> [] \<and> (swp_Wrap wp \<or> swp_Lamports wp = 0) then Some wp else None) of
               Some wp \<Rightarrow> KWrap wp
             | None \<Rightarrow> (case sol_of_json j of Some np \<Rightarrow> KNative np | None \<Rightarrow> KBad))))"

definition broadcastSigned :: "'e server_env_scheme \<Rightarrow> wallet \<Rightarrow> json \<Rightarrow> bytes \<Rightarrow> (server, string) io" where
  "broadcastSigned env wallet txParams sig = (case GetChain (env_chains env) (w_Chain wallet) of
       None \<Rightarrow> fail (Msg (''unsupported chain: '' @ w_Chain wallet))
     | Some cfg \<Rightarrow>
         if cc_Family cfg = ''evm'' then
           (case eth_of_json txParams of
              None \<Rightarrow> fail (Wrap ''parse eth tx params'' (Msg ''encoding/json''))
            | Some params \<Rightarrow> AssembleAndBroadcastETH env (cc_RPCURL cfg) params sig (w_Address wallet))
         else if cc_Family cfg = ''solana'' then
           (case broadcast_kind txParams of
              KToken tp \<Rightarrow> AssembleAndBroadcastSOLToken env (cc_RPCURL cfg) tp sig
            | KProgram pp \<Rightarrow> AssembleAndBroadcastSOLProgram env (cc_RPCURL cfg) pp sig
            | KWrap wp \<Rightarrow> AssembleAndBroadcastSOLWrap env (cc_RPCURL cfg) wp sig
            | KNative np \<Rightarrow> AssembleAndBroadcastSOL env (cc_RPCURL cfg) np sig
            | KBad \<Rightarrow> fail (Wrap ''parse sol tx params'' (Msg ''encoding/json'')))
         else fail (Msg (''unsupported chain family: '' @ cc_Family cfg)))"

subsection \<open>The signing loop\<close>

text \<open>A signing request to the TEE with the key of the wallet; the journal records it.\<close>

definition sdk_Sign :: "'e server_env_scheme \<Rightarrow> bytes \<Rightarrow> string \<Rightarrow> server \<Rightarrow> sign_outcome \<times> server" where
  "sdk_Sign env msg keyName s = (tee_sign env (sv_signs s) msg keyName, s\<lparr>sv_signs := sv_signs s @ [(msg, keyName)]\<rparr>)"

text \<open>The errors of \<open>signAndBroadcast\<close>: a plain one, a \<open>*broadcastFailedError\<close>, or a panic below it.\<close>

datatype sb_error = SignFailed string | BroadcastFailed gerr | Crashed

definition rbfMaxAttempts :: nat where
  "rbfMaxAttempts = 4"

text \<open>The parameters of the next attempt: a bumped fee or a fresh nonce, for the two retryable errors.\<close>

definition next_params :: "'e server_env_scheme \<Rightarrow> chain_config \<Rightarrow> wallet \<Rightarrow> gerr \<Rightarrow> eth_tx_params \<Rightarrow> server
    \<Rightarrow> eth_tx_params option res \<times> server" where
  "next_params env cfg wallet broadcastErr params s =
     (if IsReplacementUnderpriced broadcastErr then (Inr (BumpETHGas params), s)
      else if IsNonceTooLow broadcastErr then
        (case FetchPendingNonce env (cc_RPCURL cfg) (w_Address wallet) s of
           (Inl (Panic p), s') \<Rightarrow> (Inl (Panic p), s')
         | (Inl _, s') \<Rightarrow> (Inr None, s')
         | (Inr fresh, s') \<Rightarrow> (Inr (Some (params\<lparr>eth_Nonce := fresh\<rparr>)), s'))
      else (Inr None, s))"

text \<open>The next attempt after a broadcast error, if there is one: its parameters and its message. Only a chain of the EVM family
  is retried, and not after the last attempt.\<close>

definition retry_params :: "'e server_env_scheme \<Rightarrow> wallet \<Rightarrow> gerr \<Rightarrow> json \<Rightarrow> bool \<Rightarrow> server
    \<Rightarrow> (eth_tx_params \<times> bytes) option res \<times> server" where
  "retry_params env wallet broadcastErr params lastTry s =
     (case GetChain (env_chains env) (w_Chain wallet) of
        None \<Rightarrow> (Inr None, s)
      | Some cfg \<Rightarrow>
          if cc_Family cfg \<noteq> ''evm'' \<or> lastTry then (Inr None, s)
          else (case eth_of_json params of
              None \<Rightarrow> (Inr None, s)
            | Some p \<Rightarrow>
                (case next_params env cfg wallet broadcastErr p s of
                   (Inl e, s') \<Rightarrow> (Inl e, s')
                 | (Inr None, s') \<Rightarrow> (Inr None, s')
                 | (Inr (Some p'), s') \<Rightarrow>
                     (case ETHSigningHash env p' of Inl _ \<Rightarrow> (Inr None, s') | Inr h \<Rightarrow> (Inr (Some (p', h)), s')))))"

primrec sign_loop :: "nat \<Rightarrow> 'e server_env_scheme \<Rightarrow> wallet \<Rightarrow> bytes \<Rightarrow> json option \<Rightarrow> server
    \<Rightarrow> (sb_error + (string \<times> string)) \<times> server" where
  "sign_loop 0 env wallet currentMsg currentParams s = (Inl (SignFailed ''signing failed''), s)"
| "sign_loop (Suc n) env wallet currentMsg currentParams s =
     (case sdk_Sign env currentMsg (w_KeyName wallet) s of
        (SignErr e, s1) \<Rightarrow> (Inl (SignFailed e), s1)
      | (SignRes success signature err, s1) \<Rightarrow>
          if \<not> success then (Inl (SignFailed err), s1)
          else (case currentParams of
              None \<Rightarrow> (Inr (''0x'' @ hex_encode signature, []), s1)
            | Some params \<Rightarrow>
                (case broadcastSigned env wallet params signature s1 of
                   (Inr txHash, s2) \<Rightarrow> (Inr (''0x'' @ hex_encode signature, txHash), s2)
                 | (Inl (Panic p), s2) \<Rightarrow> (Inl Crashed, s2)
                 | (Inl broadcastErr, s2) \<Rightarrow>
                     (case retry_params env wallet broadcastErr params (n = 0) s2 of
                        (Inl _, s3) \<Rightarrow> (Inl Crashed, s3)
                      | (Inr None, s3) \<Rightarrow> (Inl (BroadcastFailed broadcastErr), s3)
                      | (Inr (Some (p', newSigHash)), s3) \<Rightarrow>
                          sign_loop n env wallet newSigHash (Some (eth_to_json p')) s3))))"

definition signAndBroadcast :: "'e server_env_scheme \<Rightarrow> wallet \<Rightarrow> bytes \<Rightarrow> json option \<Rightarrow> server
    \<Rightarrow> (sb_error + (string \<times> string)) \<times> server" where
  "signAndBroadcast env wallet msgBytes txParams s = sign_loop rbfMaxAttempts env wallet msgBytes txParams s"

subsection \<open>Stored documents are dispatched to their kind\<close>

lemmas codec_defs = as_obj_def fld_uint_def fld_int_def fld_str_def fld_bool_def json_simps jnat_def jint_def

lemma unat_u64: "unat (x :: u64) < 2 ^ 64"
  using unsigned_less [of x] by simp

lemma sol_of_to_json [simp]: "sol_of_json (sol_to_json p) = Some p"
  using unat_u64 [of "sol_Lamports p"] by (simp add: sol_to_json_def sol_of_json_def codec_defs)

lemma wrap_of_to_json [simp]: "wrap_of_json (wrap_to_json p) = Some p"
  using unat_u64 [of "swp_Lamports p"] by (simp add: wrap_to_json_def wrap_of_json_def codec_defs)

lemma token_of_to_json:
  "- (2 ^ 63) \<le> stp_Decimals p \<Longrightarrow> stp_Decimals p < 2 ^ 63 \<Longrightarrow> token_of_json (token_to_json p) = Some p"
  using unat_u64 [of "stp_Amount p"] by (simp add: token_to_json_def token_of_json_def codec_defs)

lemma meta_of_to_json [simp]: "meta_of_json (meta_to_json m) = Some m"
  by (simp add: meta_to_json_def meta_of_json_def codec_defs)

lemma map_opt_meta: "map_opt meta_of_json (map meta_to_json ms) = Some ms"
  by (induction ms) auto

lemma program_of_to_json [simp]: "program_of_json (program_to_json p) = Some p"
  by (simp add: program_to_json_def program_of_json_def fld_metas_def codec_defs map_opt_meta)

text \<open>A document of one kind read as another has an empty distinguishing field or does not decode.\<close>

lemma as_token_other:
  "as_token (sol_to_json np) = None" "as_token (wrap_to_json wp) = None" "as_token (program_to_json pp) = None"
  by (auto simp: as_token_def token_of_json_def sol_to_json_def wrap_to_json_def program_to_json_def codec_defs
      split: option.splits)

lemma as_program_other: "as_program (sol_to_json np) = None" "as_program (wrap_to_json wp) = None"
  by (auto simp: as_program_def program_of_json_def sol_to_json_def wrap_to_json_def codec_defs split: option.splits)

lemma wrap_of_sol: "wrap_of_json (sol_to_json p) =
    Some \<lparr>swp_From = sol_From p, swp_Lamports = sol_Lamports p, swp_Blockhash = sol_Blockhash p, swp_Wrap = False\<rparr>"
  using unat_u64 [of "sol_Lamports p"] by (simp add: wrap_of_json_def sol_to_json_def codec_defs)

lemma sol_of_wrap: "sol_of_json (wrap_to_json p) =
    Some \<lparr>sol_From = swp_From p, sol_To = [], sol_Lamports = swp_Lamports p, sol_Blockhash = swp_Blockhash p\<rparr>"
  using unat_u64 [of "swp_Lamports p"] by (simp add: sol_of_json_def wrap_to_json_def codec_defs)

text \<open>The documents the builders produce: with the fields that tell them apart.\<close>

fun wf_kind :: "sol_kind \<Rightarrow> bool" where
  "wf_kind (KToken p) = (stp_Mint p \<noteq> [] \<and> - (2 ^ 63) \<le> stp_Decimals p \<and> stp_Decimals p < 2 ^ 63)"
| "wf_kind (KProgram p) = (spp_ProgramID p \<noteq> [])"
| "wf_kind (KWrap p) = (swp_From p \<noteq> [] \<and> swp_Blockhash p \<noteq> [] \<and> (swp_Wrap p \<or> swp_Lamports p = 0))"
| "wf_kind (KNative p) = (sol_To p \<noteq> [] \<and> sol_Lamports p \<noteq> 0)"
| "wf_kind KBad = False"

fun kind_json :: "sol_kind \<Rightarrow> json" where
  "kind_json (KToken p) = token_to_json p"
| "kind_json (KProgram p) = program_to_json p"
| "kind_json (KWrap p) = wrap_to_json p"
| "kind_json (KNative p) = sol_to_json p"
| "kind_json KBad = JNull"

text \<open>The parameters of every kind of Solana transaction, stored as a document, are recognised as their own kind and
  read back unchanged, both when a signed transaction is broadcast and when an approved one is rebuilt,
  although the kind is not stored.\<close>

theorem stored_kind_recognised:
  assumes "wf_kind k"
  shows "broadcast_kind (kind_json k) = k \<and> rebuild_kind (kind_json k) = k"
proof (cases k)
  case (KToken p)
  then show ?thesis using assms by (simp add: broadcast_kind_def rebuild_kind_def as_token_def token_of_to_json)
next
  case (KProgram p)
  then show ?thesis using assms
    by (simp add: broadcast_kind_def rebuild_kind_def as_token_other as_program_def)
next
  case (KWrap p)
  then show ?thesis using assms
    by (simp add: broadcast_kind_def rebuild_kind_def as_token_other as_program_other sol_of_wrap)
next
  case (KNative p)
  then show ?thesis using assms
    by (simp add: broadcast_kind_def rebuild_kind_def as_token_other as_program_other wrap_of_sol)
qed (use assms in simp)

theorem stored_kind_recognised_witness:
  "broadcast_kind (sol_to_json \<lparr>sol_From = ''a'', sol_To = ''b'', sol_Lamports = 7, sol_Blockhash = ''h''\<rparr>) =
     KNative \<lparr>sol_From = ''a'', sol_To = ''b'', sol_Lamports = 7, sol_Blockhash = ''h''\<rparr>"
  using stored_kind_recognised [of "KNative \<lparr>sol_From = ''a'', sol_To = ''b'', sol_Lamports = 7, sol_Blockhash = ''h''\<rparr>"] by simp

subsection \<open>Signatures of the loop\<close>

lemma keeps_broadcastSigned [keeps_intro]: "keeps (broadcastSigned env wallet j sig)"
  unfolding broadcastSigned_def by (intro keeps_intro) (auto intro!: keeps_intro split: sol_kind.splits option.splits)

text \<open>A chain operation leaves the tables and journals of the server alone.\<close>

lemma more_fields:
  assumes "rpc_state.more s' = rpc_state.more (s :: server)"
  shows "sv_signs s' = sv_signs s" "t_approvals s' = t_approvals s" "t_policies s' = t_policies s" "t_wallets s' = t_wallets s"
    "sv_hub s' = sv_hub s" "sv_prices s' = sv_prices s" "t_audit s' = t_audit s" "t_idem s' = t_idem s" "t_users s' = t_users s"
    "t_contracts s' = t_contracts s" "t_entries s' = t_entries s" "t_keys s' = t_keys s" "sv_sessions s' = sv_sessions s"
    "t_emails s' = t_emails s" "sv_mails s' = sv_mails s" "sv_deletions s' = sv_deletions s"
  using assms by (cases s; cases s'; simp)+

definition same_intent :: "eth_tx_params \<Rightarrow> eth_tx_params \<Rightarrow> bool" where
  "same_intent p q \<longleftrightarrow> eth_To q = eth_To p \<and> eth_Value q = eth_Value p \<and> eth_Data q = eth_Data p
     \<and> eth_ChainID q = eth_ChainID p \<and> eth_From q = eth_From p \<and> eth_GasLimit q = eth_GasLimit p"

lemma same_intent_trans: "same_intent p q \<Longrightarrow> same_intent q r \<Longrightarrow> same_intent p r"
  by (simp add: same_intent_def)

lemma next_params_intent: "next_params env cfg w e p s = (Inr (Some q), s') \<Longrightarrow> same_intent p q"
  by (auto simp: next_params_def BumpETHGas_def same_intent_def Let_def
      split: if_splits option.splits sum.splits prod.splits gerr.splits)

lemma next_params_keeps: "next_params env cfg w e p s = (r, s') \<Longrightarrow> rpc_state.more s' = rpc_state.more s"
  using keeps_snd [OF keeps_fetchNonce(2), of env "cc_RPCURL cfg" "w_Address w" s]
  by (auto simp: next_params_def split: sum.splits prod.splits gerr.splits if_splits)

text \<open>A retry changes no table, and its transaction has the intent of the one before and its own signing hash.\<close>

lemma retry_params_keeps:
  assumes "retry_params env w e j lastTry s = (r, s')"
  shows "rpc_state.more s' = rpc_state.more s"
proof (cases "\<exists>cfg p r'. next_params env cfg w e p s = (r', s')")
  case True
  then show ?thesis using next_params_keeps by blast
next
  case False
  then show ?thesis using assms
    by (auto simp: retry_params_def split: option.splits if_splits prod.splits sum.splits)
qed

lemma retry_params_intent:
  assumes "retry_params env w e (eth_to_json p) lastTry s = (Inr (Some (q, h)), s')"
  shows "same_intent p q \<and> ETHSigningHash env q = Inr h"
  using assms next_params_intent
  by (auto simp: retry_params_def split: option.splits if_splits prod.splits sum.splits)

text \<open>The signing requests of a run of the loop: with the key of the wallet, over transactions of one intent.\<close>

definition loop_requests :: "'e server_env_scheme \<Rightarrow> wallet \<Rightarrow> eth_tx_params \<Rightarrow> sign_request list \<Rightarrow> bool" where
  "loop_requests env w p reqs \<longleftrightarrow> (\<forall>(m, key) \<in> set reqs. key = w_KeyName w
     \<and> (\<exists>q. same_intent p q \<and> ETHSigningHash env q = Inr m))"

text \<open>What one iteration does: the loop stops with the signature of this message as its last, or it goes on. Nothing but
  the signing journal changes.\<close>

lemma sign_loop_step_cases:
  assumes "sign_loop (Suc n) env w msg (Some j) s = (r, s')"
  obtains (halt) "rpc_state.more s' = rpc_state.more (s\<lparr>sv_signs := sv_signs s @ [(msg, w_KeyName w)]\<rparr>)"
  | (again) e s2 q h s3 where "rpc_state.more s3 = rpc_state.more (s\<lparr>sv_signs := sv_signs s @ [(msg, w_KeyName w)]\<rparr>)"
      "retry_params env w e j (n = 0) s2 = (Inr (Some (q, h)), s3)" "sign_loop n env w h (Some (eth_to_json q)) s3 = (r, s')"
proof -
  let ?s1 = "s\<lparr>sv_signs := sv_signs s @ [(msg, w_KeyName w)]\<rparr>"
  show thesis
  proof (cases "\<exists>sig err. tee_sign env (sv_signs s) msg (w_KeyName w) = SignRes True sig err")
    case False
    then have "s' = ?s1" using assms
      by (cases "tee_sign env (sv_signs s) msg (w_KeyName w)") (simp_all add: sdk_Sign_def split: if_splits)
    then show thesis by (intro halt) simp
  next
    case True
    then obtain sig err where sg: "tee_sign env (sv_signs s) msg (w_KeyName w) = SignRes True sig err" by blast
    obtain br s2 where b: "broadcastSigned env w j sig ?s1 = (br, s2)" by fastforce
    note k2 = keepsD [OF keeps_broadcastSigned b]
    show thesis
    proof (cases "(\<exists>x. br = Inr x) \<or> (\<exists>x. br = Inl (Panic x))")
      case True
      then have "s' = s2" using assms by (elim disjE exE) (simp_all add: sdk_Sign_def sg b)
      then show thesis using k2 halt by simp
    next
      case False
      then obtain e where e: "br = Inl e" "\<And>x. e \<noteq> Panic x" by (metis sum.exhaust)
      obtain rp s3 where rp: "retry_params env w e j (n = 0) s2 = (rp, s3)" by fastforce
      note k3 = retry_params_keeps [OF rp, unfolded k2]
      have out: "(case rp of Inl _ \<Rightarrow> (Inl Crashed, s3) | Inr None \<Rightarrow> (Inl (BroadcastFailed e), s3)
          | Inr (Some (q, h)) \<Rightarrow> sign_loop n env w h (Some (eth_to_json q)) s3) = (r, s')"
        using assms e rp by (cases e) (auto simp: sdk_Sign_def sg b split: sum.splits option.splits)
      show thesis
      proof (cases "\<exists>q h. rp = Inr (Some (q, h))")
        case True
        then show thesis using again k3 rp out by auto
      next
        case False
        then have "s' = s3" using out by (auto split: sum.splits option.splits)
        then show thesis using k3 halt by simp
      qed
    qed
  qed
qed

lemma more_signs: "rpc_state.more s' = rpc_state.more (s\<lparr>sv_signs := x\<rparr>) \<Longrightarrow> sv_signs s' = x"
  by (cases s; cases s') simp

lemma more_signs_trans:
  "rpc_state.more s3 = rpc_state.more (s\<lparr>sv_signs := x\<rparr>) \<Longrightarrow> rpc_state.more s' = rpc_state.more (s3\<lparr>sv_signs := y\<rparr>) \<Longrightarrow>
     rpc_state.more s' = rpc_state.more (s\<lparr>sv_signs := y\<rparr>)"
  by (cases s; cases s'; cases s3) simp

lemma sign_loop_requests:
  assumes "ETHSigningHash env p = Inr msg" and "sign_loop (Suc n) env w msg (Some (eth_to_json p)) s = (r, s')"
  shows "\<exists>reqs. sv_signs s' = sv_signs s @ reqs \<and> 1 \<le> length reqs \<and> length reqs \<le> Suc n \<and> loop_requests env w p reqs"
  using assms
proof (induction n arbitrary: p msg s)
  case 0
  from 0(2) show ?case using 0(1)
    by (cases rule: sign_loop_step_cases) (auto dest!: more_signs simp: loop_requests_def same_intent_def retry_params_def split: option.splits if_splits)
next
  case (Suc n)
  let ?q = "(msg, w_KeyName w)"
  have first: "loop_requests env w p [?q]" using Suc.prems(1) by (auto simp: loop_requests_def same_intent_def)
  from Suc.prems(2) show ?case
  proof (cases rule: sign_loop_step_cases)
    case halt
    then show ?thesis using first more_signs by fastforce
  next
    case (again e s2 q h s3)
    then obtain reqs where reqs: "sv_signs s' = sv_signs s3 @ reqs" "length reqs \<le> Suc n" "loop_requests env w q reqs"
      using Suc.IH retry_params_intent by blast
    have "same_intent p q" using again(2) retry_params_intent by blast
    then have "loop_requests env w p (?q # reqs)"
      using first reqs(3) same_intent_trans by (fastforce simp: loop_requests_def)
    then show ?thesis using reqs more_signs [OF again(1)] by (intro exI [of _ "?q # reqs"]) simp
  qed
qed

text \<open>The loop changes only the signing journal, and asks only for the key of the wallet.\<close>

lemma sign_loop_effect:
  assumes "sign_loop (Suc n) env w msg (Some j) s = (r, s')"
  shows "\<exists>reqs. rpc_state.more s' = rpc_state.more (s\<lparr>sv_signs := sv_signs s @ (msg, w_KeyName w) # reqs\<rparr>)
     \<and> (\<forall>q \<in> set reqs. snd q = w_KeyName w) \<and> length reqs \<le> n"
  using assms
proof (induction n arbitrary: msg j s)
  case 0
  from 0 show ?case
    by (cases rule: sign_loop_step_cases) (auto intro!: exI [of _ "[]"] simp: retry_params_def split: option.splits if_splits)
next
  case (Suc n)
  from Suc.prems show ?case
  proof (cases rule: sign_loop_step_cases)
    case halt
    then show ?thesis by (intro exI [of _ "[]"]) simp
  next
    case (again e s2 q h s3)
    from Suc.IH [OF again(3)] obtain reqs where
      reqs: "rpc_state.more s' = rpc_state.more (s3\<lparr>sv_signs := sv_signs s3 @ (h, w_KeyName w) # reqs\<rparr>)" "\<forall>q \<in> set reqs. snd q = w_KeyName w" "length reqs \<le> n"
      by blast
    then have "rpc_state.more s' = rpc_state.more (s\<lparr>sv_signs := sv_signs s @ (msg, w_KeyName w) # (h, w_KeyName w) # reqs\<rparr>)"
      using more_signs_trans [OF again(1) reqs(1)] more_signs [OF again(1)] by simp
    then show ?thesis using reqs(2,3) by (intro exI [of _ "(h, w_KeyName w) # reqs"]) simp
  qed
qed
text \<open>C22. Signing and broadcasting an EVM transaction makes between one and four signing requests, all with the key of the
  wallet, and every message it has signed is the signing hash of a transaction with the recipient, value, calldata, chain,
  sender and gas limit of the requested one: a retry changes only the fees or the nonce.\<close>

theorem signAndBroadcast_keeps_intent:
  assumes "ETHSigningHash env p = Inr msg" and "signAndBroadcast env w msg (Some (eth_to_json p)) s = (r, s')"
  shows "\<exists>reqs. sv_signs s' = sv_signs s @ reqs \<and> 1 \<le> length reqs \<and> length reqs \<le> 4 \<and> loop_requests env w p reqs"
  using sign_loop_requests [of env p msg 3 w s r s'] assms by (simp add: signAndBroadcast_def rbfMaxAttempts_def numeral_eq_Suc)

theorem signAndBroadcast_keeps_intent_witness:
  "\<exists>msg reqs. ETHSigningHash demo_env sample_stored = Inr msg
     \<and> sv_signs (snd (signAndBroadcast demo_env demo_wallet msg (Some (eth_to_json sample_stored)) demo_server)) = reqs
     \<and> 1 \<le> length reqs \<and> length reqs \<le> 4 \<and> loop_requests demo_env demo_wallet sample_stored reqs"
proof -
  have h: "ETHSigningHash demo_env sample_stored = Inr (replicate 32 0)"
    by code_simp
  obtain r s' where r: "signAndBroadcast demo_env demo_wallet (replicate 32 0) (Some (eth_to_json sample_stored)) demo_server = (r, s')"
    by fastforce
  have "sv_signs demo_server = []" by (simp add: demo_server_def)
  then show ?thesis using signAndBroadcast_keeps_intent [OF h r] h r by auto
qed

end
