(* ===== verification/WalletTx.thy ===== *)
theory WalletTx
  imports SignTx DailyLimit
begin

text \<open>
  The transfer endpoints (\<open>handler/wallet.go\<close>): \<open>Transfer\<close>, \<open>WrapSOL\<close> and \<open>UnwrapSOL\<close> with their parts in the order of the code: the
  request and its recipient, the transaction of the chain family, the balance check, the conversion to dollars, the
  approval policy with the daily limit and the threshold, the approval request, and the direct path that signs and
  broadcasts. The per-address lock of the chain package serialises the requests of one address and has no counterpart here.
\<close>

subsection \<open>Requests\<close>

record token_params =
  tk_Contract :: string
  tk_Decimals :: int
  tk_Symbol :: string

record transfer_request =
  tr_To :: string
  tr_Amount :: string
  tr_Memo :: string
  tr_Token :: "token_params option"

definition token_params_of_json :: "json \<Rightarrow> token_params option" where
  "token_params_of_json j = (case as_obj j of None \<Rightarrow> None | Some o' \<Rightarrow>
     (case (fld_str ''contract'' o', fld_int 64 ''decimals'' o', fld_str ''symbol'' o') of
        (Some t, Some d, Some y) \<Rightarrow> if t = [] then None else Some \<lparr>tk_Contract = t, tk_Decimals = d, tk_Symbol = y\<rparr>
      | _ \<Rightarrow> None))"

definition transfer_request_of_json :: "json \<Rightarrow> transfer_request option" where
  "transfer_request_of_json j = (case as_obj j of None \<Rightarrow> None | Some o' \<Rightarrow>
     (case (fld_str ''to'' o', fld_str ''amount'' o', fld_str ''memo'' o') of
        (Some t, Some a, Some m) \<Rightarrow>
          if t = [] \<or> a = [] then None
          else (case jget ''token'' o' of
              None \<Rightarrow> Some \<lparr>tr_To = t, tr_Amount = a, tr_Memo = m, tr_Token = None\<rparr>
            | Some JNull \<Rightarrow> Some \<lparr>tr_To = t, tr_Amount = a, tr_Memo = m, tr_Token = None\<rparr>
            | Some tj \<Rightarrow> (case token_params_of_json tj of
                  None \<Rightarrow> None | Some tk \<Rightarrow> Some \<lparr>tr_To = t, tr_Amount = a, tr_Memo = m, tr_Token = Some tk\<rparr>))
      | _ \<Rightarrow> None))"

text \<open>\<open>c.ShouldBindJSON\<close> with a decoder that includes the required fields.\<close>

definition bind_json :: "'e server_env_scheme \<Rightarrow> ctx \<Rightarrow> (json \<Rightarrow> 'a option) \<Rightarrow> 'a h" where
  "bind_json env c dec = (case (case c_body c of None \<Rightarrow> None | Some j \<Rightarrow> dec j) of
       None \<Rightarrow> stop (jsonError 400 (bind_error env c)) | Some x \<Rightarrow> ret x)"

definition LooksLikeAddress :: "string \<Rightarrow> string \<Rightarrow> bool" where
  "LooksLikeAddress s family =
     (if family = ''evm'' then has_prefix s ''0x'' \<and> length s = 42
      else if family = ''solana'' then 32 \<le> length s \<and> length s \<le> 44 \<and> \<not> list_ex (\<lambda>c. c = CHR ''_'' \<or> c = CHR ''-'') s
      else False)"

definition ResolveNickname :: "db_faults \<Rightarrow> nat \<Rightarrow> string \<Rightarrow> string \<Rightarrow> address_book_entry list \<Rightarrow> string option" where
  "ResolveNickname dbe userID nickname chainName es =
     (if dbe ''first_entry'' then None
      else map_option ab_Address
        (first_row (\<lambda>e. ab_UserID e = userID \<and> ab_Nickname e = to_lower nickname \<and> ab_Chain e = chainName) es))"

subsection \<open>Failing builds\<close>

text \<open>The capture group of \<open>execution reverted(?:: )?([^\]\}]+)\<close> after its literal, and its first match in a text.\<close>

definition revert_tail :: "string \<Rightarrow> string option" where
  "revert_tail r =
     (let group = takeWhile (\<lambda>c. c \<noteq> CHR '']'' \<and> c \<noteq> CHR ''}'');
          m = group (if has_prefix r '': '' then drop 2 r else r)
      in if m \<noteq> [] then Some m else if group r \<noteq> [] then Some (group r) else None)"

fun revert_match :: "string \<Rightarrow> string option" where
  "revert_match [] = None"
| "revert_match (c # s) =
     (case (if has_prefix (c # s) ''execution reverted'' then revert_tail (drop 18 (c # s)) else None) of
        Some m \<Rightarrow> Some m | None \<Rightarrow> revert_match s)"

definition extractRevertReason :: "gerr \<Rightarrow> string" where
  "extractRevertReason err = (case revert_match (err_text err) of None \<Rightarrow> [] | Some m \<Rightarrow> trim_space m)"

definition respondBuildTxFailed :: "wallet \<Rightarrow> gerr \<Rightarrow> jobj \<Rightarrow> http_resp" where
  "respondBuildTxFailed wallet err respExtras =
     (let reason = extractRevertReason err;
          details = [(''stage'', JStr ''build_tx''), (''wallet_id'', JStr (w_ID wallet)), (''chain'', JStr (w_Chain wallet)),
            (''rpc_error'', JStr (sanitizeErrString err))] @ (if reason \<noteq> [] then [(''revert_reason'', JStr reason)] else [])
      in jsonErrorDetails 422 ''failed to build transaction''
           (details @ filter (\<lambda>(k, _). k \<notin> fst ` set details) respExtras))"

text \<open>A chain operation inside a handler: a panic is recovered by the server, an error becomes a response.\<close>

definition or_fail :: "(gerr \<Rightarrow> http_resp) \<Rightarrow> (server, 'a) io \<Rightarrow> 'a h" where
  "or_fail onErr m = seq (recovered m) (\<lambda>r. case r of Inl e \<Rightarrow> stop (onErr e) | Inr x \<Rightarrow> ret x)"

definition panics :: "'a h" where
  "panics = stop panic_resp"

subsection \<open>The transaction\<close>

text \<open>What the handler has built: the recipient as normalised, the message to sign, the stored parameters, the currency,
  the type, the token contract (empty for a native transfer), and the native amount the wallet must hold.\<close>

record tx_plan =
  pl_To :: string
  pl_Msg :: bytes
  pl_Params :: json
  pl_Currency :: string
  pl_Type :: string
  pl_Contract :: string
  pl_Required :: int
  pl_GasOnly :: bool

definition solBaselineFeeLamports :: u64 where
  "solBaselineFeeLamports = 5000"

definition ethGasCost :: "eth_tx_params \<Rightarrow> int" where
  "ethGasCost p = (case set_string 10 (eth_MaxFeePerGas p) of None \<Rightarrow> 0 | Some maxFee \<Rightarrow> maxFee * int (unat (eth_GasLimit p)))"

text \<open>\<open>new(big.Int).Exp(10, d, nil)\<close>, and the units of a token amount: \<open>None\<close> is the nil integer of an infinite amount.\<close>

definition ten_to :: "int \<Rightarrow> int" where
  "ten_to d = (if d \<le> 0 then 1 else 10 ^ nat d)"

definition token_units :: "bigfloat \<Rightarrow> int \<Rightarrow> int option" where
  "token_units amount decimals = (case bf_Mul 256 amount (bf_SetInt (ten_to decimals)) of None \<Rightarrow> None | Some f \<Rightarrow> bf_Int f)"

definition native_lamports :: "bigfloat \<Rightarrow> u64 option" where
  "native_lamports amount = map_option bf_Uint64 (bf_Mul 128 amount (bf_SetFloat64 (Fin 1000000000)))"

definition allowed_row :: "db_faults \<Rightarrow> wallet \<Rightarrow> string \<Rightarrow> allowed_contract list \<Rightarrow> allowed_contract option" where
  "allowed_row dbe wallet addr cs = (if dbe ''first_contract'' then None
     else first_row (\<lambda>a. ac_UserID a = w_UserID wallet \<and> ac_Chain a = w_Chain wallet \<and> ac_ContractAddress a = addr) cs)"

definition token_currency :: "allowed_contract \<Rightarrow> token_params \<Rightarrow> string" where
  "token_currency allowed tk = (if ac_Symbol allowed \<noteq> [] then to_upper (ac_Symbol allowed) else to_upper (tk_Symbol tk))"

definition build_evm_token :: "'e server_env_scheme \<Rightarrow> wallet \<Rightarrow> chain_config \<Rightarrow> string \<Rightarrow> bigfloat \<Rightarrow> token_params \<Rightarrow> tx_plan h" where
  "build_evm_token env wallet cfg to' amount tk =
     (let contract = to_lower (trim_space (tk_Contract tk))
      in getting t_contracts (\<lambda>cs. case allowed_row (db_fails env) wallet contract cs of
           None \<Rightarrow> stop (jsonError 403 (''contract not whitelisted: '' @ contract))
         | Some allowed \<Rightarrow>
             (case token_units amount (if ac_Decimals allowed = 0 then 18 else ac_Decimals allowed) of
                None \<Rightarrow> panics
              | Some tokenUnits \<Rightarrow>
                  if tokenUnits \<le> 0 then stop (jsonError 400 ''amount must be positive'')
                  else if length (be_bytes (nat tokenUnits)) > 32 then stop (jsonError 400 ''token amount exceeds uint256 range'')
                  else (case EncodeERC20Transfer env to' tokenUnits of
                      Inl e \<Rightarrow> stop (jsonErrorDetails 400 ''failed to encode transfer''
                        [(''stage'', JStr ''encode_calldata''), (''wallet_id'', JStr (w_ID wallet)), (''chain'', JStr (w_Chain wallet))])
                    | Inr callData \<Rightarrow>
                        seq (or_fail (\<lambda>e. respondBuildTxFailed wallet e [(''to'', JStr to'), (''contract'', JStr contract)])
                              (BuildETHContractCallTx env (cc_RPCURL cfg) (w_Address wallet) contract callData None)) (\<lambda>txData.
                        ret \<lparr>pl_To = to', pl_Msg = etd_SigningHash txData, pl_Params = eth_to_json (etd_Params txData),
                          pl_Currency = token_currency allowed tk, pl_Type = ''erc20_transfer'', pl_Contract = contract,
                          pl_Required = ethGasCost (etd_Params txData), pl_GasOnly = True\<rparr>)))))"

definition build_evm_native :: "'e server_env_scheme \<Rightarrow> wallet \<Rightarrow> chain_config \<Rightarrow> string \<Rightarrow> bigfloat \<Rightarrow> string \<Rightarrow> tx_plan h" where
  "build_evm_native env wallet cfg to' amount amountText =
     seq (or_fail (\<lambda>e. respondBuildTxFailed wallet e [(''to'', JStr to'), (''amount'', JStr amountText)])
           (BuildETHTx env (cc_RPCURL cfg) (w_Address wallet) to' amount)) (\<lambda>txData.
     case set_string 10 (eth_Value (etd_Params txData)) of
       None \<Rightarrow> panics
     | Some valueWei \<Rightarrow>
         ret \<lparr>pl_To = to', pl_Msg = etd_SigningHash txData, pl_Params = eth_to_json (etd_Params txData),
           pl_Currency = cc_Currency cfg, pl_Type = ''transfer'', pl_Contract = [],
           pl_Required = valueWei + ethGasCost (etd_Params txData), pl_GasOnly = False\<rparr>)"

definition sol_token_decimals :: "allowed_contract \<Rightarrow> token_params \<Rightarrow> int" where
  "sol_token_decimals allowed tk =
     (let d = (if ac_Decimals allowed = 0 \<and> tk_Decimals tk > 0 then tk_Decimals tk else ac_Decimals allowed)
      in if d = 0 then 9 else d)"

definition build_sol_token :: "'e server_env_scheme \<Rightarrow> wallet \<Rightarrow> chain_config \<Rightarrow> string \<Rightarrow> bigfloat \<Rightarrow> string \<Rightarrow> token_params \<Rightarrow> tx_plan h" where
  "build_sol_token env wallet cfg to' amount amountText tk =
     (let mintAddr = trim_space (tk_Contract tk)
      in if isl (base58Decode mintAddr) then stop (jsonError 400 ''token contract: invalid Solana address'')
         else if isl (base58Decode to') then stop (jsonError 400 ''to: invalid Solana address'')
         else getting t_contracts (\<lambda>cs. case allowed_row (db_fails env) wallet mintAddr cs of
             None \<Rightarrow> stop (jsonError 403 (''token not whitelisted: '' @ mintAddr))
           | Some allowed \<Rightarrow>
               let decimals = sol_token_decimals allowed tk
               in (case token_units amount decimals of
                     None \<Rightarrow> panics
                   | Some tokenUnits \<Rightarrow>
                       if tokenUnits \<le> 0 \<or> 2 ^ 64 \<le> tokenUnits then stop (jsonError 400 ''amount out of range'')
                       else seq (or_fail (\<lambda>e. respondBuildTxFailed wallet e
                                  [(''to'', JStr to'), (''mint'', JStr mintAddr), (''amount'', JStr amountText)])
                                (BuildSOLTokenTransferTx env (cc_RPCURL cfg) (w_Address wallet) to' mintAddr (of_int tokenUnits) decimals))
                            (\<lambda>txData.
                            ret \<lparr>pl_To = to', pl_Msg = std_MessageBytes txData, pl_Params = token_to_json (std_Params txData),
                              pl_Currency = token_currency allowed tk, pl_Type = ''spl_transfer'', pl_Contract = mintAddr,
                              pl_Required = int (unat solBaselineFeeLamports), pl_GasOnly = True\<rparr>))))"

definition build_sol_native :: "'e server_env_scheme \<Rightarrow> wallet \<Rightarrow> chain_config \<Rightarrow> string \<Rightarrow> bigfloat \<Rightarrow> string \<Rightarrow> tx_plan h" where
  "build_sol_native env wallet cfg to' amount amountText =
     (if isl (base58Decode to') then stop (jsonError 400 ''invalid Solana address'')
      else case native_lamports amount of
        None \<Rightarrow> panics
      | Some lamports \<Rightarrow>
          if lamports = 0 then stop (jsonError 400 ''amount too small'')
          else seq (or_fail (\<lambda>e. respondBuildTxFailed wallet e [(''to'', JStr to'), (''amount'', JStr amountText)])
                 (BuildSOLTxFromLamports env (cc_RPCURL cfg) (w_Address wallet) to' lamports)) (\<lambda>txData.
               ret \<lparr>pl_To = to', pl_Msg = std_MessageBytes txData, pl_Params = sol_to_json (std_Params txData),
                 pl_Currency = cc_Currency cfg, pl_Type = ''transfer'', pl_Contract = [],
                 pl_Required = int (unat (lamports + solBaselineFeeLamports)), pl_GasOnly = False\<rparr>))"

definition build_transfer :: "'e server_env_scheme \<Rightarrow> wallet \<Rightarrow> chain_config \<Rightarrow> string \<Rightarrow> bigfloat \<Rightarrow> transfer_request \<Rightarrow> tx_plan h" where
  "build_transfer env wallet cfg to' amount req =
     (if cc_Family cfg = ''evm'' then
        (case normalizeEVMAddress to' of
           Inl e \<Rightarrow> stop (jsonError 400 (''to: '' @ err_text e))
         | Inr toAddr \<Rightarrow> (case tr_Token req of
               Some tk \<Rightarrow> build_evm_token env wallet cfg toAddr amount tk
             | None \<Rightarrow> build_evm_native env wallet cfg toAddr amount (tr_Amount req)))
      else if cc_Family cfg = ''solana'' then
        (case tr_Token req of
           Some tk \<Rightarrow> build_sol_token env wallet cfg to' amount (tr_Amount req) tk
         | None \<Rightarrow> build_sol_native env wallet cfg to' amount (tr_Amount req))
      else stop (jsonError 400 (''unsupported chain: '' @ w_Chain wallet)))"

subsection \<open>The balance check\<close>

text \<open>\<open>Some msg\<close> is an \<open>*insufficientNativeError\<close>; every other error only skips the check.\<close>

definition insufficient_message :: "chain_config \<Rightarrow> int \<Rightarrow> int \<Rightarrow> bool \<Rightarrow> string" where
  "insufficient_message cfg have' required gasOnly =
     (let divisor = (if cc_Family cfg = ''evm'' then bf_SetInt (10 ^ 18)
                     else if cc_Family cfg = ''solana'' then bf_SetInt (10 ^ 9) else bf_SetFloat64 (Fin 1));
          text = (\<lambda>v. case bf_Quo 0 (bf_SetInt v) divisor of None \<Rightarrow> [] | Some q \<Rightarrow> bf_Text 8 q);
          cur = cc_Currency cfg
      in if gasOnly then ''insufficient '' @ cur @ '' for gas: have '' @ text have' @ '', need '' @ text required
         else ''insufficient balance: have '' @ text have' @ '' '' @ cur @ '', need '' @ text required @ '' '' @ cur @ '' (value + gas)'')"

definition preflightNativeBalance :: "'e server_env_scheme \<Rightarrow> chain_config \<Rightarrow> string \<Rightarrow> int \<Rightarrow> bool \<Rightarrow> (server, string option) io" where
  "preflightNativeBalance env cfg walletAddr required gasOnly =
     seq (GetBalance env (cc_Family cfg) walletAddr (cc_RPCURL cfg) (cc_Name cfg) (cc_Currency cfg)) (\<lambda>bal.
     case set_string 10 (bal_Raw bal) of
       None \<Rightarrow> fail (Msg ''balance pre-check: parse balance'')
     | Some have' \<Rightarrow> if have' \<ge> required then ret None else ret (Some (insufficient_message cfg have' required gasOnly)))"

definition check_balance :: "'e server_env_scheme \<Rightarrow> wallet \<Rightarrow> chain_config \<Rightarrow> tx_plan \<Rightarrow> unit h" where
  "check_balance env wallet cfg plan =
     seq (recovered (preflightNativeBalance env cfg (w_Address wallet) (pl_Required plan) (pl_GasOnly plan))) (\<lambda>r.
     case r of Inr (Some msg) \<Rightarrow> stop (jsonError 400 msg) | _ \<Rightarrow> ret ())"

subsection \<open>Dollars\<close>

definition usable_price :: "f64 res \<Rightarrow> f64 option" where
  "usable_price r = (case r of Inl _ \<Rightarrow> None | Inr p \<Rightarrow> if f64_gt0 p then Some p else None)"

text \<open>\<open>f, _ := a.Float64(); f * usdPrice\<close> for the amount text, which has already been read once.\<close>

definition usd_of :: "string \<Rightarrow> f64 \<Rightarrow> f64" where
  "usd_of amountText price = (case (bf_SetString amountText, price) of
       (Some a, Some p) \<Rightarrow> f64_mul (bf_Float64 a) p
     | (Some a, None) \<Rightarrow> None
     | (None, _) \<Rightarrow> Some (Fin 0))"

definition f64_is0 :: "f64 \<Rightarrow> bool" where
  "f64_is0 v \<longleftrightarrow> v = Some (Fin 0)"

text \<open>The price of the currency, then of the token contract, then Jupiter's for a Solana token; zero when there is none.\<close>

definition usd_by_contract :: "http_get \<Rightarrow> int \<Rightarrow> chain_config \<Rightarrow> string \<Rightarrow> string \<Rightarrow> string \<Rightarrow> price_state \<Rightarrow> f64 \<times> price_state" where
  "usd_by_contract hget now cfg currency contract amountText ps =
     (case usable_price (GetUSDPrice currency ps) of
        Some p \<Rightarrow> (usd_of amountText p, ps)
      | None \<Rightarrow>
          if contract = [] then (Some (Fin 0), ps)
          else (case GetTokenUSDPrice hget now (cc_Name cfg) contract ps of (r1, ps1) \<Rightarrow>
            (case usable_price r1 of
               Some p \<Rightarrow> (usd_of amountText p, ps1)
             | None \<Rightarrow>
                 if cc_Family cfg \<noteq> ''solana'' then (Some (Fin 0), ps1)
                 else (case GetJupiterPrice hget now contract ps1 of (r2, ps2) \<Rightarrow>
                   (case usable_price r2 of Some p \<Rightarrow> (usd_of amountText p, ps2) | None \<Rightarrow> (Some (Fin 0), ps2))))))"

definition usd_value :: "http_get \<Rightarrow> int \<Rightarrow> chain_config \<Rightarrow> string \<Rightarrow> string \<Rightarrow> string \<Rightarrow> price_state \<Rightarrow> f64 \<times> price_state" where
  "usd_value hget now cfg currency contract amountText ps =
     (case usd_by_contract hget now cfg currency contract amountText ps of (amountUSD, ps1) \<Rightarrow>
        if f64_is0 amountUSD \<and> contract \<noteq> [] \<and> currency \<noteq> [] then
          (case GetPriceBySymbol hget now currency ps1 of (r, ps2) \<Rightarrow>
            (case usable_price r of Some p \<Rightarrow> (usd_of amountText p, ps2) | None \<Rightarrow> (amountUSD, ps2)))
        else (amountUSD, ps1))"

text \<open>The conversion in the handler: only with an active policy and a price service.\<close>

definition price_transfer :: "'e server_env_scheme \<Rightarrow> ctx \<Rightarrow> chain_config \<Rightarrow> tx_plan \<Rightarrow> string \<Rightarrow> bool \<Rightarrow> f64 h" where
  "price_transfer env c cfg plan amountText policyFound =
     getting sv_prices (\<lambda>p. case p of
         Some ps \<Rightarrow> if \<not> policyFound then ret (Some (Fin 0))
           else (case usd_value (price_get env) (c_now c) cfg (pl_Currency plan) (pl_Contract plan) amountText ps of
                (v, ps') \<Rightarrow> modify (\<lambda>s. s\<lparr>sv_prices := Some ps'\<rparr>) (ret v))
       | None \<Rightarrow> ret (Some (Fin 0)))"

subsection \<open>The approval request\<close>

definition buildApprovalMessage :: "jobj option \<Rightarrow> wallet \<Rightarrow> string" where
  "buildApprovalMessage txCtx wallet = (case txCtx of
       None \<Rightarrow> ''Signing request for wallet '' @ w_Address wallet @ '' ('' @ w_Chain wallet @ '') requires approval''
     | Some t \<Rightarrow>
         let from' = (if str_or_empty ''from'' t \<noteq> [] then str_or_empty ''from'' t else w_Address wallet);
             what = str_or_empty ''amount'' t @ '' '' @ str_or_empty ''currency'' t @ '' from '' @ from' @ '' to '' @ str_or_empty ''to'' t
         in if str_or_empty ''type'' t = ''erc20_transfer''
            then ''ERC-20 transfer '' @ what @ '' (contract: '' @ str_or_empty ''contract'' t @ '') requires approval''
            else ''Transfer '' @ what @ '' requires approval'')"

definition approval_of :: "'e server_env_scheme \<Rightarrow> ctx \<Rightarrow> nat \<Rightarrow> wallet \<Rightarrow> string \<Rightarrow> jobj \<Rightarrow> json option \<Rightarrow> approval_request" where
  "approval_of env c userID wallet message txContext txParams =
     \<lparr>apr_ID = 0, apr_WalletID = Some (w_ID wallet), apr_UserID = userID, apr_ApprovalType = [], apr_Message = message,
      apr_TxContext = Some (JObj txContext), apr_TxParams = txParams, apr_PolicyData = None, apr_TxHash = [], apr_Status = ''pending'',
      apr_Signature = [], apr_ApprovedBy = None, apr_AuthMode = fst (authInfo c), apr_APIKeyPrefix = snd (authInfo c),
      apr_CreatedAt = c_now c, apr_ExpiresAt = c_now c + approvalExpiry env\<rparr>"

definition createApprovalRequest ::
    "'e server_env_scheme \<Rightarrow> ctx \<Rightarrow> wallet \<Rightarrow> bytes \<Rightarrow> jobj \<Rightarrow> approval_policy \<Rightarrow> json option \<Rightarrow> http_resp h" where
  "createApprovalRequest env c wallet msgBytes txContext policy txParams =
     seq (mustUserID c) (\<lambda>userID s.
       case create_approval env (approval_of env c userID wallet (hex_encode msgBytes) txContext txParams) s of
         (Inl e, s') \<Rightarrow> (Inl (respondInternalError c ''create approval request failed''
             [(''stage'', JStr ''create_approval''), (''wallet_id'', JStr (w_ID wallet))]), s')
       | (Inr a, s') \<Rightarrow>
           (Inr (JSON 202 [(''status'', JStr ''pending_approval''), (''approval_id'', jnat (apr_ID a)),
               (''message'', JStr (buildApprovalMessage (Some txContext) wallet)), (''tx_context'', JObj txContext),
               (''threshold_usd'', JStr (pol_ThresholdUSD policy)),
               (''approval_url'', JStr (requestBaseURL c (baseURL env) @ ''/#/approve/'' @ nat_text 10 (apr_ID a)))]),
            writeAuditCtx (db_fails env) c (if txParams \<noteq> None then ''transfer'' else ''sign'') ''pending'' (Some (w_ID wallet))
              (Some (JObj [(''approval_id'', jnat (apr_ID a)), (''tx_context'', JObj txContext)])) (apr_ID a) s'))"

subsection \<open>The policy\<close>

definition deduct_limit :: "'e server_env_scheme \<Rightarrow> ctx \<Rightarrow> wallet \<Rightarrow> approval_policy \<Rightarrow> f64 \<Rightarrow> string h" where
  "deduct_limit env c wallet policy amountUSD s =
     (if pol_DailyLimitUSD policy \<noteq> [] \<and> f64_gt0 amountUSD then
        let deductedUSDStr = (case amountUSD of None \<Rightarrow> [] | Some v \<Rightarrow> bf_Text 6 (bf_SetFloat64 v))
        in (case checkAndDeductDailyLimitUSD (db_fails env) (c_now c) (w_ID wallet) deductedUSDStr (t_policies s) of
              (Inl (Panic p), ps) \<Rightarrow> (Inl panic_resp, s\<lparr>t_policies := ps\<rparr>)
            | (Inl e, ps) \<Rightarrow> (Inl (respondInternalError c ''failed to check daily limit''
                 [(''stage'', JStr ''daily_limit_check''), (''wallet_id'', JStr (w_ID wallet))]), s\<lparr>t_policies := ps\<rparr>)
            | (Inr (exceeded, msg), ps) \<Rightarrow>
                (if exceeded then Inl (jsonError 400 msg) else Inr deductedUSDStr, s\<lparr>t_policies := ps\<rparr>))
      else (Inr [], s))"

definition release_limit :: "'e server_env_scheme \<Rightarrow> ctx \<Rightarrow> wallet \<Rightarrow> string \<Rightarrow> unit h" where
  "release_limit env c wallet deductedUSDStr s =
     (if deductedUSDStr = [] then (Inr (), s)
      else case releaseDailySpentUSD (db_fails env) (c_now c) (w_ID wallet) deductedUSDStr (t_policies s) of
        (Inl _, ps) \<Rightarrow> (Inl panic_resp, s\<lparr>t_policies := ps\<rparr>)
      | (Inr _, ps) \<Rightarrow> (Inr (), s\<lparr>t_policies := ps\<rparr>))"

definition over_threshold :: "approval_policy \<Rightarrow> f64 \<Rightarrow> bool" where
  "over_threshold policy amountUSD \<longleftrightarrow>
     (case amountUSD of None \<Rightarrow> False | Some v \<Rightarrow> f64_gt0 amountUSD \<and> exceedsUSDThreshold v (pol_ThresholdUSD policy))"

text \<open>The daily limit and the threshold of an active policy: the request either waits for an approval or goes on with
  the amount that was deducted.\<close>

definition policy_route :: "'e server_env_scheme \<Rightarrow> ctx \<Rightarrow> wallet \<Rightarrow> approval_policy option \<Rightarrow> f64 \<Rightarrow> bytes \<Rightarrow> jobj \<Rightarrow> json
    \<Rightarrow> (string \<Rightarrow> http_resp h) \<Rightarrow> http_resp h" where
  "policy_route env c wallet policy amountUSD msg txContext params direct = (case policy of
       None \<Rightarrow> direct []
     | Some pol \<Rightarrow>
         seq (deduct_limit env c wallet pol amountUSD) (\<lambda>deducted.
         if over_threshold pol amountUSD then
           seq (release_limit env c wallet deducted) (\<lambda>_. createApprovalRequest env c wallet msg txContext pol (Some params))
         else direct deducted))"

text \<open>The direct path; after a panic nothing is released.\<close>

definition sign_direct :: "'e server_env_scheme \<Rightarrow> ctx \<Rightarrow> wallet \<Rightarrow> bytes \<Rightarrow> json \<Rightarrow> string \<Rightarrow> (string \<Rightarrow> http_resp) \<Rightarrow> jobj \<Rightarrow> string h" where
  "sign_direct env c wallet msg params deducted onSignErr details s =
     (case signAndBroadcast env wallet msg (Some params) s of
        (Inr (sig, txHash), s') \<Rightarrow> (Inr txHash, s')
      | (Inl Crashed, s') \<Rightarrow> (Inl panic_resp, s')
      | (Inl (BroadcastFailed e), s') \<Rightarrow>
          seq (release_limit env c wallet deducted) (\<lambda>_. stop (respondBroadcastErrorDetails e details)) s'
      | (Inl (SignFailed e), s') \<Rightarrow>
          seq (release_limit env c wallet deducted) (\<lambda>_. stop (onSignErr e)) s')"

definition load_policy :: "'e server_env_scheme \<Rightarrow> wallet \<Rightarrow> (approval_policy option \<Rightarrow> 'b h) \<Rightarrow> 'b h" where
  "load_policy env wallet k = getting t_policies (\<lambda>ps. k (load_active (db_fails env) (w_ID wallet) ps))"

subsection \<open>Transfer\<close>

definition resolve_to :: "'e server_env_scheme \<Rightarrow> nat \<Rightarrow> wallet \<Rightarrow> chain_config \<Rightarrow> string \<Rightarrow> string h" where
  "resolve_to env userID wallet cfg to' =
     (if LooksLikeAddress to' (cc_Family cfg) then ret to'
      else getting t_entries (\<lambda>es. case ResolveNickname (db_fails env) userID to' (w_Chain wallet) es of
          None \<Rightarrow> stop (jsonError 400 (''nickname '' @ [CHR 0x22] @ to' @ [CHR 0x22] @ '' not found in address book for chain '' @ w_Chain wallet))
        | Some resolved \<Rightarrow> ret resolved))"

text \<open>Everything before the policy: the guards, the transaction and the balance check.\<close>

definition prepare_transfer :: "'e server_env_scheme \<Rightarrow> ctx \<Rightarrow> (nat \<times> wallet \<times> chain_config \<times> transfer_request \<times> tx_plan) h" where
  "prepare_transfer env c =
     seq (mustUserID c) (\<lambda>userID.
     seq (CheckIdempotency env c (IdempotencyKey c) userID) (\<lambda>_.
     seq (loadUserWallet env c) (\<lambda>wallet.
     if w_Status wallet \<noteq> ''ready'' then stop (jsonError 400 (''wallet is not ready (status: '' @ w_Status wallet @ '')''))
     else seq (bind_json env c transfer_request_of_json) (\<lambda>req.
       case positive_float (tr_Amount req) of
         None \<Rightarrow> stop (jsonError 400 ''invalid amount'')
       | Some amount \<Rightarrow>
           (case GetChain (env_chains env) (w_Chain wallet) of
              None \<Rightarrow> stop (jsonError 400 (''unsupported chain: '' @ w_Chain wallet))
            | Some cfg \<Rightarrow>
                seq (resolve_to env userID wallet cfg (tr_To req)) (\<lambda>to'.
                if to_lower to' = to_lower (w_Address wallet) then stop (jsonError 400 ''cannot transfer to the same wallet address'')
                else seq (build_transfer env wallet cfg to' amount req) (\<lambda>plan.
                     seq (check_balance env wallet cfg plan) (\<lambda>_.
                     ret (userID, wallet, cfg, req, plan)))))))))"

definition transfer_context :: "wallet \<Rightarrow> transfer_request \<Rightarrow> tx_plan \<Rightarrow> jobj" where
  "transfer_context wallet req plan =
     [(''type'', JStr (pl_Type plan)), (''from'', JStr (w_Address wallet)), (''to'', JStr (pl_To plan)), (''amount'', JStr (tr_Amount req)),
      (''currency'', JStr (pl_Currency plan)), (''memo'', JStr (tr_Memo req))]
     @ (if pl_Contract plan \<noteq> [] then [(''contract'', JStr (pl_Contract plan))] else [])"

definition transfer_direct ::
    "'e server_env_scheme \<Rightarrow> ctx \<Rightarrow> nat \<Rightarrow> wallet \<Rightarrow> transfer_request \<Rightarrow> tx_plan \<Rightarrow> string \<Rightarrow> http_resp h" where
  "transfer_direct env c userID wallet req plan deducted =
     (let ds = [(''wallet_id'', JStr (w_ID wallet)), (''chain'', JStr (w_Chain wallet)), (''to'', JStr (pl_To plan)), (''amount'', JStr (tr_Amount req))]
      in seq (sign_direct env c wallet (pl_Msg plan) (pl_Params plan) deducted
               (\<lambda>e. jsonErrorDetails 422 ''signing failed''
                  ((''stage'', JStr ''signing'') # ds @ [(''category'', JStr (categorizeSigningError e))])) ds) (\<lambda>txHash.
         modify (writeAuditCtx (db_fails env) c ''transfer'' ''success'' (Some (w_ID wallet))
                  (Some (JObj [(''to'', JStr (pl_To plan)), (''amount'', JStr (tr_Amount req)), (''currency'', JStr (pl_Currency plan)),
                     (''chain'', JStr (w_Chain wallet)), (''tx_hash'', JStr txHash)])) 0)
           (respondWithIdempotency env c (IdempotencyKey c) userID (JSON 200
             [(''status'', JStr ''completed''), (''tx_hash'', JStr txHash), (''chain'', JStr (w_Chain wallet)), (''from'', JStr (w_Address wallet)),
              (''to'', JStr (pl_To plan)), (''amount'', JStr (tr_Amount req)), (''currency'', JStr (pl_Currency plan))]))))"

definition settle_transfer ::
    "'e server_env_scheme \<Rightarrow> ctx \<Rightarrow> nat \<Rightarrow> wallet \<Rightarrow> chain_config \<Rightarrow> transfer_request \<Rightarrow> tx_plan \<Rightarrow> http_resp h" where
  "settle_transfer env c userID wallet cfg req plan =
     load_policy env wallet (\<lambda>policy.
     seq (price_transfer env c cfg plan (tr_Amount req) (policy \<noteq> None)) (\<lambda>amountUSD.
     case policy of
       Some pol \<Rightarrow>
         if f64_is0 amountUSD \<and> pl_Contract plan \<noteq> [] \<and> \<not> isPasskeyAuth c
         then createApprovalRequest env c wallet (pl_Msg plan) (transfer_context wallet req plan) pol (Some (pl_Params plan))
         else policy_route env c wallet policy amountUSD (pl_Msg plan) (transfer_context wallet req plan) (pl_Params plan)
                (transfer_direct env c userID wallet req plan)
     | None \<Rightarrow> policy_route env c wallet policy amountUSD (pl_Msg plan) (transfer_context wallet req plan) (pl_Params plan)
                (transfer_direct env c userID wallet req plan)))"

definition Transfer :: "'e server_env_scheme \<Rightarrow> ctx \<Rightarrow> http_resp h" where
  "Transfer env c = seq (prepare_transfer env c) (\<lambda>(userID, wallet, cfg, req, plan).
     settle_transfer env c userID wallet cfg req plan)"

subsection \<open>Wrapped SOL\<close>

text \<open>The guards that the two endpoints share.\<close>

definition prepare_wrap :: "'e server_env_scheme \<Rightarrow> ctx \<Rightarrow> string \<Rightarrow> (nat \<times> wallet \<times> chain_config) h" where
  "prepare_wrap env c what =
     seq (mustUserID c) (\<lambda>userID.
     seq (CheckIdempotency env c (IdempotencyKey c) userID) (\<lambda>_.
     seq (loadUserWallet env c) (\<lambda>wallet.
     if w_Status wallet \<noteq> ''ready'' then stop (jsonError 400 ''wallet is not ready'')
     else case GetChain (env_chains env) (w_Chain wallet) of
       None \<Rightarrow> stop (jsonError 400 (''unsupported chain: '' @ w_Chain wallet))
     | Some cfg \<Rightarrow>
         if cc_Family cfg \<noteq> ''solana'' then stop (jsonError 400 (what @ '' is only supported on Solana chains''))
         else ret (userID, wallet, cfg))))"

definition amount_of_json :: "json \<Rightarrow> string option" where
  "amount_of_json j = (case as_obj j of None \<Rightarrow> None | Some o' \<Rightarrow>
     (case fld_str ''amount'' o' of Some a \<Rightarrow> if a = [] then None else Some a | None \<Rightarrow> None))"

definition build_wrap :: "'e server_env_scheme \<Rightarrow> ctx \<Rightarrow> wallet \<Rightarrow> chain_config \<Rightarrow> (string \<times> tx_plan) h" where
  "build_wrap env c wallet cfg =
     seq (bind_json env c amount_of_json) (\<lambda>amountText.
     case positive_float amountText of
       None \<Rightarrow> stop (jsonError 400 ''invalid amount'')
     | Some amount \<Rightarrow>
         (case native_lamports amount of
            None \<Rightarrow> panics
          | Some lamports \<Rightarrow>
              if lamports = 0 then stop (jsonError 400 ''amount too small'')
              else seq (or_fail (\<lambda>e. respondBuildTxFailed wallet e [(''amount'', JStr amountText)])
                     (BuildSOLWrapTxFromLamports env (cc_RPCURL cfg) (w_Address wallet) lamports)) (\<lambda>txData.
                   ret (amountText, \<lparr>pl_To = [], pl_Msg = std_MessageBytes txData, pl_Params = wrap_to_json (std_Params txData),
                     pl_Currency = cc_Currency cfg, pl_Type = ''wrap_sol'', pl_Contract = [], pl_Required = 0, pl_GasOnly = False\<rparr>))))"

definition wrap_direct :: "'e server_env_scheme \<Rightarrow> ctx \<Rightarrow> nat \<Rightarrow> wallet \<Rightarrow> string \<Rightarrow> tx_plan \<Rightarrow> string \<Rightarrow> http_resp h" where
  "wrap_direct env c userID wallet amountText plan deducted =
     (let ds = [(''wallet_id'', JStr (w_ID wallet)), (''chain'', JStr (w_Chain wallet)), (''amount'', JStr amountText)]
      in seq (sign_direct env c wallet (pl_Msg plan) (pl_Params plan) deducted
               (\<lambda>e. jsonErrorDetails 422 ''signing failed'' ((''stage'', JStr ''signing'') # ds)) ds) (\<lambda>txHash.
         modify (writeAuditCtx (db_fails env) c ''wrap_sol'' ''success'' (Some (w_ID wallet))
                  (Some (JObj [(''amount'', JStr amountText), (''chain'', JStr (w_Chain wallet)), (''tx_hash'', JStr txHash)])) 0)
           (respondWithIdempotency env c (IdempotencyKey c) userID (JSON 200
             [(''status'', JStr ''completed''), (''tx_hash'', JStr txHash), (''chain'', JStr (w_Chain wallet)), (''from'', JStr (w_Address wallet)),
              (''amount'', JStr amountText), (''action'', JStr ''wrap'')]))))"

definition WrapSOL :: "'e server_env_scheme \<Rightarrow> ctx \<Rightarrow> http_resp h" where
  "WrapSOL env c =
     seq (prepare_wrap env c ''wrap-sol'') (\<lambda>(userID, wallet, cfg).
     seq (build_wrap env c wallet cfg) (\<lambda>(amountText, plan).
     load_policy env wallet (\<lambda>policy.
     seq (price_transfer env c cfg plan amountText (policy \<noteq> None)) (\<lambda>amountUSD.
     policy_route env c wallet policy amountUSD (pl_Msg plan)
       [(''type'', JStr ''wrap_sol''), (''from'', JStr (w_Address wallet)), (''amount'', JStr amountText), (''currency'', JStr (cc_Currency cfg))]
       (pl_Params plan) (wrap_direct env c userID wallet amountText plan)))))"

definition UnwrapSOL :: "'e server_env_scheme \<Rightarrow> ctx \<Rightarrow> http_resp h" where
  "UnwrapSOL env c =
     seq (prepare_wrap env c ''unwrap-sol'') (\<lambda>(userID, wallet, cfg).
     seq (or_fail (\<lambda>e. respondBuildTxFailed wallet e []) (BuildSOLUnwrapTx env (cc_RPCURL cfg) (w_Address wallet))) (\<lambda>txData.
     load_policy env wallet (\<lambda>policy.
     let params = wrap_to_json (std_Params txData); ds = [(''wallet_id'', JStr (w_ID wallet)), (''chain'', JStr (w_Chain wallet))];
         direct = seq (sign_direct env c wallet (std_MessageBytes txData) params []
               (\<lambda>e. jsonErrorDetails 422 ''signing failed'' ((''stage'', JStr ''signing'') # ds)) ds) (\<lambda>txHash.
             modify (writeAuditCtx (db_fails env) c ''unwrap_sol'' ''success'' (Some (w_ID wallet))
                  (Some (JObj [(''chain'', JStr (w_Chain wallet)), (''tx_hash'', JStr txHash)])) 0)
               (respondWithIdempotency env c (IdempotencyKey c) userID (JSON 200
                 [(''status'', JStr ''completed''), (''tx_hash'', JStr txHash), (''chain'', JStr (w_Chain wallet)), (''from'', JStr (w_Address wallet)),
                  (''action'', JStr ''unwrap'')])))
     in case policy of
          Some pol \<Rightarrow>
            if \<not> isPasskeyAuth c
            then createApprovalRequest env c wallet (std_MessageBytes txData)
              [(''type'', JStr ''unwrap_sol''), (''from'', JStr (w_Address wallet)), (''currency'', JStr (cc_Currency cfg))] pol (Some params)
            else direct
        | None \<Rightarrow> direct)))"

end
