(* ===== verification/Approval.thy ===== *)
theory Approval
  imports WalletTx
begin

text \<open>
  The approval endpoints (\<open>handler/approval.go\<close>): listing, reading, approving and rejecting an approval request, and the expiry of
  pending ones. \<open>Approve\<close> is split by the type of the request, in the order of the code: the rows of the allow list, of the
  address book and of the policy that an approval carries are applied, and a stored transaction is rebuilt, signed,
  checked against the daily limit and broadcast. The mutex of an approval makes each endpoint one step; the expiry runs
  between steps. A time stored in a document is its instant.
\<close>

subsection \<open>Rows as documents\<close>

definition fld_time :: "string \<Rightarrow> jobj \<Rightarrow> int option" where
  "fld_time k kvs = (case jget k kvs of None \<Rightarrow> Some zero_time | Some JNull \<Rightarrow> Some zero_time
     | Some (JNum x) \<Rightarrow> set_string 10 x | _ \<Rightarrow> None)"

definition contract_json :: "allowed_contract \<Rightarrow> json" where
  "contract_json a = JObj [(''id'', jnat (ac_ID a)), (''user_id'', jnat (ac_UserID a)), (''chain'', JStr (ac_Chain a)),
     (''contract_address'', JStr (ac_ContractAddress a)), (''label'', JStr (ac_Label a)), (''symbol'', JStr (ac_Symbol a)),
     (''decimals'', jint (ac_Decimals a)), (''created_at'', jint (ac_CreatedAt a))]"

definition contract_of_json :: "json \<Rightarrow> allowed_contract option" where
  "contract_of_json j = (case as_obj j of None \<Rightarrow> None | Some o' \<Rightarrow>
     (case (fld_uint 64 ''id'' o', fld_uint 64 ''user_id'' o', fld_str ''chain'' o', fld_str ''contract_address'' o', fld_str ''label'' o',
            fld_str ''symbol'' o', fld_int 64 ''decimals'' o', fld_time ''created_at'' o') of
        (Some i, Some u, Some c, Some a, Some l, Some y, Some d, Some t) \<Rightarrow>
          Some \<lparr>ac_ID = i, ac_UserID = u, ac_Chain = c, ac_ContractAddress = a, ac_Label = l, ac_Symbol = y, ac_Decimals = d, ac_CreatedAt = t\<rparr>
      | _ \<Rightarrow> None))"

definition entry_json :: "address_book_entry \<Rightarrow> json" where
  "entry_json e = JObj ([(''id'', jnat (ab_ID e)), (''user_id'', jnat (ab_UserID e)), (''nickname'', JStr (ab_Nickname e)),
     (''chain'', JStr (ab_Chain e)), (''address'', JStr (ab_Address e))] @ omit_empty ''memo'' (ab_Memo e) @
     [(''created_at'', jint (ab_CreatedAt e)), (''updated_at'', jint (ab_UpdatedAt e))])"

definition entry_of_json :: "json \<Rightarrow> address_book_entry option" where
  "entry_of_json j = (case as_obj j of None \<Rightarrow> None | Some o' \<Rightarrow>
     (case (fld_uint 64 ''id'' o', fld_uint 64 ''user_id'' o', fld_str ''nickname'' o', fld_str ''chain'' o', fld_str ''address'' o',
            fld_str ''memo'' o', fld_time ''created_at'' o', fld_time ''updated_at'' o') of
        (Some i, Some u, Some n, Some c, Some a, Some m, Some t, Some t') \<Rightarrow>
          Some \<lparr>ab_ID = i, ab_UserID = u, ab_Nickname = n, ab_Chain = c, ab_Address = a, ab_Memo = m, ab_CreatedAt = t, ab_UpdatedAt = t'\<rparr>
      | _ \<Rightarrow> None))"

definition policy_json :: "approval_policy \<Rightarrow> json" where
  "policy_json p = JObj [(''id'', jnat (pol_ID p)), (''wallet_id'', JStr (pol_WalletID p)), (''threshold_usd'', JStr (pol_ThresholdUSD p)),
     (''daily_limit_usd'', JStr (pol_DailyLimitUSD p)), (''daily_spent_usd'', JStr (pol_DailySpentUSD p)),
     (''daily_reset_at'', jint (pol_DailyResetAt p)), (''enabled'', JBool (pol_Enabled p)), (''created_at'', jint (pol_CreatedAt p))]"

definition policy_of_json :: "json \<Rightarrow> approval_policy option" where
  "policy_of_json j = (case as_obj j of None \<Rightarrow> None | Some o' \<Rightarrow>
     (case (fld_uint 64 ''id'' o', fld_str ''wallet_id'' o', fld_str ''threshold_usd'' o', fld_str ''daily_limit_usd'' o', fld_str ''daily_spent_usd'' o',
            fld_time ''daily_reset_at'' o', fld_bool ''enabled'' o', fld_time ''created_at'' o') of
        (Some i, Some w, Some t, Some l, Some sp, Some r, Some e, Some cr) \<Rightarrow>
          Some \<lparr>pol_ID = i, pol_WalletID = w, pol_ThresholdUSD = t, pol_DailyLimitUSD = l, pol_DailySpentUSD = sp, pol_DailyResetAt = r,
            pol_Enabled = e, pol_CreatedAt = cr\<rparr>
      | _ \<Rightarrow> None))"

definition approval_json :: "approval_request \<Rightarrow> json" where
  "approval_json a = JObj ([(''id'', jnat (apr_ID a))] @ (case apr_WalletID a of None \<Rightarrow> [] | Some w \<Rightarrow> [(''wallet_id'', JStr w)]) @
     [(''user_id'', jnat (apr_UserID a)), (''approval_type'', JStr (apr_ApprovalType a)), (''message'', JStr (apr_Message a)),
      (''tx_context'', opt_json id (apr_TxContext a)), (''tx_params'', opt_json id (apr_TxParams a)),
      (''policy_data'', opt_json id (apr_PolicyData a)), (''tx_hash'', JStr (apr_TxHash a)), (''status'', JStr (apr_Status a)),
      (''signature'', JStr (apr_Signature a)), (''approved_by'', opt_json jnat (apr_ApprovedBy a)), (''auth_mode'', JStr (apr_AuthMode a))] @
     omit_empty ''api_key_prefix'' (apr_APIKeyPrefix a) @
     [(''created_at'', jint (apr_CreatedAt a)), (''expires_at'', jint (apr_ExpiresAt a))])"

subsection \<open>Writing the rows\<close>

text \<open>An insertion: the row as stored, a violation of a unique index, or another database error. A new row gets the next
  identifier, and a zero creation time becomes the present.\<close>

datatype 'r created = Created 'r | Duplicate | DbError

definition stamp :: "int \<Rightarrow> int \<Rightarrow> int" where
  "stamp now t = (if t = zero_time then now else t)"

definition same_contract :: "allowed_contract \<Rightarrow> allowed_contract \<Rightarrow> bool" where
  "same_contract a b \<longleftrightarrow> ac_UserID a = ac_UserID b \<and> ac_Chain a = ac_Chain b \<and> ac_ContractAddress a = ac_ContractAddress b"

definition create_contract :: "db_faults \<Rightarrow> int \<Rightarrow> allowed_contract \<Rightarrow> allowed_contract list \<Rightarrow> allowed_contract created \<times> allowed_contract list" where
  "create_contract dbe now a cs =
     (if dbe ''create_contract'' then (DbError, cs)
      else if list_ex (same_contract a) cs then (Duplicate, cs)
      else let a' = a\<lparr>ac_ID := next_id ac_ID cs, ac_CreatedAt := stamp now (ac_CreatedAt a)\<rparr> in (Created a', cs @ [a']))"

definition same_entry :: "address_book_entry \<Rightarrow> address_book_entry \<Rightarrow> bool" where
  "same_entry a b \<longleftrightarrow> ab_UserID a = ab_UserID b \<and> ab_Nickname a = ab_Nickname b \<and> ab_Chain a = ab_Chain b"

definition create_entry :: "db_faults \<Rightarrow> int \<Rightarrow> address_book_entry \<Rightarrow> address_book_entry list \<Rightarrow> address_book_entry created \<times> address_book_entry list" where
  "create_entry dbe now e es =
     (if dbe ''create_entry'' then (DbError, es)
      else if list_ex (same_entry e) es then (Duplicate, es)
      else let e' = e\<lparr>ab_ID := next_id ab_ID es, ab_CreatedAt := stamp now (ab_CreatedAt e), ab_UpdatedAt := stamp now (ab_UpdatedAt e)\<rparr>
           in (Created e', es @ [e']))"

text \<open>\<open>db.Save\<close> of a policy: a row with an identifier is updated in all columns, a new one is inserted with the defaults of
  its columns for the zero values, so a new policy is always enabled. A wallet has one policy.\<close>

definition save_policy :: "db_faults \<Rightarrow> int \<Rightarrow> approval_policy \<Rightarrow> policies \<Rightarrow> approval_policy created \<times> policies" where
  "save_policy dbe now p ps =
     (if pol_ID p = 0 then
        if dbe ''create_policy'' then (DbError, ps)
        else if list_ex (\<lambda>q. pol_WalletID q = pol_WalletID p) ps then (Duplicate, ps)
        else let p' = p\<lparr>pol_ID := next_id pol_ID ps, pol_DailySpentUSD := (if pol_DailySpentUSD p = [] then ''0'' else pol_DailySpentUSD p),
                       pol_Enabled := True, pol_CreatedAt := stamp now (pol_CreatedAt p)\<rparr>
             in (Created p', ps @ [p'])
      else if dbe ''update_policy'' then (DbError, ps)
      else (Created p, update_rows (\<lambda>q. pol_ID q = pol_ID p) (\<lambda>_. p) ps))"

definition new_policy :: "string \<Rightarrow> approval_policy" where
  "new_policy wid = \<lparr>pol_ID = 0, pol_WalletID = wid, pol_ThresholdUSD = [], pol_DailyLimitUSD = [], pol_DailySpentUSD = [],
     pol_DailyResetAt = zero_time, pol_Enabled = False, pol_CreatedAt = zero_time\<rparr>"

text \<open>\<open>db.Model(&approval).Updates\<close>; its error is not looked at, except after a broadcast.\<close>

definition set_approval :: "'e server_env_scheme \<Rightarrow> nat \<Rightarrow> (approval_request \<Rightarrow> approval_request) \<Rightarrow> server \<Rightarrow> server" where
  "set_approval env i f s = (if db_fails env ''update_approval'' then s
     else s\<lparr>t_approvals := update_rows (\<lambda>a. apr_ID a = i) f (t_approvals s)\<rparr>)"

definition notify :: "'e server_env_scheme \<Rightarrow> approval_request \<Rightarrow> string \<Rightarrow> string \<Rightarrow> unit h" where
  "notify env a status txHash s = (case broadcastApproval env a status txHash s of
       (Inl _, s') \<Rightarrow> (Inl panic_resp, s') | (Inr _, s') \<Rightarrow> (Inr (), s'))"

text \<open>The common end of an approval that is applied at once.\<close>

definition finish_approved :: "'e server_env_scheme \<Rightarrow> ctx \<Rightarrow> approval_request \<Rightarrow> jobj \<Rightarrow> jobj \<Rightarrow> http_resp h" where
  "finish_approved env c a extra body =
     modify (set_approval env (apr_ID a) (\<lambda>r. r\<lparr>apr_Status := ''approved'', apr_ApprovedBy := passkeyUserIDFromCtx c\<rparr>))
       (modify (updateAuditByApprovalID (db_fails env) (c_now c) (apr_ID a) ''success'' extra)
         (seq (notify env a ''approved'' []) (\<lambda>_.
           ret (JSON 200 ([(''success'', JBool True), (''status'', JStr ''approved'')] @ body)))))"

subsection \<open>Applying rows\<close>

definition bad_data :: "string \<Rightarrow> string \<Rightarrow> approval_request \<Rightarrow> http_resp" where
  "bad_data msg stage a = jsonErrorDetails 500 msg [(''stage'', JStr stage), (''approval_id'', jnat (apr_ID a))]"

definition proposed_row :: "(json \<Rightarrow> 'r option) \<Rightarrow> approval_request \<Rightarrow> 'r option" where
  "proposed_row dec a = (case apr_PolicyData a of None \<Rightarrow> None | Some j \<Rightarrow> dec j)"

definition approve_contract_add :: "'e server_env_scheme \<Rightarrow> ctx \<Rightarrow> approval_request \<Rightarrow> http_resp h" where
  "approve_contract_add env c a s = (case proposed_row contract_of_json a of
       None \<Rightarrow> (Inl (bad_data ''invalid contract data'' ''unmarshal_contract'' a), s)
     | Some p0 \<Rightarrow>
         let p = p0\<lparr>ac_ID := 0\<rparr>;
             finish = (\<lambda>row. finish_approved env c a [(''type'', JStr ''contract_add''), (''contract'', JStr (ac_ContractAddress row))]
                         [(''contract'', contract_json row)])
         in (case create_contract (db_fails env) (c_now c) p (t_contracts s) of
               (Created row, cs) \<Rightarrow> finish row (s\<lparr>t_contracts := cs\<rparr>)
             | (Duplicate, cs) \<Rightarrow>
                 finish (case (if db_fails env ''first_contract'' then None else first_row (same_contract p) cs) of None \<Rightarrow> p | Some e \<Rightarrow> e) s
             | (DbError, cs) \<Rightarrow> (Inl (respondInternalError c ''failed to add contract''
                 [(''stage'', JStr ''create_contract''), (''approval_id'', jnat (apr_ID a)), (''contract'', JStr (ac_ContractAddress p))]), s)))"

definition approve_contract_update :: "'e server_env_scheme \<Rightarrow> ctx \<Rightarrow> approval_request \<Rightarrow> http_resp h" where
  "approve_contract_update env c a s = (case proposed_row contract_of_json a of
       None \<Rightarrow> (Inl (bad_data ''invalid contract data'' ''unmarshal_contract'' a), s)
     | Some p \<Rightarrow>
         if db_fails env ''update_contract'' then
           (Inl (respondInternalError c ''failed to update contract''
              [(''stage'', JStr ''update_contract''), (''approval_id'', jnat (apr_ID a)), (''contract'', JStr (ac_ContractAddress p))]), s)
         else finish_approved env c a [(''type'', JStr ''contract_update''), (''contract'', JStr (ac_ContractAddress p))]
                [(''contract'', contract_json p)]
                (s\<lparr>t_contracts := update_rows (\<lambda>r. ac_ID r = ac_ID p \<and> ac_UserID r = apr_UserID a)
                     (\<lambda>r. r\<lparr>ac_Label := ac_Label p, ac_Symbol := ac_Symbol p, ac_Decimals := ac_Decimals p\<rparr>) (t_contracts s)\<rparr>))"

definition approve_entry_add :: "'e server_env_scheme \<Rightarrow> ctx \<Rightarrow> approval_request \<Rightarrow> http_resp h" where
  "approve_entry_add env c a s = (case proposed_row entry_of_json a of
       None \<Rightarrow> (Inl (bad_data ''invalid address book data'' ''unmarshal_addressbook'' a), s)
     | Some p0 \<Rightarrow>
         let p = p0\<lparr>ab_ID := 0\<rparr>;
             finish = (\<lambda>row. finish_approved env c a [(''type'', JStr ''addressbook_add''), (''nickname'', JStr (ab_Nickname row)), (''chain'', JStr (ab_Chain row))]
                         [(''entry'', entry_json row)])
         in (case create_entry (db_fails env) (c_now c) p (t_entries s) of
               (Created row, es) \<Rightarrow> finish row (s\<lparr>t_entries := es\<rparr>)
             | (Duplicate, es) \<Rightarrow> finish p s
             | (DbError, es) \<Rightarrow> (Inl (respondInternalError c ''failed to add address book entry''
                 [(''stage'', JStr ''create_addressbook''), (''approval_id'', jnat (apr_ID a)), (''nickname'', JStr (ab_Nickname p))]), s)))"

text \<open>An update that would give two entries the same key violates the unique index; \<open>updated_at\<close> is set by the library.\<close>

definition approve_entry_update :: "'e server_env_scheme \<Rightarrow> ctx \<Rightarrow> approval_request \<Rightarrow> http_resp h" where
  "approve_entry_update env c a s = (case proposed_row entry_of_json a of
       None \<Rightarrow> (Inl (bad_data ''invalid address book data'' ''unmarshal_addressbook'' a), s)
     | Some p \<Rightarrow>
         let target = (\<lambda>r. ab_ID r = ab_ID p \<and> ab_UserID r = apr_UserID a);
             es = update_rows target (\<lambda>r. r\<lparr>ab_Nickname := ab_Nickname p, ab_Address := ab_Address p, ab_Memo := ab_Memo p, ab_UpdatedAt := c_now c\<rparr>) (t_entries s)
         in if db_fails env ''update_entry'' \<or>
               list_ex (\<lambda>r. target r \<and> list_ex (\<lambda>q. ab_ID q \<noteq> ab_ID r \<and> same_entry (r\<lparr>ab_Nickname := ab_Nickname p\<rparr>) q) (t_entries s)) (t_entries s) then
              (Inl (respondInternalError c ''failed to update address book entry''
                 [(''stage'', JStr ''update_addressbook''), (''approval_id'', jnat (apr_ID a)), (''nickname'', JStr (ab_Nickname p))]), s)
            else if count_rows target (t_entries s) = 0 then (Inl (jsonError 404 ''address book entry no longer exists''), s)
            else finish_approved env c a [(''type'', JStr ''addressbook_update''), (''nickname'', JStr (ab_Nickname p)), (''chain'', JStr (ab_Chain p))]
                   [(''entry'', entry_json p)] (s\<lparr>t_entries := es\<rparr>))"

definition approve_policy_change :: "'e server_env_scheme \<Rightarrow> ctx \<Rightarrow> approval_request \<Rightarrow> http_resp h" where
  "approve_policy_change env c a s = (case proposed_row policy_of_json a of
       None \<Rightarrow> (Inl (bad_data ''invalid policy data'' ''unmarshal_policy'' a), s)
     | Some p \<Rightarrow> (case apr_WalletID a of
           None \<Rightarrow> (Inl (jsonError 400 ''approval has no wallet''), s)
         | Some wid \<Rightarrow>
             let old = (case (if db_fails env ''first_policy'' then None else first_row (\<lambda>q. pol_WalletID q = wid) (t_policies s)) of
                          None \<Rightarrow> new_policy wid | Some q \<Rightarrow> q);
                 policy = old\<lparr>pol_ThresholdUSD := pol_ThresholdUSD p, pol_Enabled := pol_Enabled p, pol_DailyLimitUSD := pol_DailyLimitUSD p\<rparr>
             in (case save_policy (db_fails env) (c_now c) policy (t_policies s) of
                   (Created row, ps) \<Rightarrow> finish_approved env c a [(''type'', JStr ''policy_change''), (''threshold_usd'', JStr (pol_ThresholdUSD p))]
                      [(''policy'', policy_json row)] (s\<lparr>t_policies := ps\<rparr>)
                 | (_, ps) \<Rightarrow> (Inl (respondInternalError c ''failed to apply policy''
                      [(''stage'', JStr ''apply_policy''), (''approval_id'', jnat (apr_ID a)), (''wallet_id'', JStr wid)]), s))))"

subsection \<open>Signing an approved transaction\<close>

definition decodeMessage_hex :: "string \<Rightarrow> bytes option" where
  "decodeMessage_hex msg = hex_decode (trim_prefix msg ''0x'')"

text \<open>\<open>float64(lamports) / 1e9\<close>.\<close>

definition lamports_to_sol :: "u64 \<Rightarrow> fval" where
  "lamports_to_sol n = (case round64 (of_nat (unat n)) of Fin x \<Rightarrow> round64 (x / 1000000000) | v \<Rightarrow> v)"

text \<open>A rebuilt Solana transaction replaces the stored one; when the rebuild fails the stored one is kept.\<close>

definition or_stored :: "bytes \<times> json \<Rightarrow> ('d \<Rightarrow> bytes \<times> json) \<Rightarrow> (server, 'd) io \<Rightarrow> (bytes \<times> json) h" where
  "or_stored stored f m = seq (recovered m) (\<lambda>r. case r of Inl _ \<Rightarrow> ret stored | Inr d \<Rightarrow> ret (f d))"

definition rebuild_sol :: "'e server_env_scheme \<Rightarrow> string \<Rightarrow> json \<Rightarrow> bytes \<Rightarrow> (bytes \<times> json) h" where
  "rebuild_sol env url j msg = (case rebuild_kind j of
       KToken tp \<Rightarrow> or_stored (msg, j) (\<lambda>d. (std_MessageBytes d, token_to_json (std_Params d))) (RebuildSOLTokenTransferTx env url tp)
     | KProgram pp \<Rightarrow> or_stored (msg, j) (\<lambda>d. (std_MessageBytes d, program_to_json (std_Params d))) (RebuildSOLProgramCallTx env url pp)
     | KWrap wp \<Rightarrow> or_stored (msg, j) (\<lambda>d. (std_MessageBytes d, wrap_to_json (std_Params d))) (RebuildSOLWrapTx env url wp)
     | KNative np \<Rightarrow> or_stored (msg, j) (\<lambda>d. (std_MessageBytes d, sol_to_json (std_Params d)))
         (BuildSOLTx env url (sol_From np) (sol_To np) (lamports_to_sol (sol_Lamports np)))
     | KBad \<Rightarrow> ret (msg, j))"

definition rebuild_failed :: "approval_request \<Rightarrow> wallet \<Rightarrow> gerr \<Rightarrow> http_resp" where
  "rebuild_failed a wallet e =
     (let reason = extractRevertReason e; sanitized = sanitizeErrString e
      in jsonErrorDetails 422 (''failed to refresh transaction params: '' @ sanitized)
           ([(''stage'', JStr ''rebuild_tx''), (''approval_id'', jnat (apr_ID a)), (''wallet_id'', JStr (w_ID wallet)), (''chain'', JStr (w_Chain wallet)),
             (''rpc_error'', JStr sanitized)] @ (if reason \<noteq> [] then [(''revert_reason'', JStr reason)] else [])))"

definition rebuild_evm :: "'e server_env_scheme \<Rightarrow> string \<Rightarrow> approval_request \<Rightarrow> wallet \<Rightarrow> json \<Rightarrow> (bytes \<times> json) h" where
  "rebuild_evm env url a wallet j = (case eth_of_json j of
       None \<Rightarrow> stop (jsonErrorDetails 500 ''invalid stored tx params''
         [(''stage'', JStr ''unmarshal_tx_params''), (''approval_id'', jnat (apr_ID a)), (''chain'', JStr (w_Chain wallet))])
     | Some p \<Rightarrow> seq (or_fail (rebuild_failed a wallet) (RebuildETHTx env url p)) (\<lambda>d.
         ret (etd_SigningHash d, eth_to_json (etd_Params d))))"

definition refresh_tx :: "'e server_env_scheme \<Rightarrow> approval_request \<Rightarrow> wallet \<Rightarrow> bytes \<Rightarrow> (bytes \<times> json option) h" where
  "refresh_tx env a wallet msg = (case (GetChain (env_chains env) (w_Chain wallet), apr_TxParams a) of
       (Some cfg, Some j) \<Rightarrow>
         if cc_Family cfg = ''solana'' then seq (rebuild_sol env (cc_RPCURL cfg) j msg) (\<lambda>(m, j'). ret (m, Some j'))
         else if cc_Family cfg = ''evm'' then seq (rebuild_evm env (cc_RPCURL cfg) a wallet j) (\<lambda>(m, j'). ret (m, Some j'))
         else ret (msg, Some j)
     | (_, p) \<Rightarrow> ret (msg, p))"

text \<open>An approval that failed: its status, the event, the audit entry and the response.\<close>

definition fail_approval :: "'e server_env_scheme \<Rightarrow> ctx \<Rightarrow> approval_request \<Rightarrow> string \<Rightarrow> jobj \<Rightarrow> http_resp \<Rightarrow> 'x h" where
  "fail_approval env c a evt extra resp =
     modify (set_approval env (apr_ID a) (\<lambda>r. r\<lparr>apr_Status := ''failed''\<rparr>))
       (seq (notify env a ''failed'' evt) (\<lambda>_.
         modify (updateAuditByApprovalID (db_fails env) (c_now c) (apr_ID a) ''failed'' ((''type'', JStr (apr_ApprovalType a)) # extra)) (stop resp)))"

definition sign_approved :: "'e server_env_scheme \<Rightarrow> ctx \<Rightarrow> approval_request \<Rightarrow> wallet \<Rightarrow> bytes \<Rightarrow> bytes h" where
  "sign_approved env c a wallet msg s =
     (let failed = (\<lambda>raw. let category = categorizeSigningError raw
            in fail_approval env c a (''signing error: '' @ category) [(''stage'', JStr ''signing''), (''category'', JStr category)]
                 (jsonErrorDetails 422 ''signing failed'' [(''stage'', JStr ''signing''), (''approval_id'', jnat (apr_ID a)), (''wallet_id'', JStr (w_ID wallet)),
                    (''chain'', JStr (w_Chain wallet)), (''category'', JStr category)]))
      in case sdk_Sign env msg (w_KeyName wallet) s of
           (SignErr e, s1) \<Rightarrow> failed e s1
         | (SignRes success sig err, s1) \<Rightarrow> if success then (Inr sig, s1) else failed err s1)"

definition extractAmountCurrency :: "jobj \<Rightarrow> string \<times> string" where
  "extractAmountCurrency t = (str_or_empty ''amount'' t, to_upper (str_or_empty ''currency'' t))"

text \<open>The context document as a map: nil when it is missing, null or not an object.\<close>

definition tx_context_map :: "approval_request \<Rightarrow> jobj option" where
  "tx_context_map a = (case apr_TxContext a of Some (JObj t) \<Rightarrow> Some t | _ \<Rightarrow> None)"

text \<open>The text of \<open>f * usdPrice\<close>; converting a NaN panics.\<close>

definition usd_text :: "string \<Rightarrow> f64 \<Rightarrow> string option res" where
  "usd_text amount price = (case bf_SetString amount of
       None \<Rightarrow> Inr None
     | Some _ \<Rightarrow> (case usd_of amount price of
           None \<Rightarrow> Inl (Panic ''big.ErrNaN'') | Some v \<Rightarrow> Inr (Some (bf_Text 6 (bf_SetFloat64 v)))))"

text \<open>The amount to deduct before the broadcast: only with a daily limit and a price of the currency itself.\<close>

definition pre_amount :: "'e server_env_scheme \<Rightarrow> approval_request \<Rightarrow> server \<Rightarrow> string option res" where
  "pre_amount env a s = (case (apr_WalletID a, sv_prices s, tx_context_map a) of
       (Some wid, Some ps, Some t) \<Rightarrow>
         (case load_active (db_fails env) wid (t_policies s) of
            None \<Rightarrow> Inr None
          | Some pol \<Rightarrow>
              let (amount, currency) = extractAmountCurrency t
              in if pol_DailyLimitUSD pol = [] \<or> amount = [] \<or> currency = [] then Inr None
                 else (case usable_price (GetUSDPrice currency ps) of None \<Rightarrow> Inr None | Some p \<Rightarrow> usd_text amount p))
     | _ \<Rightarrow> Inr None)"

definition pre_deduct :: "'e server_env_scheme \<Rightarrow> ctx \<Rightarrow> approval_request \<Rightarrow> string h" where
  "pre_deduct env c a s = (case (pre_amount env a s, apr_WalletID a) of
       (Inl _, _) \<Rightarrow> (Inl panic_resp, s)
     | (Inr (Some amountUSDStr), Some wid) \<Rightarrow>
         (case checkAndDeductDailyLimitUSD (db_fails env) (c_now c) wid amountUSDStr (t_policies s) of
            (Inl (Panic p), ps) \<Rightarrow> (Inl panic_resp, s\<lparr>t_policies := ps\<rparr>)
          | (Inl e, ps) \<Rightarrow> (Inr amountUSDStr, s\<lparr>t_policies := ps\<rparr>)
          | (Inr (exceeded, msg), ps) \<Rightarrow> (if exceeded then Inl (jsonError 400 msg) else Inr amountUSDStr, s\<lparr>t_policies := ps\<rparr>))
     | _ \<Rightarrow> (Inr [], s))"

definition release_pre :: "'e server_env_scheme \<Rightarrow> ctx \<Rightarrow> approval_request \<Rightarrow> string \<Rightarrow> unit h" where
  "release_pre env c a preDeducted s = (case apr_WalletID a of
       Some wid \<Rightarrow> if preDeducted = [] then (Inr (), s)
         else (case releaseDailySpentUSD (db_fails env) (c_now c) wid preDeducted (t_policies s) of
             (Inl _, ps) \<Rightarrow> (Inl panic_resp, s\<lparr>t_policies := ps\<rparr>) | (Inr _, ps) \<Rightarrow> (Inr (), s\<lparr>t_policies := ps\<rparr>))
     | None \<Rightarrow> (Inr (), s))"

definition broadcast_approved :: "'e server_env_scheme \<Rightarrow> ctx \<Rightarrow> approval_request \<Rightarrow> wallet \<Rightarrow> json option \<Rightarrow> bytes \<Rightarrow> string \<Rightarrow> string h" where
  "broadcast_approved env c a wallet params sig preDeducted = (case params of
       None \<Rightarrow> ret []
     | Some j \<Rightarrow> seq (recovered (broadcastSigned env wallet j sig)) (\<lambda>r. case r of
           Inr txHash \<Rightarrow> ret txHash
         | Inl e \<Rightarrow> seq (release_pre env c a preDeducted) (\<lambda>_.
             fail_approval env c a (''broadcast error: '' @ sanitizeErrString e) [(''stage'', JStr ''broadcast''), (''error'', JStr (sanitizeErrString e))]
               (respondBroadcastErrorDetails e [(''approval_id'', jnat (apr_ID a)), (''wallet_id'', JStr (w_ID wallet)), (''chain'', JStr (w_Chain wallet))]))))"

text \<open>The price for the counter after a broadcast, with the fallbacks for tokens.\<close>

definition post_price :: "http_get \<Rightarrow> int \<Rightarrow> jobj \<Rightarrow> string \<Rightarrow> price_state \<Rightarrow> f64 option \<times> price_state" where
  "post_price hget now t currency ps = (case usable_price (GetUSDPrice currency ps) of
       Some p \<Rightarrow> (Some p, ps)
     | None \<Rightarrow>
         let contract = str_or_empty ''contract'' t
         in if contract = [] then (None, ps)
            else (case GetTokenUSDPrice hget now (str_or_empty ''chain'' t) contract ps of (r1, ps1) \<Rightarrow>
              (case usable_price r1 of Some p \<Rightarrow> (Some p, ps1)
               | None \<Rightarrow> (case GetJupiterPrice hget now contract ps1 of (r2, ps2) \<Rightarrow>
                   (case usable_price r2 of Some p \<Rightarrow> (Some p, ps2)
                    | None \<Rightarrow> (case GetPriceBySymbol hget now currency ps2 of (r3, ps3) \<Rightarrow> (usable_price r3, ps3)))))))"

definition post_add :: "'e server_env_scheme \<Rightarrow> ctx \<Rightarrow> approval_request \<Rightarrow> string \<Rightarrow> string \<Rightarrow> unit h" where
  "post_add env c a txHash preDeducted s = (case (tx_context_map a, sv_prices s) of
       (Some t, Some ps) \<Rightarrow>
         (let (amount, currency) = extractAmountCurrency t
          in if txHash = [] \<or> preDeducted \<noteq> [] \<or> amount = [] \<or> currency = [] then (Inr (), s)
             else (case post_price (price_get env) (c_now c) t currency ps of
                 (None, ps') \<Rightarrow> (Inr (), s\<lparr>sv_prices := Some ps'\<rparr>)
               | (Some p, ps') \<Rightarrow> (case (usd_text amount p, apr_WalletID a) of
                     (Inl _, _) \<Rightarrow> (Inl panic_resp, s\<lparr>sv_prices := Some ps'\<rparr>)
                   | (Inr (Some amountUSD), Some wid) \<Rightarrow>
                       (case addDailySpentUSD (db_fails env) (c_now c) wid amountUSD (t_policies s) of
                          (Inl _, pols) \<Rightarrow> (Inl panic_resp, s\<lparr>sv_prices := Some ps', t_policies := pols\<rparr>)
                        | (Inr _, pols) \<Rightarrow> (Inr (), s\<lparr>sv_prices := Some ps', t_policies := pols\<rparr>))
                   | _ \<Rightarrow> (Inr (), s\<lparr>sv_prices := Some ps'\<rparr>))))
     | _ \<Rightarrow> (Inr (), s))"

definition audit_extra :: "approval_request \<Rightarrow> string \<Rightarrow> jobj" where
  "audit_extra a txHash = [(''type'', JStr (apr_ApprovalType a))] @ (if txHash \<noteq> [] then [(''tx_hash'', JStr txHash)] else []) @
     (case tx_context_map a of
        None \<Rightarrow> []
      | Some t \<Rightarrow> (if str_or_empty ''to'' t \<noteq> [] then [(''to'', JStr (str_or_empty ''to'' t))] else []) @
          (let (amount, currency) = extractAmountCurrency t
           in if amount \<noteq> [] then [(''amount'', JStr amount), (''currency'', JStr currency)] else []))"

definition finish_signed :: "'e server_env_scheme \<Rightarrow> ctx \<Rightarrow> approval_request \<Rightarrow> wallet \<Rightarrow> bytes \<Rightarrow> string \<Rightarrow> string \<Rightarrow> http_resp h" where
  "finish_signed env c a wallet sig txHash preDeducted =
     (if db_fails env ''update_approval'' then stop (respondInternalError c ''update approval failed''
         [(''stage'', JStr ''update_approval''), (''approval_id'', jnat (apr_ID a))])
      else let sigText = ''0x'' @ hex_encode sig
        in modify (set_approval env (apr_ID a) (\<lambda>r. r\<lparr>apr_Status := ''approved'', apr_Signature := sigText, apr_ApprovedBy := passkeyUserIDFromCtx c,
               apr_TxHash := (if txHash \<noteq> [] then txHash else apr_TxHash r)\<rparr>))
           (modify (updateAuditByApprovalID (db_fails env) (c_now c) (apr_ID a) ''success'' (audit_extra a txHash))
             (seq (post_add env c a txHash preDeducted) (\<lambda>_.
              seq (notify env a ''approved'' txHash) (\<lambda>_.
              ret (JSON 200 ([(''success'', JBool True), (''status'', JStr ''approved''), (''signature'', JStr sigText),
                (''wallet_address'', JStr (w_Address wallet)), (''chain'', JStr (w_Chain wallet))] @
                (if txHash \<noteq> [] then [(''tx_hash'', JStr txHash)] else []))))))))"

text \<open>From the decoded message on: refresh, sign, deduct, broadcast and record.\<close>

definition approve_signed :: "'e server_env_scheme \<Rightarrow> ctx \<Rightarrow> approval_request \<Rightarrow> wallet \<Rightarrow> bytes \<Rightarrow> http_resp h" where
  "approve_signed env c a wallet msg0 =
     seq (refresh_tx env a wallet msg0) (\<lambda>(msg, params).
     seq (sign_approved env c a wallet msg) (\<lambda>sig.
     seq (if params = None then ret [] else pre_deduct env c a) (\<lambda>preDeducted.
     seq (broadcast_approved env c a wallet params sig preDeducted) (\<lambda>txHash.
     finish_signed env c a wallet sig txHash preDeducted))))"

definition approve_sign :: "'e server_env_scheme \<Rightarrow> ctx \<Rightarrow> approval_request \<Rightarrow> http_resp h" where
  "approve_sign env c a = (case apr_WalletID a of
       None \<Rightarrow> stop (jsonError 400 ''approval has no wallet'')
     | Some wid \<Rightarrow> getting t_wallets (\<lambda>ws.
         case (if db_fails env ''first_wallet'' then None else first_row (\<lambda>w. w_ID w = wid) ws) of
           None \<Rightarrow> stop (jsonErrorDetails 500 ''wallet not found''
             [(''stage'', JStr ''load_wallet''), (''approval_id'', jnat (apr_ID a)), (''wallet_id'', JStr wid)])
         | Some wallet \<Rightarrow> (case decodeMessage_hex (apr_Message a) of
               None \<Rightarrow> stop (jsonErrorDetails 500 ''invalid stored message: invalid hex message''
                 [(''stage'', JStr ''decode_message''), (''approval_id'', jnat (apr_ID a))])
             | Some msg0 \<Rightarrow> approve_signed env c a wallet msg0)))"

subsection \<open>The endpoints\<close>

text \<open>The second reading of the approval, under its mutex.\<close>

definition reload_approval :: "'e server_env_scheme \<Rightarrow> approval_request \<Rightarrow> http_resp \<Rightarrow> approval_request h" where
  "reload_approval env a0 gone = getting t_approvals (\<lambda>as.
     case (if db_fails env ''reload_approval'' then None else first_row (\<lambda>a. apr_ID a = apr_ID a0) as) of None \<Rightarrow> stop gone | Some a \<Rightarrow> ret a)"

definition apply_approval :: "'e server_env_scheme \<Rightarrow> ctx \<Rightarrow> approval_request \<Rightarrow> http_resp h" where
  "apply_approval env c a =
     (if apr_ApprovalType a = ''contract_add'' then approve_contract_add env c a
      else if apr_ApprovalType a = ''contract_update'' then approve_contract_update env c a
      else if apr_ApprovalType a = ''addressbook_add'' then approve_entry_add env c a
      else if apr_ApprovalType a = ''addressbook_update'' then approve_entry_update env c a
      else if apr_ApprovalType a = ''policy_change'' then approve_policy_change env c a
      else approve_sign env c a)"

definition approve_pending :: "'e server_env_scheme \<Rightarrow> ctx \<Rightarrow> approval_request \<Rightarrow> http_resp h" where
  "approve_pending env c a =
     (if apr_Status a \<noteq> ''pending'' then stop (jsonError 400 (''approval is not pending (status: '' @ apr_Status a @ '')''))
      else if c_now c > apr_ExpiresAt a then
        modify (set_approval env (apr_ID a) (\<lambda>r. r\<lparr>apr_Status := ''expired''\<rparr>)) (stop (jsonError 400 ''approval has expired''))
      else apply_approval env c a)"

definition Approve :: "'e server_env_scheme \<Rightarrow> ctx \<Rightarrow> http_resp h" where
  "Approve env c =
     seq (verifyFreshPasskey env c) (\<lambda>_.
     seq (loadUserApproval env c) (\<lambda>a0.
     seq (reload_approval env a0 (jsonError 404 ''approval not found'')) (approve_pending env c)))"

definition Reject :: "'e server_env_scheme \<Rightarrow> ctx \<Rightarrow> http_resp h" where
  "Reject env c =
     seq (verifyFreshPasskey env c) (\<lambda>_.
     seq (loadUserApproval env c) (\<lambda>a0.
     seq (reload_approval env a0 (respondInternalError c ''failed to reload approval'' [(''stage'', JStr ''reload_approval''), (''approval_id'', jnat (apr_ID a0))])) (\<lambda>a.
     if apr_Status a \<noteq> ''pending'' then stop (jsonError 400 ''approval is not pending'')
     else if db_fails env ''update_approval'' then
       stop (respondInternalError c ''update failed'' [(''stage'', JStr ''reject_approval''), (''approval_id'', jnat (apr_ID a))])
     else modify (set_approval env (apr_ID a) (\<lambda>r. r\<lparr>apr_Status := ''rejected''\<rparr>))
       (modify (updateAuditByApprovalID (db_fails env) (c_now c) (apr_ID a) ''rejected'' [(''type'', JStr (apr_ApprovalType a))])
         (seq (notify env a ''rejected'' []) (\<lambda>_. ret (JSON 200 [(''success'', JBool True), (''status'', JStr ''rejected'')])))))))"

definition GetApproval :: "'e server_env_scheme \<Rightarrow> ctx \<Rightarrow> http_resp h" where
  "GetApproval env c =
     seq (loadUserApproval env c) (\<lambda>a0.
     let late = apr_Status a0 = ''pending'' \<and> c_now c > apr_ExpiresAt a0;
         a = (if late then a0\<lparr>apr_Status := ''expired''\<rparr> else a0)
     in modify (if late then set_approval env (apr_ID a0) (\<lambda>r. r\<lparr>apr_Status := ''expired''\<rparr>) else (\<lambda>s. s))
       (getting t_wallets (\<lambda>ws.
         ret (JSON 200 ([(''success'', JBool True), (''approval'', approval_json a), (''tx_context'', opt_json id (apr_TxContext a)),
           (''status'', JStr (apr_Status a)), (''approval_type'', JStr (apr_ApprovalType a)), (''tx_hash'', JStr (apr_TxHash a))] @
           (case apr_WalletID a of
              None \<Rightarrow> []
            | Some wid \<Rightarrow> (''wallet_id'', JStr wid) #
                (case (if db_fails env ''first_wallet'' then None else first_row (\<lambda>w. w_ID w = wid) ws) of
                   None \<Rightarrow> [] | Some w \<Rightarrow> [(''chain'', JStr (w_Chain w))])))))))"

definition query_int :: "ctx \<Rightarrow> string \<Rightarrow> (int \<Rightarrow> bool) \<Rightarrow> int \<Rightarrow> int" where
  "query_int c k ok dflt = (case num_int 64 (query c k) of Some v \<Rightarrow> if ok v then v else dflt | None \<Rightarrow> dflt)"

definition ListPending :: "'e server_env_scheme \<Rightarrow> ctx \<Rightarrow> http_resp h" where
  "ListPending env c =
     seq (mustUserID c) (\<lambda>userID.
     let limit = query_int c ''limit'' (\<lambda>v. 0 < v \<and> v \<le> 500) 100; offset = query_int c ''offset'' (\<lambda>v. 0 \<le> v) 0
     in if db_fails env ''list_approvals'' then stop (respondInternalError c ''db error'' [(''stage'', JStr ''list_pending''), (''user_id'', jnat userID)])
        else getting t_approvals (\<lambda>as.
          ret (JSON 200 [(''success'', JBool True), (''approvals'', JArr (map approval_json (take (nat limit) (drop (nat offset)
            (sort_key (\<lambda>a. - apr_CreatedAt a) (filter (\<lambda>a. apr_UserID a = userID \<and> apr_Status a = ''pending'' \<and> apr_ExpiresAt a > c_now c) as))))))])))"

text \<open>One tick of the expiry loop.\<close>

definition expire_pending :: "'e server_env_scheme \<Rightarrow> int \<Rightarrow> server \<Rightarrow> server" where
  "expire_pending env now s = (if db_fails env ''expire_approvals'' then s
     else s\<lparr>t_approvals := update_rows (\<lambda>a. apr_Status a = ''pending'' \<and> apr_ExpiresAt a < now) (\<lambda>a. a\<lparr>apr_Status := ''expired''\<rparr>) (t_approvals s)\<rparr>)"

end
