(* ===== verification/TransferSafety.thy ===== *)
theory TransferSafety
  imports WalletTx Idem
begin

text \<open>
  Safety of the transfer endpoint. The guards, the builders and the balance check change nothing but the request journal and
  the chain-identifier cache, so the outcome is decided by the policy stage: either the request is signed and an active
  policy is satisfied, or an approval is created and nothing is signed. Two theorems state the two outcomes on
  the whole handler, and sample requests show that both occur.
\<close>

subsection \<open>What the parts of a handler leave alone\<close>

lemma keeps_getting [keeps_intro]: "(\<And>x. keeps (k x)) \<Longrightarrow> keeps (getting f k)"
  by (simp add: keeps_def)

lemma keeps_mustUserID [keeps_intro]: "keeps (mustUserID c)"
  by (simp add: keeps_def mustUserID_def split: option.splits)

lemma snd_recovered [simp]: "snd (recovered m s) = snd (m s)"
  by (auto simp: recovered_def split: prod.splits sum.splits gerr.splits)

lemma keeps_recovered [keeps_intro]: "keeps m \<Longrightarrow> keeps (recovered m)"
  by (simp add: keeps_def)

lemma keeps_sum [keeps_intro]: "(\<And>x. keeps (f x)) \<Longrightarrow> (\<And>x. keeps (g x)) \<Longrightarrow> keeps (case r of Inl x \<Rightarrow> f x | Inr x \<Rightarrow> g x)"
  by (simp split: sum.splits)

lemma keeps_or_fail [keeps_intro]: "keeps m \<Longrightarrow> keeps (or_fail f m)"
  unfolding or_fail_def by (intro keeps_intro)

lemma keeps_requests [keeps_intro]:
  "keeps (CheckIdempotency env c key u)" "keeps (loadUserWallet env c)" "keeps (bind_json env c dec)" "keeps panics"
  "keeps (resolve_to env u w cfg a)"
  unfolding CheckIdempotency_def loadUserWallet_def bind_json_def panics_def resolve_to_def by (intro keeps_intro)+

lemma keeps_check_balance [keeps_intro]: "keeps (check_balance env w cfg plan)"
  unfolding check_balance_def preflightNativeBalance_def by (intro keeps_intro)

lemma keeps_build_transfer [keeps_intro]: "keeps (build_transfer env w cfg a amount req)"
  unfolding build_transfer_def build_evm_token_def build_evm_native_def build_sol_token_def build_sol_native_def
  by (intro keeps_intro)

lemma keeps_prepare_transfer: "keeps (prepare_transfer env c)"
  unfolding prepare_transfer_def by (intro keeps_intro)

lemma keeps_prepare_wrap: "keeps (prepare_wrap env c what)" "keeps (build_wrap env c w cfg)"
  unfolding prepare_wrap_def build_wrap_def by (intro keeps_intro)+



text \<open>The journal after a signing: the message first, then retries with the same key and, for a stored EVM transaction, the
  same intent.\<close>

definition signed_with :: "'e server_env_scheme \<Rightarrow> wallet \<Rightarrow> bytes \<Rightarrow> json \<Rightarrow> server \<Rightarrow> server \<Rightarrow> bool" where
  "signed_with env w msg params s s' \<longleftrightarrow> (\<exists>reqs. sv_signs s' = sv_signs s @ (msg, w_KeyName w) # reqs \<and> length reqs \<le> 3
     \<and> (\<forall>q \<in> set reqs. snd q = w_KeyName w)
     \<and> (\<forall>p. params = eth_to_json p \<and> ETHSigningHash env p = Inr msg \<longrightarrow> loop_requests env w p ((msg, w_KeyName w) # reqs)))"

lemma signAndBroadcast_effect:
  assumes "signAndBroadcast env w msg (Some j) s = (r, s')"
  shows "signed_with env w msg j s s' \<and> t_approvals s' = t_approvals s"
proof -
  have run: "sign_loop (Suc 3) env w msg (Some j) s = (r, s')"
    using assms by (simp add: signAndBroadcast_def rbfMaxAttempts_def numeral_eq_Suc)
  from sign_loop_effect [OF run] obtain reqs where
    reqs: "rpc_state.more s' = rpc_state.more (s\<lparr>sv_signs := sv_signs s @ (msg, w_KeyName w) # reqs\<rparr>)"
      "\<forall>q \<in> set reqs. snd q = w_KeyName w" "length reqs \<le> 3" by blast
  have "loop_requests env w p ((msg, w_KeyName w) # reqs)" if "j = eth_to_json p" "ETHSigningHash env p = Inr msg" for p
    using sign_loop_requests [OF that(2), of 3 w s r s'] run that(1) more_signs [OF reqs(1)] by auto
  then show ?thesis using reqs(2,3) more_signs [OF reqs(1)] more_fields(2) [OF reqs(1)] by (auto simp: signed_with_def)
qed

subsection \<open>The policy stage\<close>

text \<open>The dollar value the policy is checked against.\<close>

definition transfer_usd :: "'e server_env_scheme \<Rightarrow> ctx \<Rightarrow> chain_config \<Rightarrow> tx_plan \<Rightarrow> string \<Rightarrow> server \<Rightarrow> f64" where
  "transfer_usd env c cfg plan amountText s = (case sv_prices s of None \<Rightarrow> Some (Fin 0)
     | Some ps \<Rightarrow> fst (usd_value (price_get env) (c_now c) cfg (pl_Currency plan) (pl_Contract plan) amountText ps))"

lemma price_transfer_run:
  "\<exists>q. price_transfer env c cfg plan amt b s = (Inr (if b then transfer_usd env c cfg plan amt s else Some (Fin 0)), s\<lparr>sv_prices := q\<rparr>)"
  by (cases "sv_prices s") (auto simp: price_transfer_def transfer_usd_def split: prod.splits intro: exI [of _ "sv_prices s"])

lemma deduct_limit_state: "\<exists>ps. snd (deduct_limit env c w pol v s) = s\<lparr>t_policies := ps\<rparr>"
  by (auto simp: deduct_limit_def Let_def split: prod.splits sum.splits gerr.splits intro: exI [of _ "t_policies s"])

lemma release_limit_state: "\<exists>ps. snd (release_limit env c w d s) = s\<lparr>t_policies := ps\<rparr>"
  by (auto simp: release_limit_def split: prod.splits sum.splits intro: exI [of _ "t_policies s"])

lemma writeAudit_state: "\<exists>l. writeAuditCtx dbe c action status wid details aid s = s\<lparr>t_audit := l\<rparr>"
  by (auto simp: writeAuditCtx_def writeAuditLog_def split: option.splits prod.splits intro: exI [of _ "t_audit s"])

text \<open>A request that creates an approval signs nothing; without the approval no table of approvals changes.\<close>

lemma createApprovalRequest_cases:
  assumes "createApprovalRequest env c w msg t pol params s = (r, s')"
  shows "sv_signs s' = sv_signs s \<and> ((\<exists>e. r = Inl e) \<and> t_approvals s' = t_approvals s
     \<or> (\<exists>u i resp. c_userID c = Some u \<and> r = Inr resp \<and> rs_status resp = 202 \<and> i \<notin> apr_ID ` set (t_approvals s)
        \<and> t_approvals s' = t_approvals s @ [approval_defaults (approval_of env c u w (hex_encode msg) t params\<lparr>apr_ID := i\<rparr>)]))"
proof (cases "c_userID c")
  case None
  then show ?thesis using assms by (auto simp: createApprovalRequest_def mustUserID_def seq_def)
next
  case (Some u)
  let ?a = "approval_of env c u w (hex_encode msg) t params"
  obtain ra sa where ca: "create_approval env ?a s = (ra, sa)" by fastforce
  have st: "sv_signs (writeAuditCtx dbe c x y z d i q) = sv_signs q \<and> t_approvals (writeAuditCtx dbe c x y z d i q) = t_approvals q" for dbe x y z d i q
    using writeAudit_state [of dbe c x y z d i q] by auto
  show ?thesis
  proof (cases ra)
    case (Inl e)
    then have "sa = s" using ca by (auto simp: create_approval_def split: sum.splits if_splits)
    then show ?thesis using assms Some ca Inl by (auto simp: createApprovalRequest_def mustUserID_def seq_def)
  next
    case (Inr a)
    then obtain i where i: "approval_id_loop 10 (id_draws env) (map apr_ID (t_approvals s)) = Inr i"
      "sa = s\<lparr>t_approvals := t_approvals s @ [approval_defaults (?a\<lparr>apr_ID := i\<rparr>)]\<rparr>"
      using ca by (auto simp: create_approval_def BeforeCreate_def approval_of_def and_then_def split: sum.splits if_splits)
    then have "i \<notin> apr_ID ` set (t_approvals s)" using approval_id_loop_range by fastforce
    then show ?thesis using assms Some ca Inr i(2) st
      by (auto simp: createApprovalRequest_def mustUserID_def seq_def JSON_def)
  qed
qed

text \<open>The direct path asks for signatures with the key of the wallet and creates no approval.\<close>

lemma sign_direct_effect:
  assumes "sign_direct env c w msg params d f ds s = (r, s')"
  shows "signed_with env w msg params s s' \<and> t_approvals s' = t_approvals s"
proof -
  obtain sb s1 where sb: "signAndBroadcast env w msg (Some params) s = (sb, s1)" by fastforce
  have "\<exists>ps. s' = s1\<lparr>t_policies := ps\<rparr>"
    using assms sb release_limit_state [of env c w d s1]
    by (auto simp: sign_direct_def seq_def split: sum.splits sb_error.splits prod.splits intro: exI [of _ "t_policies s1"])
  then show ?thesis using signAndBroadcast_effect [OF sb] by (auto simp: signed_with_def)
qed

lemma audit_idem_state:
  assumes "respondWithIdempotency env c key u resp (writeAuditCtx dbe c a st wid d i s) = (r, s')"
  shows "sv_signs s' = sv_signs s \<and> t_approvals s' = t_approvals s \<and> r = Inr resp"
  using assms writeAudit_state [of dbe c a st wid d i s] by (auto simp: respondWithIdempotency_def)

lemma transfer_direct_effect:
  assumes "transfer_direct env c u w req plan d s = (r, s')"
  shows "signed_with env w (pl_Msg plan) (pl_Params plan) s s' \<and> t_approvals s' = t_approvals s"
  using assms unfolding transfer_direct_def Let_def seq_def
  by (auto simp: signed_with_def split: prod.splits sum.splits dest!: sign_direct_effect audit_idem_state)

text \<open>What an active policy demands of a transfer that is signed without an approval.\<close>

definition within_policy :: "'e server_env_scheme \<Rightarrow> ctx \<Rightarrow> wallet \<Rightarrow> f64 \<Rightarrow> tx_plan \<Rightarrow> server \<Rightarrow> bool" where
  "within_policy env c w v plan s \<longleftrightarrow> (case load_active (db_fails env) (w_ID w) (t_policies s) of
       None \<Rightarrow> True
     | Some pol \<Rightarrow> \<not> over_threshold pol v \<and> (f64_is0 v \<and> pl_Contract plan \<noteq> [] \<longrightarrow> isPasskeyAuth c)
         \<and> (pol_DailyLimitUSD pol \<noteq> [] \<and> f64_gt0 v \<longrightarrow>
             (\<exists>msg ps. checkAndDeductDailyLimitUSD (db_fails env) (c_now c) (w_ID w)
                (bf_Text 6 (bf_SetFloat64 (the v))) (t_policies s) = (Inr (False, msg), ps))))"

lemma deduct_limit_Inr:
  assumes "deduct_limit env c w pol v s = (Inr d, s')" and "pol_DailyLimitUSD pol \<noteq> []" and "f64_gt0 v"
  shows "\<exists>msg ps. checkAndDeductDailyLimitUSD (db_fails env) (c_now c) (w_ID w) (bf_Text 6 (bf_SetFloat64 (the v))) (t_policies s) = (Inr (False, msg), ps)"
  using assms by (auto simp: deduct_limit_def f64_gt0_def Let_def split: option.splits prod.splits sum.splits gerr.splits if_splits)

text \<open>The two outcomes of the policy stage that matter: signed within the policy, or left to an approval, and never both.\<close>

definition awaits :: "'e server_env_scheme \<Rightarrow> ctx \<Rightarrow> wallet \<Rightarrow> bytes \<Rightarrow> jobj \<Rightarrow> json \<Rightarrow> http_resp + http_resp \<Rightarrow> server \<Rightarrow> server \<Rightarrow> bool" where
  "awaits env c w msg t params r s s' \<longleftrightarrow> sv_signs s' = sv_signs s \<and> (t_approvals s' = t_approvals s
     \<or> (\<exists>u i resp. c_userID c = Some u \<and> r = Inr resp \<and> rs_status resp = 202 \<and> i \<notin> apr_ID ` set (t_approvals s)
        \<and> t_approvals s' = t_approvals s @ [approval_defaults (approval_of env c u w (hex_encode msg) t (Some params)\<lparr>apr_ID := i\<rparr>)]))"

lemma awaits_create: "createApprovalRequest env c w msg t pol (Some params) s = (r, s') \<Longrightarrow> awaits env c w msg t params r s s'"
  using createApprovalRequest_cases unfolding awaits_def by blast

lemma awaits_same: "sv_signs s' = sv_signs s \<Longrightarrow> t_approvals s' = t_approvals s \<Longrightarrow> awaits env c w msg t params r s s'"
  by (simp add: awaits_def)

lemma awaits_from: "awaits env c w msg t params r s1 s' \<Longrightarrow> sv_signs s1 = sv_signs s \<Longrightarrow> t_approvals s1 = t_approvals s \<Longrightarrow>
    awaits env c w msg t params r s s'"
  by (simp add: awaits_def)

lemma policy_route_cases:
  assumes "policy_route env c w policy v msg t params direct s = (r, s')"
  shows "awaits env c w msg t params r s s'
     \<or> (\<exists>d s1. direct d s1 = (r, s') \<and> sv_signs s1 = sv_signs s \<and> t_approvals s1 = t_approvals s
        \<and> (\<forall>pol. policy = Some pol \<longrightarrow> \<not> over_threshold pol v \<and> (\<exists>s2. deduct_limit env c w pol v s = (Inr d, s2))))"
proof (cases policy)
  case None
  then show ?thesis using assms by (auto simp: policy_route_def)
next
  case (Some pol)
  obtain rd sd where d: "deduct_limit env c w pol v s = (rd, sd)" by fastforce
  have sd: "sv_signs sd = sv_signs s" "t_approvals sd = t_approvals s"
    using deduct_limit_state [of env c w pol v s] d by auto
  show ?thesis
  proof (cases rd)
    case (Inl e)
    then show ?thesis using assms Some d sd by (auto simp: policy_route_def seq_def intro: awaits_same)
  next
    case (Inr dd)
    show ?thesis
    proof (cases "over_threshold pol v")
      case True
      obtain rr sr where rr: "release_limit env c w dd sd = (rr, sr)" by fastforce
      have sr: "sv_signs sr = sv_signs s" "t_approvals sr = t_approvals s"
        using release_limit_state [of env c w dd sd] rr sd by auto
      show ?thesis using assms Some d Inr True rr sr awaits_from [OF awaits_create]
        by (cases rr) (auto simp: policy_route_def seq_def intro: awaits_same)
    next
      case False
      then show ?thesis using assms Some d Inr sd by (auto simp: policy_route_def seq_def)
    qed
  qed
qed

lemma settle_transfer_cases:
  assumes "settle_transfer env c u w cfg req plan s = (r, s')"
  shows "awaits env c w (pl_Msg plan) (transfer_context w req plan) (pl_Params plan) r s s'
     \<or> (\<exists>d s1. transfer_direct env c u w req plan d s1 = (r, s') \<and> sv_signs s1 = sv_signs s \<and> t_approvals s1 = t_approvals s
        \<and> within_policy env c w (transfer_usd env c cfg plan (tr_Amount req) s) plan s)"
proof -
  let ?pol = "load_active (db_fails env) (w_ID w) (t_policies s)" and ?v = "transfer_usd env c cfg plan (tr_Amount req) s"
    and ?t = "transfer_context w req plan"
  obtain q where q: "price_transfer env c cfg plan (tr_Amount req) (?pol \<noteq> None) s = (Inr (if ?pol \<noteq> None then ?v else Some (Fin 0)), s\<lparr>sv_prices := q\<rparr>)"
    using price_transfer_run by blast
  let ?s1 = "s\<lparr>sv_prices := q\<rparr>"
  show ?thesis
  proof (cases ?pol)
    case None
    then show ?thesis using assms q
      by (auto simp: settle_transfer_def load_policy_def seq_def policy_route_def within_policy_def intro!: exI [of _ ?s1])
  next
    case (Some pol)
    show ?thesis
    proof (cases "f64_is0 ?v \<and> pl_Contract plan \<noteq> [] \<and> \<not> isPasskeyAuth c")
      case True
      then have "createApprovalRequest env c w (pl_Msg plan) ?t pol (Some (pl_Params plan)) ?s1 = (r, s')"
        using assms q Some by (auto simp: settle_transfer_def load_policy_def seq_def)
      from awaits_from [OF awaits_create [OF this], of s] show ?thesis by simp
    next
      case False
      then have "policy_route env c w (Some pol) ?v (pl_Msg plan) ?t (pl_Params plan) (transfer_direct env c u w req plan) ?s1 = (r, s')"
        using assms q Some by (simp add: settle_transfer_def load_policy_def seq_def split: if_splits)
      from policy_route_cases [OF this] show ?thesis
      proof
        assume "awaits env c w (pl_Msg plan) ?t (pl_Params plan) r ?s1 s'"
        from awaits_from [OF this, of s] show ?thesis by simp
      next
        assume "\<exists>d s1. transfer_direct env c u w req plan d s1 = (r, s') \<and> sv_signs s1 = sv_signs ?s1 \<and> t_approvals s1 = t_approvals ?s1
          \<and> (\<forall>p. Some pol = Some p \<longrightarrow> \<not> over_threshold p ?v \<and> (\<exists>s2. deduct_limit env c w p ?v ?s1 = (Inr d, s2)))"
        then obtain d s1 s2 where "transfer_direct env c u w req plan d s1 = (r, s')" "sv_signs s1 = sv_signs s" "t_approvals s1 = t_approvals s"
          and ok: "\<not> over_threshold pol ?v" "deduct_limit env c w pol ?v ?s1 = (Inr d, s2)" by auto
        moreover have "within_policy env c w ?v plan s"
          using ok(1) False deduct_limit_Inr [OF ok(2)] by (auto simp: within_policy_def Some)
        ultimately show ?thesis by blast
      qed
    qed
  qed
qed

text \<open>What the guards have established about the wallet and the token.\<close>

lemma prepare_transfer_Inr:
  assumes "prepare_transfer env c s = (Inr (u, w, cfg, req, plan), s')"
  shows "c_userID c = Some u \<and> w \<in> set (t_wallets s) \<and> w_ID w = c_id c \<and> w_UserID w = u \<and> w_Status w = ''ready''
     \<and> GetChain (env_chains env) (w_Chain w) = Some cfg"
  using assms
  by (auto simp: prepare_transfer_def mustUserID_def CheckIdempotency_def loadUserWallet_def io_simps
      split: option.splits if_splits dest!: first_row_Some)

text \<open>The plan of a transfer: an EVM plan carries the signing hash of its parameters, a token is on the allow list.\<close>

lemma or_fail_Inr: "or_fail f m s = (Inr x, s') \<longleftrightarrow> m s = (Inr x, s')"
  by (auto simp: or_fail_def recovered_def seq_def split: prod.splits sum.splits gerr.splits)

text \<open>An EVM transaction is the one of the plan: it has the hash to be signed, the recipient and the amount.\<close>

definition evm_matches :: "'e server_env_scheme \<Rightarrow> bigfloat \<Rightarrow> tx_plan \<Rightarrow> eth_tx_params \<Rightarrow> bool" where
  "evm_matches env amount plan p \<longleftrightarrow> pl_Params plan = eth_to_json p \<and> ETHSigningHash env p = Inr (pl_Msg plan)
     \<and> (if pl_Type plan = ''transfer''
        then eth_To p = pl_To plan \<and> eth_Data p = [] \<and> (\<exists>wei. eth_to_wei amount = Inr wei \<and> eth_Value p = int_text 10 wei)
        else eth_To p = pl_Contract plan \<and> eth_Value p = int_text 10 0
          \<and> (\<exists>d units cd. token_units amount d = Some units \<and> EncodeERC20Transfer env (pl_To plan) units = Inr cd \<and> eth_Data p = hex_encode cd))"

lemma build_evm_native_matches:
  assumes "build_evm_native env w cfg a amount t s = (Inr plan, s')"
  shows "\<exists>p. evm_matches env amount plan p \<and> pl_To plan = a"
proof -
  from assms obtain d where d: "BuildETHTx env (cc_RPCURL cfg) (w_Address w) a amount s = (Inr d, s')"
    and plan: "pl_To plan = a" "pl_Msg plan = etd_SigningHash d" "pl_Params plan = eth_to_json (etd_Params d)" "pl_Type plan = ''transfer''"
    by (auto simp: build_evm_native_def or_fail_Inr panics_def io_simps split: option.splits)
  from d have "eth_To (etd_Params d) = a" "eth_Data (etd_Params d) = []"
    "\<exists>wei. eth_to_wei amount = Inr wei \<and> eth_Value (etd_Params d) = int_text 10 wei"
    by (rule BuildETHTx_Inr, simp add: params_of_def)+
  then show ?thesis using plan BuildETHTx_hash [OF d] by (auto simp: evm_matches_def)
qed

lemma build_evm_token_matches:
  assumes "build_evm_token env w cfg a amount tk s = (Inr plan, s')"
  shows "\<exists>p. evm_matches env amount plan p \<and> pl_To plan = a"
proof -
  from assms obtain al units cd d where u: "token_units amount al = Some units" "EncodeERC20Transfer env a units = Inr cd"
    and d: "BuildETHContractCallTx env (cc_RPCURL cfg) (w_Address w) (pl_Contract plan) cd None s = (Inr d, s')"
    and plan: "pl_To plan = a" "pl_Msg plan = etd_SigningHash d" "pl_Params plan = eth_to_json (etd_Params d)" "pl_Type plan = ''erc20_transfer''"
    by (auto simp: build_evm_token_def or_fail_Inr panics_def Let_def io_simps split: option.splits if_splits sum.splits)
  from d have "eth_To (etd_Params d) = pl_Contract plan" "eth_Value (etd_Params d) = int_text 10 0" "eth_Data (etd_Params d) = hex_encode cd"
    by (rule BuildETHContractCallTx_Inr, simp add: params_of_def)+
  then show ?thesis using u plan BuildETHContractCallTx_hash [OF d] by (auto simp: evm_matches_def)
qed

lemma build_transfer_evm:
  assumes "build_transfer env w cfg a amount req s = (Inr plan, s')" and "cc_Family cfg = ''evm''"
  shows "\<exists>p. evm_matches env amount plan p \<and> normalizeEVMAddress a = Inr (pl_To plan)"
  using assms by (auto simp: build_transfer_def split: sum.splits option.splits dest!: build_evm_native_matches build_evm_token_matches)

lemma build_transfer_allowed:
  assumes "build_transfer env w cfg a amount req s = (Inr plan, s')" and "pl_Contract plan \<noteq> []"
  shows "\<exists>al \<in> set (t_contracts s). ac_UserID al = w_UserID w \<and> ac_Chain al = w_Chain w \<and> ac_ContractAddress al = pl_Contract plan"
  using assms
  by (auto simp: build_transfer_def build_evm_token_def build_evm_native_def build_sol_token_def build_sol_native_def allowed_row_def
      or_fail_Inr panics_def Let_def io_simps split: sum.splits option.splits if_splits dest!: first_row_Some)

lemma prepare_transfer_plan:
  assumes "prepare_transfer env c s = (Inr (u, w, cfg, req, plan), s')"
  shows "\<exists>amount a s1 s2. positive_float (tr_Amount req) = Some amount \<and> build_transfer env w cfg a amount req s1 = (Inr plan, s2)
     \<and> rpc_state.more s1 = rpc_state.more s"
proof -
  obtain s0 s1 s2 s3 s4 amount a where
    "mustUserID c s = (Inr u, s0)" "CheckIdempotency env c (IdempotencyKey c) u s0 = (Inr (), s1)"
    "loadUserWallet env c s1 = (Inr w, s2)" "bind_json env c transfer_request_of_json s2 = (Inr req, s3)"
    "positive_float (tr_Amount req) = Some amount" "resolve_to env u w cfg (tr_To req) s3 = (Inr a, s4)"
    and b: "\<exists>s5. build_transfer env w cfg a amount req s4 = (Inr plan, s5)"
    using assms unfolding prepare_transfer_def by (auto split: option.splits if_splits)
  moreover from this have "rpc_state.more s4 = rpc_state.more s"
    by (metis keepsD keeps_mustUserID keeps_requests)
  ultimately show ?thesis by blast
qed

lemma within_policy_more:
  assumes "rpc_state.more s1 = rpc_state.more s"
  shows "within_policy env c w (transfer_usd env c cfg plan amt s1) plan s1 = within_policy env c w (transfer_usd env c cfg plan amt s) plan s"
  unfolding within_policy_def transfer_usd_def by (simp only: more_fields(3,6) [OF assms])

text \<open>A transfer that signs or creates an approval has passed its guards and ends in one of the two outcomes.\<close>

lemma Transfer_cases:
  assumes "Transfer env c s = (r, s')" and "sv_signs s' \<noteq> sv_signs s \<or> t_approvals s' \<noteq> t_approvals s"
  obtains u w cfg req plan s1 where "prepare_transfer env c s = (Inr (u, w, cfg, req, plan), s1)"
    "awaits env c w (pl_Msg plan) (transfer_context w req plan) (pl_Params plan) r s s'
     \<or> (\<exists>d s2. transfer_direct env c u w req plan d s2 = (r, s') \<and> sv_signs s2 = sv_signs s \<and> t_approvals s2 = t_approvals s
        \<and> within_policy env c w (transfer_usd env c cfg plan (tr_Amount req) s) plan s)"
proof -
  have "\<exists>x s1. prepare_transfer env c s = (Inr x, s1)"
  proof (rule ccontr)
    assume "\<nexists>x s1. prepare_transfer env c s = (Inr x, s1)"
    then have "s' = snd (prepare_transfer env c s)" using assms(1)
      by (auto simp: Transfer_def seq_def split: prod.splits sum.splits)
    then show False using more_fields(1,2) [OF keeps_snd [OF keeps_prepare_transfer, of env c s]] assms(2) by simp
  qed
  then obtain u w cfg req plan s1 where prep: "prepare_transfer env c s = (Inr (u, w, cfg, req, plan), s1)" by fastforce
  have k: "rpc_state.more s1 = rpc_state.more s" using keepsD [OF keeps_prepare_transfer prep] .
  have "settle_transfer env c u w cfg req plan s1 = (r, s')" using assms(1) prep by (simp add: Transfer_def seq_def)
  from settle_transfer_cases [OF this] show thesis
    using that [OF prep] awaits_from more_fields(1,2) [OF k] within_policy_more [OF k] by metis
qed


text \<open>C21. A transfer request that creates an approval answers 202, signs nothing, and appends exactly one approval: a
  pending one with a fresh identifier, of the owner and the wallet of the request, that expires after the
  configured time and stores the message and the parameters of the transaction that was built.\<close>

theorem transfer_approval_pending:
  assumes "Transfer env c s = (r, s')" and "t_approvals s' \<noteq> t_approvals s"
  shows "\<exists>u w cfg req plan s1 a. prepare_transfer env c s = (Inr (u, w, cfg, req, plan), s1)
    \<and> (\<exists>resp. r = Inr resp \<and> rs_status resp = 202) \<and> sv_signs s' = sv_signs s
    \<and> t_approvals s' = t_approvals s @ [a] \<and> apr_ID a \<notin> apr_ID ` set (t_approvals s) \<and> apr_Status a = ''pending''
    \<and> apr_UserID a = u \<and> w_UserID w = u \<and> apr_WalletID a = Some (w_ID w) \<and> apr_ExpiresAt a = c_now c + approvalExpiry env
    \<and> apr_Message a = hex_encode (pl_Msg plan) \<and> apr_TxParams a = Some (pl_Params plan) \<and> apr_Signature a = [] \<and> apr_ApprovedBy a = None"
proof -
  obtain u w cfg req plan s1 where prep: "prepare_transfer env c s = (Inr (u, w, cfg, req, plan), s1)"
    and aw: "awaits env c w (pl_Msg plan) (transfer_context w req plan) (pl_Params plan) r s s'"
    using Transfer_cases [OF assms(1) disjI2 [OF assms(2)]] assms(2) transfer_direct_effect by metis
  have own: "c_userID c = Some u" "w_UserID w = u" using prepare_transfer_Inr [OF prep] by auto
  from aw own(1) assms(2) obtain i resp where "r = Inr resp" "rs_status resp = 202" "i \<notin> apr_ID ` set (t_approvals s)" "sv_signs s' = sv_signs s"
    "t_approvals s' = t_approvals s @ [approval_defaults (approval_of env c u w (hex_encode (pl_Msg plan)) (transfer_context w req plan) (Some (pl_Params plan))\<lparr>apr_ID := i\<rparr>)]"
    by (auto simp: awaits_def)
  then show ?thesis using prep own
    by (intro exI [of _ u] exI [of _ w] exI [of _ cfg] exI [of _ req] exI [of _ plan] exI [of _ s1] exI conjI)
      (auto simp: approval_defaults_def approval_of_def)
qed

subsection \<open>A sample transfer\<close>

definition demo_to :: string where
  "demo_to = ''0x'' @ replicate 40 (CHR ''b'')"

definition demo_transfer :: ctx where
  "demo_transfer = demo_ctx\<lparr>c_body := Some (JObj [(''to'', JStr demo_to), (''amount'', JStr ''1'')])\<rparr>"

lemma demo_request:
  "transfer_request_of_json (JObj [(''to'', JStr demo_to), (''amount'', JStr ''1'')]) =
     Some \<lparr>tr_To = demo_to, tr_Amount = ''1'', tr_Memo = [], tr_Token = None\<rparr>"
  "positive_float ''1'' = Some \<lparr>bf_prec = 64, bf_val = Fin 1\<rparr>" "LooksLikeAddress demo_to ''evm''" "normalizeEVMAddress demo_to = Inr demo_to"
  "to_lower demo_to \<noteq> to_lower ''0xa''"
  by code_simp+

lemma demo_build:
  "\<exists>d s'. BuildETHTx demo_env ''http://node'' ''0xa'' demo_to \<lparr>bf_prec = 64, bf_val = Fin 1\<rparr> s = (Inr d, s')
     \<and> eth_Value (etd_Params d) = int_text 10 1000000000000000000 \<and> ethGasCost (etd_Params d) = 21000294000"
  using demo_params [of "''http://node''" "''0xa''" s]
  by (auto simp: BuildETHTx_def sample_wei seq_def Let_def ethGasCost_def ethDefaultGasLimit_def)

lemma demo_balance: "set_string 16 (trim_prefix ''0xffffffffffffffffffff'' ''0x'') = Some 1208925819614629174706175"
proof -
  have "digit_in 16 (CHR ''f'') = Some 15" by code_simp
  then show ?thesis by (simp add: set_string_def parse_nat_def trim_prefix_def has_prefix_def horner_def)
qed

lemma demo_prepare:
  assumes "t_wallets s = [demo_wallet]" and "t_idem s = []"
  shows "\<exists>u w cfg req plan s1. prepare_transfer demo_env demo_transfer s = (Inr (u, w, cfg, req, plan), s1) \<and> w = demo_wallet \<and> cfg = demo_chain
    \<and> tr_Amount req = ''1'' \<and> pl_Currency plan = ''ETH'' \<and> pl_Contract plan = []"
proof -
  let ?plan = "\<lambda>d. \<lparr>pl_To = demo_to, pl_Msg = etd_SigningHash d, pl_Params = eth_to_json (etd_Params d), pl_Currency = ''ETH'', pl_Type = ''transfer'',
      pl_Contract = [], pl_Required = 1000000021000294000, pl_GasOnly = False\<rparr>"
  obtain d s1 where b: "BuildETHTx demo_env ''http://node'' ''0xa'' demo_to \<lparr>bf_prec = 64, bf_val = Fin 1\<rparr> s = (Inr d, s1)"
    and v: "eth_Value (etd_Params d) = int_text 10 1000000000000000000" "ethGasCost (etd_Params d) = 21000294000"
    using demo_build [of s] by blast
  have d: "build_evm_native demo_env demo_wallet demo_chain demo_to \<lparr>bf_prec = 64, bf_val = Fin 1\<rparr> ''1'' s = (Inr (?plan d), s1)"
    using b v by (simp add: build_evm_native_def seq_def or_fail_def recovered_def demo_chain_def mk_chain_def demo_wallet_def)
  have "bf_Quo 0 (bf_SetInt i) (bf_SetFloat64 (Fin 1000000000000000000)) \<noteq> None" for i
    by (simp add: bf_Quo_def bf_SetInt_def bf_SetFloat64_def Let_def)
  then obtain q where "bf_Quo 0 (bf_SetInt 1208925819614629174706175) (bf_SetFloat64 (Fin 1000000000000000000)) = Some q" by blast
  then have "\<exists>s2. check_balance demo_env demo_wallet demo_chain (?plan d) s1 = (Inr (), s2)"
    by (simp add: check_balance_def recovered_def preflightNativeBalance_def GetBalance_def getETHBalance_def demo_chain_def mk_chain_def
        seq_def demo_call demo_answer_def result_str_def jget_def demo_balance)
  then show ?thesis using assms d
    by (auto simp: prepare_transfer_def demo_transfer_def demo_ctx_def seq_def mustUserID_def CheckIdempotency_def Idem_Check_def loadUserWallet_def
        first_row_def bind_json_def demo_request build_transfer_def resolve_to_def GetChain_def demo_env_def chain_env.defs
        demo_wallet_def demo_chain_def mk_chain_def)
qed


definition demo_policy :: approval_policy where
  "demo_policy = \<lparr>pol_ID = 1, pol_WalletID = ''w1'', pol_ThresholdUSD = ''100'', pol_DailyLimitUSD = [], pol_DailySpentUSD = ''0'',
     pol_DailyResetAt = 0, pol_Enabled = True, pol_CreatedAt = 0\<rparr>"

definition demo_guarded :: server where
  "demo_guarded = demo_server\<lparr>t_policies := [demo_policy], sv_prices := Some (sample_prices\<lparr>ps_prices := [(''ETH'', Some (Fin 2000))]\<rparr>)\<rparr>"

lemma demo_over: "over_threshold demo_policy (fst (usd_value hget now demo_chain ''ETH'' [] ''1'' (the (sv_prices demo_guarded))))"
proof -
  have one: "bf_SetString ''1'' = Some \<lparr>bf_prec = 64, bf_val = Fin 1\<rparr>" "to_upper (trim_space ''ETH'') = ''ETH''"
    "positive_float ''100'' = Some \<lparr>bf_prec = 64, bf_val = Fin 100\<rparr>" by code_simp+
  show ?thesis
    using round64_int [of 1] round64_int [of 2000]
    by (simp add: over_threshold_def usd_value_def usd_by_contract_def demo_guarded_def GetUSDPrice_def stablecoins_def coinGeckoIDs_def
        usable_price_def f64_gt0_def usd_of_def one bf_Float64_def f64_mul_def f64_is0_def exceedsUSDThreshold_def demo_policy_def bf_gt_def
        bf_SetFloat64_def)
qed

lemma demo_create:
  assumes "t_approvals s = []" and "createApprovalRequest demo_env demo_transfer w msg t pol params s = (r, s')"
  shows "t_approvals s' \<noteq> []"
proof -
  let ?a = "approval_of demo_env demo_transfer 1 w (hex_encode msg) t params"
  have ten: "10 = Suc 9" by simp
  have "approval_id_loop 10 (id_draws demo_env) [] = Inr 100000005"
    unfolding ten approval_id_loop.simps by (simp add: demo_env_def chain_env.defs)
  then have "create_approval demo_env ?a s = (Inr (approval_defaults (?a\<lparr>apr_ID := 100000005\<rparr>)),
      s\<lparr>t_approvals := [approval_defaults (?a\<lparr>apr_ID := 100000005\<rparr>)]\<rparr>)"
    using assms(1) by (simp add: create_approval_def BeforeCreate_def approval_of_def demo_env_def chain_env.defs)
  moreover have "c_userID demo_transfer = Some 1" by (simp add: demo_transfer_def demo_ctx_def)
  ultimately show ?thesis using assms(2)
    by (auto simp: createApprovalRequest_def seq_def mustUserID_def writeAuditCtx_def writeAuditLog_def split: prod.splits if_splits)
qed

theorem transfer_approval_pending_witness:
  "\<exists>r s' a. Transfer demo_env demo_transfer demo_guarded = (r, s') \<and> sv_signs s' = [] \<and> t_approvals s' = [a] \<and> apr_Status a = ''pending''"
proof -
  obtain u w cfg req plan s1 where prep: "prepare_transfer demo_env demo_transfer demo_guarded = (Inr (u, w, cfg, req, plan), s1)"
    and w: "w = demo_wallet" "cfg = demo_chain" "tr_Amount req = ''1''" "pl_Currency plan = ''ETH''" "pl_Contract plan = []"
    using demo_prepare [of demo_guarded] by (auto simp: demo_server_def demo_guarded_def)
  have k: "rpc_state.more s1 = rpc_state.more demo_guarded" using keepsD [OF keeps_prepare_transfer prep] .
  obtain r s' where run: "Transfer demo_env demo_transfer demo_guarded = (r, s')" by fastforce
  have pol: "load_active (db_fails demo_env) (w_ID w) (t_policies s1) = Some demo_policy"
    by (simp add: load_active_def more_fields(3) [OF k] demo_guarded_def first_row_def active_def demo_defs w demo_policy_def)
  have over: "over_threshold demo_policy (transfer_usd demo_env demo_transfer cfg plan (tr_Amount req) s1)"
    using demo_over w by (simp add: transfer_usd_def more_fields(6) [OF k] demo_guarded_def demo_transfer_def demo_ctx_def)
  obtain q where q: "price_transfer demo_env demo_transfer cfg plan (tr_Amount req) True s1 =
      (Inr (transfer_usd demo_env demo_transfer cfg plan (tr_Amount req) s1), s1\<lparr>sv_prices := q\<rparr>)"
    using price_transfer_run [of demo_env demo_transfer cfg plan "tr_Amount req" True s1] by auto
  have "createApprovalRequest demo_env demo_transfer w (pl_Msg plan) (transfer_context w req plan) demo_policy (Some (pl_Params plan)) (s1\<lparr>sv_prices := q\<rparr>) = (r, s')"
    using run prep pol over q w
    by (simp add: Transfer_def seq_def settle_transfer_def load_policy_def policy_route_def deduct_limit_def release_limit_def demo_policy_def)
  from demo_create [OF _ this] have "t_approvals s' \<noteq> t_approvals demo_guarded"
    using more_fields(2) [OF k] by (simp add: demo_guarded_def demo_server_def)
  from transfer_approval_pending [OF run this] run show ?thesis by (auto simp: demo_guarded_def demo_server_def)
qed

end
