(* ===== verification/ApprovalSafety.thy ===== *)
theory ApprovalSafety
  imports Approval TransferSafety
begin

text \<open>
  Safety of the approval endpoint: what its parts preserve, which message an approved transaction signs, and the theorem on
  \<open>Approve\<close> as a whole: a signature needs a fresh passkey assertion of the owner of a pending, unexpired approval.
\<close>

subsection \<open>Parts of the state a computation preserves\<close>

named_theorems preserves_intro \<open>rules for a part of the server state\<close>

definition preserves :: "(server \<Rightarrow> 'b) \<Rightarrow> 'a h \<Rightarrow> bool" where
  "preserves f m \<longleftrightarrow> (\<forall>s. f (snd (m s)) = f s)"

lemma preservesD: "preserves f m \<Longrightarrow> m s = (r, s') \<Longrightarrow> f s' = f s"
  by (metis preserves_def snd_conv)

lemma preserves_snd: "preserves f m \<Longrightarrow> f (snd (m s)) = f s"
  by (simp add: preserves_def)

lemma preserves_basic [preserves_intro]: "preserves f (ret x)" "preserves f (stop e)"
  by (simp_all add: preserves_def)

lemma preserves_seq [preserves_intro]: "preserves f m \<Longrightarrow> (\<And>x. preserves f (k x)) \<Longrightarrow> preserves f (seq m k)"
  by (auto simp: preserves_def seq_def split: prod.splits sum.splits) (metis snd_conv)+

lemma preserves_branch [preserves_intro]:
  "preserves f m \<Longrightarrow> preserves f n \<Longrightarrow> preserves f (if b then m else n)"
  "preserves f n \<Longrightarrow> (\<And>x. preserves f (k x)) \<Longrightarrow> preserves f (case o' of None \<Rightarrow> n | Some x \<Rightarrow> k x)"
  "(\<And>x y. preserves f (g x y)) \<Longrightarrow> preserves f (case p of (x, y) \<Rightarrow> g x y)"
  "(\<And>x. preserves f (k x)) \<Longrightarrow> preserves f (Let v k)"
  "(\<And>e. preserves f (m1 e)) \<Longrightarrow> (\<And>x. preserves f (m2 x)) \<Longrightarrow> preserves f (case r of Inl e \<Rightarrow> m1 e | Inr x \<Rightarrow> m2 x)"
  by (simp_all split: option.splits prod.splits sum.splits)

lemma preserves_getting [preserves_intro]: "(\<And>x. preserves f (k x)) \<Longrightarrow> preserves f (getting g k)"
  by (simp add: preserves_def)

lemma preserves_modify: "(\<And>s. f (g s) = f s) \<Longrightarrow> preserves f m \<Longrightarrow> preserves f (modify g m)"
  by (simp add: preserves_def)

lemma keeps_preserves:
  assumes "keeps (m :: 'a h)"
  shows "preserves sv_signs m" "preserves t_approvals m" "preserves t_wallets m" "preserves t_users m"
  using more_fields(1,2,4,9) [OF keeps_snd [OF assms]] by (simp_all add: preserves_def)


subsection \<open>What the parts of the endpoints change\<close>

lemma keeps_passkey [keeps_intro]: "keeps (verifyFreshPasskeyParsed env c n cred)" "keeps (verifyFreshPasskey env c)"
  unfolding verifyFreshPasskey_def verifyFreshPasskeyParsed_def Let_def
  by (intro keeps_intro, auto intro!: keeps_intro split: option.splits)+

lemma keeps_load_approval [keeps_intro]: "keeps (loadUserApproval env c)" "keeps (reload_approval env a r)"
  unfolding loadUserApproval_def reload_approval_def by (intro keeps_intro)+

lemma keeps_kind [keeps_intro]:
  "(\<And>x. keeps (f1 x)) \<Longrightarrow> (\<And>x. keeps (f2 x)) \<Longrightarrow> (\<And>x. keeps (f3 x)) \<Longrightarrow> (\<And>x. keeps (f4 x)) \<Longrightarrow> keeps f5 \<Longrightarrow>
   keeps (case k of KToken x \<Rightarrow> f1 x | KProgram x \<Rightarrow> f2 x | KWrap x \<Rightarrow> f3 x | KNative x \<Rightarrow> f4 x | KBad \<Rightarrow> f5)"
  by (simp split: sol_kind.splits)

lemma keeps_or_stored [keeps_intro]: "keeps m \<Longrightarrow> keeps (or_stored st f m)"
  unfolding or_stored_def by (intro keeps_intro)

lemma keeps_refresh_tx [keeps_intro]: "keeps (refresh_tx env a w msg)"
  unfolding refresh_tx_def rebuild_sol_def rebuild_evm_def by (intro keeps_intro)

lemma preserves_notify [preserves_intro]: "preserves sv_signs (notify env a st tx)" "preserves t_approvals (notify env a st tx)"
  by (auto simp: preserves_def notify_def broadcastApproval_def Let_def split: prod.splits sum.splits)

lemma preserves_limits [preserves_intro]:
  "preserves sv_signs (pre_deduct env c a)" "preserves t_approvals (pre_deduct env c a)"
  "preserves sv_signs (release_pre env c a d)" "preserves t_approvals (release_pre env c a d)"
  "preserves sv_signs (post_add env c a tx d)" "preserves t_approvals (post_add env c a tx d)"
  by (auto simp: preserves_def pre_deduct_def release_pre_def post_add_def Let_def
      split: prod.splits sum.splits gerr.splits option.splits)

lemma audit_update_fields [simp]:
  "sv_signs (updateAuditByApprovalID dbe now i st ex s) = sv_signs s" "t_approvals (updateAuditByApprovalID dbe now i st ex s) = t_approvals s"
  by (auto simp: updateAuditByApprovalID_def split: option.splits)

lemma set_approval_signs [simp]: "sv_signs (set_approval env i f s) = sv_signs s"
  by (simp add: set_approval_def)

lemma preserves_finish [preserves_intro]:
  "preserves sv_signs (fail_approval env c a evt ex resp)" "preserves sv_signs (finish_approved env c a ex body)"
  "preserves sv_signs (finish_signed env c a w sig tx d)"
  unfolding fail_approval_def finish_approved_def finish_signed_def Let_def
  by (intro preserves_intro preserves_modify; simp)+

lemma preserves_broadcast [preserves_intro]: "preserves sv_signs (broadcast_approved env c a w params sig d)"
  unfolding broadcast_approved_def
  by (intro preserves_intro keeps_preserves keeps_recovered keeps_broadcastSigned)

text \<open>Applying a row signs nothing.\<close>

lemma preserves_apply_rows:
  "preserves sv_signs (approve_contract_add env c a)" "preserves sv_signs (approve_contract_update env c a)"
  "preserves sv_signs (approve_entry_add env c a)" "preserves sv_signs (approve_entry_update env c a)"
  "preserves sv_signs (approve_policy_change env c a)"
proof -
  have fin: "sv_signs (snd (finish_approved env c a ex body s)) = sv_signs s" for ex body s
    by (rule preserves_snd [OF preserves_finish(2)])
  show "preserves sv_signs (approve_contract_add env c a)" "preserves sv_signs (approve_contract_update env c a)"
    "preserves sv_signs (approve_entry_add env c a)" "preserves sv_signs (approve_entry_update env c a)"
    "preserves sv_signs (approve_policy_change env c a)"
    by (auto simp: preserves_def approve_contract_add_def approve_contract_update_def approve_entry_add_def approve_entry_update_def
        approve_policy_change_def fin Let_def split: option.splits prod.splits created.splits)
qed

text \<open>Signing appends one request, with the key of the wallet, whatever comes of it.\<close>

lemma sign_approved_signs: "sv_signs (snd (sign_approved env c a w msg s)) = sv_signs s @ [(msg, w_KeyName w)]"
proof -
  have f: "sv_signs (snd (fail_approval env c a evt ex resp q)) = sv_signs q" for evt ex resp q
    by (rule preserves_snd [OF preserves_finish(1)])
  show ?thesis by (auto simp: sign_approved_def sdk_Sign_def f Let_def split: sign_outcome.splits)
qed

text \<open>A Solana message built from stored parameters with some blockhash; a native transfer goes through a \<open>float64\<close>.\<close>

fun rebuilt_sol :: "'e server_env_scheme \<Rightarrow> sol_kind \<Rightarrow> bytes \<Rightarrow> bool" where
  "rebuilt_sol env (KToken tp) m \<longleftrightarrow>
     (\<exists>bh. buildSOLTokenTransferMessage (isOnCurve env) (stp_From tp) (stp_To tp) (stp_Mint tp) (stp_Amount tp) (stp_Decimals tp) bh = Inr m)"
| "rebuilt_sol env (KWrap wp) m \<longleftrightarrow>
     (\<exists>bh. (if swp_Wrap wp then buildSOLWrapMessage (isOnCurve env) (swp_From wp) (swp_Lamports wp) bh
            else buildSOLUnwrapMessage (isOnCurve env) (swp_From wp) bh) = Inr m)"
| "rebuilt_sol env (KProgram pp) m \<longleftrightarrow> (\<exists>bh data. hex_decode (spp_Data pp) = Some data
     \<and> buildSOLProgramCallMessage (spp_From pp) (spp_ProgramID pp) (spp_Accounts pp) data bh = Inr m)"
| "rebuilt_sol env (KNative np) m \<longleftrightarrow>
     (\<exists>bh l. float_lamports (lamports_to_sol (sol_Lamports np)) = Inr l \<and> buildSOLMessage (sol_From np) (sol_To np) bh l = Inr m)"
| "rebuilt_sol env KBad m \<longleftrightarrow> False"

text \<open>An EVM message of a transaction with the stored recipient, value, calldata, sender and gas limit.\<close>

definition rebuilt_evm :: "'e server_env_scheme \<Rightarrow> json \<Rightarrow> bytes \<Rightarrow> bool" where
  "rebuilt_evm env j m \<longleftrightarrow> (\<exists>p q. eth_of_json j = Some p \<and> ETHSigningHash env q = Inr m \<and> eth_To q = eth_To p \<and> eth_Value q = eth_Value p
     \<and> eth_Data q = eth_Data p \<and> eth_From q = eth_From p \<and> eth_GasLimit q = eth_GasLimit p)"

text \<open>The message that an approval signs: the stored one, or that of the transaction rebuilt from the stored parameters.\<close>

definition approved_message :: "'e server_env_scheme \<Rightarrow> approval_request \<Rightarrow> wallet \<Rightarrow> bytes \<Rightarrow> bool" where
  "approved_message env a w m \<longleftrightarrow> (case (GetChain (env_chains env) (w_Chain w), apr_TxParams a) of
       (Some cfg, Some j) \<Rightarrow>
         if cc_Family cfg = ''evm'' then rebuilt_evm env j m
         else decodeMessage_hex (apr_Message a) = Some m \<or> cc_Family cfg = ''solana'' \<and> rebuilt_sol env (rebuild_kind j) m
     | _ \<Rightarrow> decodeMessage_hex (apr_Message a) = Some m)"

lemma or_stored_Inr:
  assumes "or_stored st f m s = (Inr x, s')"
  shows "x = st \<or> (\<exists>d. m s = (Inr d, s') \<and> x = f d)"
  using assms by (auto simp: or_stored_def recovered_def seq_def split: prod.splits sum.splits gerr.splits)

lemma rebuild_sol_message:
  assumes "rebuild_sol env url j msg s = (Inr (m, j'), s')"
  shows "m = msg \<or> rebuilt_sol env (rebuild_kind j) m"
  using assms unfolding rebuild_sol_def
  by (cases "rebuild_kind j")
    (auto dest!: or_stored_Inr simp: RebuildSOLTokenTransferTx_def BuildSOLTokenTransferTx_def RebuildSOLProgramCallTx_def
      BuildSOLProgramCallTx_def RebuildSOLWrapTx_def buildSOLWrapTxFromLamports_def wrap_tx_def BuildSOLUnwrapTx_def BuildSOLTx_def
      split: if_splits option.splits)

lemma rebuild_evm_message:
  assumes "rebuild_evm env url a w j s = (Inr (m, j'), s')"
  shows "rebuilt_evm env j m"
proof -
  from assms obtain p d where p: "eth_of_json j = Some p" and d: "RebuildETHTx env url p s = (Inr d, s')" "m = etd_SigningHash d"
    by (auto simp: rebuild_evm_def or_fail_Inr io_simps split: option.splits)
  from d(1) show ?thesis using p d(2) unfolding rebuilt_evm_def
    by (elim RebuildETHTx_Inr, intro exI [of _ p] exI [of _ "etd_Params d"]) (simp add: hash_params_of, simp add: params_of_def)
qed

lemma refresh_tx_message:
  assumes "refresh_tx env a w msg s = (Inr (m, j), s')" and "decodeMessage_hex (apr_Message a) = Some msg"
  shows "approved_message env a w m"
proof (cases "GetChain (env_chains env) (w_Chain w)"; cases "apr_TxParams a")
  fix cfg j assume c: "GetChain (env_chains env) (w_Chain w) = Some cfg" "apr_TxParams a = Some j"
  show ?thesis using assms rebuild_sol_message [of env "cc_RPCURL cfg" j msg s m] rebuild_evm_message [of env "cc_RPCURL cfg" a w j s m]
    by (auto simp: refresh_tx_def c approved_message_def io_simps split: if_splits)
qed (use assms in \<open>simp_all add: refresh_tx_def approved_message_def\<close>)

text \<open>A fresh passkey assertion of the user of the session, or the test mode without an SDK.\<close>

definition fresh_passkey :: "'e server_env_scheme \<Rightarrow> ctx \<Rightarrow> server \<Rightarrow> bool" where
  "fresh_passkey env c s \<longleftrightarrow> (if sdk_nil env then gin_test env
     else (\<exists>n cred u err. n \<noteq> 0 \<and> cred \<noteq> JNull \<and> u \<in> set (t_users s) \<and> c_userID c = Some (u_ID u)
       \<and> passkey_verify_as env n cred (u_PasskeyUserID u) = Some (True, err)))"

lemma verifyFreshPasskey_Inr:
  assumes "verifyFreshPasskey env c s = (Inr x, s')"
  shows "fresh_passkey env c s"
  using assms
  by (auto simp: verifyFreshPasskey_def verifyFreshPasskeyParsed_def fresh_passkey_def Let_def io_simps mustUserID_def
      split: option.splits if_splits prod.splits dest!: first_row_Some)

lemma approve_signed_trace:
  assumes "approve_signed env c a w msg0 s = (r, s')" and "refresh_tx env a w msg0 s = (Inr (m, params), s1)"
  shows "sv_signs s' = sv_signs s @ [(m, w_KeyName w)]"
proof -
  let ?rest = "\<lambda>sig. seq (if params = None then ret [] else pre_deduct env c a) (\<lambda>preDeducted.
      seq (broadcast_approved env c a w params sig preDeducted) (\<lambda>txHash. finish_signed env c a w sig txHash preDeducted))"
  have rest: "preserves sv_signs (?rest sig)" for sig by (intro preserves_intro)
  have k: "sv_signs s1 = sv_signs s" using more_fields(1) [OF keepsD [OF keeps_refresh_tx assms(2)]] .
  obtain sg s2 where sg: "sign_approved env c a w m s1 = (sg, s2)" by fastforce
  have s2: "sv_signs s2 = sv_signs s @ [(m, w_KeyName w)]" using sign_approved_signs [of env c a w m s1] sg k by simp
  have "sv_signs s' = sv_signs s2"
  proof (cases sg)
    case (Inl e)
    then show ?thesis using assms sg by (simp add: approve_signed_def seq_app seq_fail)
  next
    case (Inr sig)
    then have "?rest sig s2 = (r, s')" using assms sg by (simp add: approve_signed_def seq_app)
    then show ?thesis using preservesD [OF rest] by blast
  qed
  then show ?thesis using s2 by simp
qed

lemma approve_signed_signs:
  assumes "approve_signed env c a w msg0 s = (r, s')" and "sv_signs s' \<noteq> sv_signs s" and "decodeMessage_hex (apr_Message a) = Some msg0"
  shows "\<exists>m. approved_message env a w m \<and> sv_signs s' = sv_signs s @ [(m, w_KeyName w)]"
proof -
  obtain rt s1 where rt: "refresh_tx env a w msg0 s = (rt, s1)" by fastforce
  have "sv_signs s1 = sv_signs s" using more_fields(1) [OF keepsD [OF keeps_refresh_tx rt]] .
  then obtain m params where ok: "rt = Inr (m, params)" using assms(1,2) rt by (cases rt) (auto simp: approve_signed_def seq_def)
  then show ?thesis using approve_signed_trace [OF assms(1) rt [unfolded ok]] refresh_tx_message [OF rt [unfolded ok] assms(3)] by blast
qed

lemma approve_sign_signs:
  assumes "approve_sign env c a s = (r, s')" and "sv_signs s' \<noteq> sv_signs s"
  shows "\<exists>w m. apr_WalletID a = Some (w_ID w) \<and> w \<in> set (t_wallets s) \<and> approved_message env a w m
     \<and> sv_signs s' = sv_signs s @ [(m, w_KeyName w)]"
  using assms approve_signed_signs [of env c a _ _ s r s']
  by (fastforce simp: approve_sign_def split: option.splits if_splits dest!: first_row_Some)

lemma apply_approval_signs:
  assumes "apply_approval env c a s = (r, s')" and "sv_signs s' \<noteq> sv_signs s"
  shows "approve_sign env c a s = (r, s')"
  using assms preserves_apply_rows [THEN preservesD, of env c a s r s'] by (simp add: apply_approval_def split: if_splits)

text \<open>The guards before the decision: who asks, and for which approval.\<close>

lemma Approve_guards:
  assumes "Approve env c s = (r, s')"
  shows "rpc_state.more s' = rpc_state.more s
    \<or> (\<exists>a s3. approve_pending env c a s3 = (r, s') \<and> rpc_state.more s3 = rpc_state.more s \<and> fresh_passkey env c s \<and> a \<in> set (t_approvals s)
        \<and> num_uint 64 (c_id c) = Some (apr_ID a) \<and> (\<exists>a0 \<in> set (t_approvals s). apr_ID a0 = apr_ID a \<and> c_userID c = Some (apr_UserID a0)))"
proof -
  let ?gone = "jsonError 404 ''approval not found''"
  obtain x s1 where v: "verifyFreshPasskey env c s = (x, s1)" by fastforce
  have k1: "rpc_state.more s1 = rpc_state.more s" using keepsD [OF keeps_passkey(2) v] .
  show ?thesis
  proof (cases "(\<exists>e. x = Inl e) \<or> (\<exists>e. fst (loadUserApproval env c s1) = Inl e)")
    case True
    then have "s' = s1 \<or> s' = snd (loadUserApproval env c s1)"
      using assms v by (auto simp: Approve_def seq_def split: prod.splits sum.splits)
    then show ?thesis using k1 keeps_snd [OF keeps_load_approval(1), of env c s1] by auto
  next
    case False
    then obtain u a0 s2 where x: "x = Inr u" and l: "loadUserApproval env c s1 = (Inr a0, s2)"
      by (cases x; cases "fst (loadUserApproval env c s1)") (auto simp: prod_eq_iff)
    have k2: "rpc_state.more s2 = rpc_state.more s" using keepsD [OF keeps_load_approval(1) l] k1 by simp
    have own: "a0 \<in> set (t_approvals s)" "num_uint 64 (c_id c) = Some (apr_ID a0)" "c_userID c = Some (apr_UserID a0)"
      using l more_fields(2) [OF k1]
      by (auto simp: loadUserApproval_def mustUserID_def seq_def split: option.splits if_splits dest!: first_row_Some)
    obtain z s3 where ld: "reload_approval env a0 ?gone s2 = (z, s3)" by fastforce
    have k3: "rpc_state.more s3 = rpc_state.more s" using keepsD [OF keeps_load_approval(2) ld] k2 by simp
    show ?thesis
    proof (cases z)
      case (Inl e)
      then have "s' = s3" using assms v x l ld by (simp add: Approve_def seq_app seq_fail)
      then show ?thesis using k3 by simp
    next
      case (Inr a)
      have "approve_pending env c a s3 = (r, s')" using assms v x l ld Inr by (simp add: Approve_def seq_app)
      moreover have "a \<in> set (t_approvals s)" "apr_ID a = apr_ID a0"
        using ld Inr more_fields(2) [OF k2] by (auto simp: reload_approval_def split: option.splits if_splits dest!: first_row_Some)
      ultimately show ?thesis using k3 own verifyFreshPasskey_Inr [OF v [unfolded x]] by metis
    qed
  qed
qed

text \<open>C7. An approval endpoint that has anything signed was called with a fresh passkey assertion of the user of the session,
  for an approval request of that user that is pending and has not expired; exactly one signature is requested, with
  the key of the wallet of the approval, and its message is the stored one or that of the transaction rebuilt from the
  stored parameters: on an EVM chain with the stored recipient, value, calldata, sender and gas limit.\<close>

theorem Approve_signs_once:
  assumes "Approve env c s = (r, s')" and "sv_signs s' \<noteq> sv_signs s"
  shows "fresh_passkey env c s \<and> (\<exists>a w m. a \<in> set (t_approvals s) \<and> num_uint 64 (c_id c) = Some (apr_ID a) \<and> apr_Status a = ''pending''
     \<and> c_now c \<le> apr_ExpiresAt a \<and> apr_WalletID a = Some (w_ID w) \<and> w \<in> set (t_wallets s)
     \<and> (\<exists>a0 \<in> set (t_approvals s). apr_ID a0 = apr_ID a \<and> c_userID c = Some (apr_UserID a0))
     \<and> sv_signs s' = sv_signs s @ [(m, w_KeyName w)] \<and> approved_message env a w m)"
proof -
  from Approve_guards [OF assms(1)] assms(2) obtain a s3 where run: "approve_pending env c a s3 = (r, s')"
    and k3: "rpc_state.more s3 = rpc_state.more s" and g: "fresh_passkey env c s" "a \<in> set (t_approvals s)" "num_uint 64 (c_id c) = Some (apr_ID a)"
      "\<exists>a0 \<in> set (t_approvals s). apr_ID a0 = apr_ID a \<and> c_userID c = Some (apr_UserID a0)"
    using more_fields(1) by metis
  have ap: "apr_Status a = ''pending''" "c_now c \<le> apr_ExpiresAt a" "apply_approval env c a s3 = (r, s')"
    using run assms(2) more_fields(1) [OF k3] by (auto simp: approve_pending_def split: if_splits)
  have "approve_sign env c a s3 = (r, s')" using apply_approval_signs [OF ap(3)] assms(2) more_fields(1) [OF k3] by simp
  from approve_sign_signs [OF this] have "\<exists>w m. apr_WalletID a = Some (w_ID w) \<and> w \<in> set (t_wallets s) \<and> approved_message env a w m
     \<and> sv_signs s' = sv_signs s @ [(m, w_KeyName w)]"
    using assms(2) more_fields(1,4) [OF k3] by simp
  then show ?thesis using g ap(1,2) by blast
qed

text \<open>A user with one pending approval of a message, and the request that approves it.\<close>

definition demo_user :: user where
  "demo_user = \<lparr>u_ID = 1, u_Username = ''alice'', u_Email = None, u_PasskeyUserID = 9, u_CreatedAt = 0\<rparr>"

definition demo_approval :: approval_request where
  "demo_approval = \<lparr>apr_ID = 5, apr_WalletID = Some ''w1'', apr_UserID = 1, apr_ApprovalType = ''sign'', apr_Message = ''0aff'', apr_TxContext = None,
     apr_TxParams = None, apr_PolicyData = None, apr_TxHash = [], apr_Status = ''pending'', apr_Signature = [], apr_ApprovedBy = None,
     apr_AuthMode = ''apikey'', apr_APIKeyPrefix = ''ocw_1'', apr_CreatedAt = 0, apr_ExpiresAt = 2000\<rparr>"

definition demo_waiting :: server where
  "demo_waiting = demo_server\<lparr>t_users := [demo_user], t_approvals := [demo_approval]\<rparr>"

definition demo_decision :: ctx where
  "demo_decision = demo_ctx\<lparr>c_id := ''5'', c_authMode := ''passkey'',
     c_body := Some (JObj [(''login_session_id'', JNum ''3''), (''credential'', JObj [])])\<rparr>"

lemma demo_fields:
  "sdk_nil demo_env = False" "db_fails demo_env k = False" "passkey_verify_as demo_env n cr p = Some (True, [])"
  "GetChain (env_chains demo_env) ''ethereum'' = Some demo_chain"
  "c_userID demo_decision = Some 1" "c_id demo_decision = ''5''" "c_now demo_decision = 1000"
  "c_body demo_decision = Some (JObj [(''login_session_id'', JNum ''3''), (''credential'', JObj [])])"
  "t_users demo_waiting = [demo_user]" "t_approvals demo_waiting = [demo_approval]" "t_wallets demo_waiting = [demo_wallet]" "sv_signs demo_waiting = []"
  by (simp_all add: demo_env_def chain_env.defs GetChain_def demo_decision_def demo_ctx_def demo_waiting_def demo_server_def)

lemma demo_rows:
  "u_ID demo_user = 1" "apr_ID demo_approval = 5" "apr_UserID demo_approval = 1" "apr_Status demo_approval = ''pending''" "apr_ExpiresAt demo_approval = 2000"
  "apr_WalletID demo_approval = Some ''w1''" "apr_Message demo_approval = ''0aff''" "apr_ApprovalType demo_approval = ''sign''"
  "apr_TxParams demo_approval = None" "w_ID demo_wallet = ''w1''" "w_KeyName demo_wallet = ''key1''" "w_Chain demo_wallet = ''ethereum''"
  by (simp_all add: demo_user_def demo_approval_def demo_wallet_def)

lemma demo_numbers:
  "fld_uint 64 ''login_session_id'' [(''login_session_id'', JNum ''3''), (''credential'', JObj [])] = Some 3"
  "jget ''credential'' [(''login_session_id'', JNum ''3''), (''credential'', JObj [])] = Some (JObj [])" "num_uint 64 ''5'' = Some 5"
proof -
  have "parse_nat 10 ''3'' = Some 3" "parse_nat 10 ''5'' = Some 5" by code_simp+
  then show "fld_uint 64 ''login_session_id'' [(''login_session_id'', JNum ''3''), (''credential'', JObj [])] = Some 3"
    "jget ''credential'' [(''login_session_id'', JNum ''3''), (''credential'', JObj [])] = Some (JObj [])" "num_uint 64 ''5'' = Some 5"
    by (simp_all add: fld_uint_def jget_def num_uint_def)
qed

lemma demo_guards:
  "verifyFreshPasskey demo_env demo_decision demo_waiting = (Inr (), demo_waiting)"
  "loadUserApproval demo_env demo_decision demo_waiting = (Inr demo_approval, demo_waiting)"
  "reload_approval demo_env demo_approval e demo_waiting = (Inr demo_approval, demo_waiting)"
proof -
  show "loadUserApproval demo_env demo_decision demo_waiting = (Inr demo_approval, demo_waiting)"
    by (simp add: loadUserApproval_def mustUserID_def seq_def first_row_def demo_fields demo_rows demo_numbers)
  show "reload_approval demo_env demo_approval e demo_waiting = (Inr demo_approval, demo_waiting)"
    by (simp add: reload_approval_def first_row_def demo_fields demo_rows)
  show "verifyFreshPasskey demo_env demo_decision demo_waiting = (Inr (), demo_waiting)"
    unfolding verifyFreshPasskey_def demo_fields if_False 
    by (simp add: as_obj_def demo_numbers verifyFreshPasskeyParsed_def mustUserID_def seq_def first_row_def demo_fields demo_rows)
qed

theorem Approve_signs_once_witness:
  "\<exists>r s'. Approve demo_env demo_decision demo_waiting = (r, s') \<and> sv_signs s' = [([10, 255], ''key1'')] \<and> fresh_passkey demo_env demo_decision demo_waiting"
proof -
  have hex: "decodeMessage_hex ''0aff'' = Some [10, 255]" by code_simp
  obtain r s' where run: "Approve demo_env demo_decision demo_waiting = (r, s')" by fastforce
  then have "approve_sign demo_env demo_decision demo_approval demo_waiting = (r, s')"
    by (simp add: Approve_def seq_app demo_guards approve_pending_def apply_approval_def demo_fields demo_rows)
  then have "approve_signed demo_env demo_decision demo_approval demo_wallet [10, 255] demo_waiting = (r, s')"
    by (simp add: approve_sign_def demo_rows demo_fields first_row_def hex)
  moreover have "refresh_tx demo_env demo_approval demo_wallet [10, 255] demo_waiting = (Inr ([10, 255], None), demo_waiting)"
    by (simp add: refresh_tx_def demo_rows demo_fields)
  ultimately have trace: "sv_signs s' \<noteq> sv_signs demo_waiting" using approve_signed_trace by fastforce
  from Approve_signs_once [OF run this] run hex show ?thesis
    by (auto simp: demo_fields demo_rows approved_message_def)
qed

end
