(* ===== verification/Wallets.thy ===== *)
theory Wallets
  imports ApprovalSafety
begin

text \<open>
  The wallet endpoints of \<open>handler/wallet.go\<close> that build no transaction: creating a wallet with a key of the TEE, listing, renaming and
  deleting wallets, the reaper of stuck wallets, the USD policy with its approval by an API key, the day's spending, and the
  balance endpoint of \<open>handler/balance.go\<close>. The key generation of the TEE and the derivation of an address from a
  secp256k1 key are parameters of the environment.
\<close>

record wallet_env = server_env +
  pubkey_address :: "bytes \<Rightarrow> string option"

subsection \<open>Request bodies\<close>

text \<open>A pointer field and a field of any type: nil when missing or null.\<close>

definition fld_any :: "string \<Rightarrow> jobj \<Rightarrow> json option" where
  "fld_any k kvs = (case jget k kvs of Some JNull \<Rightarrow> None | v \<Rightarrow> v)"

definition fld_opt :: "(string \<Rightarrow> jobj \<Rightarrow> 'a option) \<Rightarrow> string \<Rightarrow> jobj \<Rightarrow> 'a option option" where
  "fld_opt dec k kvs = (case fld_any k kvs of None \<Rightarrow> Some None | Some _ \<Rightarrow> map_option Some (dec k kvs))"

definition in_obj :: "(jobj \<Rightarrow> 'a option) \<Rightarrow> json \<Rightarrow> 'a option" where
  "in_obj dec j = (case as_obj j of None \<Rightarrow> None | Some o' \<Rightarrow> dec o')"

definition required :: "string option \<Rightarrow> string option" where
  "required x = (case x of Some v \<Rightarrow> if v = [] then None else Some v | None \<Rightarrow> None)"

text \<open>A body that does not bind, answered with a fixed text.\<close>

definition bind_or :: "http_resp \<Rightarrow> ctx \<Rightarrow> (json \<Rightarrow> 'a option) \<Rightarrow> 'a h" where
  "bind_or resp c dec = (case (case c_body c of None \<Rightarrow> None | Some j \<Rightarrow> dec j) of None \<Rightarrow> stop resp | Some x \<Rightarrow> ret x)"

definition create_req :: "json \<Rightarrow> (string \<times> string) option" where
  "create_req = in_obj (\<lambda>o'. case (required (fld_str ''chain'' o'), fld_str ''label'' o') of
     (Some ch, Some l) \<Rightarrow> Some (ch, l) | _ \<Rightarrow> None)"

record policy_req =
  pr_LoginSessionID :: nat
  pr_Credential :: "json option"
  pr_ThresholdUSD :: string
  pr_DailyLimitUSD :: string
  pr_Enabled :: "bool option"

definition policy_req_of :: "json \<Rightarrow> policy_req option" where
  "policy_req_of = in_obj (\<lambda>o'.
     case (fld_uint 64 ''login_session_id'' o', required (fld_str ''threshold_usd'' o'), fld_str ''daily_limit_usd'' o', fld_opt fld_bool ''enabled'' o') of
       (Some n, Some t, Some d, Some e) \<Rightarrow> Some \<lparr>pr_LoginSessionID = n, pr_Credential = fld_any ''credential'' o', pr_ThresholdUSD = t,
         pr_DailyLimitUSD = d, pr_Enabled = e\<rparr>
     | _ \<Rightarrow> None)"

subsection \<open>Creating a wallet\<close>

definition live_wallets :: "nat \<Rightarrow> wallet list \<Rightarrow> nat" where
  "live_wallets userID ws = count_rows (\<lambda>w. w_UserID w = userID \<and> w_Status w \<noteq> ''error'') ws"

definition label_taken :: "nat \<Rightarrow> string \<Rightarrow> wallet list \<Rightarrow> bool" where
  "label_taken userID label ws \<longleftrightarrow> count_rows (\<lambda>w. w_UserID w = userID \<and> w_Label w = label) ws > 0"

definition pending_wallet :: "'e server_env_scheme \<Rightarrow> ctx \<Rightarrow> nat \<Rightarrow> string \<Rightarrow> string \<Rightarrow> chain_config \<Rightarrow> wallet" where
  "pending_wallet env c userID chain label cfg = \<lparr>w_ID = new_uuid env, w_UserID = userID, w_Chain = chain, w_KeyName = ''pending-'' @ new_uuid env,
     w_PublicKey = [], w_Address = [], w_Label = label, w_Curve = cc_Curve cfg, w_Protocol = cc_Protocol cfg, w_Status = ''creating'', w_CreatedAt = c_now c\<rparr>"

text \<open>The table has a primary key and a unique index on the key name.\<close>

definition insert_wallet :: "db_faults \<Rightarrow> wallet \<Rightarrow> wallet list \<Rightarrow> wallet list option" where
  "insert_wallet dbe w ws = (if dbe ''create_wallet'' \<or> list_ex (\<lambda>v. w_ID v = w_ID w \<or> w_KeyName v = w_KeyName w) ws then None else Some (ws @ [w]))"

definition set_wallet :: "string \<Rightarrow> (wallet \<Rightarrow> wallet) \<Rightarrow> server \<Rightarrow> server" where
  "set_wallet i f s = s\<lparr>t_wallets := update_rows (\<lambda>w. w_ID w = i) f (t_wallets s)\<rparr>"

definition fail_wallet :: "'e server_env_scheme \<Rightarrow> wallet \<Rightarrow> http_resp \<Rightarrow> 'x h" where
  "fail_wallet env w resp = modify (\<lambda>s. if db_fails env ''update_wallet'' then s else set_wallet (w_ID w) (\<lambda>v. v\<lparr>w_Status := ''error''\<rparr>) s) (stop resp)"

definition keygen_failed :: "string \<Rightarrow> bool \<Rightarrow> wallet \<Rightarrow> chain_config \<Rightarrow> http_resp" where
  "keygen_failed rawMsg isErr w cfg =
     (let category = (if isErr \<or> rawMsg \<noteq> [] then categorizeSigningError rawMsg else ''sdk_error'')
      in jsonErrorDetails 422 ''key generation failed'' [(''stage'', JStr ''key_generation''), (''wallet_id'', JStr (w_ID w)), (''chain'', JStr (w_Chain w)),
           (''protocol'', JStr (cc_Protocol cfg)), (''curve'', JStr (cc_Curve cfg)), (''category'', JStr category)])"

definition store_key :: "'e wallet_env_scheme \<Rightarrow> ctx \<Rightarrow> wallet \<Rightarrow> chain_config \<Rightarrow> string \<Rightarrow> string \<Rightarrow> http_resp h" where
  "store_key env c w cfg keyName keyData =
     (case DeriveAddress (pubkey_address env) (cc_Family cfg) keyData of
        Inl (Panic p) \<Rightarrow> panics
      | Inl e \<Rightarrow> fail_wallet env w (jsonErrorDetails 500 (''address derivation failed: '' @ err_text e)
           [(''stage'', JStr ''address_derivation''), (''wallet_id'', JStr (w_ID w)), (''chain'', JStr (w_Chain w))])
      | Inr address \<Rightarrow> getting t_wallets (\<lambda>ws.
          if db_fails env ''update_wallet'' \<or> list_ex (\<lambda>v. w_ID v \<noteq> w_ID w \<and> w_KeyName v = keyName) ws
          then stop (jsonErrorDetails 500 ''db update failed'' [(''stage'', JStr ''wallet_create_update''), (''wallet_id'', JStr (w_ID w)), (''chain'', JStr (w_Chain w))])
          else let w' = w\<lparr>w_KeyName := keyName, w_PublicKey := keyData, w_Address := address, w_Status := ''ready''\<rparr>
               in modify (set_wallet (w_ID w) (\<lambda>v. v\<lparr>w_KeyName := keyName, w_PublicKey := keyData, w_Address := address, w_Status := ''ready''\<rparr>))
                 (modify (writeAuditCtx (db_fails env) c ''wallet_create'' ''success'' (Some (w_ID w))
                      (Some (JObj [(''chain'', JStr (w_Chain w)), (''address'', JStr address), (''label'', JStr (w_Label w))])) 0)
                   (ret (JSON 200 [(''success'', JBool True), (''wallet'', wallet_json w')])))))"

definition CreateWallet :: "'e wallet_env_scheme \<Rightarrow> ctx \<Rightarrow> http_resp h" where
  "CreateWallet env c =
     seq (mustUserID c) (\<lambda>userID.
     seq (bind_json env c create_req) (\<lambda>(reqChain, reqLabel).
     let chain = to_lower (trim_space reqChain); label = trim_space reqLabel
     in case GetChain (env_chains env) chain of
          None \<Rightarrow> stop (jsonError 400 (''unsupported chain: '' @ chain))
        | Some cfg \<Rightarrow> getting t_wallets (\<lambda>ws.
            if int (if db_fails env ''count_wallets'' then 0 else live_wallets userID ws) \<ge> maxWallets env then stop (jsonError 400 (''wallet limit reached (max '' @ int_text 10 (maxWallets env) @ '')''))
            else if label \<noteq> [] \<and> \<not> db_fails env ''count_labels'' \<and> label_taken userID label ws then stop (jsonError 409 ''a wallet with this label already exists'')
            else let w = pending_wallet env c userID chain label cfg
                 in case insert_wallet (db_fails env) w ws of
                      None \<Rightarrow> stop (respondInternalError c ''db error'' [(''stage'', JStr ''wallet_create''), (''chain'', JStr chain)])
                    | Some ws' \<Rightarrow> modify (\<lambda>s. s\<lparr>t_wallets := ws'\<rparr>)
                        (case tee_keygen env (cc_Protocol cfg) (cc_Curve cfg) of
                           KeyErr e \<Rightarrow> fail_wallet env w (keygen_failed e True w cfg)
                         | KeyRes success msg keyName keyData \<Rightarrow>
                             if \<not> success then fail_wallet env w (keygen_failed msg False w cfg) else store_key env c w cfg keyName keyData))))"

text \<open>One tick of the reaper: a wallet that has been creating for more than ten minutes is in error.\<close>

definition reap_wallets :: "'e server_env_scheme \<Rightarrow> int \<Rightarrow> server \<Rightarrow> server" where
  "reap_wallets env now s = (if db_fails env ''reap_wallets'' then s
     else s\<lparr>t_wallets := update_rows (\<lambda>w. w_Status w = ''creating'' \<and> w_CreatedAt w < now - 10 * 60000000000) (\<lambda>w. w\<lparr>w_Status := ''error''\<rparr>) (t_wallets s)\<rparr>)"

subsection \<open>Reading, renaming and deleting wallets\<close>

definition ListWallets :: "'e server_env_scheme \<Rightarrow> ctx \<Rightarrow> http_resp h" where
  "ListWallets env c = seq (mustUserID c) (\<lambda>userID.
     if db_fails env ''list_wallets'' then stop (respondInternalError c ''db error'' [(''stage'', JStr ''list_wallets'')])
     else getting t_wallets (\<lambda>ws. ret (JSON 200 [(''success'', JBool True),
       (''wallets'', JArr (map wallet_json (sort_desc w_CreatedAt (filter (\<lambda>w. w_UserID w = userID) ws))))])))"

definition GetWallet :: "'e server_env_scheme \<Rightarrow> ctx \<Rightarrow> http_resp h" where
  "GetWallet env c = seq (loadUserWallet env c) (\<lambda>w. ret (JSON 200 [(''success'', JBool True), (''wallet'', wallet_json w)]))"

definition RenameWallet :: "'e server_env_scheme \<Rightarrow> ctx \<Rightarrow> http_resp h" where
  "RenameWallet env c =
     seq (loadUserWallet env c) (\<lambda>w.
     seq (bind_or (jsonError 400 ''label is required'') c (in_obj (\<lambda>o'. required (fld_str ''label'' o')))) (\<lambda>reqLabel.
     let label = trim_space reqLabel
     in if label = [] then stop (jsonError 400 ''label must not be empty'')
        else if length label > 100 then stop (jsonError 400 ''label must be at most 100 characters'')
        else getting t_wallets (\<lambda>ws.
          if \<not> db_fails env ''count_labels'' \<and> count_rows (\<lambda>v. w_UserID v = w_UserID w \<and> w_Label v = label \<and> w_ID v \<noteq> w_ID w) ws > 0
          then stop (jsonError 409 ''a wallet with this label already exists'')
          else if db_fails env ''update_wallet'' then stop (respondInternalError c ''update failed'' [(''stage'', JStr ''wallet_rename''), (''wallet_id'', JStr (w_ID w))])
          else modify (set_wallet (w_ID w) (\<lambda>v. v\<lparr>w_Label := label\<rparr>))
                 (ret (JSON 200 [(''success'', JBool True), (''wallet'', wallet_json (w\<lparr>w_Label := label\<rparr>))])))))"

text \<open>The deletions are one transaction: an error undoes all of them.\<close>

definition delete_wallet_rows :: "string \<Rightarrow> server \<Rightarrow> server" where
  "delete_wallet_rows i s = s\<lparr>t_policies := delete_rows (\<lambda>p. pol_WalletID p = i) (t_policies s),
     t_approvals := delete_rows (\<lambda>a. apr_WalletID a = Some i) (t_approvals s), t_wallets := delete_rows (\<lambda>w. w_ID w = i) (t_wallets s)\<rparr>"

definition DeleteWallet :: "'e server_env_scheme \<Rightarrow> ctx \<Rightarrow> http_resp h" where
  "DeleteWallet env c =
     seq (verifyFreshPasskey env c) (\<lambda>_.
     seq (loadUserWallet env c) (\<lambda>w.
     if db_fails env ''delete_policies'' \<or> db_fails env ''delete_approvals'' \<or> db_fails env ''delete_wallet''
     then stop (respondInternalError c ''failed to delete wallet'' [(''stage'', JStr ''delete_wallet''), (''wallet_id'', JStr (w_ID w))])
     else modify (delete_wallet_rows (w_ID w))
       (modify (\<lambda>s. if \<not> sdk_nil env \<and> w_KeyName w \<noteq> [] then s\<lparr>sv_deletions := sv_deletions s @ [DeletedKey (w_KeyName w)]\<rparr> else s)
         (modify (writeAuditCtx (db_fails env) c ''wallet_delete'' ''success'' (Some (w_ID w))
             (Some (JObj [(''chain'', JStr (w_Chain w)), (''address'', JStr (w_Address w))])) 0)
           (ret (JSON 200 [(''success'', JBool True)]))))))"

definition GetPubkey :: "'e server_env_scheme \<Rightarrow> ctx \<Rightarrow> http_resp h" where
  "GetPubkey env c = seq (loadUserWallet env c) (\<lambda>w. ret (JSON 200 [(''success'', JBool True), (''wallet_id'', JStr (w_ID w)), (''public_key'', JStr (w_PublicKey w)),
     (''address'', JStr (w_Address w)), (''chain'', JStr (w_Chain w)), (''curve'', JStr (w_Curve w)), (''protocol'', JStr (w_Protocol w))]))"

definition BalanceEndpoint :: "'e server_env_scheme \<Rightarrow> ctx \<Rightarrow> http_resp h" where
  "BalanceEndpoint env c = seq (loadUserWallet env c) (\<lambda>w.
     if w_Status w \<noteq> ''ready'' then stop (jsonError 400 ''wallet not ready'')
     else case GetChain (env_chains env) (w_Chain w) of
       None \<Rightarrow> stop (jsonError 400 (''unsupported chain: '' @ w_Chain w))
     | Some cfg \<Rightarrow> seq (or_fail (\<lambda>e. jsonErrorDetails 422 (err_text e) [(''stage'', JStr ''balance_query''), (''wallet_id'', JStr (w_ID w)), (''chain'', JStr (w_Chain w))])
           (GetBalance env (cc_Family cfg) (w_Address w) (cc_RPCURL cfg) (w_Chain w) (cc_Currency cfg))) (\<lambda>b.
         ret (JSON 200 [(''success'', JBool True), (''data'', JObj [(''chain'', JStr (bal_Chain b)), (''address'', JStr (bal_Address b)),
           (''balance'', JStr (bal_Balance b)), (''currency'', JStr (bal_Currency b)), (''raw'', JStr (bal_Raw b))])])))"

subsection \<open>The policy endpoints\<close>

definition find_policy :: "'e server_env_scheme \<Rightarrow> string \<Rightarrow> policies \<Rightarrow> approval_policy option" where
  "find_policy env wid ps = (if db_fails env ''first_policy'' then None else first_row (\<lambda>p. pol_WalletID p = wid) ps)"

definition with_limits :: "policy_req \<Rightarrow> bool \<Rightarrow> approval_policy \<Rightarrow> approval_policy" where
  "with_limits req enabled p = p\<lparr>pol_ThresholdUSD := pr_ThresholdUSD req, pol_Enabled := enabled, pol_DailyLimitUSD := pr_DailyLimitUSD req\<rparr>"

definition propose_policy :: "'e server_env_scheme \<Rightarrow> ctx \<Rightarrow> wallet \<Rightarrow> policy_req \<Rightarrow> bool \<Rightarrow> http_resp h" where
  "propose_policy env c w req enabled =
     seq (createPendingApproval env c (Some (w_ID w)) ''policy_change'' (policy_json (with_limits req enabled (new_policy (w_ID w)))) (Some (approvalExpiry env))) (\<lambda>a.
     modify (writeAuditCtx (db_fails env) c ''policy_update'' ''pending'' (Some (w_ID w))
         (Some (JObj [(''threshold_usd'', JStr (pr_ThresholdUSD req)), (''approval_id'', jnat (apr_ID a))])) (apr_ID a))
       (ret (respondPendingApproval c (baseURL env) (apr_ID a) ''Policy change submitted for approval'')))"

definition apply_policy :: "'e server_env_scheme \<Rightarrow> ctx \<Rightarrow> wallet \<Rightarrow> policy_req \<Rightarrow> bool \<Rightarrow> approval_policy option \<Rightarrow> http_resp h" where
  "apply_policy env c w req enabled found = getting t_policies (\<lambda>ps.
     case save_policy (db_fails env) (c_now c) (with_limits req enabled (case found of Some p \<Rightarrow> p | None \<Rightarrow> new_policy (w_ID w))) ps of
       (Created p, ps') \<Rightarrow> modify (\<lambda>s. s\<lparr>t_policies := ps'\<rparr>)
         (modify (writeAuditCtx (db_fails env) c ''policy_update'' ''success'' (Some (w_ID w))
             (Some (JObj [(''threshold_usd'', JStr (pr_ThresholdUSD req)), (''daily_limit_usd'', JStr (pr_DailyLimitUSD req))])) 0)
           (ret (JSON 200 [(''success'', JBool True), (''policy'', policy_json p)])))
     | _ \<Rightarrow> stop (respondInternalError c ''save policy failed'' [(''stage'', JStr ''save_policy''), (''wallet_id'', JStr (w_ID w))]))"

definition SetPolicy :: "'e server_env_scheme \<Rightarrow> ctx \<Rightarrow> http_resp h" where
  "SetPolicy env c =
     seq (loadUserWallet env c) (\<lambda>w.
     seq (bind_json env c policy_req_of) (\<lambda>req.
     let enabled = (case pr_Enabled req of Some b \<Rightarrow> b | None \<Rightarrow> True)
     in if positive_float (pr_ThresholdUSD req) = None then stop (jsonError 400 ''threshold_usd must be a positive number'')
        else if pr_DailyLimitUSD req \<noteq> [] \<and> positive_float (pr_DailyLimitUSD req) = None then stop (jsonError 400 ''daily_limit_usd must be a positive number'')
        else getting t_policies (\<lambda>ps. let found = find_policy env (w_ID w) ps
          in case (case found of Some p \<Rightarrow> if with_limits req enabled p = p then Some p else None | None \<Rightarrow> None) of
               Some p \<Rightarrow> ret (JSON 200 [(''success'', JBool True), (''policy'', policy_json p)])
             | None \<Rightarrow>
                 if \<not> isPasskeyAuth c then propose_policy env c w req enabled
                 else seq (verifyFreshPasskeyParsed env c (pr_LoginSessionID req) (pr_Credential req)) (\<lambda>_. apply_policy env c w req enabled found))))"

definition GetPolicy :: "'e server_env_scheme \<Rightarrow> ctx \<Rightarrow> http_resp h" where
  "GetPolicy env c = seq (loadUserWallet env c) (\<lambda>w. getting t_policies (\<lambda>ps.
     ret (JSON 200 [(''success'', JBool True), (''policy'', opt_json policy_json (find_policy env (w_ID w) ps))])))"

definition DeletePolicy :: "'e server_env_scheme \<Rightarrow> ctx \<Rightarrow> http_resp h" where
  "DeletePolicy env c =
     seq (verifyFreshPasskey env c) (\<lambda>_.
     seq (loadUserWallet env c) (\<lambda>w.
     if db_fails env ''delete_policies'' then stop (respondInternalError c ''delete failed'' [(''stage'', JStr ''delete_policy''), (''wallet_id'', JStr (w_ID w))])
     else getting t_policies (\<lambda>ps.
       if count_rows (\<lambda>p. pol_WalletID p = w_ID w) ps = 0 then stop (jsonError 404 ''policy not found'')
       else modify (\<lambda>s. s\<lparr>t_policies := delete_rows (\<lambda>p. pol_WalletID p = w_ID w) ps\<rparr>)
         (modify (writeAuditCtx (db_fails env) c ''policy_update'' ''success'' (Some (w_ID w)) (Some (JObj [(''action'', JStr ''delete'')])) 0)
           (ret (JSON 200 [(''success'', JBool True)]))))))"

subsection \<open>The day's spending\<close>

text \<open>\<open>time.Format(time.RFC3339)\<close> of an instant in UTC, with the civil date of a day counted from the epoch.\<close>

definition civil_date :: "int \<Rightarrow> int \<times> int \<times> int" where
  "civil_date days =
     (let z = days + 719468; era = z div 146097; doe = z mod 146097;
          yoe = (doe - doe div 1460 + doe div 36524 - doe div 146096) div 365;
          doy = doe - (365 * yoe + yoe div 4 - yoe div 100); mp = (5 * doy + 2) div 153;
          d = doy - (153 * mp + 2) div 5 + 1; m = (if mp < 10 then mp + 3 else mp - 9)
      in (yoe + era * 400 + (if m \<le> 2 then 1 else 0), m, d))"

definition pad :: "nat \<Rightarrow> int \<Rightarrow> string" where
  "pad n v = (let t = int_text 10 v in replicate (n - length t) (CHR ''0'') @ t)"

definition rfc3339 :: "int \<Rightarrow> string" where
  "rfc3339 t = (let secs = t div 1000000000; r = secs mod 86400; (y, m, d) = civil_date (secs div 86400)
     in pad 4 y @ ''-'' @ pad 2 m @ ''-'' @ pad 2 d @ ''T'' @ pad 2 (r div 3600) @ '':'' @ pad 2 (r mod 3600 div 60) @ '':'' @ pad 2 (r mod 60) @ ''Z'')"

text \<open>\<open>None\<close> is the panic of subtracting two infinities.\<close>

definition remaining_usd :: "string \<Rightarrow> string \<Rightarrow> string option" where
  "remaining_usd limit spent = (case (bf_SetString limit, bf_SetString spent) of
       (Some l, Some sp) \<Rightarrow> (case bf_Sub 0 l sp of
           None \<Rightarrow> None | Some rem \<Rightarrow> Some (bf_Text 6 (if bf_Sign rem < 0 then zero_float else rem)))
     | _ \<Rightarrow> Some [])"

definition DailySpent :: "'e server_env_scheme \<Rightarrow> ctx \<Rightarrow> http_resp h" where
  "DailySpent env c = seq (loadUserWallet env c) (\<lambda>w. load_policy env w (\<lambda>policy.
     case policy of
       None \<Rightarrow> ret (JSON 200 [(''daily_spent_usd'', JStr ''0''), (''daily_limit_usd'', JStr []), (''remaining_usd'', JStr []), (''reset_at'', JStr [])])
     | Some pol \<Rightarrow>
         let startOfDay = utcStartOfDay (c_now c); spent = (if pol_DailyResetAt pol < startOfDay then ''0'' else pol_DailySpentUSD pol);
             limited = pol_DailyLimitUSD pol \<noteq> []
         in (case (if limited then remaining_usd (pol_DailyLimitUSD pol) spent else Some []) of
               None \<Rightarrow> panics
             | Some remaining \<Rightarrow> ret (JSON 200 [(''daily_spent_usd'', JStr spent), (''daily_limit_usd'', JStr (pol_DailyLimitUSD pol)),
                 (''remaining_usd'', JStr remaining), (''reset_at'', JStr (if limited then rfc3339 (startOfDay + 86400000000000) else []))]))))"

end
