(* ===== verification/Whitelist.thy ===== *)
theory Whitelist
  imports Wallets
begin

text \<open>
  The contract whitelist (\<open>handler/contract.go\<close>): adding a contract for a user and a chain, by a passkey at once and by an API key as
  a pending approval, listing, renaming and deleting, each with its wallet-scoped and its chain-scoped route.
\<close>

record contract_req =
  cr_LoginSessionID :: nat
  cr_Credential :: "json option"
  cr_ContractAddress :: string
  cr_Label :: string
  cr_Symbol :: string
  cr_Decimals :: int

definition contract_req_of :: "json \<Rightarrow> contract_req option" where
  "contract_req_of = in_obj (\<lambda>o'.
     case (fld_uint 64 ''login_session_id'' o', required (fld_str ''contract_address'' o'), fld_str ''label'' o', fld_str ''symbol'' o', fld_int 64 ''decimals'' o') of
       (Some n, Some a, Some l, Some y, Some d) \<Rightarrow> Some \<lparr>cr_LoginSessionID = n, cr_Credential = fld_any ''credential'' o', cr_ContractAddress = a,
         cr_Label = l, cr_Symbol = y, cr_Decimals = d\<rparr>
     | _ \<Rightarrow> None)"

definition is_sol_key :: "string \<Rightarrow> bool" where
  "is_sol_key a \<longleftrightarrow> (case base58Decode a of Inl _ \<Rightarrow> False | Inr pub \<Rightarrow> length pub = 32)"

definition contract_address :: "chain_config \<Rightarrow> string \<Rightarrow> string + string" where
  "contract_address cfg raw =
     (if cc_Family cfg = ''solana'' then
        let addr = trim_space raw in if is_sol_key addr then Inr addr else Inl ''contract_address: invalid Solana program ID''
      else case normalizeEVMAddress raw of
        Inl e \<Rightarrow> Inl (''contract_address '' @ err_text e)
      | Inr addr \<Rightarrow> if addr = ''0x'' @ replicate 40 (CHR ''0'') then Inl ''zero address is not a valid contract'' else Inr addr)"

definition proposed_contract :: "nat \<Rightarrow> string \<Rightarrow> string \<Rightarrow> contract_req \<Rightarrow> allowed_contract" where
  "proposed_contract userID chain addr req = \<lparr>ac_ID = 0, ac_UserID = userID, ac_Chain = chain, ac_ContractAddress = addr, ac_Label = cr_Label req,
     ac_Symbol = to_upper (trim_space (cr_Symbol req)), ac_Decimals = cr_Decimals req, ac_CreatedAt = zero_time\<rparr>"

definition contract_details :: "allowed_contract \<Rightarrow> jobj" where
  "contract_details p = [(''contract'', JStr (ac_ContractAddress p)), (''chain'', JStr (ac_Chain p)), (''symbol'', JStr (ac_Symbol p)),
     (''decimals'', jint (ac_Decimals p)), (''label'', JStr (ac_Label p))]"

definition already_listed :: http_resp where
  "already_listed = jsonError 409 ''contract already whitelisted for this chain''"

text \<open>The two ways to add a contract: a pending approval, or the row itself after a fresh assertion.\<close>

definition propose_contract :: "'e server_env_scheme \<Rightarrow> ctx \<Rightarrow> string option \<Rightarrow> allowed_contract \<Rightarrow> http_resp h" where
  "propose_contract env c wid p =
     seq (createPendingApproval env c wid ''contract_add'' (contract_json p) (Some (approvalExpiry env))) (\<lambda>a.
     modify (writeAuditCtx (db_fails env) c ''contract_add'' ''pending'' wid (Some (JObj (contract_details p @ [(''approval_id'', jnat (apr_ID a))]))) (apr_ID a))
       (ret (respondPendingApproval c (baseURL env) (apr_ID a) ''Contract whitelist request submitted for approval'')))"

definition insert_contract :: "'e server_env_scheme \<Rightarrow> ctx \<Rightarrow> string option \<Rightarrow> allowed_contract \<Rightarrow> http_resp h" where
  "insert_contract env c wid p = getting t_contracts (\<lambda>cs.
     case create_contract (db_fails env) (c_now c) p cs of
       (Created row, cs') \<Rightarrow> modify (\<lambda>s. s\<lparr>t_contracts := cs'\<rparr>)
         (modify (writeAuditCtx (db_fails env) c ''contract_add'' ''success'' wid (Some (JObj (contract_details p))) 0)
           (ret (JSON 200 [(''success'', JBool True), (''contract'', contract_json row)])))
     | (Duplicate, _) \<Rightarrow> stop already_listed
     | (DbError, _) \<Rightarrow> stop (respondInternalError c ''db error'' [(''stage'', JStr ''contract_add''), (''chain'', JStr (ac_Chain p)), (''contract'', JStr (ac_ContractAddress p))]))"

definition addContractFor :: "'e server_env_scheme \<Rightarrow> ctx \<Rightarrow> nat \<Rightarrow> string \<Rightarrow> string option \<Rightarrow> http_resp h" where
  "addContractFor env c userID chain wid =
     seq (bind_json env c contract_req_of) (\<lambda>req.
     if cr_Decimals req < 0 \<or> cr_Decimals req > 77 then stop (jsonError 400 ''decimals must be between 0 and 77'')
     else case GetChain (env_chains env) chain of
       None \<Rightarrow> stop (jsonError 400 (''unsupported chain: '' @ chain))
     | Some cfg \<Rightarrow> (case contract_address cfg (cr_ContractAddress req) of
           Inl e \<Rightarrow> stop (jsonError 400 e)
         | Inr addr \<Rightarrow> let p = proposed_contract userID chain addr req
             in getting t_contracts (\<lambda>cs.
               if \<not> db_fails env ''first_contract'' \<and> first_row (same_contract p) cs \<noteq> None then stop already_listed
               else if \<not> isPasskeyAuth c then propose_contract env c wid p
               else seq (verifyFreshPasskeyParsed env c (cr_LoginSessionID req) (cr_Credential req)) (\<lambda>_. insert_contract env c wid p))))"

definition listContractsFor :: "'e server_env_scheme \<Rightarrow> ctx \<Rightarrow> nat \<Rightarrow> string \<Rightarrow> http_resp h" where
  "listContractsFor env c userID chain =
     (if db_fails env ''list_contracts'' then stop (respondInternalError c ''db error'' [(''stage'', JStr ''contract_list''), (''chain'', JStr chain)])
      else getting t_contracts (\<lambda>cs. ret (JSON 200 [(''success'', JBool True),
        (''contracts'', JArr (map contract_json (sort_asc ac_CreatedAt (filter (\<lambda>r. ac_UserID r = userID \<and> ac_Chain r = chain) cs))))])))"

definition contract_of_user :: "'e server_env_scheme \<Rightarrow> ctx \<Rightarrow> nat \<Rightarrow> string \<Rightarrow> allowed_contract h" where
  "contract_of_user env c userID chain = (case num_uint 64 (c_cid c) of
       None \<Rightarrow> stop (jsonError 400 ''invalid contract id'')
     | Some cid \<Rightarrow> getting t_contracts (\<lambda>cs.
         case (if db_fails env ''first_contract'' then None else first_row (\<lambda>r. ac_ID r = cid \<and> ac_UserID r = userID \<and> ac_Chain r = chain) cs) of
           None \<Rightarrow> stop (jsonError 404 ''contract not found'') | Some r \<Rightarrow> ret r))"

definition updateContractFor :: "'e server_env_scheme \<Rightarrow> ctx \<Rightarrow> nat \<Rightarrow> string \<Rightarrow> string option \<Rightarrow> http_resp h" where
  "updateContractFor env c userID chain wid =
     seq (contract_of_user env c userID chain) (\<lambda>old.
     seq (bind_json env c (in_obj (fld_opt fld_str ''label''))) (\<lambda>reqLabel.
     case reqLabel of
       None \<Rightarrow> stop (jsonError 400 ''label is required'')
     | Some label \<Rightarrow>
         if label = ac_Label old then ret (JSON 200 [(''success'', JBool True), (''contract'', contract_json old)])
         else if db_fails env ''update_contract'' then stop (respondInternalError c ''update failed'' [(''stage'', JStr ''contract_update''), (''contract_id'', jnat (ac_ID old))])
         else modify (\<lambda>s. s\<lparr>t_contracts := update_rows (\<lambda>r. ac_ID r = ac_ID old) (\<lambda>r. r\<lparr>ac_Label := label\<rparr>) (t_contracts s)\<rparr>)
           (modify (writeAuditCtx (db_fails env) c ''contract_update'' ''success'' wid (Some (JObj [(''contract_id'', jnat (ac_ID old)),
               (''contract'', JStr (ac_ContractAddress old)), (''chain'', JStr chain), (''label'', JStr label)])) 0)
             (ret (JSON 200 [(''success'', JBool True), (''contract'', contract_json (old\<lparr>ac_Label := label\<rparr>))])))))"

definition deleteContractFor :: "'e server_env_scheme \<Rightarrow> ctx \<Rightarrow> nat \<Rightarrow> string \<Rightarrow> http_resp h" where
  "deleteContractFor env c userID chain =
     seq (contract_of_user env c userID chain) (\<lambda>old.
     if db_fails env ''delete_contract'' then stop (respondInternalError c ''delete failed'' [(''stage'', JStr ''contract_delete''), (''contract_id'', jnat (ac_ID old))])
     else modify (\<lambda>s. s\<lparr>t_contracts := delete_rows (\<lambda>r. ac_ID r = ac_ID old) (t_contracts s)\<rparr>) (ret (JSON 200 [(''success'', JBool True)])))"

subsection \<open>Routes\<close>

definition AddContract :: "'e server_env_scheme \<Rightarrow> ctx \<Rightarrow> http_resp h" where
  "AddContract env c = seq (loadUserWallet env c) (\<lambda>w. addContractFor env c (w_UserID w) (w_Chain w) (Some (w_ID w)))"

definition ListContracts :: "'e server_env_scheme \<Rightarrow> ctx \<Rightarrow> http_resp h" where
  "ListContracts env c = seq (loadUserWallet env c) (\<lambda>w. listContractsFor env c (w_UserID w) (w_Chain w))"

definition UpdateContract :: "'e server_env_scheme \<Rightarrow> ctx \<Rightarrow> http_resp h" where
  "UpdateContract env c = seq (loadUserWallet env c) (\<lambda>w. updateContractFor env c (w_UserID w) (w_Chain w) (Some (w_ID w)))"

definition DeleteContract :: "'e server_env_scheme \<Rightarrow> ctx \<Rightarrow> http_resp h" where
  "DeleteContract env c = seq (verifyFreshPasskey env c) (\<lambda>_. seq (loadUserWallet env c) (\<lambda>w. deleteContractFor env c (w_UserID w) (w_Chain w)))"

definition AddContractByChain :: "'e server_env_scheme \<Rightarrow> ctx \<Rightarrow> http_resp h" where
  "AddContractByChain env c = seq (mustUserID c) (\<lambda>userID. addContractFor env c userID (c_chain c) None)"

definition ListContractsByChain :: "'e server_env_scheme \<Rightarrow> ctx \<Rightarrow> http_resp h" where
  "ListContractsByChain env c = seq (mustUserID c) (\<lambda>userID. listContractsFor env c userID (c_chain c))"

definition UpdateContractByChain :: "'e server_env_scheme \<Rightarrow> ctx \<Rightarrow> http_resp h" where
  "UpdateContractByChain env c = seq (mustUserID c) (\<lambda>userID. updateContractFor env c userID (c_chain c) None)"

definition DeleteContractByChain :: "'e server_env_scheme \<Rightarrow> ctx \<Rightarrow> http_resp h" where
  "DeleteContractByChain env c = seq (verifyFreshPasskey env c) (\<lambda>_. seq (mustUserID c) (\<lambda>userID. deleteContractFor env c userID (c_chain c)))"

end
