(* ===== verification/AddressBook.thy ===== *)
theory AddressBook
  imports Whitelist
begin

text \<open>
  The address book (\<open>handler/addressbook.go\<close>): the validation of nicknames and addresses, and the endpoints that list, add, update and
  delete the entries of a user. As for the whitelist, an API key only proposes a change.
\<close>

subsection \<open>Nicknames and addresses\<close>

definition nick_first :: "char \<Rightarrow> bool" where
  "nick_first c \<longleftrightarrow> CHR ''a'' \<le> c \<and> c \<le> CHR ''z'' \<or> is_digit c"

definition nicknameRe :: "string \<Rightarrow> bool" where
  "nicknameRe s = (case s of [] \<Rightarrow> False
     | c # t \<Rightarrow> nick_first c \<and> list_all (\<lambda>d. nick_first d \<or> d = CHR ''_'' \<or> d = CHR ''-'') t)"

definition valid_nickname :: "string \<Rightarrow> string + string" where
  "valid_nickname raw = (let nickname = to_lower (trim_space raw)
     in if length nickname > 100 then Inl ''nickname must be at most 100 characters''
        else if \<not> nicknameRe nickname
        then Inl ''nickname must start with a letter or digit and contain only lowercase letters, digits, hyphens, or underscores''
        else Inr nickname)"

definition validateAddress :: "chains \<Rightarrow> string \<Rightarrow> string \<Rightarrow> string res" where
  "validateAddress cs addr chain = (case GetChain cs chain of
       None \<Rightarrow> Inl (Msg ''unsupported chain'')
     | Some cfg \<Rightarrow>
         if cc_Family cfg = ''solana'' then (let a = trim_space addr in if is_sol_key a then Inr a else Inl (Msg ''invalid Solana address''))
         else normalizeEVMAddress addr)"

definition valid_memo :: "string \<Rightarrow> string + string" where
  "valid_memo raw = (let memo = trim_space raw in if length memo > 256 then Inl ''memo must be at most 256 characters'' else Inr memo)"

text \<open>A validation inside a handler: its text is the error of a 400 response.\<close>

definition checked :: "string + 'a \<Rightarrow> 'a h" where
  "checked r = (case r of Inl e \<Rightarrow> stop (jsonError 400 e) | Inr x \<Rightarrow> ret x)"

definition checked_address :: "string res \<Rightarrow> string h" where
  "checked_address r = checked (case r of Inl e \<Rightarrow> Inl (''address: '' @ err_text e) | Inr a \<Rightarrow> Inr a)"

definition nickname_used :: http_resp where
  "nickname_used = jsonError 409 ''an entry with this nickname already exists for this chain''"

subsection \<open>Listing\<close>

definition ListEntries :: "'e server_env_scheme \<Rightarrow> ctx \<Rightarrow> http_resp h" where
  "ListEntries env c = seq (mustUserID c) (\<lambda>userID.
     let nickname = trim_space (query c ''nickname''); chain = trim_space (query c ''chain'')
     in if db_fails env ''list_entries'' then stop (respondInternalError c ''db error'' [(''stage'', JStr ''addressbook_list'')])
        else getting t_entries (\<lambda>es. ret (JSON 200 [(''success'', JBool True), (''entries'', JArr (map entry_json
          (sort_key ab_Nickname (sort_key ab_Chain (filter (\<lambda>e. ab_UserID e = userID \<and> (nickname \<noteq> [] \<longrightarrow> ab_Nickname e = to_lower nickname)
             \<and> (chain \<noteq> [] \<longrightarrow> ab_Chain e = chain)) es)))))])))"

subsection \<open>Adding\<close>

record entry_req =
  er_LoginSessionID :: nat
  er_Credential :: "json option"
  er_Nickname :: string
  er_Chain :: string
  er_Address :: string
  er_Memo :: string

definition entry_req_of :: "json \<Rightarrow> entry_req option" where
  "entry_req_of = in_obj (\<lambda>o'.
     case (fld_uint 64 ''login_session_id'' o', required (fld_str ''nickname'' o'), required (fld_str ''chain'' o'), required (fld_str ''address'' o'), fld_str ''memo'' o') of
       (Some n, Some k, Some ch, Some a, Some m) \<Rightarrow> Some \<lparr>er_LoginSessionID = n, er_Credential = fld_any ''credential'' o', er_Nickname = k, er_Chain = ch,
         er_Address = a, er_Memo = m\<rparr>
     | _ \<Rightarrow> None)"

definition new_entry :: "nat \<Rightarrow> string \<Rightarrow> string \<Rightarrow> string \<Rightarrow> string \<Rightarrow> address_book_entry" where
  "new_entry userID nickname chain addr memo = \<lparr>ab_ID = 0, ab_UserID = userID, ab_Nickname = nickname, ab_Chain = chain, ab_Address = addr,
     ab_Memo = memo, ab_CreatedAt = zero_time, ab_UpdatedAt = zero_time\<rparr>"

definition propose_entry :: "'e server_env_scheme \<Rightarrow> ctx \<Rightarrow> string \<Rightarrow> address_book_entry \<Rightarrow> jobj \<Rightarrow> string \<Rightarrow> http_resp h" where
  "propose_entry env c kind p details msg =
     seq (createPendingApproval env c None kind (entry_json p) (Some (approvalExpiry env))) (\<lambda>a.
     modify (writeAuditCtx (db_fails env) c kind ''pending'' None (Some (JObj (details @ [(''approval_id'', jnat (apr_ID a))]))) (apr_ID a))
       (ret (respondPendingApproval c (baseURL env) (apr_ID a) msg)))"

definition insert_entry :: "'e server_env_scheme \<Rightarrow> ctx \<Rightarrow> address_book_entry \<Rightarrow> jobj \<Rightarrow> http_resp h" where
  "insert_entry env c p details = getting t_entries (\<lambda>es.
     case create_entry (db_fails env) (c_now c) p es of
       (Created row, es') \<Rightarrow> modify (\<lambda>s. s\<lparr>t_entries := es'\<rparr>)
         (modify (writeAuditCtx (db_fails env) c ''addressbook_add'' ''success'' None (Some (JObj details)) 0)
           (ret (JSON 200 [(''success'', JBool True), (''entry'', entry_json row)])))
     | (Duplicate, _) \<Rightarrow> stop nickname_used
     | (DbError, _) \<Rightarrow> stop (respondInternalError c ''db error'' [(''stage'', JStr ''addressbook_add''), (''nickname'', JStr (ab_Nickname p))]))"

definition AddEntry :: "'e server_env_scheme \<Rightarrow> ctx \<Rightarrow> http_resp h" where
  "AddEntry env c =
     seq (mustUserID c) (\<lambda>userID.
     seq (bind_json env c entry_req_of) (\<lambda>req.
     seq (checked (valid_nickname (er_Nickname req))) (\<lambda>nickname.
     if GetChain (env_chains env) (er_Chain req) = None then stop (jsonError 400 ''unsupported chain'')
     else seq (checked_address (validateAddress (env_chains env) (er_Address req) (er_Chain req))) (\<lambda>addr.
       getting t_entries (\<lambda>es.
       if \<not> db_fails env ''count_entries'' \<and> list_ex (same_entry (new_entry userID nickname (er_Chain req) addr [])) es then stop nickname_used
       else seq (checked (valid_memo (er_Memo req))) (\<lambda>memo.
         let p = new_entry userID nickname (er_Chain req) addr memo;
             details = [(''nickname'', JStr nickname), (''chain'', JStr (er_Chain req)), (''address'', JStr addr)]
         in if \<not> isPasskeyAuth c then propose_entry env c ''addressbook_add'' p details ''Address book entry submitted for approval''
            else seq (verifyFreshPasskeyParsed env c (er_LoginSessionID req) (er_Credential req)) (\<lambda>_. insert_entry env c p details)))))))"

subsection \<open>Updating and deleting\<close>

record entry_change =
  ec_LoginSessionID :: nat
  ec_Credential :: "json option"
  ec_Nickname :: "string option"
  ec_Address :: "string option"
  ec_Memo :: "string option"

definition entry_change_of :: "json \<Rightarrow> entry_change option" where
  "entry_change_of = in_obj (\<lambda>o'.
     case (fld_uint 64 ''login_session_id'' o', fld_opt fld_str ''nickname'' o', fld_opt fld_str ''address'' o', fld_opt fld_str ''memo'' o') of
       (Some n, Some k, Some a, Some m) \<Rightarrow> Some \<lparr>ec_LoginSessionID = n, ec_Credential = fld_any ''credential'' o', ec_Nickname = k, ec_Address = a, ec_Memo = m\<rparr>
     | _ \<Rightarrow> None)"

definition entry_of_user :: "'e server_env_scheme \<Rightarrow> ctx \<Rightarrow> nat \<Rightarrow> address_book_entry h" where
  "entry_of_user env c userID = (case num_uint 64 (c_id c) of
       None \<Rightarrow> stop (jsonError 400 ''invalid entry id'')
     | Some i \<Rightarrow> getting t_entries (\<lambda>es.
         case (if db_fails env ''first_entry'' then None else first_row (\<lambda>e. ab_ID e = i \<and> ab_UserID e = userID) es) of
           None \<Rightarrow> stop (jsonError 404 ''address book entry not found'') | Some e \<Rightarrow> ret e))"

definition change_nickname :: "'e server_env_scheme \<Rightarrow> string option \<Rightarrow> address_book_entry \<Rightarrow> address_book_entry h" where
  "change_nickname env new e = (case new of
       None \<Rightarrow> ret e
     | Some raw \<Rightarrow> seq (checked (valid_nickname raw)) (\<lambda>nickname. getting t_entries (\<lambda>es.
         if \<not> db_fails env ''count_entries'' \<and> list_ex (\<lambda>q. ab_ID q \<noteq> ab_ID e \<and> same_entry (e\<lparr>ab_Nickname := nickname\<rparr>) q) es then stop nickname_used
         else ret (e\<lparr>ab_Nickname := nickname\<rparr>))))"

definition change_address :: "'e server_env_scheme \<Rightarrow> string option \<Rightarrow> address_book_entry \<Rightarrow> address_book_entry h" where
  "change_address env new e = (case new of
       None \<Rightarrow> ret e
     | Some raw \<Rightarrow> seq (checked_address (validateAddress (env_chains env) raw (ab_Chain e))) (\<lambda>addr. ret (e\<lparr>ab_Address := addr\<rparr>)))"

definition change_memo :: "string option \<Rightarrow> address_book_entry \<Rightarrow> address_book_entry h" where
  "change_memo new e = (case new of None \<Rightarrow> ret e | Some raw \<Rightarrow> seq (checked (valid_memo raw)) (\<lambda>memo. ret (e\<lparr>ab_Memo := memo\<rparr>)))"

text \<open>Only the given columns are written, and \<open>updated_at\<close> by the library; the unique index may still refuse the row.\<close>

definition write_entry :: "'e server_env_scheme \<Rightarrow> ctx \<Rightarrow> entry_change \<Rightarrow> address_book_entry \<Rightarrow> http_resp h" where
  "write_entry env c req p = getting t_entries (\<lambda>es.
     if list_ex (\<lambda>q. ab_ID q \<noteq> ab_ID p \<and> same_entry p q) es then stop nickname_used
     else if db_fails env ''update_entry'' then stop (respondInternalError c ''update failed'' [(''stage'', JStr ''addressbook_update''), (''entry_id'', jnat (ab_ID p))])
     else modify (\<lambda>s. s\<lparr>t_entries := update_rows (\<lambda>r. ab_ID r = ab_ID p) (\<lambda>r. r\<lparr>
            ab_Nickname := (if ec_Nickname req = None then ab_Nickname r else ab_Nickname p),
            ab_Address := (if ec_Address req = None then ab_Address r else ab_Address p),
            ab_Memo := (if ec_Memo req = None then ab_Memo r else ab_Memo p), ab_UpdatedAt := c_now c\<rparr>) es\<rparr>)
       (modify (writeAuditCtx (db_fails env) c ''addressbook_update'' ''success'' None
           (Some (JObj [(''entry_id'', jnat (ab_ID p)), (''nickname'', JStr (ab_Nickname p)), (''address'', JStr (ab_Address p))])) 0)
         (ret (JSON 200 [(''success'', JBool True), (''entry'', entry_json p)]))))"

definition UpdateEntry :: "'e server_env_scheme \<Rightarrow> ctx \<Rightarrow> http_resp h" where
  "UpdateEntry env c =
     seq (mustUserID c) (\<lambda>userID.
     seq (entry_of_user env c userID) (\<lambda>old.
     seq (bind_json env c entry_change_of) (\<lambda>req.
     seq (change_nickname env (ec_Nickname req) old) (\<lambda>e1.
     seq (change_address env (ec_Address req) e1) (\<lambda>e2.
     seq (change_memo (ec_Memo req) e2) (\<lambda>p.
     if ec_Nickname req = None \<and> ec_Address req = None \<and> ec_Memo req = None then stop (jsonError 400 ''no fields to update'')
     else if p = old then ret (JSON 200 [(''success'', JBool True), (''entry'', entry_json old)])
     else if \<not> isPasskeyAuth c then propose_entry env c ''addressbook_update'' p
         [(''entry_id'', jnat (ab_ID old)), (''nickname'', JStr (ab_Nickname p)), (''address'', JStr (ab_Address p))] ''Address book update submitted for approval''
     else seq (verifyFreshPasskeyParsed env c (ec_LoginSessionID req) (ec_Credential req)) (\<lambda>_. write_entry env c req p)))))))"

definition DeleteEntry :: "'e server_env_scheme \<Rightarrow> ctx \<Rightarrow> http_resp h" where
  "DeleteEntry env c =
     seq (verifyFreshPasskey env c) (\<lambda>_.
     seq (mustUserID c) (\<lambda>userID.
     seq (entry_of_user env c userID) (\<lambda>e.
     if db_fails env ''delete_entry'' then stop (respondInternalError c ''delete failed'' [(''stage'', JStr ''addressbook_delete''), (''entry_id'', jnat (ab_ID e))])
     else modify (\<lambda>s. s\<lparr>t_entries := delete_rows (\<lambda>r. ab_ID r = ab_ID e) (t_entries s)\<rparr>)
       (modify (writeAuditCtx (db_fails env) c ''addressbook_delete'' ''success'' None (Some (JObj [(''entry_id'', jnat (ab_ID e)),
           (''nickname'', JStr (ab_Nickname e)), (''chain'', JStr (ab_Chain e)), (''address'', JStr (ab_Address e))])) 0)
         (ret (JSON 200 [(''success'', JBool True)]))))))"

end
