(* ===== verification/ContractCall.thy ===== *)
theory ContractCall
  imports AddressBook Abi
begin

text \<open>
  Contract calls (\<open>handler/contract_call.go\<close> and \<open>handler/call_read.go\<close>): a call of a whitelisted EVM contract or Solana program, the token
  allowance endpoints and the read-only call. An API key never signs here: its request becomes a pending approval. Arguments are
  echoed in the responses as they were received.
\<close>

subsection \<open>Requests\<close>

text \<open>An element of \<open>[]interface{}\<close>; a number that is no float64 is a decoding error.\<close>

fun goval_of_json :: "json \<Rightarrow> goval option" where
  "goval_of_json JNull = Some GNil"
| "goval_of_json (JBool b) = Some (GBool b)"
| "goval_of_json (JNum x) = map_option GFloat (num_float x)"
| "goval_of_json (JStr s) = Some (GStr s)"
| "goval_of_json (JArr js) = map_option GList (those (map goval_of_json js))"
| "goval_of_json (JObj kvs) = map_option GMap (those (map (\<lambda>kv. map_option (Pair (fst kv)) (goval_of_json (snd kv))) kvs))"

definition fld_args :: "jobj \<Rightarrow> (goval list \<times> json) option" where
  "fld_args o' = (case fld_any ''args'' o' of
       None \<Rightarrow> Some ([], JNull)
     | Some (JArr js) \<Rightarrow> map_option (\<lambda>vs. (vs, JArr js)) (those (map goval_of_json js))
     | Some _ \<Rightarrow> None)"

record call_req =
  cq_Contract :: string
  cq_FuncSig :: string
  cq_Args :: "goval list"
  cq_ArgsJson :: json
  cq_Value :: string
  cq_Memo :: string
  cq_Accounts :: "sol_account_meta list"
  cq_Data :: string

definition call_req_of :: "json \<Rightarrow> call_req option" where
  "call_req_of = in_obj (\<lambda>o'.
     case (required (fld_str ''contract'' o'), fld_str ''func_sig'' o', fld_args o', fld_str ''value'' o', fld_str ''memo'' o', fld_metas ''accounts'' o', fld_str ''data'' o') of
       (Some t, Some f, Some (vs, aj), Some v, Some m, Some ms, Some d) \<Rightarrow> Some \<lparr>cq_Contract = t, cq_FuncSig = f, cq_Args = vs, cq_ArgsJson = aj,
         cq_Value = v, cq_Memo = m, cq_Accounts = ms, cq_Data = d\<rparr>
     | _ \<Rightarrow> None)"

definition extractMethodName :: "string \<Rightarrow> string + string" where
  "extractMethodName funcSig =
     (let name = takeWhile (\<lambda>c. c \<noteq> CHR ''('') funcSig
      in if CHR ''('' \<notin> set funcSig \<or> name = [] then Inl (''invalid function signature: '' @ [CHR 0x22] @ funcSig @ [CHR 0x22])
         else if trim_space name = [] then Inl (''empty method name in signature: '' @ [CHR 0x22] @ funcSig @ [CHR 0x22]) else Inr (trim_space name))"

subsection \<open>Shared steps\<close>

definition ready_wallet :: "'e server_env_scheme \<Rightarrow> ctx \<Rightarrow> wallet h" where
  "ready_wallet env c = seq (loadUserWallet env c) (\<lambda>w.
     if w_Status w \<noteq> ''ready'' then stop (jsonError 400 (''wallet is not ready (status: '' @ w_Status w @ '')'')) else ret w)"

definition whitelisted :: "'e server_env_scheme \<Rightarrow> wallet \<Rightarrow> string \<Rightarrow> string \<Rightarrow> allowed_contract h" where
  "whitelisted env w what addr = getting t_contracts (\<lambda>cs.
     case allowed_row (db_fails env) w addr cs of None \<Rightarrow> stop (jsonError 403 (what @ '' not whitelisted: '' @ addr)) | Some a \<Rightarrow> ret a)"

text \<open>The pending approval of a call, with its audit entry and the response.\<close>

definition propose_call :: "'e server_env_scheme \<Rightarrow> ctx \<Rightarrow> wallet \<Rightarrow> string \<Rightarrow> bytes \<Rightarrow> jobj \<Rightarrow> json \<Rightarrow> string \<Rightarrow> http_resp h" where
  "propose_call env c w action msg txContext params reason =
     seq (mustUserID c) (\<lambda>userID s.
       case create_approval env ((approval_of env c userID w (hex_encode msg) txContext (Some params))\<lparr>apr_ApprovalType := ''contract_call''\<rparr>) s of
         (Inl e, s') \<Rightarrow> (Inl (respondInternalError c ''create approval request failed'' [(''stage'', JStr ''create_approval''), (''wallet_id'', JStr (w_ID w))]), s')
       | (Inr a, s') \<Rightarrow>
           (Inr (JSON 202 [(''status'', JStr ''pending_approval''), (''approval_id'', jnat (apr_ID a)), (''message'', JStr reason), (''tx_context'', JObj txContext),
              (''approval_url'', JStr (requestBaseURL c (baseURL env) @ ''/#/approve/'' @ nat_text 10 (apr_ID a)))]),
            writeAuditCtx (db_fails env) c action ''pending'' (Some (w_ID w))
              (Some (JObj [(''approval_id'', jnat (apr_ID a)), (''tx_context'', JObj txContext)])) (apr_ID a) s'))"

text \<open>One signature and the broadcast of the signed transaction, without the retry of a transfer.\<close>

definition sign_call :: "'e server_env_scheme \<Rightarrow> wallet \<Rightarrow> bytes \<Rightarrow> jobj \<Rightarrow> bytes h" where
  "sign_call env w msg details s =
     (let failed = (\<lambda>e. jsonErrorDetails 422 (''signing failed: '' @ e)
            ([(''stage'', JStr ''signing''), (''wallet_id'', JStr (w_ID w)), (''chain'', JStr (w_Chain w))] @ details))
      in case sdk_Sign env msg (w_KeyName w) s of
           (SignErr e, s') \<Rightarrow> (Inl (failed e), s')
         | (SignRes success sig err, s') \<Rightarrow> if success then (Inr sig, s') else (Inl (failed err), s'))"

definition send_call :: "wallet \<Rightarrow> jobj \<Rightarrow> (server, string) io \<Rightarrow> string h" where
  "send_call w details m = or_fail (\<lambda>e. respondBroadcastErrorDetails e
     ([(''stage'', JStr ''broadcast''), (''wallet_id'', JStr (w_ID w)), (''chain'', JStr (w_Chain w))] @ details)) m"

definition record_call :: "'e server_env_scheme \<Rightarrow> ctx \<Rightarrow> wallet \<Rightarrow> string \<Rightarrow> jobj \<Rightarrow> jobj \<Rightarrow> string \<Rightarrow> http_resp h" where
  "record_call env c w action txContext extra txHash =
     modify (writeAuditCtx (db_fails env) c action ''success'' (Some (w_ID w)) (Some (JObj [(''tx_hash'', JStr txHash), (''tx_context'', JObj txContext)])) 0)
       (ret (JSON 200 ([(''status'', JStr ''completed''), (''tx_hash'', JStr txHash), (''chain'', JStr (w_Chain w)), (''from'', JStr (w_Address w))] @ extra @
          [(''wallet_address'', JStr (w_Address w))])))"

definition api_key_reason :: string where
  "api_key_reason = ''contract operations require passkey approval''"

subsection \<open>EVM contracts\<close>

definition contractCallDebug :: "wallet \<Rightarrow> string \<Rightarrow> string \<Rightarrow> call_req \<Rightarrow> string \<Rightarrow> nat \<Rightarrow> json" where
  "contractCallDebug w addr methodName req selector calldataLen = JObj [(''wallet_address'', JStr (w_Address w)), (''chain'', JStr (w_Chain w)),
     (''method'', JStr methodName), (''args'', cq_ArgsJson req), (''value'', JStr (cq_Value req)),
     (''tx_preview'', JObj [(''to'', JStr addr), (''value'', JStr (cq_Value req)), (''selector'', JStr selector), (''calldata_len'', jnat calldataLen)])]"

definition respondContractCallStageError :: "nat \<Rightarrow> string \<Rightarrow> string \<Rightarrow> wallet \<Rightarrow> string \<Rightarrow> string \<Rightarrow> call_req \<Rightarrow> string \<Rightarrow> nat \<Rightarrow> gerr \<Rightarrow> http_resp" where
  "respondContractCallStageError status stage msg w addr methodName req selector calldataLen err = jsonErrorDetails status msg
     [(''stage'', JStr stage), (''contract'', JStr addr), (''func_sig'', JStr (cq_FuncSig req)), (''selector'', JStr selector),
      (''revert_reason'', JStr (extractRevertReason err)), (''debug'', contractCallDebug w addr methodName req selector calldataLen),
      (''rpc_error'', JStr (sanitizeErrString err))]"

text \<open>The value in wei with the default precision; an infinite value has none.\<close>

definition value_wei :: "string \<Rightarrow> int option option" where
  "value_wei v = (if v = [] then Some None else case bf_SetString v of
       None \<Rightarrow> None
     | Some x \<Rightarrow> if bf_Sign x < 0 then None else if bf_Sign x = 0 then Some None
         else Some (case bf_Mul 0 x (bf_SetInt (10 ^ 18)) of None \<Rightarrow> None | Some f \<Rightarrow> bf_Int f))"

text \<open>A decimal is read and multiplied with 64 bits of precision: a thousandth of an ether is one wei short.\<close>

lemma value_wei_truncates: "value_wei ''0.001'' = Some (Some 999999999999999)"
  by code_simp

definition effective_usd :: "chain_config \<Rightarrow> string \<Rightarrow> int option \<Rightarrow> price_state option \<Rightarrow> f64" where
  "effective_usd cfg v wei prices = (case (prices, wei) of
       (Some ps, Some n) \<Rightarrow> if n > 0 then (case usable_price (GetUSDPrice (cc_Currency cfg) ps) of Some p \<Rightarrow> usd_of v p | None \<Rightarrow> Some (Fin 0)) else Some (Fin 0)
     | _ \<Rightarrow> Some (Fin 0))"

definition call_context :: "wallet \<Rightarrow> string \<Rightarrow> string \<Rightarrow> call_req \<Rightarrow> f64 \<Rightarrow> jobj" where
  "call_context w addr methodName req v =
     [(''type'', JStr ''contract_call''), (''from'', JStr (w_Address w)), (''contract'', JStr addr), (''method'', JStr methodName),
      (''func_sig'', JStr (cq_FuncSig req)), (''args'', cq_ArgsJson req), (''memo'', JStr (cq_Memo req))] @
     (if cq_Value req \<noteq> [] then [(''value_eth'', JStr (cq_Value req))] else []) @
     (case v of Some x \<Rightarrow> if f64_gt0 v then [(''amount_usd'', JStr (bf_Text 2 (bf_SetFloat64 x)))] else [] | None \<Rightarrow> [])"

text \<open>Why a call needs an approval: no passkey, or a value above the threshold of the active policy.\<close>

definition call_needs_approval :: "'e server_env_scheme \<Rightarrow> ctx \<Rightarrow> wallet \<Rightarrow> f64 \<Rightarrow> policies \<Rightarrow> string option" where
  "call_needs_approval env c w v ps =
     (if \<not> isPasskeyAuth c then Some api_key_reason
      else case load_active (db_fails env) (w_ID w) ps of
        Some pol \<Rightarrow> if over_threshold pol v
          then Some (''value transfer ($'' @ (case v of Some x \<Rightarrow> bf_Text 2 (bf_SetFloat64 x) | None \<Rightarrow> []) @ '' USD) exceeds approval threshold ($'' @ pol_ThresholdUSD pol @ '' USD)'')
          else None
      | None \<Rightarrow> None)"

definition deduct_call :: "'e server_env_scheme \<Rightarrow> ctx \<Rightarrow> wallet \<Rightarrow> f64 \<Rightarrow> string h" where
  "deduct_call env c w v = load_policy env w (\<lambda>policy. case policy of None \<Rightarrow> ret [] | Some pol \<Rightarrow> deduct_limit env c w pol v)"

definition settle_call :: "'e server_env_scheme \<Rightarrow> ctx \<Rightarrow> wallet \<Rightarrow> chain_config \<Rightarrow> string \<Rightarrow> string \<Rightarrow> call_req \<Rightarrow> int option \<Rightarrow> eth_tx_data \<Rightarrow> http_resp h" where
  "settle_call env c w cfg addr methodName req wei txData =
     getting sv_prices (\<lambda>prices. getting t_policies (\<lambda>ps.
     let v = effective_usd cfg (cq_Value req) wei prices; txContext = call_context w addr methodName req v;
         params = eth_to_json (etd_Params txData); msg = etd_SigningHash txData;
         ds = [(''contract'', JStr addr), (''method'', JStr methodName)]
     in case call_needs_approval env c w v ps of
          Some reason \<Rightarrow> propose_call env c w ''contract_call'' msg txContext params reason
        | None \<Rightarrow>
            seq (deduct_call env c w v) (\<lambda>_.
            seq (sign_call env w msg ds) (\<lambda>sig.
            seq (send_call w ds (broadcastSigned env w params sig)) (record_call env c w ''contract_call'' txContext ds)))))"

definition contractCallEVM :: "'e server_env_scheme \<Rightarrow> ctx \<Rightarrow> wallet \<Rightarrow> chain_config \<Rightarrow> http_resp h" where
  "contractCallEVM env c w cfg =
     seq (bind_or (jsonErrorDetails 400 ''invalid request body'' [(''stage'', JStr ''bind_json'')]) c call_req_of) (\<lambda>req.
     if cq_FuncSig req = [] then stop (jsonErrorDetails 400 ''func_sig is required for EVM contract calls'' [(''stage'', JStr ''validation'')])
     else case normalizeEVMAddress (cq_Contract req) of
       Inl e \<Rightarrow> stop (jsonErrorDetails 400 (''contract: '' @ err_text e) [(''stage'', JStr ''validation''), (''contract'', JStr (cq_Contract req))])
     | Inr addr \<Rightarrow>
         seq (whitelisted env w ''contract'' addr) (\<lambda>_.
         case extractMethodName (cq_FuncSig req) of
           Inl e \<Rightarrow> stop (jsonErrorDetails 400 e [(''stage'', JStr ''validation''), (''func_sig'', JStr (cq_FuncSig req))])
         | Inr methodName \<Rightarrow> (case EncodeCall env (cq_FuncSig req) (cq_Args req) of
               Inl (Panic p) \<Rightarrow> panics
             | Inl e \<Rightarrow> stop (respondContractCallStageError 400 ''encode_calldata'' ''failed to encode calldata'' w addr methodName req [] 0 e)
             | Inr calldata \<Rightarrow> (case value_wei (cq_Value req) of
                   None \<Rightarrow> stop (jsonError 400 ''invalid value: must be a non-negative number in ETH'')
                 | Some wei \<Rightarrow>
                     let selector = (if length calldata \<ge> 4 then ''0x'' @ hex_encode (take 4 calldata) else [])
                     in seq (or_fail (respondContractCallStageError 422 ''estimate_gas'' ''failed to build contract call transaction'' w addr methodName req selector (length calldata))
                          (BuildETHContractCallTx env (cc_RPCURL cfg) (w_Address w) addr calldata wei))
                        (settle_call env c w cfg addr methodName req wei)))))"

subsection \<open>Solana programs\<close>

text \<open>The first account that is no base58 text.\<close>

definition bad_account :: "sol_account_meta list \<Rightarrow> nat option" where
  "bad_account as = find (\<lambda>i. case base58Decode (am_Pubkey (as ! i)) of Inl _ \<Rightarrow> True | Inr _ \<Rightarrow> False) [0..<length as]"

definition program_context :: "wallet \<Rightarrow> string \<Rightarrow> call_req \<Rightarrow> jobj" where
  "program_context w programID req = [(''type'', JStr ''program_call''), (''from'', JStr (w_Address w)), (''program_id'', JStr programID),
     (''accounts'', JArr (map meta_to_json (cq_Accounts req))), (''data'', JStr (cq_Data req)), (''memo'', JStr (cq_Memo req)), (''chain'', JStr (w_Chain w))]"

definition settle_program :: "'e server_env_scheme \<Rightarrow> ctx \<Rightarrow> wallet \<Rightarrow> chain_config \<Rightarrow> string \<Rightarrow> call_req \<Rightarrow> sol_program_params sol_tx_data \<Rightarrow> http_resp h" where
  "settle_program env c w cfg programID req txData =
     (let txContext = program_context w programID req; msg = std_MessageBytes txData; ds = [(''program_id'', JStr programID)]
      in if \<not> isPasskeyAuth c then propose_call env c w ''contract_call'' msg txContext (program_to_json (std_Params txData)) api_key_reason
         else seq (sign_call env w msg ds) (\<lambda>sig.
              seq (send_call w ds (AssembleAndBroadcastSOLProgram env (cc_RPCURL cfg) (std_Params txData) sig)) (record_call env c w ''contract_call'' txContext ds)))"

definition contractCallSolana :: "'e server_env_scheme \<Rightarrow> ctx \<Rightarrow> wallet \<Rightarrow> chain_config \<Rightarrow> http_resp h" where
  "contractCallSolana env c w cfg =
     seq (bind_or (jsonError 400 ''invalid request body'') c call_req_of) (\<lambda>req.
     let programID = trim_space (cq_Contract req)
     in case base58Decode programID of
          Inl _ \<Rightarrow> stop (jsonError 400 ''contract: invalid Solana program ID'')
        | Inr _ \<Rightarrow>
            seq (whitelisted env w ''program'' programID) (\<lambda>_.
            case hex_decode (trim_prefix (cq_Data req) ''0x'') of
              None \<Rightarrow> stop (jsonError 400 ''data: invalid hex'')
            | Some instrData \<Rightarrow>
                if cq_Accounts req = [] then stop (jsonError 400 ''accounts: at least one account is required'')
                else (case bad_account (cq_Accounts req) of
                    Some i \<Rightarrow> stop (jsonError 400 (''accounts['' @ nat_text 10 i @ ''].pubkey: invalid base58''))
                  | None \<Rightarrow>
                      seq (or_fail (\<lambda>e. respondBuildTxFailed w e [(''program_id'', JStr programID)])
                            (BuildSOLProgramCallTx env (cc_RPCURL cfg) (w_Address w) programID (cq_Accounts req) instrData))
                          (settle_program env c w cfg programID req))))"

definition ContractCall :: "'e server_env_scheme \<Rightarrow> ctx \<Rightarrow> http_resp h" where
  "ContractCall env c = seq (ready_wallet env c) (\<lambda>w.
     case GetChain (env_chains env) (w_Chain w) of
       None \<Rightarrow> stop (jsonError 400 ''unsupported chain'')
     | Some cfg \<Rightarrow>
         if cc_Family cfg = ''evm'' then contractCallEVM env c w cfg
         else if cc_Family cfg = ''solana'' then contractCallSolana env c w cfg
         else stop (jsonError 400 (''contract calls not supported on '' @ cc_Family cfg)))"

subsection \<open>Token allowances\<close>

text \<open>The amount in token units: \<open>None\<close> is a refused text, \<open>Some None\<close> the nil integer of an infinite amount.\<close>

definition allowance_units :: "allowed_contract \<Rightarrow> string \<Rightarrow> int option option" where
  "allowance_units allowed amount =
     (if amount = ''0'' then Some (Some 0)
      else case bf_SetString amount of
        None \<Rightarrow> None
      | Some x \<Rightarrow> if bf_Sign x < 0 then None
          else Some (case bf_Mul 0 x (bf_SetInt (ten_to (if ac_Decimals allowed = 0 then 18 else ac_Decimals allowed))) of None \<Rightarrow> None | Some f \<Rightarrow> bf_Int f))"

definition approve_context :: "wallet \<Rightarrow> string \<Rightarrow> string \<Rightarrow> string \<Rightarrow> allowed_contract \<Rightarrow> string \<Rightarrow> jobj" where
  "approve_context w addr spender amount allowed action = [(''type'', JStr ''contract_call''), (''from'', JStr (w_Address w)), (''contract'', JStr addr),
     (''spender'', JStr spender), (''amount'', JStr amount), (''symbol'', JStr (ac_Symbol allowed)), (''decimals'', jint (ac_Decimals allowed)), (''action'', JStr action)]"

definition settle_approve :: "'e server_env_scheme \<Rightarrow> ctx \<Rightarrow> wallet \<Rightarrow> string \<Rightarrow> string \<Rightarrow> string \<Rightarrow> allowed_contract \<Rightarrow> string \<Rightarrow> eth_tx_data \<Rightarrow> http_resp h" where
  "settle_approve env c w addr spender amount allowed action txData =
     (let txContext = approve_context w addr spender amount allowed action; params = eth_to_json (etd_Params txData); msg = etd_SigningHash txData;
          ds = [(''contract'', JStr addr), (''spender'', JStr spender), (''action'', JStr action)]
      in if \<not> isPasskeyAuth c then propose_call env c w action msg txContext params (action @ '' requires passkey approval'')
         else seq (sign_call env w msg ds) (\<lambda>sig.
              seq (send_call w ds (broadcastSigned env w params sig)) (record_call env c w action txContext [(''contract'', JStr addr), (''spender'', JStr spender)])))"

definition executeApprove :: "'e server_env_scheme \<Rightarrow> ctx \<Rightarrow> string \<Rightarrow> string \<Rightarrow> string \<Rightarrow> string \<Rightarrow> http_resp h" where
  "executeApprove env c contractRaw spenderRaw amount action =
     seq (ready_wallet env c) (\<lambda>w.
     case GetChain (env_chains env) (w_Chain w) of
       None \<Rightarrow> stop (jsonError 400 ''contract calls are only supported on EVM chains'')
     | Some cfg \<Rightarrow>
         if cc_Family cfg \<noteq> ''evm'' then stop (jsonError 400 ''contract calls are only supported on EVM chains'')
         else case (normalizeEVMAddress contractRaw, normalizeEVMAddress spenderRaw) of
             (Inl e, _) \<Rightarrow> stop (jsonError 400 (''contract: '' @ err_text e))
           | (_, Inl e) \<Rightarrow> stop (jsonError 400 (''spender: '' @ err_text e))
           | (Inr addr, Inr spender) \<Rightarrow>
               seq (whitelisted env w ''contract'' addr) (\<lambda>allowed.
               case allowance_units allowed amount of
                 None \<Rightarrow> stop (jsonError 400 ''invalid amount: must be a non-negative number'')
               | Some None \<Rightarrow> panics
               | Some (Some units) \<Rightarrow> (case EncodeERC20Approve env spender units of
                     Inl (Panic p) \<Rightarrow> panics
                   | Inl e \<Rightarrow> stop (jsonErrorDetails 400 ''failed to encode approve calldata''
                       [(''stage'', JStr ''encode_calldata''), (''wallet_id'', JStr (w_ID w)), (''chain'', JStr (w_Chain w))])
                   | Inr calldata \<Rightarrow>
                       seq (or_fail (\<lambda>e. respondBuildTxFailed w e [(''contract'', JStr addr), (''spender'', JStr spender), (''action'', JStr action)])
                             (BuildETHContractCallTx env (cc_RPCURL cfg) (w_Address w) addr calldata None))
                           (settle_approve env c w addr spender amount allowed action))))"

definition ApproveToken :: "'e server_env_scheme \<Rightarrow> ctx \<Rightarrow> http_resp h" where
  "ApproveToken env c =
     seq (bind_or (jsonError 400 ''invalid request body'') c (in_obj (\<lambda>o'.
        case (required (fld_str ''contract'' o'), required (fld_str ''spender'' o'), required (fld_str ''amount'' o')) of
          (Some t, Some sp, Some a) \<Rightarrow> Some (t, sp, a) | _ \<Rightarrow> None))) (\<lambda>(t, sp, a).
     executeApprove env c t sp a ''approve_token'')"

definition RevokeApproval :: "'e server_env_scheme \<Rightarrow> ctx \<Rightarrow> http_resp h" where
  "RevokeApproval env c =
     seq (bind_or (jsonError 400 ''invalid request body'') c (in_obj (\<lambda>o'.
        case (required (fld_str ''contract'' o'), required (fld_str ''spender'' o')) of (Some t, Some sp) \<Rightarrow> Some (t, sp) | _ \<Rightarrow> None))) (\<lambda>(t, sp).
     executeApprove env c t sp ''0'' ''revoke_approval'')"

subsection \<open>Read-only calls\<close>

definition CallRead :: "'e server_env_scheme \<Rightarrow> ctx \<Rightarrow> http_resp h" where
  "CallRead env c = seq (loadUserWallet env c) (\<lambda>w.
     case GetChain (env_chains env) (w_Chain w) of
       None \<Rightarrow> stop (jsonError 400 ''call-read is only supported on EVM chains'')
     | Some cfg \<Rightarrow>
         if cc_Family cfg \<noteq> ''evm'' then stop (jsonError 400 ''call-read is only supported on EVM chains'')
         else seq (bind_json env c (in_obj (\<lambda>o'. case (required (fld_str ''contract'' o'), required (fld_str ''func_sig'' o'), fld_args o') of
             (Some t, Some f, Some (vs, _)) \<Rightarrow> Some (t, f, vs) | _ \<Rightarrow> None))) (\<lambda>(contract, funcSig, args).
           case normalizeEVMAddress contract of
             Inl e \<Rightarrow> stop (jsonError 400 (''contract: '' @ err_text e))
           | Inr addr \<Rightarrow> (case EncodeCall env funcSig args of
                 Inl (Panic p) \<Rightarrow> panics
               | Inl e \<Rightarrow> stop (jsonError 400 (''encode calldata: '' @ err_text e))
               | Inr calldata \<Rightarrow>
                   seq (or_fail (\<lambda>e. jsonErrorDetails 422 (''eth_call: '' @ err_text e) [(''stage'', JStr ''eth_call''), (''wallet_id'', JStr (w_ID w)),
                         (''chain'', JStr (w_Chain w)), (''contract'', JStr addr), (''func_sig'', JStr funcSig)])
                       (ETHCall env (cc_RPCURL cfg) (w_Address w) addr calldata)) (\<lambda>result.
                   case extractMethodName funcSig of
                     Inl e \<Rightarrow> stop (jsonError 400 e)
                   | Inr methodName \<Rightarrow> ret (JSON 200 [(''success'', JBool True), (''result'', JStr (''0x'' @ hex_encode result)),
                       (''contract'', JStr addr), (''method'', JStr methodName)])))))"

end
