(* ===== verification/Accounts.thy ===== *)
theory Accounts
  imports Email ContractCall
begin

text \<open>
  Accounts (\<open>handler/auth.go\<close>) and the audit log query (\<open>handler/audit.go\<close>): registration with a verified address, passkey login, API keys, logout and the
  deletion of an account. The passkey service of the SDK, the random draws and the configured limits are parameters.
\<close>

subsection \<open>Environment\<close>

datatype 'r sdk_answer = SdkErr string | SdkRes 'r

record invite_result =
  iv_Success :: bool
  iv_Error :: string
  iv_InviteToken :: string
  iv_ExpiresAt :: json

record register_result =
  rg_Success :: bool
  rg_Error :: string
  rg_DisplayName :: string
  rg_PasskeyUserID :: nat

text \<open>Options carry success, error and the document; a login carries success, error and its data. \<open>rand_hex n\<close> is the draw of \<open>randomHex(n)\<close> of the request and
  \<open>rand_csrf\<close> that of the session store. \<open>big_float_u64\<close> is the conversion of a float beyond the range, which Go leaves open.\<close>

record account_env = wallet_env +
  InvitePasskeyUser :: "string \<Rightarrow> int \<Rightarrow> invite_result sdk_answer"
  sdk_login_options :: "json sdk_answer"
  sdk_register_options :: "string \<Rightarrow> (bool \<times> string \<times> json) sdk_answer"
  sdk_register_verify :: "string \<Rightarrow> json option \<Rightarrow> register_result sdk_answer"
  sdk_login_verify :: "nat \<Rightarrow> json \<Rightarrow> (bool \<times> string \<times> jobj) sdk_answer"
  rand_hex :: "nat \<Rightarrow> string"
  rand_csrf :: string
  big_float_u64 :: nat
  email_service :: "email_env option"
  maxAPIKeys :: int
  maxUsers :: int

text \<open>\<open>err != nil || !res.Success\<close> with the message of either.\<close>

definition sdk_ok :: "('r \<Rightarrow> bool) \<Rightarrow> ('r \<Rightarrow> string) \<Rightarrow> 'r sdk_answer \<Rightarrow> string + 'r" where
  "sdk_ok success err a = (case a of SdkErr e \<Rightarrow> Inl e | SdkRes r \<Rightarrow> if success r then Inr r else Inl (err r))"

definition sdk_step :: "(string \<Rightarrow> http_resp) \<Rightarrow> (string + 'r) \<Rightarrow> 'r h" where
  "sdk_step onErr a = (case a of Inl e \<Rightarrow> stop (onErr e) | Inr r \<Rightarrow> ret r)"

definition stage_422 :: "string \<Rightarrow> string \<Rightarrow> http_resp" where
  "stage_422 stage e = jsonErrorDetails 422 e [(''stage'', JStr stage)]"

subsection \<open>Invitations and options\<close>

definition InviteUser :: "'e account_env_scheme \<Rightarrow> ctx \<Rightarrow> http_resp h" where
  "InviteUser env c =
     seq (bind_json env c (in_obj (\<lambda>o'. case (required (fld_str ''display_name'' o'), fld_int 64 ''expires_in_seconds'' o') of
        (Some n, Some x) \<Rightarrow> Some (n, x) | _ \<Rightarrow> None))) (\<lambda>(displayName, x).
     seq (sdk_step (stage_422 ''passkey_invite'') (sdk_ok iv_Success iv_Error (InvitePasskeyUser env displayName (if x \<le> 0 then 86400 else x)))) (\<lambda>res.
     ret (JSON 200 [(''success'', JBool True), (''invite_token'', JStr (iv_InviteToken res)),
       (''register_url'', JStr (baseURL env @ ''/#/register?token='' @ iv_InviteToken res)), (''expires_at'', iv_ExpiresAt res)])))"

definition CheckName :: "'e account_env_scheme \<Rightarrow> ctx \<Rightarrow> http_resp h" where
  "CheckName env c = (let name = trim_space (query c ''name'')
     in if name = [] then stop (jsonError 400 ''name is required'')
        else getting t_users (\<lambda>us. ret (JSON 200 [(''available'', JBool (db_fails env ''count_users'' \<or> count_rows (\<lambda>u. u_Username u = name) us = 0))])))"

definition PasskeyOptions :: "'e account_env_scheme \<Rightarrow> http_resp h" where
  "PasskeyOptions env = (case sdk_login_options env of SdkErr e \<Rightarrow> stop (stage_422 ''passkey_login_options'' e) | SdkRes j \<Rightarrow> ret \<lparr>rs_status = 200, rs_body = j\<rparr>)"

definition email_off :: http_resp where
  "email_off = jsonError 503 ''email verification not configured''"

definition bad_verification :: http_resp where
  "bad_verification = jsonError 401 ''invalid or expired verification_id''"

text \<open>The part of the address before the at sign, the whole address when it starts with one.\<close>

definition display_name :: "string \<Rightarrow> string \<Rightarrow> string" where
  "display_name fallback email = (let l = takeWhile (\<lambda>c. c \<noteq> CHR ''@'') email; n = (if CHR ''@'' \<in> set email \<and> l \<noteq> [] then l else email)
     in if n = [] then ''user_'' @ fallback else n)"

definition PasskeyRegistrationBegin :: "'e account_env_scheme \<Rightarrow> ctx \<Rightarrow> http_resp h" where
  "PasskeyRegistrationBegin env c = (case email_service env of
       None \<Rightarrow> stop email_off
     | Some ee \<Rightarrow>
         seq (bind_or invalid_json c (in_obj (fld_str ''verification_id''))) (\<lambda>vid. getting t_emails (\<lambda>rows.
         case LookupVerification ee (c_now c) (trim_space vid) rows of
           Inl _ \<Rightarrow> stop bad_verification
         | Inr email \<Rightarrow>
             seq (sdk_step (stage_422 ''passkey_registration_invite'') (sdk_ok iv_Success iv_Error (InvitePasskeyUser env (display_name (rand_hex env 3) email) 300))) (\<lambda>inv.
             seq (sdk_step (stage_422 ''passkey_registration_options'') (sdk_ok fst (fst \<circ> snd) (sdk_register_options env (iv_InviteToken inv)))) (\<lambda>(_, _, j).
             ret \<lparr>rs_status = 200, rs_body = j\<rparr>)))))"

definition PasskeyRegistrationOptions :: "'e account_env_scheme \<Rightarrow> ctx \<Rightarrow> http_resp h" where
  "PasskeyRegistrationOptions env c = (let token = trim_space (query c ''token'')
     in if token = [] then stop (jsonError 400 ''token is required'')
        else case sdk_register_options env token of
          SdkErr e \<Rightarrow> stop (stage_422 ''passkey_registration_options'' e) | SdkRes (_, _, j) \<Rightarrow> ret \<lparr>rs_status = 200, rs_body = j\<rparr>)"

subsection \<open>Users and sessions\<close>

text \<open>A user row; an address and a passkey identifier occur once. Users without an address do not clash.\<close>

definition create_user :: "db_faults \<Rightarrow> int \<Rightarrow> string \<Rightarrow> string option \<Rightarrow> nat \<Rightarrow> user list \<Rightarrow> user created \<times> user list" where
  "create_user dbe now username email passkeyID us =
     (if dbe ''create_user'' then (DbError, us)
      else if list_ex (\<lambda>u. u_PasskeyUserID u = passkeyID \<or> email \<noteq> None \<and> u_Email u = email) us then (Duplicate, us)
      else let u = \<lparr>u_ID = next_id u_ID us, u_Username = username, u_Email = email, u_PasskeyUserID = passkeyID, u_CreatedAt = now\<rparr> in (Created u, us @ [u]))"

definition users_full :: "'e account_env_scheme \<Rightarrow> user list \<Rightarrow> bool" where
  "users_full env us \<longleftrightarrow> maxUsers env > 0 \<and> int (if db_fails env ''count_users'' then 0 else length us) \<ge> maxUsers env"

definition session_ttl :: int where
  "session_ttl = 24 * 3600000000000"

text \<open>A new session for a user and the audit entry of the login.\<close>

definition open_session :: "'e account_env_scheme \<Rightarrow> ctx \<Rightarrow> string \<Rightarrow> user \<Rightarrow> server \<Rightarrow> server" where
  "open_session env c how user s =
     writeAuditLog (db_fails env) (c_now c) (u_ID user) ''login'' ''success'' how (c_ip c) None None [] 0
       (s\<lparr>sv_sessions := snd (Session_Set (rand_csrf env) (c_now c) (''ps_'' @ rand_hex env 24) (u_ID user) session_ttl (sv_sessions s))\<rparr>)"

definition session_body :: "'e account_env_scheme \<Rightarrow> user \<Rightarrow> jobj" where
  "session_body env user = [(''success'', JBool True), (''user_id'', jnat (u_ID user)), (''username'', JStr (u_Username user)),
     (''session_token'', JStr (''ps_'' @ rand_hex env 24)), (''csrf_token'', JStr (rand_csrf env))]"

definition too_many_users :: http_resp where
  "too_many_users = jsonError 403 ''maximum number of users reached''"

text \<open>The registration transaction: the limit, the verification that is used up and the new user, or nothing.\<close>

definition register_user :: "'e account_env_scheme \<Rightarrow> email_env \<Rightarrow> ctx \<Rightarrow> string \<Rightarrow> string \<Rightarrow> nat \<Rightarrow> server \<Rightarrow> (http_resp + user) \<times> server" where
  "register_user env ee c username vid passkeyID s =
     (let failed = respondInternalError c ''failed to create user'' [(''stage'', JStr ''user_create'')]
      in if users_full env (t_users s) then (Inl too_many_users, s)
         else case ConsumeVerification ee (c_now c) vid (t_emails s) of
           Inl ErrVerificationIDBad \<Rightarrow> (Inl bad_verification, s)
         | Inl _ \<Rightarrow> (Inl failed, s)
         | Inr (email, rows) \<Rightarrow> (case create_user (db_fails env) (c_now c) username (Some email) passkeyID (t_users s) of
               (Created u, us) \<Rightarrow> (Inr u, s\<lparr>t_emails := rows, t_users := us\<rparr>)
             | (Duplicate, _) \<Rightarrow> (Inl (jsonError 409 ''email already registered''), s)
             | (DbError, _) \<Rightarrow> (Inl failed, s)))"

text \<open>A body read as a map: every number must be a float64.\<close>

definition map_body :: "ctx \<Rightarrow> jobj h" where
  "map_body c = bind_or invalid_json c (in_obj (\<lambda>o'. if goval_of_json (JObj o') = None then None else Some o'))"

definition PasskeyRegistrationVerify :: "'e account_env_scheme \<Rightarrow> ctx \<Rightarrow> http_resp h" where
  "PasskeyRegistrationVerify env c = (case email_service env of
       None \<Rightarrow> stop email_off
     | Some ee \<Rightarrow> seq (map_body c) (\<lambda>body.
         let inviteToken = str_or_empty ''invite_token'' body; vid = trim_space (str_or_empty ''verification_id'' body)
         in if inviteToken = [] then stop (jsonError 400 ''invite_token is required'')
            else if vid = [] then stop (jsonError 400 ''verification_id is required'')
            else seq (sdk_step (stage_422 ''passkey_registration_verify'') (sdk_ok rg_Success rg_Error (sdk_register_verify env inviteToken (fld_any ''credential'' body)))) (\<lambda>res.
              let username = (if trim_space (rg_DisplayName res) = [] then ''user'' else trim_space (rg_DisplayName res))
              in if length username > 100 then stop (jsonError 400 ''username too long (max 100 characters)'')
                 else seq (register_user env ee c username vid (rg_PasskeyUserID res)) (\<lambda>user.
                   modify (open_session env c ''passkey_register'' user) (ret (JSON 200 (session_body env user)))))))"

text \<open>\<open>toUint64\<close> on the values JSON decoding produces.\<close>

definition toUint64 :: "'e account_env_scheme \<Rightarrow> json option \<Rightarrow> nat option" where
  "toUint64 env v = (case v of
       Some (JNum x) \<Rightarrow> (case num_float x of
           Some (Fin r) \<Rightarrow> if r \<le> 0 then None else Some (if r < 2 ^ 64 then nat \<lfloor>r\<rfloor> else big_float_u64 env)
         | _ \<Rightarrow> None)
     | Some (JStr t) \<Rightarrow> (case num_uint 64 (trim_space t) of Some n \<Rightarrow> if n = 0 then None else Some n | None \<Rightarrow> None)
     | _ \<Rightarrow> None)"

definition login_user :: "'e account_env_scheme \<Rightarrow> ctx \<Rightarrow> jobj \<Rightarrow> user h" where
  "login_user env c data = getting t_users (\<lambda>us.
     let passkeyID = (case toUint64 env (jget ''passkey_user_id'' data) of Some n \<Rightarrow> n | None \<Rightarrow> 0)
     in case (if db_fails env ''first_user'' then None else first_row (\<lambda>u. u_PasskeyUserID u = passkeyID) us) of
          Some u \<Rightarrow> ret u
        | None \<Rightarrow>
            let shown = trim_space (str_or_empty ''display_name'' data); username = (if shown = [] then ''user_'' @ nat_text 10 passkeyID else shown);
                stage = (if maxUsers env > 0 then ''user_create'' else ''user_auto_create'')
            in if users_full env us then stop too_many_users
               else (case create_user (db_fails env) (c_now c) username None passkeyID us of
                   (Created u, us') \<Rightarrow> modify (\<lambda>s. s\<lparr>t_users := us'\<rparr>) (ret u)
                 | _ \<Rightarrow> stop (respondInternalError c ''failed to create user'' [(''stage'', JStr stage), (''passkey_user_id'', jnat passkeyID)])))"

definition PasskeyVerify :: "'e account_env_scheme \<Rightarrow> ctx \<Rightarrow> http_resp h" where
  "PasskeyVerify env c =
     seq (map_body c) (\<lambda>body.
     case toUint64 env (jget ''login_session_id'' body) of
       None \<Rightarrow> stop (jsonError 400 ''login_session_id is required'')
     | Some loginID \<Rightarrow>
         seq (sdk_step (jsonError 401) (sdk_ok fst (fst \<circ> snd) (sdk_login_verify env loginID (case jget ''credential'' body of Some j \<Rightarrow> j | None \<Rightarrow> JNull)))) (\<lambda>(_, _, data).
         seq (login_user env c data) (\<lambda>user.
         modify (open_session env c ''passkey'' user)
           (ret (JSON 200 (session_body env user @ [(''ums_token'', JStr (str_or_empty ''token'' data))]))))))"

definition Logout :: "ctx \<Rightarrow> http_resp h" where
  "Logout c = modify (\<lambda>s. if c_sessionToken c \<noteq> [] then s\<lparr>sv_sessions := Session_Delete (c_sessionToken c) (sv_sessions s)\<rparr> else s)
     (ret (JSON 200 [(''success'', JBool True)]))"

subsection \<open>API keys\<close>

text \<open>The body of a request whose binding error is ignored: a field that does not decode is zero, the others are read.\<close>

definition lenient :: "('a \<Rightarrow> 'b) \<Rightarrow> 'b \<Rightarrow> 'a option \<Rightarrow> 'b" where
  "lenient f d x = (case x of Some v \<Rightarrow> f v | None \<Rightarrow> d)"

definition generate_req :: "ctx \<Rightarrow> nat \<times> json option \<times> string" where
  "generate_req c = (case body_of c as_obj of
       None \<Rightarrow> (0, None, [])
     | Some o' \<Rightarrow> (lenient id 0 (fld_uint 64 ''login_session_id'' o'), fld_any ''credential'' o', lenient id [] (fld_str ''label'' o')))"

definition new_api_key :: "'e account_env_scheme \<Rightarrow> ctx \<Rightarrow> nat \<Rightarrow> string \<Rightarrow> api_key list \<Rightarrow> api_key" where
  "new_api_key env c userID label keys = (let rawKey = ''ocw_'' @ rand_hex env 32; salt = rand_hex env 16
     in \<lparr>ak_ID = next_id ak_ID keys, ak_UserID = userID, ak_KeyHash = hashAPIKeyWithSalt rawKey salt, ak_KeySalt = salt, ak_Prefix = take 12 rawKey, ak_Label = label,
         ak_CreatedAt = c_now c\<rparr>)"

definition GenerateAPIKey :: "'e account_env_scheme \<Rightarrow> ctx \<Rightarrow> http_resp h" where
  "GenerateAPIKey env c = (case generate_req c of (loginID, cred, reqLabel) \<Rightarrow>
     seq (verifyFreshPasskeyParsed env c loginID cred) (\<lambda>_.
     seq (mustUserID c) (\<lambda>userID.
     if db_fails env ''count_keys'' then stop (respondInternalError c ''db error'' [(''stage'', JStr ''apikey_count'')])
     else getting t_keys (\<lambda>keys.
       if int (count_rows (\<lambda>k. ak_UserID k = userID) keys) \<ge> maxAPIKeys env
       then stop (jsonError 409 (''maximum '' @ int_text 10 (maxAPIKeys env) @ '' API keys per user''))
       else let label = trim_space reqLabel; k = new_api_key env c userID label keys
            in if db_fails env ''create_key'' \<or> list_ex (\<lambda>q. ak_Prefix q = ak_Prefix k) keys then stop (respondInternalError c ''failed to save key'' [(''stage'', JStr ''apikey_save'')])
               else modify (\<lambda>s. s\<lparr>t_keys := keys @ [k]\<rparr>)
                 (modify (writeAuditCtx (db_fails env) c ''apikey_generate'' ''success'' None (Some (JObj [(''prefix'', JStr (ak_Prefix k)), (''label'', JStr label)])) 0)
                   (ret (JSON 200 [(''success'', JBool True), (''api_key'', JStr (''ocw_'' @ rand_hex env 32)), (''api_prefix'', JStr (ak_Prefix k)),
                      (''label'', JStr label), (''note'', JStr (''store this key securely '' @ [CHR 0xE2, CHR 0x80, CHR 0x94] @ '' it will not be shown again''))])))))))"

definition ListAPIKeys :: "'e account_env_scheme \<Rightarrow> ctx \<Rightarrow> http_resp h" where
  "ListAPIKeys env c = seq (mustUserID c) (\<lambda>userID.
     if db_fails env ''list_keys'' then stop (respondInternalError c ''db error'' [(''stage'', JStr ''apikey_list'')])
     else getting t_keys (\<lambda>keys. ret (JSON 200 [(''success'', JBool True), (''keys'', JArr (map (\<lambda>k. JObj [(''id'', jnat (ak_ID k)), (''prefix'', JStr (ak_Prefix k)),
       (''label'', JStr (ak_Label k)), (''created_at'', jint (ak_CreatedAt k))]) (sort_asc ak_CreatedAt (filter (\<lambda>k. ak_UserID k = userID) keys))))])))"

definition key_of_user :: "'e account_env_scheme \<Rightarrow> nat \<Rightarrow> string \<Rightarrow> api_key h" where
  "key_of_user env userID pfx = getting t_keys (\<lambda>keys.
     case (if db_fails env ''first_key'' then None else first_row (\<lambda>k. ak_UserID k = userID \<and> ak_Prefix k = pfx) keys) of
       None \<Rightarrow> stop (jsonError 404 ''API key not found'') | Some k \<Rightarrow> ret k)"

definition RenameAPIKey :: "'e account_env_scheme \<Rightarrow> ctx \<Rightarrow> http_resp h" where
  "RenameAPIKey env c =
     seq (mustUserID c) (\<lambda>userID.
     seq (bind_or (jsonError 400 ''prefix and label are required'') c (in_obj (\<lambda>o'. case (required (fld_str ''prefix'' o'), required (fld_str ''label'' o')) of
        (Some p, Some l) \<Rightarrow> Some (p, l) | _ \<Rightarrow> None))) (\<lambda>(pfx, label).
     seq (key_of_user env userID pfx) (\<lambda>k.
     if label = ak_Label k then ret (JSON 200 [(''success'', JBool True), (''label'', JStr label)])
     else if db_fails env ''update_key'' then stop (respondInternalError c ''rename failed'' [(''stage'', JStr ''apikey_rename'')])
     else modify (\<lambda>s. s\<lparr>t_keys := update_rows (\<lambda>q. ak_ID q = ak_ID k) (\<lambda>q. q\<lparr>ak_Label := label\<rparr>) (t_keys s)\<rparr>)
       (modify (writeAuditCtx (db_fails env) c ''apikey_rename'' ''success'' None (Some (JObj [(''prefix'', JStr pfx), (''old_label'', JStr (ak_Label k)),
           (''new_label'', JStr label)])) 0)
         (ret (JSON 200 [(''success'', JBool True), (''label'', JStr label)]))))))"

text \<open>The body was consumed by the passkey check, so only the query names the key; without an SDK the body is still there.\<close>

definition revoke_prefix :: "'e account_env_scheme \<Rightarrow> ctx \<Rightarrow> string" where
  "revoke_prefix env c = (if query c ''prefix'' \<noteq> [] then query c ''prefix''
     else if sdk_nil env then (case body_of c as_obj of None \<Rightarrow> [] | Some o' \<Rightarrow> lenient id [] (fld_str ''api_key_prefix'' o')) else [])"

definition RevokeAPIKey :: "'e account_env_scheme \<Rightarrow> ctx \<Rightarrow> http_resp h" where
  "RevokeAPIKey env c =
     seq (verifyFreshPasskey env c) (\<lambda>_.
     seq (mustUserID c) (\<lambda>userID. let pfx = revoke_prefix env c
     in if pfx = [] then stop (jsonError 400 ''prefix is required (query param or body)'')
        else seq (key_of_user env userID pfx) (\<lambda>k.
          if db_fails env ''delete_key'' then stop (respondInternalError c ''revoke failed'' [(''stage'', JStr ''apikey_revoke'')])
          else modify (\<lambda>s. s\<lparr>t_keys := delete_rows (\<lambda>q. ak_ID q = ak_ID k) (t_keys s)\<rparr>)
            (modify (writeAuditCtx (db_fails env) c ''apikey_revoke'' ''success'' None (Some (JObj [(''prefix'', JStr pfx), (''label'', JStr (ak_Label k))])) 0)
              (ret (JSON 200 [(''success'', JBool True)]))))))"

subsection \<open>Deleting an account\<close>

text \<open>The transaction: contracts, policies and approvals are only touched when there is a wallet, and approvals only by their
  wallet.\<close>

definition delete_account_rows :: "nat \<Rightarrow> server \<Rightarrow> server" where
  "delete_account_rows userID s =
     (let ids = map w_ID (filter (\<lambda>w. w_UserID w = userID) (t_wallets s));
          s1 = (if ids = [] then s else s\<lparr>t_contracts := delete_rows (\<lambda>r. ac_UserID r = userID) (t_contracts s),
             t_policies := delete_rows (\<lambda>p. pol_WalletID p \<in> set ids) (t_policies s),
             t_approvals := delete_rows (\<lambda>a. case apr_WalletID a of None \<Rightarrow> False | Some i \<Rightarrow> i \<in> set ids) (t_approvals s)\<rparr>)
      in s1\<lparr>t_entries := delete_rows (\<lambda>e. ab_UserID e = userID) (t_entries s1), t_audit := delete_rows (\<lambda>l. al_UserID l = userID) (t_audit s1),
           t_keys := delete_rows (\<lambda>k. ak_UserID k = userID) (t_keys s1), t_wallets := delete_rows (\<lambda>w. w_UserID w = userID) (t_wallets s1),
           t_users := delete_rows (\<lambda>u. u_ID u = userID) (t_users s1)\<rparr>)"

definition delete_keys :: "'e account_env_scheme \<Rightarrow> nat \<Rightarrow> server \<Rightarrow> server" where
  "delete_keys env userID s = (if sdk_nil env then s
     else s\<lparr>sv_deletions := sv_deletions s @ map (DeletedKey \<circ> w_KeyName) (filter (\<lambda>w. w_UserID w = userID \<and> w_KeyName w \<noteq> []) (t_wallets s))\<rparr>)"

definition DeleteAccount :: "'e account_env_scheme \<Rightarrow> ctx \<Rightarrow> http_resp h" where
  "DeleteAccount env c =
     seq (verifyFreshPasskey env c) (\<lambda>_.
     seq (mustUserID c) (\<lambda>userID.
     if db_fails env ''list_wallets'' then stop (respondInternalError c ''failed to load wallets'' [(''stage'', JStr ''account_delete'')])
     else modify (delete_keys env userID) (getting t_users (\<lambda>us.
       case (if db_fails env ''first_user'' then None else first_row (\<lambda>u. u_ID u = userID) us) of
         None \<Rightarrow> stop (respondInternalError c ''failed to load user'' [(''stage'', JStr ''account_delete'')])
       | Some user \<Rightarrow>
           if db_fails env ''delete_account'' then stop (respondInternalError c ''failed to delete account'' [(''stage'', JStr ''account_delete'')])
           else modify (delete_account_rows userID)
             (modify (\<lambda>s. if \<not> sdk_nil env \<and> u_PasskeyUserID user > 0 then s\<lparr>sv_deletions := sv_deletions s @ [DeletedPasskey (u_PasskeyUserID user)]\<rparr> else s)
               (modify (\<lambda>s. if c_sessionToken c \<noteq> [] then s\<lparr>sv_sessions := Session_Delete (c_sessionToken c) (sv_sessions s)\<rparr> else s)
                 (ret (JSON 200 [(''success'', JBool True)]))))))))"

subsection \<open>The audit log\<close>

text \<open>\<open>strconv.Atoi\<close> with its error ignored: zero for a bad text, the nearest bound for a number out of range. The offset wraps
  around; a negative one is no offset.\<close>

definition atoi_or_0 :: "string \<Rightarrow> int" where
  "atoi_or_0 t = (case set_string 10 t of None \<Rightarrow> 0 | Some i \<Rightarrow> min (2 ^ 63 - 1) (max (- (2 ^ 63)) i))"

definition page_offset :: "int \<Rightarrow> int \<Rightarrow> int" where
  "page_offset page limit = ((page - 1) * limit + 2 ^ 63) mod 2 ^ 64 - 2 ^ 63"

definition query_default :: "ctx \<Rightarrow> string \<Rightarrow> string \<Rightarrow> string" where
  "query_default c k d = (case map_of (c_query c) k of None \<Rightarrow> d | Some v \<Rightarrow> v)"

definition log_selected :: "ctx \<Rightarrow> nat \<Rightarrow> audit_log \<Rightarrow> bool" where
  "log_selected c userID l \<longleftrightarrow> al_UserID l = userID \<and> (query c ''action'' \<noteq> [] \<longrightarrow> al_Action l = query c ''action'')
     \<and> (query c ''wallet_id'' \<noteq> [] \<longrightarrow> al_WalletID l = Some (query c ''wallet_id'')) \<and> (query c ''status'' \<noteq> [] \<longrightarrow> al_Status l = query c ''status'')
     \<and> (query c ''approved'' = ''true'' \<longrightarrow> al_ApprovedAt l \<noteq> None)"

definition log_json :: "audit_log \<Rightarrow> json" where
  "log_json l = JObj ([(''id'', jnat (al_ID l)), (''user_id'', jnat (al_UserID l)), (''action'', JStr (al_Action l))] @
     (case al_WalletID l of None \<Rightarrow> [] | Some w \<Rightarrow> [(''wallet_id'', JStr w)]) @ (case al_ApprovalID l of None \<Rightarrow> [] | Some a \<Rightarrow> [(''approval_id'', jnat a)]) @
     [(''details'', opt_json id (al_Details l)), (''auth_mode'', JStr (al_AuthMode l))] @ omit_empty ''api_key_prefix'' (al_APIKeyPrefix l) @ [(''ip'', JStr (al_IP l)),
      (''status'', JStr (al_Status l)), (''created_at'', jint (al_CreatedAt l))] @ (case al_ApprovedAt l of None \<Rightarrow> [] | Some t \<Rightarrow> [(''approved_at'', jint t)]))"

definition ListLogs :: "'e server_env_scheme \<Rightarrow> ctx \<Rightarrow> http_resp h" where
  "ListLogs env c = seq (mustUserID c) (\<lambda>userID.
     let p0 = atoi_or_0 (query_default c ''page'' ''1''); l0 = atoi_or_0 (query_default c ''limit'' ''30'');
         page = (if p0 < 1 then 1 else p0); limit = (if l0 < 1 \<or> l0 > 100 then 30 else l0)
     in if db_fails env ''list_logs'' then stop (respondInternalError c ''db error'' [(''stage'', JStr ''list_audit_logs''), (''user_id'', jnat userID)])
        else getting t_audit (\<lambda>ls. let sel = filter (log_selected c userID) ls
          in ret (JSON 200 [(''success'', JBool True), (''logs'', JArr (map log_json (take (nat limit) (drop (nat (page_offset page limit)) (sort_desc al_CreatedAt sel))))),
               (''total'', jnat (length sel)), (''page'', jint page), (''limit'', jint limit)])))"

end
