(* ===== verification/Api.thy ===== *)
theory Api
  imports Accounts
begin

text \<open>
  The HTTP interface (\<open>main.go\<close> from the router on, and \<open>handler/faucet.go\<close>): the table of routes, the middlewares of each group and the dispatch of a request to
  its handler. A request carries its path; the parameters of a pattern are read from the path into the context. The state adds the four rate limiters to the
  server. The event stream, the price list, the frontend files and the redirect of a trailing slash are not modelled.
\<close>

subsection \<open>The faucet\<close>

text \<open>The faucet service and the database ping are parameters.\<close>

record api_env = account_env +
  faucetURL :: string
  faucet_post :: "string \<Rightarrow> json \<Rightarrow> http_outcome"
  db_ping :: bool

definition chainToFaucetChain :: "(string \<times> string) list" where
  "chainToFaucetChain = [(''sepolia'', ''eth_sepolia''), (''base-sepolia'', ''base_sepolia''), (''solana-devnet'', ''solana_devnet'')]"

definition faucet_answer :: "wallet \<Rightarrow> http_outcome \<Rightarrow> http_resp" where
  "faucet_answer w out =
     (let ds = (\<lambda>stage. [(''stage'', JStr stage), (''chain'', JStr (w_Chain w)), (''address'', JStr (w_Address w))])
      in case out of
           TransportErr e \<Rightarrow> jsonErrorDetails 422 ''faucet service unavailable'' (ds ''faucet_request'' @ [(''reason'', JStr (sanitizeString e))])
         | HttpResp status body \<Rightarrow>
             if status \<noteq> 200 then
               (case (case body of None \<Rightarrow> None | Some j \<Rightarrow> required (in_obj (fld_str ''error'') j)) of
                  Some e \<Rightarrow> jsonErrorDetails status e (ds ''faucet_claim'')
                | None \<Rightarrow> jsonErrorDetails status ''faucet request failed'' (ds ''faucet_claim''))
             else (case (case body of None \<Rightarrow> None | Some j \<Rightarrow> in_obj (\<lambda>o'. case (fld_str ''tx_hash'' o', fld_str ''amount'' o', fld_str ''chain'' o') of
                    (Some h, Some a, Some _) \<Rightarrow> Some (h, a) | _ \<Rightarrow> None) j) of
                 None \<Rightarrow> jsonErrorDetails 500 ''invalid faucet response'' [(''stage'', JStr ''faucet_response_parse'')]
               | Some (txHash, amount) \<Rightarrow> JSON 200 [(''success'', JBool True), (''tx_hash'', JStr txHash), (''amount'', JStr amount),
                   (''chain'', JStr (w_Chain w)), (''address'', JStr (w_Address w))]))"

definition Claim :: "'e api_env_scheme \<Rightarrow> ctx \<Rightarrow> http_resp h" where
  "Claim env c =
     (if faucetURL env = [] then stop (jsonError 503 ''faucet service not configured'')
      else seq (mustUserID c) (\<lambda>userID.
        seq (bind_or (jsonError 400 ''wallet_id is required'') c (in_obj (\<lambda>o'. required (fld_str ''wallet_id'' o')))) (\<lambda>wid.
        if db_fails env ''first_wallet'' then stop (respondInternalError c ''database error'' [(''stage'', JStr ''faucet_db_lookup'')])
        else getting t_wallets (\<lambda>ws. case first_row (\<lambda>w. w_ID w = wid \<and> w_UserID w = userID) ws of
          None \<Rightarrow> stop (jsonError 404 ''wallet not found'')
        | Some w \<Rightarrow> (case map_of chainToFaucetChain (w_Chain w) of
              None \<Rightarrow> stop (jsonError 400 (''faucet not available for chain '' @ [CHR 0x22] @ w_Chain w @ [CHR 0x22] @ '' (testnet only)''))
            | Some faucetChain \<Rightarrow> ret (faucet_answer w (faucet_post env (faucetURL env @ ''/api/claim'')
                (JObj [(''address'', JStr (w_Address w)), (''chain'', JStr faucetChain)]))))))))"

subsection \<open>Public information\<close>

definition Health :: "'e api_env_scheme \<Rightarrow> http_resp h" where
  "Health env = ret (JSON 200 [(''status'', JStr (if db_ping env then ''ok'' else ''degraded'')), (''service'', JStr ''teenet-wallet''), (''db'', JBool (db_ping env))])"

definition chain_json :: "chain_config \<Rightarrow> json" where
  "chain_json cfg = JObj ([(''name'', JStr (cc_Name cfg)), (''label'', JStr (cc_Label cfg)), (''protocol'', JStr (cc_Protocol cfg)), (''curve'', JStr (cc_Curve cfg)),
     (''currency'', JStr (cc_Currency cfg)), (''family'', JStr (cc_Family cfg)), (''rpc_url'', JStr (cc_RPCURL cfg)), (''chain_id'', jnat (cc_ChainID cfg))] @
     omit_empty ''quicknode_network'' (cc_QuickNodeNetwork cfg) @ omit_empty ''quicknode_path'' (cc_QuickNodePath cfg) @
     (if cc_Testnet cfg then [(''testnet'', JBool True)] else []))"

definition public_chain :: "chain_config \<Rightarrow> chain_config" where
  "public_chain cfg = cfg\<lparr>cc_RPCURL := [], cc_QuickNodeNetwork := [], cc_QuickNodePath := []\<rparr>"

definition ListChains :: "'e api_env_scheme \<Rightarrow> http_resp h" where
  "ListChains env = ret (JSON 200 [(''success'', JBool True), (''chains'', JArr (map (chain_json \<circ> public_chain \<circ> snd) (env_chains env)))])"

subsection \<open>Routes\<close>

datatype route = R_Health | R_Chains | R_SendCode | R_VerifyCode | R_CheckName | R_PasskeyOptions | R_PasskeyVerify | R_RegisterBegin | R_RegisterOptions
  | R_RegisterVerify | R_Invite | R_Logout | R_DeleteAccount | R_GenerateKey | R_ListKeys | R_RevokeKey | R_RenameKey
  | R_ListContracts | R_AddContract | R_UpdateContract | R_DeleteContract | R_ListContractsByChain | R_AddContractByChain | R_UpdateContractByChain
  | R_DeleteContractByChain | R_ListEntries | R_AddEntry | R_UpdateEntry | R_DeleteEntry
  | R_CreateWallet | R_ListWallets | R_GetWallet | R_RenameWallet | R_DeleteWallet | R_ContractCall | R_CallRead | R_ApproveToken | R_RevokeApproval
  | R_Transfer | R_WrapSOL | R_UnwrapSOL | R_GetPubkey | R_GetPolicy | R_SetPolicy | R_DeletePolicy | R_DailySpent | R_GetBalance | R_Faucet | R_ListLogs
  | R_ListPending | R_GetApproval | R_Approve | R_Reject

text \<open>The groups of the router: public, limited by address, and authenticated, alone, with a limit per user, or with a passkey.\<close>

datatype group = Public | PublicLimited | Dual | DualWallet | DualRpc | PasskeyOnly

definition route_table :: "(string \<times> string \<times> group \<times> route) list" where
  "route_table =
    [(''GET'', ''/api/health'', Public, R_Health), (''GET'', ''/api/chains'', Public, R_Chains),
     (''POST'', ''/api/auth/email/send-code'', PublicLimited, R_SendCode), (''POST'', ''/api/auth/email/verify-code'', PublicLimited, R_VerifyCode),
     (''GET'', ''/api/auth/check-name'', Public, R_CheckName), (''GET'', ''/api/auth/passkey/options'', Public, R_PasskeyOptions),
     (''POST'', ''/api/auth/passkey/verify'', Public, R_PasskeyVerify), (''POST'', ''/api/auth/passkey/register/begin'', PublicLimited, R_RegisterBegin),
     (''GET'', ''/api/auth/passkey/register/options'', Public, R_RegisterOptions), (''POST'', ''/api/auth/passkey/register/verify'', PublicLimited, R_RegisterVerify),
     (''POST'', ''/api/auth/invite'', PasskeyOnly, R_Invite), (''DELETE'', ''/api/auth/session'', PasskeyOnly, R_Logout),
     (''DELETE'', ''/api/auth/account'', PasskeyOnly, R_DeleteAccount), (''POST'', ''/api/auth/apikey/generate'', PasskeyOnly, R_GenerateKey),
     (''GET'', ''/api/auth/apikey/list'', PasskeyOnly, R_ListKeys), (''DELETE'', ''/api/auth/apikey'', PasskeyOnly, R_RevokeKey),
     (''PATCH'', ''/api/auth/apikey'', PasskeyOnly, R_RenameKey),
     (''GET'', ''/api/wallets/:id/contracts'', Dual, R_ListContracts), (''POST'', ''/api/wallets/:id/contracts'', Dual, R_AddContract),
     (''PUT'', ''/api/wallets/:id/contracts/:cid'', Dual, R_UpdateContract), (''DELETE'', ''/api/wallets/:id/contracts/:cid'', PasskeyOnly, R_DeleteContract),
     (''GET'', ''/api/chains/:chain/contracts'', Dual, R_ListContractsByChain), (''POST'', ''/api/chains/:chain/contracts'', Dual, R_AddContractByChain),
     (''PUT'', ''/api/chains/:chain/contracts/:cid'', Dual, R_UpdateContractByChain),
     (''DELETE'', ''/api/chains/:chain/contracts/:cid'', PasskeyOnly, R_DeleteContractByChain),
     (''GET'', ''/api/addressbook'', Dual, R_ListEntries), (''POST'', ''/api/addressbook'', Dual, R_AddEntry), (''PUT'', ''/api/addressbook/:id'', Dual, R_UpdateEntry),
     (''DELETE'', ''/api/addressbook/:id'', PasskeyOnly, R_DeleteEntry),
     (''POST'', ''/api/wallets'', DualWallet, R_CreateWallet), (''GET'', ''/api/wallets'', Dual, R_ListWallets), (''GET'', ''/api/wallets/:id'', Dual, R_GetWallet),
     (''PATCH'', ''/api/wallets/:id'', Dual, R_RenameWallet), (''DELETE'', ''/api/wallets/:id'', PasskeyOnly, R_DeleteWallet),
     (''POST'', ''/api/wallets/:id/contract-call'', DualRpc, R_ContractCall), (''POST'', ''/api/wallets/:id/call-read'', DualRpc, R_CallRead),
     (''POST'', ''/api/wallets/:id/approve-token'', DualRpc, R_ApproveToken), (''POST'', ''/api/wallets/:id/revoke-approval'', DualRpc, R_RevokeApproval),
     (''POST'', ''/api/wallets/:id/transfer'', DualRpc, R_Transfer), (''POST'', ''/api/wallets/:id/wrap-sol'', DualRpc, R_WrapSOL),
     (''POST'', ''/api/wallets/:id/unwrap-sol'', DualRpc, R_UnwrapSOL), (''GET'', ''/api/wallets/:id/pubkey'', Dual, R_GetPubkey),
     (''GET'', ''/api/wallets/:id/policy'', Dual, R_GetPolicy), (''PUT'', ''/api/wallets/:id/policy'', Dual, R_SetPolicy),
     (''DELETE'', ''/api/wallets/:id/policy'', PasskeyOnly, R_DeletePolicy), (''GET'', ''/api/wallets/:id/daily-spent'', Dual, R_DailySpent),
     (''GET'', ''/api/wallets/:id/balance'', DualRpc, R_GetBalance), (''POST'', ''/api/faucet'', Dual, R_Faucet), (''GET'', ''/api/audit/logs'', Dual, R_ListLogs),
     (''GET'', ''/api/approvals/pending'', Dual, R_ListPending), (''GET'', ''/api/approvals/:id'', Dual, R_GetApproval),
     (''POST'', ''/api/approvals/:id/approve'', PasskeyOnly, R_Approve), (''POST'', ''/api/approvals/:id/reject'', PasskeyOnly, R_Reject)]"

text \<open>A path is matched segment by segment; a segment that starts with a colon takes any non-empty text. A fixed path is in the table before the pattern that
  also matches it.\<close>

fun segments :: "string \<Rightarrow> string \<Rightarrow> string list" where
  "segments acc [] = [rev acc]"
| "segments acc (c # s) = (if c = CHR ''/'' then rev acc # segments [] s else segments (c # acc) s)"

fun match_segments :: "string list \<Rightarrow> string list \<Rightarrow> (string \<times> string) list option" where
  "match_segments [] [] = Some []"
| "match_segments (p # ps) (x # xs) =
     (if has_prefix p '':'' then (if x = [] then None else map_option (Cons (drop 1 p, x)) (match_segments ps xs))
      else if p = x then match_segments ps xs else None)"
| "match_segments _ _ = None"

definition path_param :: "string \<Rightarrow> (string \<times> string) list \<Rightarrow> string" where
  "path_param k ps = (case map_of ps k of None \<Rightarrow> [] | Some v \<Rightarrow> v)"

fun find_route :: "(string \<times> string \<times> group \<times> route) list \<Rightarrow> string \<Rightarrow> string \<Rightarrow> (group \<times> route \<times> (string \<times> string) list) option" where
  "find_route [] meth path = None"
| "find_route ((m, pat, g, r) # rs) meth path =
     (case (if m = meth then match_segments (segments [] pat) (segments [] path) else None) of
        Some ps \<Rightarrow> Some (g, r, ps) | None \<Rightarrow> find_route rs meth path)"

subsection \<open>Handlers\<close>

definition email_handler :: "'e api_env_scheme \<Rightarrow> (email_env \<Rightarrow> http_resp h) \<Rightarrow> http_resp h" where
  "email_handler env h = (case email_service env of None \<Rightarrow> panics | Some ee \<Rightarrow> h ee)"

primrec handle :: "'e api_env_scheme \<Rightarrow> ctx \<Rightarrow> route \<Rightarrow> http_resp h" where
  "handle env c R_Health = Health env"
| "handle env c R_Chains = ListChains env"
| "handle env c R_SendCode = email_handler env (\<lambda>ee. SendCode ee c)"
| "handle env c R_VerifyCode = email_handler env (\<lambda>ee. VerifyCode ee c)"
| "handle env c R_CheckName = CheckName env c"
| "handle env c R_PasskeyOptions = PasskeyOptions env"
| "handle env c R_PasskeyVerify = PasskeyVerify env c"
| "handle env c R_RegisterBegin = PasskeyRegistrationBegin env c"
| "handle env c R_RegisterOptions = PasskeyRegistrationOptions env c"
| "handle env c R_RegisterVerify = PasskeyRegistrationVerify env c"
| "handle env c R_Invite = InviteUser env c"
| "handle env c R_Logout = Logout c"
| "handle env c R_DeleteAccount = DeleteAccount env c"
| "handle env c R_GenerateKey = GenerateAPIKey env c"
| "handle env c R_ListKeys = ListAPIKeys env c"
| "handle env c R_RevokeKey = RevokeAPIKey env c"
| "handle env c R_RenameKey = RenameAPIKey env c"
| "handle env c R_ListContracts = ListContracts env c"
| "handle env c R_AddContract = AddContract env c"
| "handle env c R_UpdateContract = UpdateContract env c"
| "handle env c R_DeleteContract = DeleteContract env c"
| "handle env c R_ListContractsByChain = ListContractsByChain env c"
| "handle env c R_AddContractByChain = AddContractByChain env c"
| "handle env c R_UpdateContractByChain = UpdateContractByChain env c"
| "handle env c R_DeleteContractByChain = DeleteContractByChain env c"
| "handle env c R_ListEntries = ListEntries env c"
| "handle env c R_AddEntry = AddEntry env c"
| "handle env c R_UpdateEntry = UpdateEntry env c"
| "handle env c R_DeleteEntry = DeleteEntry env c"
| "handle env c R_CreateWallet = CreateWallet env c"
| "handle env c R_ListWallets = ListWallets env c"
| "handle env c R_GetWallet = GetWallet env c"
| "handle env c R_RenameWallet = RenameWallet env c"
| "handle env c R_DeleteWallet = DeleteWallet env c"
| "handle env c R_ContractCall = ContractCall env c"
| "handle env c R_CallRead = CallRead env c"
| "handle env c R_ApproveToken = ApproveToken env c"
| "handle env c R_RevokeApproval = RevokeApproval env c"
| "handle env c R_Transfer = Transfer env c"
| "handle env c R_WrapSOL = WrapSOL env c"
| "handle env c R_UnwrapSOL = UnwrapSOL env c"
| "handle env c R_GetPubkey = GetPubkey env c"
| "handle env c R_GetPolicy = GetPolicy env c"
| "handle env c R_SetPolicy = SetPolicy env c"
| "handle env c R_DeletePolicy = DeletePolicy env c"
| "handle env c R_DailySpent = DailySpent env c"
| "handle env c R_GetBalance = BalanceEndpoint env c"
| "handle env c R_Faucet = Claim env c"
| "handle env c R_ListLogs = ListLogs env c"
| "handle env c R_ListPending = ListPending env c"
| "handle env c R_GetApproval = GetApproval env c"
| "handle env c R_Approve = Approve env c"
| "handle env c R_Reject = Reject env c"

subsection \<open>Serving a request\<close>

record api =
  api_server :: server
  ipLimiter :: ip_rate_limiter
  rateLimiter :: rate_limiter
  walletRateLimiter :: rate_limiter
  rpcLimiter :: rate_limiter

text \<open>A computation on one part of the state.\<close>

definition zoom :: "(api \<Rightarrow> 's) \<Rightarrow> ('s \<Rightarrow> api \<Rightarrow> api) \<Rightarrow> ('s, 'a) handler \<Rightarrow> (api, 'a) handler" where
  "zoom get put m st = (case m (get st) of (r, x) \<Rightarrow> (r, put x st))"

definition on_server :: "'a h \<Rightarrow> (api, 'a) handler" where
  "on_server = zoom api_server (\<lambda>s st. st\<lparr>api_server := s\<rparr>)"

definition authenticate :: "'e api_env_scheme \<Rightarrow> ctx \<Rightarrow> (api, ctx) handler" where
  "authenticate env c st = on_server (\<lambda>s. case AuthMiddleware (db_fails env) (sv_sessions s) c (t_keys s) of (r, keys) \<Rightarrow> (r, s\<lparr>t_keys := keys\<rparr>)) st"

definition auth_chain :: "'e api_env_scheme \<Rightarrow> ctx \<Rightarrow> (api, ctx) handler" where
  "auth_chain env c = seq (authenticate env c) (\<lambda>c1. seq (lift (CSRFMiddleware c1)) (\<lambda>c2.
     zoom rateLimiter (\<lambda>l st. st\<lparr>rateLimiter := l\<rparr>) (APIKeyRateLimitMiddleware c2)))"

definition pipeline :: "'e api_env_scheme \<Rightarrow> group \<Rightarrow> ctx \<Rightarrow> (api, ctx) handler" where
  "pipeline env g c = (case g of
       Public \<Rightarrow> ret c
     | PublicLimited \<Rightarrow> zoom ipLimiter (\<lambda>l st. st\<lparr>ipLimiter := l\<rparr>) (IPRateLimitMiddleware c)
     | Dual \<Rightarrow> auth_chain env c
     | DualWallet \<Rightarrow> seq (auth_chain env c) (\<lambda>c'. zoom walletRateLimiter (\<lambda>l st. st\<lparr>walletRateLimiter := l\<rparr>) (UserRateLimitMiddleware c'))
     | DualRpc \<Rightarrow> seq (auth_chain env c) (\<lambda>c'. zoom rpcLimiter (\<lambda>l st. st\<lparr>rpcLimiter := l\<rparr>) (UserRateLimitMiddleware c'))
     | PasskeyOnly \<Rightarrow> seq (auth_chain env c) (\<lambda>c'. lift (PasskeyOnlyMiddleware c')))"

text \<open>The request as the router sees it: nothing is set in the context but the path parameters, and the request identifier is the header or the draw.\<close>

definition requestIDMiddleware :: "ctx \<Rightarrow> ctx" where
  "requestIDMiddleware c = c\<lparr>c_reqid := (if header c ''X-Request-ID'' \<noteq> [] then header c ''X-Request-ID'' else c_reqid c)\<rparr>"

definition routed :: "ctx \<Rightarrow> (string \<times> string) list \<Rightarrow> ctx" where
  "routed c ps = (requestIDMiddleware c)\<lparr>c_id := path_param ''id'' ps, c_cid := path_param ''cid'' ps, c_chain := path_param ''chain'' ps,
     c_userID := None, c_authMode := [], c_apiKeyPrefix := [], c_sessionToken := [], c_csrfToken := []\<rparr>"

definition corsMiddleware :: "string \<Rightarrow> ctx \<Rightarrow> (string \<times> string) list" where
  "corsMiddleware allowedOrigin c =
     (if allowedOrigin = ''*'' then [(''Access-Control-Allow-Origin'', ''*'')]
      else if allowedOrigin \<noteq> [] \<and> header c ''Origin'' = allowedOrigin then [(''Access-Control-Allow-Origin'', allowedOrigin), (''Vary'', ''Origin'')]
      else []) @
     [(''Access-Control-Allow-Methods'', ''GET,POST,PUT,DELETE,OPTIONS''),
      (''Access-Control-Allow-Headers'', ''Authorization,Content-Type,X-CSRF-Token,Idempotency-Key'')] @
     (if allowedOrigin \<noteq> ''*'' then [(''Access-Control-Allow-Credentials'', ''true'')] else []) @
     [(''Strict-Transport-Security'', ''max-age=31536000; includeSubDomains''), (''X-Content-Type-Options'', ''nosniff''), (''X-Frame-Options'', ''DENY''),
      (''Referrer-Policy'', ''strict-origin-when-cross-origin'')]"

definition serve :: "'e api_env_scheme \<Rightarrow> string \<Rightarrow> ctx \<Rightarrow> api \<Rightarrow> http_resp \<times> api" where
  "serve env path c st =
     (if c_method c = ''OPTIONS'' then (\<lparr>rs_status = 204, rs_body = JNull\<rparr>, st)
      else case find_route route_table (c_method c) path of
        None \<Rightarrow> (JSON 404 [(''error'', JStr ''api endpoint not found'')], st)
      | Some (g, r, ps) \<Rightarrow> respond (seq (pipeline env g (routed c ps)) (\<lambda>c'. on_server (handle env c' r))) st)"

end
