(* ===== verification/ApiFrame.thy ===== *)
theory ApiFrame
  imports Api
begin

text \<open>
  What the endpoints leave alone. A view of the server that does not look at the accounts, the sessions, the audit log or the labels of contracts is preserved by
  every endpoint that only reads or manages these; the interface is the locale \<open>view\<close>, interpreted for the signing journal, the table of approvals, the spending
  rules and the table of wallets. Its extensions say what else a view ignores. The rules change only behind a fresh passkey assertion.
\<close>

text \<open>The endpoints that touch approvals, rules, wallets' keys or more than their own account; every other one is plain.\<close>

definition plain_route :: "route \<Rightarrow> bool" where
  "plain_route r \<longleftrightarrow> r \<notin> {R_DeleteAccount, R_AddContract, R_AddContractByChain, R_DeleteContract, R_DeleteContractByChain, R_AddEntry, R_UpdateEntry, R_DeleteEntry,
     R_DeleteWallet, R_ContractCall, R_ApproveToken, R_RevokeApproval, R_Transfer, R_WrapSOL, R_UnwrapSOL, R_SetPolicy, R_DeletePolicy, R_GetApproval, R_Approve, R_Reject}"

subsection \<open>Views\<close>

locale view =
  fixes f :: "server \<Rightarrow> 'b"
  assumes more: "rpc_state.more s' = rpc_state.more s \<Longrightarrow> f s' = f s"
    and logs: "f (s\<lparr>t_audit := a\<rparr>) = f s" "f (s\<lparr>t_idem := i\<rparr>) = f s"
    and accounts: "f (s\<lparr>t_keys := ks\<rparr>) = f s" "f (s\<lparr>t_users := us\<rparr>) = f s" "f (s\<lparr>t_emails := es\<rparr>) = f s"
    and volatile: "f (s\<lparr>sv_sessions := se\<rparr>) = f s" "f (s\<lparr>sv_mails := ms\<rparr>) = f s" "f (s\<lparr>sv_prices := p\<rparr>) = f s" "f (s\<lparr>sv_hub := h\<rparr>) = f s"
      "f (s\<lparr>sv_deletions := d\<rparr>) = f s"
    and relabel: "f (s\<lparr>t_contracts := update_rows P (\<lambda>r. r\<lparr>ac_Label := l\<rparr>) (t_contracts s)\<rparr>) = f s"
begin

lemmas updates = logs accounts volatile relabel

lemma kept: "keeps m \<Longrightarrow> preserves f m"
  using more keeps_snd unfolding preserves_def by blast

lemma audited [simp]: "f (writeAuditLog dbe now u act st mode ip w ds pre i s) = f s" "f (writeAuditCtx dbe c act st w ds i s) = f s"
  "f (updateAuditByApprovalID dbe now j st ex s) = f s"
  by (auto simp: writeAuditLog_def writeAuditCtx_def updateAuditByApprovalID_def authInfo_def updates split: option.splits)

lemma loading [preserves_intro]:
  "preserves f (mustUserID c)" "preserves f (loadUserWallet env c)" "preserves f (bind_json env c dec)" "preserves f (bind_or resp c dec)"
  "preserves f (verifyFreshPasskey env c)" "preserves f (verifyFreshPasskeyParsed env c n cred)" "preserves f panics"
  unfolding bind_or_def by (rule kept, intro keeps_intro)+

lemma calling: "keeps m \<Longrightarrow> preserves f (or_fail g m)"
  by (rule kept, intro keeps_intro)

lemma changing: "(\<And>s. f (g s) = f s) \<Longrightarrow> preserves f m \<Longrightarrow> preserves f (modify g m)"
  by (rule preserves_modify)

subsection \<open>Wallets\<close>

lemma wallet_reads:
  "preserves f (ListWallets env c)" "preserves f (GetWallet env c)" "preserves f (GetPubkey env c)" "preserves f (GetPolicy env c)" "preserves f (BalanceEndpoint env c)"
  unfolding ListWallets_def GetWallet_def GetPubkey_def GetPolicy_def BalanceEndpoint_def
  by (intro preserves_intro calling keeps_intro)+

lemma DailySpent_frame: "preserves f (DailySpent env c)"
  unfolding DailySpent_def Let_def load_policy_def by (intro preserves_intro changing)

subsection \<open>Whitelist and address book\<close>

lemma contract_of_user_frame [preserves_intro]: "preserves f (contract_of_user env c u chain)"
  unfolding contract_of_user_def by (intro preserves_intro)

lemma list_frames: "preserves f (ListContracts env c)" "preserves f (ListContractsByChain env c)" "preserves f (ListEntries env c)"
  unfolding ListContracts_def ListContractsByChain_def listContractsFor_def ListEntries_def Let_def by (intro preserves_intro)+

lemma update_frames: "preserves f (UpdateContract env c)" "preserves f (UpdateContractByChain env c)"
  unfolding UpdateContract_def UpdateContractByChain_def updateContractFor_def by (intro preserves_intro changing; simp add: relabel)+

subsection \<open>Accounts\<close>

lemma sdk_step_frame [preserves_intro]: "preserves f (sdk_step g a)"
  unfolding sdk_step_def by (intro preserves_intro)

lemma map_body_frame [preserves_intro]: "preserves f (map_body c)"
  unfolding map_body_def by (intro preserves_intro)

lemma session_opened [simp]: "f (open_session env c how u s) = f s"
  by (simp add: open_session_def updates)

lemma key_of_user_frame [preserves_intro]: "preserves f (key_of_user env u p)"
  unfolding key_of_user_def by (intro preserves_intro)

lemma case_answer [preserves_intro]:
  "(\<And>e. preserves f (m e)) \<Longrightarrow> (\<And>x. preserves f (n x)) \<Longrightarrow> preserves f (case k of SdkErr e \<Rightarrow> m e | SdkRes x \<Rightarrow> n x)"
  by (simp split: sdk_answer.splits)

lemma register_user_frame [preserves_intro]: "preserves f (register_user env ee c name vid i)"
  by (auto simp: preserves_def register_user_def Let_def updates split: sum.splits email_error.splits prod.splits created.splits)

lemma login_user_frame [preserves_intro]: "preserves f (login_user env c data)"
  by (auto simp: preserves_def login_user_def Let_def updates split: option.splits prod.splits created.splits)

lemma account_frames:
  "preserves f (InviteUser env c)" "preserves f (CheckName env c)" "preserves f (PasskeyOptions env)" "preserves f (PasskeyRegistrationBegin env c)"
  "preserves f (PasskeyRegistrationOptions env c)" "preserves f (PasskeyRegistrationVerify env c)" "preserves f (PasskeyVerify env c)" "preserves f (Logout c)"
  unfolding InviteUser_def CheckName_def PasskeyOptions_def PasskeyRegistrationBegin_def PasskeyRegistrationOptions_def PasskeyRegistrationVerify_def
    PasskeyVerify_def Logout_def Let_def
  by (intro preserves_intro changing; simp add: updates)+

lemma key_frames:
  "preserves f (GenerateAPIKey env c)" "preserves f (ListAPIKeys env c)" "preserves f (RenameAPIKey env c)" "preserves f (RevokeAPIKey env c)"
  unfolding GenerateAPIKey_def ListAPIKeys_def RenameAPIKey_def RevokeAPIKey_def Let_def
  by (intro preserves_intro changing; simp add: updates)+

lemma email_frames: "preserves f (SendCode ee c)" "preserves f (VerifyCode ee c)"
  by (auto simp: preserves_def SendCode_def VerifyCode_def Email_SendCode_def Email_VerifyCode_def insert_and_send_def set_email_def Let_def updates
      split: option.splits sum.splits prod.splits)

subsection \<open>Reading\<close>

lemma case_pair3 [preserves_intro]: "(\<And>x y z. preserves f (g x y z)) \<Longrightarrow> preserves f (case p of (x, y, z) \<Rightarrow> g x y z)"
  by (simp split: prod.splits)

lemma CallRead_frame: "preserves f (CallRead env c)"
  unfolding CallRead_def ETHCall_def by (intro preserves_intro, auto split: sum.splits gerr.splits intro!: preserves_intro calling keeps_intro)

lemma read_frames: "preserves f (ListLogs env c)" "preserves f (ListPending env c)" "preserves f (Claim env c)" "preserves f (Health env)" "preserves f (ListChains env)"
  unfolding ListLogs_def Claim_def Health_def ListChains_def ListPending_def Let_def by (intro preserves_intro)+

text \<open>The two plain endpoints that write the table of wallets.\<close>

lemma read_plain_frame: "plain_route r \<Longrightarrow> r \<noteq> R_CreateWallet \<Longrightarrow> r \<noteq> R_RenameWallet \<Longrightarrow> preserves f (handle env c r)"
  by (cases r) (simp_all add: plain_route_def email_handler_def wallet_reads DailySpent_frame list_frames update_frames
      account_frames key_frames email_frames CallRead_frame read_frames loading split: option.splits)

end

subsection \<open>Views that do not look at wallets\<close>

locale observation = view f for f :: "server \<Rightarrow> 'b" +
  assumes wallets: "f (s\<lparr>t_wallets := ws\<rparr>) = f s"
begin

lemma wallets_set [simp]: "f (set_wallet i g s) = f s"
  by (simp add: set_wallet_def wallets)

lemma fail_wallet_frame [preserves_intro]: "preserves f (fail_wallet env w resp)"
  unfolding fail_wallet_def by (intro preserves_intro changing) simp

lemma store_key_frame [preserves_intro]: "preserves f (store_key env c w cfg k d)"
  unfolding store_key_def Let_def by (auto split: sum.splits gerr.splits intro!: preserves_intro changing)

lemma case_keygen [preserves_intro]:
  "(\<And>e. preserves f (m e)) \<Longrightarrow> (\<And>b x y z. preserves f (n b x y z)) \<Longrightarrow> preserves f (case k of KeyErr e \<Rightarrow> m e | KeyRes b x y z \<Rightarrow> n b x y z)"
  by (simp split: keygen_outcome.splits)

lemma CreateWallet_frame: "preserves f (CreateWallet env c)"
  unfolding CreateWallet_def Let_def by (intro preserves_intro changing) (simp_all add: wallets)

lemma RenameWallet_frame: "preserves f (RenameWallet env c)"
  unfolding RenameWallet_def Let_def by (intro preserves_intro changing; simp)

lemma plain_frame: "plain_route r \<Longrightarrow> preserves f (handle env c r)"
  using read_plain_frame by (cases "r = R_CreateWallet \<or> r = R_RenameWallet") (auto simp: CreateWallet_frame RenameWallet_frame)

end

subsection \<open>Fresh passkey assertions\<close>

text \<open>The passkey service accepted an assertion for the user of the request, or the server runs in test mode without the service.\<close>

definition passkey_confirmed :: "'e server_env_scheme \<Rightarrow> ctx \<Rightarrow> user list \<Rightarrow> bool" where
  "passkey_confirmed env c us \<longleftrightarrow> sdk_nil env \<and> gin_test env
     \<or> (\<exists>u user n cred err. c_userID c = Some u \<and> user \<in> set us \<and> u_ID user = u \<and> passkey_verify_as env n cred (u_PasskeyUserID user) = Some (True, err))"

lemma verify_fresh:
  "verifyFreshPasskeyParsed env c n cred s = (Inr x, s') \<Longrightarrow> passkey_confirmed env c (t_users s)"
  unfolding verifyFreshPasskeyParsed_def passkey_confirmed_def mustUserID_def seq_def
  by (auto split: if_splits option.splits dest!: first_row_Some) blast

lemma verify_fresh_body: "verifyFreshPasskey env c s = (Inr x, s') \<Longrightarrow> passkey_confirmed env c (t_users s)"
  unfolding verifyFreshPasskey_def Let_def
  by (auto split: if_splits option.splits dest: verify_fresh) (simp add: passkey_confirmed_def)

definition guarded :: "(server \<Rightarrow> 'b) \<Rightarrow> 'e server_env_scheme \<Rightarrow> ctx \<Rightarrow> 'a h \<Rightarrow> bool" where
  "guarded f env c m \<longleftrightarrow> (\<forall>s. f (snd (m s)) = f s \<or> passkey_confirmed env c (t_users s))"

named_theorems guarded_intro \<open>rules for what only a fresh assertion changes\<close>

lemma guarded_branch [guarded_intro]:
  "guarded f env c m \<Longrightarrow> guarded f env c n \<Longrightarrow> guarded f env c (if b then m else n)"
  "guarded f env c n \<Longrightarrow> (\<And>x. guarded f env c (k x)) \<Longrightarrow> guarded f env c (case o' of None \<Rightarrow> n | Some x \<Rightarrow> k x)"
  "(\<And>e. guarded f env c (m1 e)) \<Longrightarrow> (\<And>x. guarded f env c (m2 x)) \<Longrightarrow> guarded f env c (case r of Inl e \<Rightarrow> m1 e | Inr x \<Rightarrow> m2 x)"
  "(\<And>x. guarded f env c (k x)) \<Longrightarrow> guarded f env c (getting g k)"
  "guarded f env c (ret x)" "guarded f env c (stop e)"
  by (simp_all add: guarded_def split: option.splits sum.splits)

lemma guarded_preserves: "preserves f m \<Longrightarrow> guarded f env c m"
  by (simp add: guarded_def preserves_def)

context view
begin

lemma guarded_seq [guarded_intro]: "keeps m \<Longrightarrow> (\<And>x. guarded f env c (k x)) \<Longrightarrow> guarded f env c (seq m k)"
proof -
  assume m: "keeps m" and k: "\<And>x. guarded f env c (k x)"
  have "f (snd (seq m k s)) = f s \<or> passkey_confirmed env c (t_users s)" for s
  proof -
    obtain r s1 where e: "m s = (r, s1)" by (cases "m s")
    have "f s1 = f s" "t_users s1 = t_users s" using more keepsD [OF m e] preservesD [OF keeps_preserves(4) [OF m] e] by blast+
    moreover have "f (snd (k x s1)) = f s1 \<or> passkey_confirmed env c (t_users s1)" for x using k unfolding guarded_def by blast
    ultimately show ?thesis by (cases r) (simp_all add: seq_def e)
  qed
  then show ?thesis by (simp add: guarded_def)
qed

lemma guarded_after:
  assumes "keeps v" and "\<And>s x s'. v s = (Inr x, s') \<Longrightarrow> passkey_confirmed env c (t_users s)"
  shows "guarded f env c (seq v k)"
proof -
  have "f (snd (seq v k s)) = f s \<or> passkey_confirmed env c (t_users s)" for s
  proof -
    obtain r s1 where e: "v s = (r, s1)" by (cases "v s")
    show ?thesis using more [OF keepsD [OF assms(1) e]] assms(2) e by (cases r) (simp_all add: seq_def e)
  qed
  then show ?thesis by (simp add: guarded_def)
qed

lemma guarded_verify:
  "guarded f env c (seq (verifyFreshPasskeyParsed env c n cred) k)" "guarded f env c (seq (verifyFreshPasskey env c) k')"
proof -
  show "guarded f env c (seq (verifyFreshPasskeyParsed env c n cred) k)" by (rule guarded_after [OF keeps_passkey(1) verify_fresh])
  show "guarded f env c (seq (verifyFreshPasskey env c) k')" by (rule guarded_after [OF keeps_passkey(2) verify_fresh_body])
qed

end

subsection \<open>Views that do not look at approvals\<close>

lemma keeps_checked [keeps_intro]: "keeps (checked r)" "keeps (checked_address q)"
  unfolding checked_address_def checked_def by (intro keeps_intro)+

lemma keeps_rows [keeps_intro]:
  "keeps (contract_of_user env c u chain)" "keeps (entry_of_user env c u)" "keeps (change_nickname env k e)" "keeps (change_address env a e)" "keeps (change_memo m e)"
  "keeps (bind_or resp c dec)"
  unfolding contract_of_user_def entry_of_user_def change_nickname_def change_address_def change_memo_def bind_or_def by (intro keeps_intro)+

locale standing = view f for f :: "server \<Rightarrow> 'b" +
  assumes approvals: "f (s\<lparr>t_approvals := as\<rparr>) = f s"
begin

lemma created_approval: "f (snd (create_approval env a s)) = f s"
  by (auto simp: create_approval_def approvals split: sum.splits)

lemma createPendingApproval_frame [preserves_intro]: "preserves f (createPendingApproval env c w t j x)"
proof -
  have "f s' = f s" if "create_approval env a s = (r, s')" for a s r s' using created_approval [of env a s] that by simp
  then show ?thesis unfolding createPendingApproval_def Let_def
    by (intro preserves_intro) (auto simp: preserves_def split: prod.splits sum.splits)
qed

lemma propose_frames [preserves_intro]:
  "preserves f (propose_policy env c w req b)" "preserves f (propose_contract env c wid p)" "preserves f (propose_entry env c k e ds m)"
  unfolding propose_policy_def propose_contract_def propose_entry_def by (intro preserves_intro changing; simp)+

lemma SetPolicy_guarded: "guarded f env c (SetPolicy env c)"
  unfolding SetPolicy_def Let_def by (intro guarded_verify guarded_intro keeps_intro guarded_preserves [OF propose_frames(1)])

lemma addContractFor_guarded: "guarded f env c (addContractFor env c u chain wid)"
  unfolding addContractFor_def Let_def by (intro guarded_verify guarded_intro keeps_intro guarded_preserves [OF propose_frames(2)])

lemma AddContract_guarded: "guarded f env c (AddContract env c)" "guarded f env c (AddContractByChain env c)"
  unfolding AddContract_def AddContractByChain_def by (intro guarded_intro keeps_intro addContractFor_guarded)+

lemma AddEntry_guarded: "guarded f env c (AddEntry env c)" "guarded f env c (UpdateEntry env c)"
  unfolding AddEntry_def UpdateEntry_def Let_def by (intro guarded_verify guarded_intro keeps_intro guarded_preserves [OF propose_frames(3)])+

lemma delete_guarded:
  "guarded f env c (DeletePolicy env c)" "guarded f env c (DeleteContract env c)" "guarded f env c (DeleteContractByChain env c)" "guarded f env c (DeleteEntry env c)"
  "guarded f env c (DeleteWallet env c)" "guarded f env' c (DeleteAccount env' c)" "guarded f env c (Approve env c)" "guarded f env c (Reject env c)"
  unfolding DeletePolicy_def DeleteContract_def DeleteContractByChain_def DeleteEntry_def DeleteWallet_def DeleteAccount_def Approve_def Reject_def
  by (rule guarded_verify(2))+

lemma GetApproval_frame: "preserves f (GetApproval env c)"
proof -
  have "f (set_approval env i g s) = f s" for i g s by (simp add: set_approval_def approvals)
  then show ?thesis unfolding GetApproval_def Let_def
    by (intro preserves_intro changing kept [OF keeps_load_approval(1)]) auto
qed

text \<open>A request without a passkey only asks.\<close>

lemma eqF: "\<not> b \<Longrightarrow> b = False"
  by simp

lemma asking_frames:
  assumes "\<not> isPasskeyAuth c"
  shows "preserves f (SetPolicy env c)" "preserves f (AddContract env c)" "preserves f (AddContractByChain env c)" "preserves f (AddEntry env c)" "preserves f (UpdateEntry env c)"
  unfolding SetPolicy_def AddContract_def AddContractByChain_def addContractFor_def AddEntry_def UpdateEntry_def Let_def eqF [OF assms] not_False_eq_True if_True
  by (intro preserves_intro kept [OF keeps_checked(1)] kept [OF keeps_checked(2)] kept [OF keeps_rows(2)] kept [OF keeps_rows(3)]
      kept [OF keeps_rows(4)] kept [OF keeps_rows(5)])+

lemma propose_call_frame [preserves_intro]: "preserves f (propose_call env c w act msg t ps why)"
proof -
  have "f s' = f s" if "create_approval env a s = (r, s')" for a s r s' using created_approval [of env a s] that by simp
  then show ?thesis unfolding propose_call_def
    by (intro preserves_intro) (auto simp: preserves_def split: prod.splits sum.splits)
qed

lemma keeps_ready: "keeps (ready_wallet env c)" "keeps (whitelisted env w what a)"
  unfolding ready_wallet_def whitelisted_def by (intro keeps_intro)+

lemma calling_frames:
  assumes "\<not> isPasskeyAuth c"
  shows "preserves f (ContractCall env c)" "preserves f (ApproveToken env c)" "preserves f (RevokeApproval env c)"
proof -
  have evm: "preserves f (contractCallEVM env c w cfg)" for w cfg
    unfolding contractCallEVM_def settle_call_def call_needs_approval_def Let_def eqF [OF assms] not_False_eq_True if_True option.case
    by (auto intro!: preserves_intro kept [OF keeps_ready(2)] calling keeps_intro split: sum.splits gerr.splits option.splits)
  have sol: "preserves f (contractCallSolana env c w cfg)" for w cfg
    unfolding contractCallSolana_def settle_program_def Let_def eqF [OF assms] not_False_eq_True if_True option.case
    by (auto intro!: preserves_intro kept [OF keeps_ready(2)] calling keeps_intro split: sum.splits gerr.splits option.splits)
  have approve: "preserves f (executeApprove env c t sp a act)" for t sp a act
    unfolding executeApprove_def settle_approve_def Let_def eqF [OF assms] not_False_eq_True if_True option.case
    by (auto intro!: preserves_intro kept [OF keeps_ready(1)] kept [OF keeps_ready(2)] calling keeps_intro split: sum.splits gerr.splits option.splits)
  show "preserves f (ContractCall env c)" unfolding ContractCall_def by (intro preserves_intro kept [OF keeps_ready(1)] evm sol)
  show "preserves f (ApproveToken env c)" "preserves f (RevokeApproval env c)"
    unfolding ApproveToken_def RevokeApproval_def by (intro preserves_intro approve)+
qed

end

subsection \<open>Views that do not look at the amounts spent or at the signing journal\<close>

lemma deducted_spent:
  "\<exists>p x t. snd (checkAndDeductDailyLimitUSD dbe now w a ps) = ps \<or> snd (checkAndDeductDailyLimitUSD dbe now w a ps) = set_spent p x t ps"
  "\<exists>p x t. snd (releaseDailySpentUSD dbe now w a ps) = ps \<or> snd (releaseDailySpentUSD dbe now w a ps) = set_spent p x t ps"
  unfolding checkAndDeductDailyLimitUSD_def releaseDailySpentUSD_def Let_def
  by (auto split: option.splits prod.splits)

locale spending = standing f for f :: "server \<Rightarrow> 'b" +
  assumes spent: "f (s\<lparr>t_policies := set_spent p x t (t_policies s)\<rparr>) = f s"
begin

lemma limit_frames [preserves_intro]: "preserves f (deduct_limit env c w pol v)" "preserves f (release_limit env c w d)"
proof -
  have d: "f (s\<lparr>t_policies := ps\<rparr>) = f s" if "checkAndDeductDailyLimitUSD dbe now w a (t_policies s) = (r, ps)" for dbe now w a s r ps
    using deducted_spent(1) [of dbe now w a "t_policies s"] that spent by auto
  have r: "f (s\<lparr>t_policies := ps\<rparr>) = f s" if "releaseDailySpentUSD dbe now w a (t_policies s) = (r, ps)" for dbe now w a s r ps
    using deducted_spent(2) [of dbe now w a "t_policies s"] that spent by auto
  show "preserves f (deduct_limit env c w pol v)" "preserves f (release_limit env c w d)"
    by (auto simp: preserves_def deduct_limit_def release_limit_def Let_def d r split: prod.splits sum.splits gerr.splits)
qed

lemma createApprovalRequest_frame [preserves_intro]: "preserves f (createApprovalRequest env c w msg t pol ps)"
proof -
  have "f s' = f s" if "create_approval env a s = (r, s')" for a s r s' using created_approval [of env a s] that by simp
  then show ?thesis unfolding createApprovalRequest_def
    by (intro preserves_intro) (auto simp: preserves_def split: prod.splits sum.splits)
qed

lemma price_transfer_frame [preserves_intro]: "preserves f (price_transfer env c cfg plan t b)"
  unfolding price_transfer_def by (intro preserves_intro changing) (simp add: updates)

lemma policy_route_frame [preserves_intro]: "(\<And>d. preserves f (direct d)) \<Longrightarrow> preserves f (policy_route env c w pol v msg t ps direct)"
  unfolding policy_route_def by (intro preserves_intro)

end

locale signing = spending f for f :: "server \<Rightarrow> 'b" +
  assumes signs: "f (s\<lparr>sv_signs := j\<rparr>) = f s"
begin

lemma signAndBroadcast_frame: "signAndBroadcast env w msg (Some ps) s = (r, s') \<Longrightarrow> f s' = f s"
proof -
  assume "signAndBroadcast env w msg (Some ps) s = (r, s')"
  moreover have "rbfMaxAttempts = Suc (rbfMaxAttempts - 1)" by (simp add: rbfMaxAttempts_def)
  ultimately have "sign_loop (Suc (rbfMaxAttempts - 1)) env w msg (Some ps) s = (r, s')" by (simp only: signAndBroadcast_def)
  from sign_loop_effect [OF this] show "f s' = f s" using more signs by metis
qed

lemma sign_direct_frame [preserves_intro]: "preserves f (sign_direct env c w msg ps d g ds)"
proof -
  have "f (snd (seq (release_limit env c w d) (\<lambda>_. stop e :: string h) q)) = f q" for e q
    by (rule preserves_snd, intro preserves_intro)
  then show ?thesis unfolding preserves_def sign_direct_def
    by (auto split: prod.splits sum.splits sb_error.splits dest!: signAndBroadcast_frame)
qed

lemma idem_frame [preserves_intro]: "preserves f (respondWithIdempotency env c k u r)"
  unfolding respondWithIdempotency_def by (intro preserves_intro changing) (simp add: updates)

lemma direct_frames [preserves_intro]: "preserves f (transfer_direct env c u w req plan d)" "preserves f (wrap_direct env c u w t plan d)"
  unfolding transfer_direct_def wrap_direct_def Let_def by (intro preserves_intro changing; simp)+

lemma spend_frames: "preserves f (Transfer env c)" "preserves f (WrapSOL env c)" "preserves f (UnwrapSOL env c)"
  unfolding Transfer_def settle_transfer_def WrapSOL_def UnwrapSOL_def load_policy_def Let_def
  by (intro preserves_intro kept [OF keeps_prepare_transfer] kept [OF keeps_prepare_wrap(1)] kept [OF keeps_prepare_wrap(2)] calling keeps_intro changing; simp)+

lemma call_step_frames [preserves_intro]: "preserves f (sign_call env w msg ds)" "keeps m \<Longrightarrow> preserves f (send_call w ds m)" "preserves f (record_call env c w act t ex h)"
proof -
  show "preserves f (sign_call env w msg ds)"
    by (auto simp: preserves_def sign_call_def sdk_Sign_def signs Let_def split: sign_outcome.splits)
  show "keeps m \<Longrightarrow> preserves f (send_call w ds m)" unfolding send_call_def by (rule calling)
  show "preserves f (record_call env c w act t ex h)" unfolding record_call_def by (intro preserves_intro changing) simp
qed

lemma call_frames: "preserves f (ContractCall env c)" "preserves f (ApproveToken env c)" "preserves f (RevokeApproval env c)"
proof -
  note steps = preserves_intro kept [OF keeps_ready(1)] kept [OF keeps_ready(2)] calling keeps_intro
  have settle: "preserves f (settle_call env c w cfg a m req v tx)" "preserves f (settle_program env c w cfg i req tx')"
      "preserves f (settle_approve env c w a sp t al act tx)" for w cfg a m req v tx i tx' sp t al act
    unfolding settle_call_def settle_program_def settle_approve_def deduct_call_def load_policy_def Let_def by (intro steps)+
  have evm: "preserves f (contractCallEVM env c w cfg)" for w cfg
    unfolding contractCallEVM_def Let_def by (auto intro!: steps settle split: sum.splits gerr.splits option.splits)
  have sol: "preserves f (contractCallSolana env c w cfg)" for w cfg
    unfolding contractCallSolana_def Let_def by (auto intro!: steps settle split: sum.splits gerr.splits option.splits)
  have approve: "preserves f (executeApprove env c t sp a act)" for t sp a act
    unfolding executeApprove_def by (auto intro!: steps settle split: sum.splits gerr.splits option.splits)
  show "preserves f (ContractCall env c)" unfolding ContractCall_def by (intro steps evm sol)
  show "preserves f (ApproveToken env c)" "preserves f (RevokeApproval env c)"
    unfolding ApproveToken_def RevokeApproval_def by (intro steps approve)+
qed

end

subsection \<open>Views that do not look at the rules\<close>

locale unruled = standing f for f :: "server \<Rightarrow> 'b" +
  assumes tables: "f (s\<lparr>t_policies := ps\<rparr>) = f s" "f (s\<lparr>t_contracts := cs\<rparr>) = f s" "f (s\<lparr>t_entries := es\<rparr>) = f s"

sublocale unruled \<subseteq> spending f
  by unfold_locales (rule tables(1))

context unruled
begin

lemma approval_set [simp]: "f (set_approval env i g s) = f s"
  by (simp add: set_approval_def approvals)

lemma notify_frame [preserves_intro]: "preserves f (notify env a st tx)"
  by (auto simp: preserves_def notify_def broadcastApproval_def Let_def volatile split: prod.splits sum.splits)

lemma delete_frames:
  "preserves f (DeletePolicy env c)" "preserves f (DeleteContract env c)" "preserves f (DeleteContractByChain env c)" "preserves f (DeleteEntry env c)"
  unfolding DeletePolicy_def DeleteContract_def DeleteContractByChain_def deleteContractFor_def DeleteEntry_def
  by (intro preserves_intro changing kept [OF keeps_rows(2)]; simp add: tables)+

lemma write_frames [preserves_intro]:
  "preserves f (apply_policy env c w req b p)" "preserves f (insert_contract env c wid r)" "preserves f (insert_entry env c e ds)" "preserves f (write_entry env c ch e)"
  by (auto simp: preserves_def apply_policy_def insert_contract_def insert_entry_def write_entry_def tables split: prod.splits created.splits)

lemma edit_frames:
  "preserves f (SetPolicy env c)" "preserves f (AddContract env c)" "preserves f (AddContractByChain env c)" "preserves f (AddEntry env c)" "preserves f (UpdateEntry env c)"
  unfolding SetPolicy_def AddContract_def AddContractByChain_def addContractFor_def AddEntry_def UpdateEntry_def Let_def
  by (intro preserves_intro kept [OF keeps_checked(1)] kept [OF keeps_checked(2)] kept [OF keeps_rows(2)] kept [OF keeps_rows(3)]
      kept [OF keeps_rows(4)] kept [OF keeps_rows(5)])+

lemma Reject_frame: "preserves f (Reject env c)"
  unfolding Reject_def
  by (intro preserves_intro changing kept [OF keeps_load_approval(1)] kept [OF keeps_load_approval(2)]; simp)

end

text \<open>A view that ignores all of these and the signing journal does not notice any of the endpoints that call, spend or decide.\<close>

locale untouched = unruled f for f :: "server \<Rightarrow> 'b" +
  assumes journal: "f (s\<lparr>sv_signs := j\<rparr>) = f s"

sublocale untouched \<subseteq> signing f
  by unfold_locales (rule journal)

context untouched
begin

lemma finish_frame [preserves_intro]: "preserves f (finish_approved env c a extra body)"
  unfolding finish_approved_def by (intro preserves_intro changing; simp)

lemma apply_frames [preserves_intro]:
  "preserves f (approve_contract_add env c a)" "preserves f (approve_contract_update env c a)" "preserves f (approve_entry_add env c a)"
  "preserves f (approve_entry_update env c a)" "preserves f (approve_policy_change env c a)"
  by (auto simp: preserves_def approve_contract_add_def approve_contract_update_def approve_entry_add_def approve_entry_update_def approve_policy_change_def
      preserves_snd [OF finish_frame] tables Let_def split: option.splits prod.splits created.splits)

lemma pay_frames [preserves_intro]:
  "preserves f (pre_deduct env c a)" "preserves f (release_pre env c a d)" "preserves f (post_add env c a tx d)"
  by (auto simp: preserves_def pre_deduct_def release_pre_def post_add_def tables volatile Let_def split: option.splits prod.splits sum.splits gerr.splits)

lemma fail_frame [preserves_intro]: "preserves f (fail_approval env c a evt extra resp)"
  unfolding fail_approval_def by (intro preserves_intro changing; simp)

lemma sign_frame [preserves_intro]: "preserves f (sign_approved env c a w msg)"
  by (auto simp: preserves_def sign_approved_def sdk_Sign_def journal preserves_snd [OF fail_frame] Let_def split: sign_outcome.splits)

lemma broadcast_frame [preserves_intro]: "preserves f (broadcast_approved env c a w ps sig d)"
  unfolding broadcast_approved_def by (intro preserves_intro kept [OF keeps_recovered [OF keeps_broadcastSigned]])

lemma finish_signed_frame [preserves_intro]: "preserves f (finish_signed env c a w sig tx d)"
  unfolding finish_signed_def Let_def by (intro preserves_intro changing; simp)

lemma Approve_frame: "preserves f (Approve env c)"
proof -
  have "preserves f (approve_sign env c a)" for a
    unfolding approve_sign_def approve_signed_def by (intro preserves_intro kept [OF keeps_refresh_tx])
  then show ?thesis unfolding Approve_def approve_pending_def apply_approval_def
    by (intro preserves_intro changing kept [OF keeps_load_approval(1)] kept [OF keeps_load_approval(2)]; simp)
qed

lemma handle_frame:
  assumes "r \<notin> {R_CreateWallet, R_RenameWallet, R_DeleteWallet, R_DeleteAccount}"
  shows "preserves f (handle env c r)"
proof (cases "plain_route r")
  case False
  then show ?thesis using assms by (cases r)
    (simp_all add: plain_route_def delete_frames edit_frames spend_frames call_frames Reject_frame Approve_frame GetApproval_frame)
qed (use assms in \<open>simp add: read_plain_frame\<close>)

end

subsection \<open>The views\<close>

text \<open>The rules of spending: the limits of the policies, the contracts but for their labels, and the address book.\<close>

definition policy_rule :: "approval_policy \<Rightarrow> string \<times> string \<times> string \<times> bool" where
  "policy_rule p = (pol_WalletID p, pol_ThresholdUSD p, pol_DailyLimitUSD p, pol_Enabled p)"

definition rules_of :: "server \<Rightarrow> (string \<times> string \<times> string \<times> bool) list \<times> allowed_contract list \<times> address_book_entry list" where
  "rules_of s = (map policy_rule (t_policies s), map (\<lambda>r. r\<lparr>ac_Label := []\<rparr>) (t_contracts s), t_entries s)"

lemma more_rules: "rpc_state.more s' = rpc_state.more s \<Longrightarrow> rules_of s' = rules_of s"
  unfolding rules_of_def by (simp only: more_fields(3) [of s' s] more_fields(10) [of s' s] more_fields(11) [of s' s])

interpretation signs: unruled sv_signs
  by (unfold_locales; (erule more_fields(1) | simp))

interpretation every_signs: observation sv_signs
  by unfold_locales simp

interpretation asked: observation t_approvals
  by (unfold_locales; (erule more_fields(2) | simp))

interpretation rules: signing rules_of
  by (unfold_locales; (erule more_rules | simp add: rules_of_def map_update_rows set_spent_def policy_rule_def))

interpretation every_rules: observation rules_of
  by unfold_locales (simp add: rules_of_def)

interpretation wallets: untouched t_wallets
  by (unfold_locales; (erule more_fields | simp))

end
