(* ===== verification/ApiSafety.thy ===== *)
theory ApiSafety
  imports ApiFrame
begin

text \<open>
  Who may do what: the theorems on the whole HTTP interface. A request reaches its handler only through the middlewares of its group; from there the
  views of the last theory tell which endpoints can sign and which can change the rules of spending.
\<close>

subsection \<open>The endpoints that sign\<close>

lemma delete_signs: "preserves sv_signs (DeleteWallet env c)" "preserves sv_signs (DeleteAccount env' c)"
  unfolding DeleteWallet_def DeleteAccount_def
  by (intro preserves_intro preserves_modify; simp add: delete_wallet_rows_def delete_account_rows_def delete_keys_def Let_def)+

definition spend_route :: "route \<Rightarrow> bool" where
  "spend_route r \<longleftrightarrow> r = R_Transfer \<or> r = R_WrapSOL \<or> r = R_UnwrapSOL"

definition call_route :: "route \<Rightarrow> bool" where
  "call_route r \<longleftrightarrow> r = R_ContractCall \<or> r = R_ApproveToken \<or> r = R_RevokeApproval"

lemma handle_signs:
  assumes "handle env c r s = (resp, s')" and "sv_signs s' \<noteq> sv_signs s"
  shows "spend_route r \<or> call_route r \<and> isPasskeyAuth c \<or> r = R_Approve"
proof (rule ccontr)
  assume no: "\<not> ?thesis"
  have "preserves sv_signs (handle env c r)"
  proof (cases "plain_route r")
    case False
    then show ?thesis using no signs.calling_frames [of c] by (cases r)
      (simp_all add: plain_route_def spend_route_def call_route_def delete_signs signs.delete_frames signs.edit_frames signs.Reject_frame signs.GetApproval_frame)
  qed (rule every_signs.plain_frame)
  then show False using assms preservesD by blast
qed

subsection \<open>The endpoints that change the rules\<close>

definition edit_route :: "route \<Rightarrow> bool" where
  "edit_route r \<longleftrightarrow> r \<in> {R_SetPolicy, R_AddContract, R_AddContractByChain, R_AddEntry, R_UpdateEntry}"

definition owner_route :: "route \<Rightarrow> bool" where
  "owner_route r \<longleftrightarrow> r \<in> {R_DeletePolicy, R_DeleteContract, R_DeleteContractByChain, R_DeleteEntry, R_DeleteWallet, R_DeleteAccount, R_Approve, R_Reject}"

lemma handle_rules:
  assumes "handle env c r s = (resp, s')" and "rules_of s' \<noteq> rules_of s"
  shows "passkey_confirmed env c (t_users s) \<and> (edit_route r \<and> isPasskeyAuth c \<or> owner_route r)"
proof -
  have g: "guarded rules_of env c m \<Longrightarrow> m s = (resp, s') \<Longrightarrow> passkey_confirmed env c (t_users s)" for m
    using assms(2) by (metis guarded_def snd_conv)
  have p: "preserves rules_of m \<Longrightarrow> m s = (resp, s') \<Longrightarrow> False" for m using assms(2) preservesD by blast
  have "\<not> preserves rules_of (handle env c r)" using assms p by blast
  moreover have "guarded rules_of env c (handle env c r)" if "edit_route r \<or> owner_route r"
    using that by (auto simp: edit_route_def owner_route_def rules.SetPolicy_guarded rules.AddContract_guarded rules.AddEntry_guarded rules.delete_guarded)
  moreover have "preserves rules_of (handle env c r)" if "\<not> (edit_route r \<or> owner_route r)"
  proof (cases "plain_route r")
    case False
    then show ?thesis using that by (cases r)
      (simp_all add: plain_route_def edit_route_def owner_route_def rules.spend_frames rules.call_frames rules.GetApproval_frame)
  qed (rule every_rules.plain_frame)
  moreover have "preserves rules_of (handle env c r)" if "edit_route r" "\<not> isPasskeyAuth c"
    using that rules.asking_frames [OF that(2)] by (auto simp: edit_route_def)
  ultimately show ?thesis using g assms(1) by blast
qed

subsection \<open>Reaching a handler\<close>

lemma find_route_table: "find_route rs m path = Some (g, r, ps) \<Longrightarrow> \<exists>pat. (m, pat, g, r) \<in> set rs"
  by (induction rs m path rule: find_route.induct) (auto split: option.splits if_splits)

definition auth_group :: "group \<Rightarrow> bool" where
  "auth_group g \<longleftrightarrow> g \<noteq> Public \<and> g \<noteq> PublicLimited"

lemma route_groups:
  assumes "find_route route_table m path = Some (g, r, ps)"
  shows "spend_route r \<or> call_route r \<Longrightarrow> auth_group g" "edit_route r \<Longrightarrow> auth_group g \<and> m \<notin> {''GET'', ''HEAD'', ''OPTIONS''}"
    "owner_route r \<Longrightarrow> g = PasskeyOnly \<and> m \<notin> {''GET'', ''HEAD'', ''OPTIONS''}"
proof -
  obtain pat where t: "(m, pat, g, r) \<in> set route_table" using find_route_table [OF assms] by blast
  show "spend_route r \<or> call_route r \<Longrightarrow> auth_group g" "edit_route r \<Longrightarrow> auth_group g \<and> m \<notin> {''GET'', ''HEAD'', ''OPTIONS''}"
    "owner_route r \<Longrightarrow> g = PasskeyOnly \<and> m \<notin> {''GET'', ''HEAD'', ''OPTIONS''}"
    using t by (auto simp: route_table_def spend_route_def call_route_def edit_route_def owner_route_def auth_group_def)
qed

text \<open>The middlewares let a request pass as the one that was authenticated, and change nothing of the server but the hash of a key.\<close>

definition admits :: "'e api_env_scheme \<Rightarrow> group \<Rightarrow> ctx \<Rightarrow> api \<Rightarrow> ctx \<Rightarrow> bool" where
  "admits env g c st c' \<longleftrightarrow> (auth_group g \<longrightarrow>
     (\<exists>keys. AuthMiddleware (db_fails env) (sv_sessions (api_server st)) c (t_keys (api_server st)) = (Inr c', keys))
     \<and> CSRFMiddleware c' = Inr c' \<and> (g = PasskeyOnly \<longrightarrow> isPasskeyAuth c'))"

lemma CSRF_same: "CSRFMiddleware c = Inr c' \<Longrightarrow> c' = c"
  by (auto simp: CSRFMiddleware_def Let_def split: if_splits)

lemma auth_chain_run:
  assumes "auth_chain env c st = (r, st')"
  shows "\<exists>keys. api_server st' = (api_server st)\<lparr>t_keys := keys\<rparr>
     \<and> (\<forall>c'. r = Inr c' \<longrightarrow> AuthMiddleware (db_fails env) (sv_sessions (api_server st)) c (t_keys (api_server st)) = (Inr c', keys) \<and> CSRFMiddleware c' = Inr c')"
proof -
  let ?s = "api_server st"
  obtain a keys where a: "AuthMiddleware (db_fails env) (sv_sessions ?s) c (t_keys ?s) = (a, keys)" by fastforce
  show ?thesis
  proof (cases a)
    case (Inl e)
    then show ?thesis using assms a by (auto simp: auth_chain_def authenticate_def on_server_def zoom_def seq_def)
  next
    case (Inr c1)
    then show ?thesis using assms a CSRF_same
      by (auto simp: auth_chain_def authenticate_def on_server_def zoom_def seq_def lift_def APIKeyRateLimitMiddleware_def
          split: sum.splits prod.splits if_splits intro!: exI [of _ keys])
  qed
qed

lemma UserRateLimit_same: "UserRateLimitMiddleware c l = (Inr c', l') \<Longrightarrow> c' = c"
  by (auto simp: UserRateLimitMiddleware_def mustUserID_def seq_def split: option.splits prod.splits if_splits)

lemma pipeline_run:
  assumes "pipeline env g c st = (r, st')"
  shows "(\<exists>keys. api_server st' = (api_server st)\<lparr>t_keys := keys\<rparr>) \<and> (\<forall>c'. r = Inr c' \<longrightarrow> admits env g c st c')"
proof (cases "auth_group g")
  case False
  have "(api_server st)\<lparr>t_keys := t_keys (api_server st)\<rparr> = api_server st" by simp
  then show ?thesis using assms False
    by (cases g) (auto simp: pipeline_def admits_def auth_group_def zoom_def split: prod.splits intro: exI [of _ "t_keys (api_server st)"])
next
  case True
  obtain ra st1 where a: "auth_chain env c st = (ra, st1)" by fastforce
  obtain keys where k: "api_server st1 = (api_server st)\<lparr>t_keys := keys\<rparr>" and
    ok: "\<And>c'. ra = Inr c' \<Longrightarrow> AuthMiddleware (db_fails env) (sv_sessions (api_server st)) c (t_keys (api_server st)) = (Inr c', keys) \<and> CSRFMiddleware c' = Inr c'"
    using auth_chain_run [OF a] by blast
  have "api_server st' = api_server st1 \<and> (\<forall>c'. r = Inr c' \<longrightarrow> ra = Inr c' \<and> (g = PasskeyOnly \<longrightarrow> isPasskeyAuth c'))"
    using assms True a UserRateLimit_same
    by (cases g; cases ra) (auto simp: pipeline_def auth_group_def seq_def zoom_def lift_def PasskeyOnlyMiddleware_def isPasskeyAuth_def split: prod.splits if_splits)
  then show ?thesis using k ok by (auto simp: admits_def)
qed

lemma serve_cases:
  assumes "serve env path c st = (resp, st')"
  obtains (refused) keys where "api_server st' = (api_server st)\<lparr>t_keys := keys\<rparr>"
  | (handled) g r ps c' keys resp' where "find_route route_table (c_method c) path = Some (g, r, ps)" "admits env g (routed c ps) st c'"
      "handle env c' r ((api_server st)\<lparr>t_keys := keys\<rparr>) = (resp', api_server st')"
proof (cases "c_method c = ''OPTIONS'' \<or> find_route route_table (c_method c) path = None")
  case True
  then have "st' = st" using assms by (auto simp: serve_def split: if_splits)
  then show thesis using refused [of "t_keys (api_server st)"] by simp
next
  case False
  then obtain g r ps where f: "find_route route_table (c_method c) path = Some (g, r, ps)" by (metis prod.exhaust option.exhaust)
  obtain ra st1 where p: "pipeline env g (routed c ps) st = (ra, st1)" by fastforce
  obtain keys where k: "api_server st1 = (api_server st)\<lparr>t_keys := keys\<rparr>" and ok: "\<And>c'. ra = Inr c' \<Longrightarrow> admits env g (routed c ps) st c'"
    using pipeline_run [OF p] by blast
  show thesis
  proof (cases ra)
    case (Inl e)
    then have "st' = st1" using assms False f p by (auto simp: serve_def respond_def seq_def)
    then show thesis using refused k by simp
  next
    case (Inr c')
    then have "\<exists>resp'. handle env c' r (api_server st1) = (resp', api_server st')"
      using assms False f p by (auto simp: serve_def respond_def seq_def on_server_def zoom_def split: prod.splits sum.splits)
    then show thesis using handled [OF f ok [OF Inr]] k by auto
  qed
qed

text \<open>The request data that authentication reads are those of the request, and a passkey request has a live session.\<close>

definition live_session :: "api \<Rightarrow> ctx \<Rightarrow> session_entry \<Rightarrow> bool" where
  "live_session st c e \<longleftrightarrow> map_of (sv_sessions (api_server st)) (extractBearer c) = Some e \<and> c_now c \<le> se_expiresAt e"

definition valid_key :: "api \<Rightarrow> ctx \<Rightarrow> api_key \<Rightarrow> bool" where
  "valid_key st c k \<longleftrightarrow> k \<in> set (t_keys (api_server st)) \<and> ak_Prefix k = take 12 (extractBearer c) \<and> 12 \<le> length (extractBearer c)
     \<and> ak_KeyHash k \<in> {hashAPIKeyWithSalt (extractBearer c) (ak_KeySalt k), hashAPIKeyLegacy (extractBearer c) (ak_KeySalt k)}"

lemma routed_fields [simp]:
  "extractBearer (routed c ps) = extractBearer c" "c_now (routed c ps) = c_now c" "c_method (routed c ps) = c_method c"
  "header (routed c ps) k = header c k"
  by (simp_all add: routed_def requestIDMiddleware_def extractBearer_def header_def)

lemma admits_passkey:
  assumes "admits env g (routed c ps) st c'" and "auth_group g" and "isPasskeyAuth c'"
  shows "\<exists>e. live_session st c e \<and> c_userID c' = Some (se_userID e)
     \<and> (c_method c \<notin> {''GET'', ''HEAD'', ''OPTIONS''} \<longrightarrow> header c ''X-CSRF-Token'' = se_csrfToken e \<and> se_csrfToken e \<noteq> [])"
proof -
  obtain keys where a: "AuthMiddleware (db_fails env) (sv_sessions (api_server st)) (routed c ps) (t_keys (api_server st)) = (Inr c', keys)"
    and csrf: "CSRFMiddleware c' = Inr c'" using assms by (auto simp: admits_def)
  from AuthMiddleware_passkey [OF a] assms(3) obtain e where e: "live_session st c e" "c_userID c' = Some (se_userID e)" "c_csrfToken c' = se_csrfToken e"
      "c_method c' = c_method c" "c_headers c' = c_headers (routed c ps)" by (auto simp: isPasskeyAuth_def live_session_def)
  then have "header c' k = header c k" for k using routed_fields(4) [of c ps k] by (simp add: header_def)
  then show ?thesis using e csrf assms(3) by (intro exI [of _ e]) (auto simp: CSRFMiddleware_def isPasskeyAuth_def Let_def split: if_splits)
qed

lemma keys_only: "sv_signs (s\<lparr>t_keys := ks\<rparr>) = sv_signs s" "rules_of (s\<lparr>t_keys := ks\<rparr>) = rules_of s" "t_users (s\<lparr>t_keys := ks\<rparr>) = t_users s"
  by (simp_all add: rules_of_def)

subsection \<open>The theorems\<close>

text \<open>C1. Whatever request is served, the TEE is asked to sign only for a request with a live session, at a transfer, wrap, unwrap, contract call,
  allowance or approval endpoint, or for a request with a stored API key, and then only at a transfer, wrap or unwrap endpoint: an API key alone
  never signs a contract call, an allowance or an approval.\<close>

theorem signing_is_authorised:
  assumes "serve env path c st = (resp, st')" and "sv_signs (api_server st') \<noteq> sv_signs (api_server st)"
  shows "\<exists>g r ps. find_route route_table (c_method c) path = Some (g, r, ps)
     \<and> ((\<exists>e. live_session st c e) \<and> (spend_route r \<or> call_route r \<or> r = R_Approve) \<or> (\<exists>k. valid_key st c k) \<and> spend_route r)"
  using assms(1)
proof (cases rule: serve_cases)
  case (refused keys)
  then show ?thesis using assms(2) by simp
next
  case (handled g r ps c' keys resp')
  have h: "spend_route r \<or> call_route r \<and> isPasskeyAuth c' \<or> r = R_Approve"
    using handle_signs [OF handled(3)] assms(2) by simp
  have g: "auth_group g" "r = R_Approve \<longrightarrow> g = PasskeyOnly"
    using h route_groups [OF handled(1)] by (auto simp: owner_route_def auth_group_def)
  then obtain keys' where a: "AuthMiddleware (db_fails env) (sv_sessions (api_server st)) (routed c ps) (t_keys (api_server st)) = (Inr c', keys')"
    and p: "r = R_Approve \<longrightarrow> isPasskeyAuth c'" using handled(2) by (auto simp: admits_def)
  show ?thesis
  proof (cases "isPasskeyAuth c'")
    case True
    then show ?thesis using admits_passkey [OF handled(2) g(1)] h handled(1) by blast
  next
    case False
    then have "\<exists>k. valid_key st c k" using AuthMiddleware_key [OF a] by (auto simp: valid_key_def isPasskeyAuth_def)
    then show ?thesis using False h p handled(1) by blast
  qed
qed

text \<open>C2. Whatever request is served, the rules of spending, that is the limits of the policies, the contract whitelist and the address book, change only
  for a request with a live session, the CSRF token of that session, and an assertion that the passkey service accepted for the user of the session; an
  API key never changes them.\<close>

theorem rules_change_only_with_fresh_passkey:
  assumes "serve env path c st = (resp, st')" and "rules_of (api_server st') \<noteq> rules_of (api_server st)"
  shows "\<exists>e. live_session st c e \<and> header c ''X-CSRF-Token'' = se_csrfToken e \<and> se_csrfToken e \<noteq> []
     \<and> (sdk_nil env \<and> gin_test env \<or> (\<exists>user n cred err. user \<in> set (t_users (api_server st)) \<and> u_ID user = se_userID e
          \<and> passkey_verify_as env n cred (u_PasskeyUserID user) = Some (True, err)))"
  using assms(1)
proof (cases rule: serve_cases)
  case (refused keys)
  then show ?thesis using assms(2) by (simp add: keys_only)
next
  case (handled g r ps c' keys resp')
  have h: "passkey_confirmed env c' (t_users (api_server st)) \<and> (edit_route r \<and> isPasskeyAuth c' \<or> owner_route r)"
    using handle_rules [OF handled(3)] assms(2) by (simp add: keys_only)
  have g: "auth_group g" "isPasskeyAuth c'" "c_method c \<notin> {''GET'', ''HEAD'', ''OPTIONS''}"
    using h handled(2) route_groups [OF handled(1)] by (auto simp: admits_def auth_group_def)
  then obtain e where "live_session st c e" "c_userID c' = Some (se_userID e)" "header c ''X-CSRF-Token'' = se_csrfToken e" "se_csrfToken e \<noteq> []"
    using admits_passkey [OF handled(2)] by blast
  then show ?thesis using h by (auto simp: passkey_confirmed_def)
qed

subsection \<open>Witnesses\<close>

text \<open>The sample server behind the interface, with a session of its user and an entry in the address book.\<close>

definition demo_api_env :: api_env where
  "demo_api_env = server_env.extend demo_env \<lparr>pubkey_address = (\<lambda>_. None), InvitePasskeyUser = (\<lambda>_ _. SdkErr ''down''), sdk_login_options = SdkErr ''down'',
     sdk_register_options = (\<lambda>_. SdkErr ''down''), sdk_register_verify = (\<lambda>_ _. SdkErr ''down''), sdk_login_verify = (\<lambda>_ _. SdkErr ''down''),
     rand_hex = (\<lambda>_. []), rand_csrf = [], big_float_u64 = 0, email_service = None, maxAPIKeys = 10, maxUsers = 500, faucetURL = [],
     faucet_post = (\<lambda>_ _. TransportErr ''down''), db_ping = True\<rparr>"

definition demo_entry :: address_book_entry where
  "demo_entry = \<lparr>ab_ID = 5, ab_UserID = 1, ab_Nickname = ''bob'', ab_Chain = ''ethereum'', ab_Address = ''0xb'', ab_Memo = [], ab_CreatedAt = 0, ab_UpdatedAt = 0\<rparr>"

definition demo_api :: api where
  "demo_api = \<lparr>api_server = demo_waiting\<lparr>t_entries := [demo_entry], sv_sessions := [(''ps_1'', \<lparr>se_userID = 1, se_csrfToken = ''tok'', se_expiresAt = 5000\<rparr>)]\<rparr>,
     ipLimiter = NewIPRateLimiter 10 60, rateLimiter = NewRateLimiter 100 60, walletRateLimiter = NewRateLimiter 5 60, rpcLimiter = NewRateLimiter 50 60\<rparr>"

definition demo_request :: "string \<Rightarrow> ctx" where
  "demo_request meth = demo_decision\<lparr>c_method := meth, c_headers := [(''Authorization'', ''Bearer ps_1''), (''X-CSRF-Token'', ''tok'')]\<rparr>"

lemma demo_routes:
  "find_route route_table ''DELETE'' ''/api/addressbook/5'' = Some (PasskeyOnly, R_DeleteEntry, [(''id'', ''5'')])"
  "find_route route_table ''POST'' ''/api/approvals/5/approve'' = Some (PasskeyOnly, R_Approve, [(''id'', ''5'')])"
  by code_simp+

definition demo_passkey :: "string \<Rightarrow> ctx" where
  "demo_passkey meth = (routed (demo_request meth) [(''id'', ''5'')])\<lparr>c_userID := Some 1, c_authMode := ''passkey'', c_sessionToken := ''ps_1'', c_csrfToken := ''tok''\<rparr>"

lemma demo_api_fields:
  "db_fails demo_api_env k = False" "sdk_nil demo_api_env = False" "passkey_verify_as demo_api_env n cr p = Some (True, [])"
  "GetChain (env_chains demo_api_env) ''ethereum'' = Some demo_chain"
  "t_keys (api_server demo_api) = []" "t_users (api_server demo_api) = [demo_user]" "t_entries (api_server demo_api) = [demo_entry]"
  "sv_sessions (api_server demo_api) = [(''ps_1'', \<lparr>se_userID = 1, se_csrfToken = ''tok'', se_expiresAt = 5000\<rparr>)]"
  "t_approvals (api_server demo_api) = [demo_approval]" "t_wallets (api_server demo_api) = [demo_wallet]" "sv_signs (api_server demo_api) = []"
  by (simp_all add: demo_api_env_def demo_env_def chain_env.defs server_env.defs GetChain_def demo_api_def demo_waiting_def demo_server_def)

lemma demo_request_fields:
  "c_method (demo_request m) = m" "c_now (demo_request m) = 1000" "header (demo_request m) ''X-CSRF-Token'' = ''tok''"
  "header (demo_request m) ''Authorization'' = ''Bearer ps_1''"
  by (simp_all add: demo_request_def demo_decision_def demo_ctx_def header_def)

lemma demo_passkey_fields:
  "c_userID (demo_passkey m) = Some 1" "c_id (demo_passkey m) = ''5''" "c_now (demo_passkey m) = 1000" "c_authMode (demo_passkey m) = ''passkey''"
  "c_body (demo_passkey m) = Some (JObj [(''login_session_id'', JNum ''3''), (''credential'', JObj [])])"
  by (simp_all add: demo_passkey_def routed_def requestIDMiddleware_def path_param_def demo_request_def demo_decision_def demo_ctx_def)

lemma demo_bearer: "extractBearer (demo_request m) = ''ps_1''"
proof -
  have "has_prefix ''Bearer ps_1'' ''Bearer ''" "trim_space (trim_prefix ''Bearer ps_1'' ''Bearer '') = ''ps_1''" by code_simp+
  then show ?thesis by (simp add: extractBearer_def demo_request_fields)
qed

lemma demo_admitted: "pipeline demo_api_env PasskeyOnly (routed (demo_request m) [(''id'', ''5'')]) demo_api = (Inr (demo_passkey m), demo_api)"
proof -
  let ?c = "routed (demo_request m) [(''id'', ''5'')]"
  have "AuthMiddleware (db_fails demo_api_env) (sv_sessions (api_server demo_api)) ?c (t_keys (api_server demo_api)) = (Inr (demo_passkey m), t_keys (api_server demo_api))"
    by (simp add: AuthMiddleware_def demo_bearer has_prefix_def Session_Get_def GetCSRF_def demo_api_fields demo_request_fields demo_passkey_def)
  then have "authenticate demo_api_env ?c demo_api = (Inr (demo_passkey m), demo_api)"
    by (simp add: authenticate_def on_server_def zoom_def)
  moreover have "header (demo_passkey m) ''X-CSRF-Token'' = ''tok''" "c_csrfToken (demo_passkey m) = ''tok''"
    by (simp_all add: demo_passkey_def header_def routed_def requestIDMiddleware_def demo_request_def)
  then have "CSRFMiddleware (demo_passkey m) = Inr (demo_passkey m)" "PasskeyOnlyMiddleware (demo_passkey m) = Inr (demo_passkey m)"
    by (simp_all add: CSRFMiddleware_def PasskeyOnlyMiddleware_def demo_passkey_fields Let_def)
  ultimately show ?thesis
    by (simp add: pipeline_def auth_chain_def seq_def lift_def zoom_def APIKeyRateLimitMiddleware_def demo_passkey_fields)
qed

lemma demo_verified: "verifyFreshPasskey demo_api_env (demo_passkey m) (api_server demo_api) = (Inr (), api_server demo_api)"
  unfolding verifyFreshPasskey_def demo_api_fields if_False demo_passkey_fields
  by (simp add: as_obj_def demo_numbers verifyFreshPasskeyParsed_def mustUserID_def seq_def first_row_def demo_api_fields demo_rows demo_passkey_fields)

lemma demo_served:
  assumes "m \<noteq> ''OPTIONS''" and "find_route route_table m path = Some (PasskeyOnly, r, [(''id'', ''5'')])"
    and "handle demo_api_env (demo_passkey m) r (api_server demo_api) = (x, s)"
  shows "serve demo_api_env path (demo_request m) demo_api = (case x of Inl y \<Rightarrow> y | Inr y \<Rightarrow> y, demo_api\<lparr>api_server := s\<rparr>)"
  using assms by (cases x) (simp_all add: serve_def demo_request_fields respond_def seq_def demo_admitted on_server_def zoom_def)

theorem rules_change_only_with_fresh_passkey_witness:
  "\<exists>resp st'. serve demo_api_env ''/api/addressbook/5'' (demo_request ''DELETE'') demo_api = (resp, st')
     \<and> rules_of (api_server st') \<noteq> rules_of (api_server demo_api)
     \<and> (\<exists>e. live_session demo_api (demo_request ''DELETE'') e \<and> header (demo_request ''DELETE'') ''X-CSRF-Token'' = se_csrfToken e)"
proof -
  obtain x s where h: "handle demo_api_env (demo_passkey ''DELETE'') R_DeleteEntry (api_server demo_api) = (x, s)" by fastforce
  have "t_entries s = []" using h
    by (auto simp: DeleteEntry_def seq_def demo_verified mustUserID_def demo_passkey_fields entry_of_user_def demo_numbers demo_api_fields first_row_def
        demo_entry_def delete_rows_def writeAuditCtx_def writeAuditLog_def split: if_splits prod.splits)
  then have "rules_of s \<noteq> rules_of (api_server demo_api)" by (simp add: rules_of_def demo_api_fields)
  moreover have "serve demo_api_env ''/api/addressbook/5'' (demo_request ''DELETE'') demo_api = (case x of Inl y \<Rightarrow> y | Inr y \<Rightarrow> y, demo_api\<lparr>api_server := s\<rparr>)"
    using demo_served [OF _ demo_routes(1) h] by simp
  ultimately show ?thesis using rules_change_only_with_fresh_passkey by fastforce
qed

theorem signing_is_authorised_witness:
  "\<exists>resp st'. serve demo_api_env ''/api/approvals/5/approve'' (demo_request ''POST'') demo_api = (resp, st')
     \<and> sv_signs (api_server st') \<noteq> sv_signs (api_server demo_api) \<and> (\<exists>e. live_session demo_api (demo_request ''POST'') e)"
proof -
  let ?s = "api_server demo_api" and ?c = "demo_passkey ''POST''"
  have hex: "decodeMessage_hex ''0aff'' = Some [10, 255]" by code_simp
  obtain x s where h: "handle demo_api_env ?c R_Approve ?s = (x, s)" by fastforce
  have "loadUserApproval demo_api_env ?c ?s = (Inr demo_approval, ?s)" "reload_approval demo_api_env demo_approval e ?s = (Inr demo_approval, ?s)" for e
    by (simp_all add: loadUserApproval_def reload_approval_def mustUserID_def seq_def first_row_def demo_api_fields demo_rows demo_numbers demo_passkey_fields)
  then have "approve_sign demo_api_env ?c demo_approval ?s = (x, s)"
    using h by (simp add: Approve_def seq_app demo_verified approve_pending_def apply_approval_def demo_api_fields demo_passkey_fields demo_rows)
  then have "approve_signed demo_api_env ?c demo_approval demo_wallet [10, 255] ?s = (x, s)"
    by (simp add: approve_sign_def demo_rows demo_api_fields first_row_def hex)
  moreover have "refresh_tx demo_api_env demo_approval demo_wallet [10, 255] ?s = (Inr ([10, 255], None), ?s)"
    by (simp add: refresh_tx_def demo_rows demo_api_fields)
  ultimately have "sv_signs s \<noteq> sv_signs ?s" using approve_signed_trace by fastforce
  moreover have "serve demo_api_env ''/api/approvals/5/approve'' (demo_request ''POST'') demo_api = (case x of Inl y \<Rightarrow> y | Inr y \<Rightarrow> y, demo_api\<lparr>api_server := s\<rparr>)"
    using demo_served [OF _ demo_routes(2) h] by simp
  ultimately have w: "sv_signs (api_server (demo_api\<lparr>api_server := s\<rparr>)) \<noteq> sv_signs ?s"
      "serve demo_api_env ''/api/approvals/5/approve'' (demo_request ''POST'') demo_api = (case x of Inl y \<Rightarrow> y | Inr y \<Rightarrow> y, demo_api\<lparr>api_server := s\<rparr>)" by simp_all
  moreover have "\<not> valid_key demo_api (demo_request ''POST'') k" for k by (simp add: valid_key_def demo_api_fields)
  ultimately show ?thesis using signing_is_authorised [OF w(2,1)] by blast
qed

end
