(* ===== verification/ApprovalLife.thy ===== *)
theory ApprovalLife
  imports ApiSafety
begin

text \<open>The life of approvals (\<open>handler/approval.go\<close>). A request to any endpoint of the interface, and every background loop that touches the tables, is a step of
  the server; along every run that removes no wallet and no account, the rows evolve from pending to one final status, and the table implements an abstract
  ledger of phases.\<close>

subsection \<open>How an approval may change\<close>

definition final_status :: "string \<Rightarrow> bool" where
  "final_status st \<longleftrightarrow> st = ''approved'' \<or> st = ''rejected'' \<or> st = ''failed'' \<or> st = ''expired''"

text \<open>Only the outcome of an approval is ever written: its status, signature, approver and transaction hash.\<close>

definition same_request :: "approval_request \<Rightarrow> approval_request \<Rightarrow> bool" where
  "same_request a b \<longleftrightarrow> b = a\<lparr>apr_Status := apr_Status b, apr_Signature := apr_Signature b, apr_ApprovedBy := apr_ApprovedBy b, apr_TxHash := apr_TxHash b\<rparr>"

definition evolves :: "approval_request \<Rightarrow> approval_request \<Rightarrow> bool" where
  "evolves a b \<longleftrightarrow> b = a \<or> apr_Status a = ''pending'' \<and> final_status (apr_Status b) \<and> same_request a b"

definition resolving :: "(approval_request \<Rightarrow> approval_request) \<Rightarrow> bool" where
  "resolving f \<longleftrightarrow> (\<forall>r. final_status (apr_Status (f r)) \<and> same_request r (f r))"

definition resolves_to :: "approval_request \<Rightarrow> approval_request list \<Rightarrow> approval_request list \<Rightarrow> bool" where
  "resolves_to a as bs \<longleftrightarrow> bs = as \<or> (\<exists>f. resolving f \<and> bs = update_rows (\<lambda>r. apr_ID r = apr_ID a) f as)"

lemma resolves_to_refl [simp]: "resolves_to a as as"
  by (simp add: resolves_to_def)

lemma resolving_updates:
  "resolving (\<lambda>r. r\<lparr>apr_Status := ''approved'', apr_ApprovedBy := x\<rparr>)" "resolving (\<lambda>r. r\<lparr>apr_Status := ''failed''\<rparr>)"
  "resolving (\<lambda>r. r\<lparr>apr_Status := ''expired''\<rparr>)" "resolving (\<lambda>r. r\<lparr>apr_Status := ''rejected''\<rparr>)"
  "resolving (\<lambda>r. r\<lparr>apr_Status := ''approved'', apr_Signature := g, apr_ApprovedBy := x, apr_TxHash := (if h \<noteq> [] then h else apr_TxHash r)\<rparr>)"
  by (simp_all add: resolving_def final_status_def same_request_def)

subsection \<open>Endpoints that settle one approval\<close>

text \<open>A computation settles an approval when it leaves the table alone or resolves that one row. The first part of a
  sequence may settle it only when it ends the request.\<close>

named_theorems settles_intro \<open>rules for the approval that an endpoint settles\<close>

definition settles :: "approval_request \<Rightarrow> 'a h \<Rightarrow> bool" where
  "settles a m \<longleftrightarrow> (\<forall>s. resolves_to a (t_approvals s) (t_approvals (snd (m s))))"

definition ends_or_keeps :: "approval_request \<Rightarrow> 'a h \<Rightarrow> bool" where
  "ends_or_keeps a m \<longleftrightarrow> settles a m \<and> (\<forall>s x s'. m s = (Inr x, s') \<longrightarrow> t_approvals s' = t_approvals s)"

lemma settlesD: "settles a m \<Longrightarrow> m s = (r, s') \<Longrightarrow> resolves_to a (t_approvals s) (t_approvals s')"
  by (metis settles_def snd_conv)

lemma settles_preserves: "preserves t_approvals m \<Longrightarrow> settles a m"
  by (simp add: settles_def preserves_def)

lemma ends_preserves: "preserves t_approvals m \<Longrightarrow> ends_or_keeps a m"
  using preservesD by (auto simp: ends_or_keeps_def settles_preserves)

lemma settles_seq: "ends_or_keeps a m \<Longrightarrow> (\<And>x. settles a (k x)) \<Longrightarrow> settles a (seq m k)"
  unfolding settles_def ends_or_keeps_def seq_def by (auto split: prod.splits sum.splits) (metis snd_conv)+

lemma settles_set [settles_intro]: "resolving f \<Longrightarrow> preserves t_approvals m \<Longrightarrow> settles a (modify (set_approval env (apr_ID a) f) m)"
  by (auto simp: settles_def preserves_def set_approval_def resolves_to_def)

lemma settles_if [settles_intro]: "settles a m \<Longrightarrow> settles a n \<Longrightarrow> settles a (if b then m else n)"
  by simp

lemma settles_option [settles_intro]: "settles a n \<Longrightarrow> (\<And>x. settles a (k x)) \<Longrightarrow> settles a (case o' of None \<Rightarrow> n | Some x \<Rightarrow> k x)"
  by (simp split: option.splits)

lemma settles_getting [settles_intro]: "(\<And>x. settles a (k x)) \<Longrightarrow> settles a (getting g k)"
  by (simp add: settles_def)

lemma settles_stop [settles_intro]: "settles a (stop e)"
  by (simp add: settles_def)

lemma preserves_approvals_tail:
  "preserves t_approvals (modify (updateAuditByApprovalID dbe now i st ex) m)" if "preserves t_approvals m"
  using that by (simp add: preserves_def)

lemma settles_finish [settles_intro]:
  "settles a (finish_approved env c a ex body)" "settles a (fail_approval env c a evt ex resp)" "settles a (finish_signed env c a w sig tx d)"
  unfolding finish_approved_def fail_approval_def finish_signed_def Let_def
  by (intro settles_intro resolving_updates preserves_intro preserves_approvals_tail)+

lemma fail_approval_ends: "fst (fail_approval env c a evt ex resp s) \<noteq> Inr x"
  by (simp add: fail_approval_def seq_def split: prod.splits sum.splits)

lemma ends_fail: "ends_or_keeps a (fail_approval env c a evt ex resp)"
  unfolding ends_or_keeps_def using settles_finish(2) fail_approval_ends by (metis fst_conv)

lemma ends_sign: "ends_or_keeps a (sign_approved env c a w msg)"
proof -
  have f: "resolves_to a (t_approvals s) (t_approvals (snd (fail_approval env c a evt ex resp s)))" for evt ex resp s
    using settles_finish(2) unfolding settles_def by blast
  have g: "fail_approval env c a evt ex resp s \<noteq> (Inr x, s')" for evt ex resp s x s'
    using fail_approval_ends by (metis fst_conv)
  show ?thesis
    unfolding ends_or_keeps_def settles_def
    by (auto simp: sign_approved_def sdk_Sign_def Let_def g split: sign_outcome.splits if_splits
        intro: f [of "s\<lparr>sv_signs := x\<rparr>" for s x, simplified])
qed

lemma ends_seq: "ends_or_keeps a m \<Longrightarrow> (\<And>x. ends_or_keeps a (k x)) \<Longrightarrow> ends_or_keeps a (seq m k)"
proof -
  assume m: "ends_or_keeps a m" and k: "\<And>x. ends_or_keeps a (k x)"
  have "t_approvals s' = t_approvals s" if "seq m k s = (Inr y, s')" for s y s'
    using that
  proof (rule seq_InrE)
    fix x s1 assume "m s = (Inr x, s1)" "k x s1 = (Inr y, s')"
    then show ?thesis using m k unfolding ends_or_keeps_def by metis
  qed
  moreover have "settles a (seq m k)" using settles_seq m k unfolding ends_or_keeps_def by blast
  ultimately show ?thesis by (simp add: ends_or_keeps_def)
qed

lemma ends_broadcast: "ends_or_keeps a (broadcast_approved env c a w params sig d)"
proof (cases params)
  case (Some j)
  have b: "ends_or_keeps a (recovered (broadcastSigned env w j sig))"
    by (intro ends_preserves keeps_preserves keeps_recovered keeps_broadcastSigned)
  show ?thesis unfolding broadcast_approved_def Some option.case
  proof (rule ends_seq [OF b])
    fix x
    show "ends_or_keeps a (case x of Inr txHash \<Rightarrow> ret txHash
         | Inl e \<Rightarrow> seq (release_pre env c a d) (\<lambda>_. fail_approval env c a (''broadcast error: '' @ sanitizeErrString e)
             [(''stage'', JStr ''broadcast''), (''error'', JStr (sanitizeErrString e))]
             (respondBroadcastErrorDetails e [(''approval_id'', jnat (apr_ID a)), (''wallet_id'', JStr (w_ID w)), (''chain'', JStr (w_Chain w))])))"
      by (cases x) (simp_all add: ends_preserves preserves_intro ends_seq ends_fail)
  qed
qed (simp add: broadcast_approved_def ends_preserves preserves_intro)

lemma settles_approve_sign [settles_intro]: "settles a (approve_sign env c a)"
proof -
  have r: "ends_or_keeps a (refresh_tx env a w m)" for w m by (intro ends_preserves keeps_preserves keeps_intro)
  have p: "ends_or_keeps a (if b then ret [] else pre_deduct env c a)" for b by (intro ends_preserves preserves_intro)
  have "settles a (approve_signed env c a w m)" for w m
    unfolding approve_signed_def
    by (rule settles_seq [OF r], clarify, intro settles_seq [OF ends_sign] settles_seq [OF p] settles_seq [OF ends_broadcast] settles_intro)
  then show ?thesis unfolding approve_sign_def by (intro settles_intro)
qed

lemma settles_apply_rows:
  "settles a (approve_contract_add env c a)" "settles a (approve_contract_update env c a)"
  "settles a (approve_entry_add env c a)" "settles a (approve_entry_update env c a)" "settles a (approve_policy_change env c a)"
proof -
  have fin: "resolves_to a (t_approvals q) (t_approvals (snd (finish_approved env c a ex body s)))" if "t_approvals s = t_approvals q" for ex body s q
    using settles_finish(1) that unfolding settles_def by metis
  show "settles a (approve_contract_add env c a)" "settles a (approve_contract_update env c a)"
    "settles a (approve_entry_add env c a)" "settles a (approve_entry_update env c a)" "settles a (approve_policy_change env c a)"
    by (auto simp: settles_def approve_contract_add_def approve_contract_update_def approve_entry_add_def approve_entry_update_def
        approve_policy_change_def Let_def intro!: fin split: option.splits prod.splits created.splits)
qed

lemma settles_approve_pending: "settles a (approve_pending env c a)"
  unfolding approve_pending_def apply_approval_def
  by (intro settles_intro settles_apply_rows resolving_updates preserves_intro)

subsection \<open>The table of approvals\<close>

text \<open>From one state to the next: the old rows evolve in place, new rows are pending and have fresh identifiers.\<close>

definition table_step :: "approval_request list \<Rightarrow> approval_request list \<Rightarrow> bool" where
  "table_step as bs \<longleftrightarrow> distinct (map apr_ID bs)
     \<and> (\<exists>cs ds. bs = cs @ ds \<and> list_all2 evolves as cs \<and> (\<forall>d \<in> set ds. apr_Status d = ''pending''))"

lemma evolves_refl [simp]: "evolves a a"
  by (simp add: evolves_def)

lemma evolves_ID: "evolves a b \<Longrightarrow> apr_ID b = apr_ID a"
  by (cases a; cases b) (auto simp: evolves_def same_request_def)

lemma all_evolves_member: "list_all2 evolves as bs \<Longrightarrow> a \<in> set as \<Longrightarrow> \<exists>b \<in> set bs. evolves a b"
  by (induction rule: list_all2_induct) auto

lemma all_evolves_IDs: "list_all2 evolves as bs \<Longrightarrow> map apr_ID bs = map apr_ID as"
  by (induction rule: list_all2_induct) (auto dest: evolves_ID)

lemma table_step_same: "distinct (map apr_ID as) \<Longrightarrow> table_step as as"
  unfolding table_step_def by (intro conjI exI [of _ as] exI [of _ "[]"]) (auto intro: list_all2_refl)

lemma table_step_update:
  assumes "distinct (map apr_ID as)" and "\<And>r. r \<in> set as \<Longrightarrow> P r \<Longrightarrow> evolves r (f r)"
  shows "table_step as (update_rows P f as)"
proof -
  have e: "list_all2 evolves as (update_rows P f as)"
    using assms(2) by (auto simp: update_rows_def list_all2_conv_all_nth)
  show ?thesis unfolding table_step_def
    by (intro conjI exI [of _ "update_rows P f as"] exI [of _ "[]"]) (use assms(1) e all_evolves_IDs [OF e] in auto)
qed

lemma table_step_append:
  assumes "distinct (map apr_ID as)" and "apr_ID a \<notin> apr_ID ` set as" and "apr_Status a = ''pending''"
  shows "table_step as (as @ [a])"
  unfolding table_step_def using assms by (intro conjI exI [of _ as] exI [of _ "[a]"]) (auto intro: list_all2_refl)

lemma table_step_resolves:
  assumes "distinct (map apr_ID as)" and "a \<in> set as" and "apr_Status a = ''pending''" and "resolves_to a as bs"
  shows "table_step as bs"
proof -
  from assms(4) consider "bs = as" | f where "resolving f" "bs = update_rows (\<lambda>r. apr_ID r = apr_ID a) f as"
    by (auto simp: resolves_to_def)
  then show ?thesis
  proof cases
    case 1
    then show ?thesis using assms(1) table_step_same by simp
  next
    case (2 f)
    have "r = a" if "r \<in> set as" "apr_ID r = apr_ID a" for r using assms(1,2) that by (simp add: distinct_map inj_on_def)
    then show ?thesis unfolding 2(2) using assms(1,3) 2(1)
      by (intro table_step_update) (auto simp: evolves_def resolving_def)
  qed
qed

subsection \<open>Endpoints that create approvals\<close>

definition grows :: "server \<Rightarrow> server \<Rightarrow> bool" where
  "grows s s' \<longleftrightarrow> t_approvals s' = t_approvals s
     \<or> (\<exists>a. apr_ID a \<notin> apr_ID ` set (t_approvals s) \<and> apr_Status a = ''pending'' \<and> t_approvals s' = t_approvals s @ [a])"

text \<open>A computation opens approvals when it adds at most one, pending and with a fresh identifier.\<close>

definition opens :: "'a h \<Rightarrow> bool" where
  "opens m \<longleftrightarrow> (\<forall>s. grows s (snd (m s)))"

named_theorems opens_intro \<open>rules for the approvals that an endpoint opens\<close>

lemma opensD: "opens m \<Longrightarrow> m s = (r, s') \<Longrightarrow> grows s s'"
  by (metis opens_def snd_conv)

lemma opens_preserves: "preserves t_approvals m \<Longrightarrow> opens m"
  by (simp add: opens_def preserves_def grows_def)

lemma opens_seq [opens_intro]: "preserves t_approvals m \<Longrightarrow> (\<And>x. opens (k x)) \<Longrightarrow> opens (seq m k)"
proof -
  assume m: "preserves t_approvals m" and k: "\<And>x. opens (k x)"
  have "grows s (snd (seq m k s))" for s
  proof -
    obtain r s1 where e: "m s = (r, s1)" by (cases "m s")
    have t: "t_approvals s1 = t_approvals s" using preservesD [OF m e] .
    show ?thesis
    proof (cases r)
      case (Inr x)
      have "grows s1 (snd (k x s1))" using k unfolding opens_def by blast
      then show ?thesis using Inr t by (simp add: seq_def e grows_def)
    qed (simp add: seq_def e grows_def t)
  qed
  then show ?thesis by (simp add: opens_def)
qed

lemma opens_then: "opens m \<Longrightarrow> (\<And>x. preserves t_approvals (k x)) \<Longrightarrow> opens (seq m k)"
proof -
  assume m: "opens m" and k: "\<And>x. preserves t_approvals (k x)"
  have "grows s (snd (seq m k s))" for s
  proof -
    obtain r s1 where e: "m s = (r, s1)" by (cases "m s")
    have g: "grows s s1" using opensD [OF m e] .
    show ?thesis
    proof (cases r)
      case (Inr x)
      have "t_approvals (snd (k x s1)) = t_approvals s1" using preserves_snd [OF k] .
      then show ?thesis using Inr g by (simp add: seq_def e grows_def)
    qed (simp add: seq_def e g)
  qed
  then show ?thesis by (simp add: opens_def)
qed

lemma opens_branch [opens_intro]:
  "opens m \<Longrightarrow> opens n \<Longrightarrow> opens (if b then m else n)"
  "opens n \<Longrightarrow> (\<And>x. opens (k x)) \<Longrightarrow> opens (case o' of None \<Rightarrow> n | Some x \<Rightarrow> k x)"
  "(\<And>e. opens (m1 e)) \<Longrightarrow> (\<And>x. opens (m2 x)) \<Longrightarrow> opens (case r of Inl e \<Rightarrow> m1 e | Inr x \<Rightarrow> m2 x)"
  "(\<And>x y. opens (g x y)) \<Longrightarrow> opens (case p of (x, y) \<Rightarrow> g x y)"
  "(\<And>x. opens (k x)) \<Longrightarrow> opens (getting g' k)" "opens (ret v)" "opens (stop e')" "opens panics"
  by (simp_all add: opens_def grows_def panics_def split: option.splits sum.splits prod.splits)

lemma create_grows:
  assumes "create_approval env a s = (r, s')" and "apr_ID a = 0" and "apr_Status a = ''pending''"
  shows "grows s s'"
proof (cases "s' = s")
  case False
  then obtain i where i: "approval_id_loop 10 (id_draws env) (map apr_ID (t_approvals s)) = Inr i"
    "t_approvals s' = t_approvals s @ [approval_defaults (a\<lparr>apr_ID := i\<rparr>)]"
    using assms(1,2) by (auto simp: create_approval_def BeforeCreate_def and_then_def split: sum.splits if_splits)
  then show ?thesis using approval_id_loop_range [OF i(1)] assms(3) by (auto simp: grows_def approval_defaults_def)
qed (simp add: grows_def)

lemma opens_create [opens_intro]:
  "opens (createPendingApproval env c w t j x)" "opens (createApprovalRequest env c w' msg tx pol ps)" "opens (propose_call env c w' act msg tx p why)"
proof -
  have audit: "grows s (writeAuditCtx dbe c x y z d i q) = grows s q" for s dbe x y z d i q by (simp add: grows_def asked.audited)
  have pend: "apr_ID (approval_of env c u w' m tx ps) = 0" "apr_Status (approval_of env c u w' m tx ps) = ''pending''" for u m ps
    by (simp_all add: approval_of_def)
  show "opens (createPendingApproval env c w t j x)" unfolding createPendingApproval_def Let_def
    by (intro opens_intro preserves_intro) (auto simp: opens_def split: prod.splits sum.splits dest!: create_grows)
  show "opens (createApprovalRequest env c w' msg tx pol ps)" unfolding createApprovalRequest_def
    by (intro opens_intro preserves_intro) (auto simp: opens_def audit pend split: prod.splits sum.splits dest!: create_grows)
  show "opens (propose_call env c w' act msg tx p why)" unfolding propose_call_def
    by (intro opens_intro preserves_intro) (auto simp: opens_def audit pend split: prod.splits sum.splits dest!: create_grows)
qed

lemma preserves_spend [preserves_intro]:
  "preserves t_approvals (deduct_limit env c w pol v)" "preserves t_approvals (release_limit env c w d)" "preserves t_approvals (price_transfer env c cfg plan t b)"
  "preserves t_approvals (sign_direct env c w msg ps d' g ds)" "preserves t_approvals (respondWithIdempotency env c k u resp)"
proof -
  show "preserves t_approvals (sign_direct env c w msg ps d' g ds)" unfolding preserves_def using sign_direct_effect by (metis surjective_pairing)
qed (auto simp: preserves_def deduct_limit_def release_limit_def price_transfer_def respondWithIdempotency_def Let_def
    split: prod.splits sum.splits gerr.splits option.splits)

lemma opens_policy_route [opens_intro]: "(\<And>d. preserves t_approvals (direct d)) \<Longrightarrow> opens (policy_route env c w pol v msg t ps direct)"
  unfolding policy_route_def by (intro opens_intro preserves_intro opens_preserves)

lemma direct_approvals: "preserves t_approvals (transfer_direct env c u w req plan d)" "preserves t_approvals (wrap_direct env c u w t plan d)"
  unfolding transfer_direct_def wrap_direct_def Let_def by (intro preserves_intro asked.changing; simp)+

lemma spend_opens: "opens (Transfer env c)" "opens (WrapSOL env c)" "opens (UnwrapSOL env c)"
  unfolding Transfer_def settle_transfer_def WrapSOL_def UnwrapSOL_def load_policy_def Let_def
  by (intro opens_intro direct_approvals opens_preserves preserves_intro asked.kept [OF keeps_prepare_transfer] asked.kept [OF keeps_prepare_wrap(1)]
      asked.kept [OF keeps_prepare_wrap(2)] asked.calling keeps_intro asked.changing; simp)+

lemma call_step_approvals:
  "preserves t_approvals (sign_call env w msg ds)" "keeps m \<Longrightarrow> preserves t_approvals (send_call w ds m)" "preserves t_approvals (record_call env c w act t ex h)"
proof -
  show "preserves t_approvals (sign_call env w msg ds)"
    by (auto simp: preserves_def sign_call_def sdk_Sign_def Let_def split: sign_outcome.splits)
  show "keeps m \<Longrightarrow> preserves t_approvals (send_call w ds m)" unfolding send_call_def by (rule asked.calling)
  show "preserves t_approvals (record_call env c w act t ex h)" unfolding record_call_def by (intro preserves_intro asked.changing) simp
qed

lemma call_opens: "opens (ContractCall env c)" "opens (ApproveToken env c)" "opens (RevokeApproval env c)"
proof -
  note reads = asked.kept [OF signs.keeps_ready(1)] asked.kept [OF signs.keeps_ready(2)] asked.calling keeps_intro asked.loading
  note direct = preserves_intro call_step_approvals keeps_intro
  have settle: "opens (settle_call env c w cfg a m req v tx)" "opens (settle_program env c w cfg i req tx')" "opens (settle_approve env c w a sp t al act tx)"
    for w cfg a m req v tx i tx' sp t al act
    unfolding settle_call_def settle_program_def settle_approve_def deduct_call_def load_policy_def Let_def
    by (intro opens_intro; intro opens_preserves direct)+
  have evm: "opens (contractCallEVM env c w cfg)" for w cfg
    unfolding contractCallEVM_def Let_def by (auto intro!: opens_intro reads settle split: sum.splits gerr.splits option.splits)
  have sol: "opens (contractCallSolana env c w cfg)" for w cfg
    unfolding contractCallSolana_def Let_def by (auto intro!: opens_intro reads settle split: sum.splits gerr.splits option.splits)
  have approve: "opens (executeApprove env c t sp a act)" for t sp a act
    unfolding executeApprove_def by (auto intro!: opens_intro reads settle split: sum.splits gerr.splits option.splits)
  show "opens (ContractCall env c)" unfolding ContractCall_def by (intro opens_intro reads evm sol)
  show "opens (ApproveToken env c)" "opens (RevokeApproval env c)"
    unfolding ApproveToken_def RevokeApproval_def by (intro opens_intro reads approve)+
qed

lemma write_approvals:
  "preserves t_approvals (apply_policy env c w req b p)" "preserves t_approvals (insert_contract env c wid r)" "preserves t_approvals (insert_entry env c e ds)"
  "preserves t_approvals (write_entry env c ch e)"
  by (auto simp: preserves_def apply_policy_def insert_contract_def insert_entry_def write_entry_def split: prod.splits created.splits)

lemma propose_opens: "opens (propose_policy env c w req b)" "opens (propose_contract env c wid p)" "opens (propose_entry env c k e ds m)"
  unfolding propose_policy_def propose_contract_def propose_entry_def by (intro opens_then opens_create(1) preserves_intro asked.changing; simp)+

lemma edit_opens: "opens (SetPolicy env c)" "opens (AddContract env c)" "opens (AddContractByChain env c)" "opens (AddEntry env c)" "opens (UpdateEntry env c)"
proof -
  note steps = opens_intro propose_opens opens_preserves [OF write_approvals(1)] opens_preserves [OF write_approvals(2)] opens_preserves [OF write_approvals(3)]
    opens_preserves [OF write_approvals(4)] asked.loading asked.kept keeps_checked keeps_rows(2-5)
  show "opens (SetPolicy env c)" "opens (AddContract env c)" "opens (AddContractByChain env c)" "opens (AddEntry env c)" "opens (UpdateEntry env c)"
    unfolding SetPolicy_def AddContract_def AddContractByChain_def addContractFor_def AddEntry_def UpdateEntry_def Let_def
    by (intro steps)+
qed

lemma delete_approvals:
  "preserves t_approvals (DeletePolicy env c)" "preserves t_approvals (DeleteContract env c)" "preserves t_approvals (DeleteContractByChain env c)"
  "preserves t_approvals (DeleteEntry env c)"
  unfolding DeletePolicy_def DeleteContract_def DeleteContractByChain_def deleteContractFor_def DeleteEntry_def
  by (intro preserves_intro preserves_modify asked.kept [OF keeps_rows(2)]; simp)+

text \<open>Every endpoint but the ones that decide, read or remove an approval.\<close>

definition decision_route :: "route \<Rightarrow> bool" where
  "decision_route r \<longleftrightarrow> r = R_Approve \<or> r = R_Reject \<or> r = R_GetApproval"

definition removal_route :: "route \<Rightarrow> bool" where
  "removal_route r \<longleftrightarrow> r = R_DeleteWallet \<or> r = R_DeleteAccount"

lemma handle_opens: "\<not> decision_route r \<Longrightarrow> \<not> removal_route r \<Longrightarrow> opens (handle env c r)"
proof (cases "plain_route r")
  case True
  then show ?thesis by (intro opens_preserves asked.plain_frame)
next
  case False
  assume "\<not> decision_route r" "\<not> removal_route r"
  with False show ?thesis by (cases r)
    (simp_all add: plain_route_def decision_route_def removal_route_def spend_opens call_opens edit_opens opens_preserves delete_approvals)
qed

subsection \<open>Runs of the server\<close>

abbreviation ids_distinct :: "server \<Rightarrow> bool" where
  "ids_distinct s \<equiv> distinct (map apr_ID (t_approvals s))"

lemma grows_table: "grows s s' \<Longrightarrow> ids_distinct s \<Longrightarrow> table_step (t_approvals s) (t_approvals s')"
  using table_step_same table_step_append by (auto simp: grows_def)

lemma approve_pending_table:
  assumes "approve_pending env c a s = (r, s')" and "a \<in> set (t_approvals s)" and "ids_distinct s"
  shows "table_step (t_approvals s) (t_approvals s')"
proof (cases "apr_Status a = ''pending''")
  case True
  then show ?thesis using table_step_resolves [OF assms(3,2)] settlesD [OF settles_approve_pending assms(1)] by blast
next
  case False
  then have "s' = s" using assms(1) by (simp add: approve_pending_def)
  then show ?thesis using assms(3) table_step_same by simp
qed

lemma Approve_table:
  assumes "Approve env c s = (r, s')" and "ids_distinct s"
  shows "table_step (t_approvals s) (t_approvals s')"
proof -
  from Approve_guards [OF assms(1)] show ?thesis
  proof (elim disjE exE conjE)
    assume "rpc_state.more s' = rpc_state.more s"
    then show ?thesis using more_fields(2) assms(2) table_step_same by metis
  next
    fix a s3 assume "approve_pending env c a s3 = (r, s')" and k: "rpc_state.more s3 = rpc_state.more s" and "a \<in> set (t_approvals s)"
    then show ?thesis using approve_pending_table assms(2) more_fields(2) [OF k] by metis
  qed
qed

lemma seq_keeps_cases [consumes 2, case_names ended went_on]:
  assumes "keeps m" and "seq m k s = (r, s')"
  obtains (ended) "rpc_state.more s' = rpc_state.more s"
  | (went_on) x s1 where "m s = (Inr x, s1)" "k x s1 = (r, s')" "rpc_state.more s1 = rpc_state.more s"
  using assms keepsD [OF assms(1)] by (cases "m s"; cases "fst (m s)") (auto simp: seq_def)

lemma table_more:
  "rpc_state.more s' = rpc_state.more s \<Longrightarrow> ids_distinct s \<Longrightarrow> table_step (t_approvals s) (t_approvals s')"
  using more_fields(2) table_step_same by metis

lemma Reject_table:
  assumes "Reject env c s = (r, s')" and "ids_distinct s"
  shows "table_step (t_approvals s) (t_approvals s')"
  using keeps_passkey(2) assms(1) [unfolded Reject_def]
proof (cases rule: seq_keeps_cases)
  case ended
  then show ?thesis using table_more assms(2) by blast
next
  case (went_on u s1)
  note k1 = went_on(3)
  from keeps_load_approval(1) went_on(2) show ?thesis
  proof (cases rule: seq_keeps_cases)
    case ended
    then show ?thesis using table_more assms(2) k1 by metis
  next
    case (went_on a0 s2)
    note k2 = trans [OF went_on(3) k1]
    from keeps_load_approval(2) went_on(2) show ?thesis
    proof (cases rule: seq_keeps_cases)
      case ended
      then show ?thesis using table_more assms(2) k2 by metis
    next
      case (went_on a s3)
      note k3 = trans [OF went_on(3) k2]
      have a: "a \<in> set (t_approvals s)"
        using went_on(1) more_fields(2) [OF k2] by (auto simp: reload_approval_def split: option.splits if_splits dest!: first_row_Some)
      let ?m = "modify (set_approval env (apr_ID a) (\<lambda>r. r\<lparr>apr_Status := ''rejected''\<rparr>))
         (modify (updateAuditByApprovalID (db_fails env) (c_now c) (apr_ID a) ''rejected'' [(''type'', JStr (apr_ApprovalType a))])
           (seq (notify env a ''rejected'' []) (\<lambda>_. ret (JSON 200 [(''success'', JBool True), (''status'', JStr ''rejected'')]))))"
      have set': "settles a ?m" by (intro settles_intro resolving_updates preserves_intro preserves_approvals_tail)
      have "s' = s3 \<or> apr_Status a = ''pending'' \<and> ?m s3 = (r, s')"
        using went_on(2) by (auto split: if_splits)
      then show ?thesis
      proof
        assume "s' = s3" then show ?thesis using table_more assms(2) k3 by metis
      next
        assume "apr_Status a = ''pending'' \<and> ?m s3 = (r, s')"
        then show ?thesis using table_step_resolves [OF assms(2) a] settlesD [OF set'] more_fields(2) [OF k3] by metis
      qed
    qed
  qed
qed

lemma GetApproval_table:
  assumes "GetApproval env c s = (r, s')" and "ids_distinct s"
  shows "table_step (t_approvals s) (t_approvals s')"
  using keeps_load_approval(1) assms(1) [unfolded GetApproval_def]
proof (cases rule: seq_keeps_cases)
  case ended
  then show ?thesis using table_more assms(2) by blast
next
  case (went_on a s1)
  note k1 = went_on(3)
  have a: "a \<in> set (t_approvals s)"
    using went_on(1) by (auto simp: loadUserApproval_def mustUserID_def seq_def split: option.splits if_splits dest!: first_row_Some)
  have "s' = s1 \<or> apr_Status a = ''pending'' \<and> s' = set_approval env (apr_ID a) (\<lambda>r. r\<lparr>apr_Status := ''expired''\<rparr>) s1"
    using went_on(2) by (auto simp: Let_def split: if_splits)
  then show ?thesis
  proof
    assume "s' = s1" then show ?thesis using table_more assms(2) k1 by metis
  next
    assume e: "apr_Status a = ''pending'' \<and> s' = set_approval env (apr_ID a) (\<lambda>r. r\<lparr>apr_Status := ''expired''\<rparr>) s1"
    have "resolves_to a (t_approvals s) (t_approvals s')"
      using e resolving_updates(3) more_fields(2) [OF k1] by (auto simp: resolves_to_def set_approval_def)
    then show ?thesis using table_step_resolves [OF assms(2) a] e by blast
  qed
qed

lemma expire_table:
  "ids_distinct s \<Longrightarrow> table_step (t_approvals s) (t_approvals (expire_pending env now s))"
  by (auto simp: expire_pending_def table_step_same intro!: table_step_update simp: evolves_def final_status_def same_request_def)

lemma handle_table:
  assumes "handle env c r s = (x, s')" and "\<not> removal_route r" and "ids_distinct s"
  shows "table_step (t_approvals s) (t_approvals s')"
proof (cases "decision_route r")
  case True
  then show ?thesis using assms Approve_table Reject_table GetApproval_table by (auto simp: decision_route_def)
next
  case False
  show ?thesis using grows_table [OF opensD [OF handle_opens [OF False assms(2)] assms(1)] assms(3)] .
qed

text \<open>One step: a request, with any answers of the environment, to any endpoint but the two that delete a wallet or an account with their approvals, or
  a tick of a background loop.\<close>

inductive api_step :: "api \<Rightarrow> api \<Rightarrow> bool" where
  served: "serve (env :: api_env) path c st = (resp, st') \<Longrightarrow>
    \<forall>g r ps. find_route route_table (c_method c) path = Some (g, r, ps) \<longrightarrow> \<not> removal_route r \<Longrightarrow> api_step st st'"
| expired: "api_step st (st\<lparr>api_server := expire_pending (env :: api_env) now (api_server st)\<rparr>)"
| reaped: "api_step st (st\<lparr>api_server := reap_wallets (env :: api_env) now (api_server st)\<rparr>)"
| cleaned: "api_step st (st\<lparr>api_server := (api_server st)\<lparr>t_idem := Idem_cleanup now (t_idem (api_server st)),
    sv_sessions := Session_cleanup now (sv_sessions (api_server st))\<rparr>\<rparr>)"

lemma served_table:
  assumes "serve env path c st = (resp, st')" and "\<forall>g r ps. find_route route_table (c_method c) path = Some (g, r, ps) \<longrightarrow> \<not> removal_route r"
    and "ids_distinct (api_server st)"
  shows "table_step (t_approvals (api_server st)) (t_approvals (api_server st'))"
  using assms(1)
proof (cases rule: serve_cases)
  case (refused keys)
  then show ?thesis using assms(3) table_step_same by simp
next
  case (handled g r ps c' keys resp')
  then show ?thesis using handle_table [OF handled(3)] assms(2,3) by simp
qed

lemma api_step_table:
  assumes "api_step st st'" and "ids_distinct (api_server st)"
  shows "table_step (t_approvals (api_server st)) (t_approvals (api_server st'))"
  using assms
proof (induction rule: api_step.induct)
  case (served env path c st resp st')
  then show ?case using served_table by blast
next
  case (expired st env now)
  then show ?case using expire_table by simp
qed (simp_all add: reap_wallets_def table_step_same)

lemma evolves_trans: "evolves a b \<Longrightarrow> evolves b c \<Longrightarrow> evolves a c"
  by (auto simp: evolves_def final_status_def)

text \<open>Over several steps the old rows are still in place; rows created on the way may have been resolved since.\<close>

definition table_run :: "approval_request list \<Rightarrow> approval_request list \<Rightarrow> bool" where
  "table_run as bs \<longleftrightarrow> distinct (map apr_ID bs) \<and> (\<exists>cs ds. bs = cs @ ds \<and> list_all2 evolves as cs)"

lemma table_run_step: "table_run as bs \<Longrightarrow> table_step bs cs \<Longrightarrow> table_run as cs"
proof -
  assume "table_run as bs" and step: "table_step bs cs"
  then obtain b1 b2 where b: "bs = b1 @ b2" "list_all2 evolves as b1" by (auto simp: table_run_def)
  from step obtain c1 c2 where c: "cs = c1 @ c2" "list_all2 evolves bs c1" "distinct (map apr_ID cs)" by (auto simp: table_step_def)
  then obtain d1 d2 where d: "c1 = d1 @ d2" "list_all2 evolves b1 d1" using b(1) by (auto simp: list_all2_append1)
  have "list_all2 evolves as d1" using list_all2_trans [of evolves evolves evolves as b1 d1] evolves_trans b(2) d(2) by blast
  then show ?thesis using c d unfolding table_run_def by auto
qed

lemma api_run_table: "api_step\<^sup>*\<^sup>* s s' \<Longrightarrow> ids_distinct (api_server s) \<Longrightarrow> table_run (t_approvals (api_server s)) (t_approvals (api_server s'))"
proof (induction rule: rtranclp_induct)
  case base
  then show ?case unfolding table_run_def by (intro conjI exI [of _ "t_approvals (api_server s)"] exI [of _ "[]"]) (auto intro: list_all2_refl)
next
  case (step s1 s2)
  then have "ids_distinct (api_server s1)" by (simp add: table_run_def)
  then show ?case using step api_step_table table_run_step by blast
qed


definition demo_expired :: api where
  "demo_expired = demo_api\<lparr>api_server := expire_pending demo_api_env 3000 (api_server demo_api)\<rparr>"

lemma demo_expired_run: "api_step\<^sup>*\<^sup>* demo_api demo_expired" "ids_distinct (api_server demo_api)"
  unfolding demo_expired_def by (auto intro: expired simp: demo_api_fields)

lemma demo_expired_rows: "t_approvals (api_server demo_expired) = [demo_approval\<lparr>apr_Status := ''expired''\<rparr>]"
  by (simp add: demo_expired_def expire_pending_def update_rows_def demo_api_fields demo_rows)


subsection \<open>Refinement of an abstract ledger\<close>

datatype phase = Pending | Approved | Rejected | Failed | Expired

definition phase_of :: "string \<Rightarrow> phase" where
  "phase_of st = (if st = ''pending'' then Pending else if st = ''approved'' then Approved else if st = ''rejected'' then Rejected
     else if st = ''failed'' then Failed else Expired)"

definition ledger_of :: "server \<Rightarrow> nat \<rightharpoonup> phase" where
  "ledger_of s = map_of (map (\<lambda>a. (apr_ID a, phase_of (apr_Status a))) (t_approvals s))"

text \<open>What an approval service promises: an entry is opened as pending, a pending entry may be resolved, and a resolved
  entry is final.\<close>

definition ledger_step :: "(nat \<rightharpoonup> phase) \<Rightarrow> (nat \<rightharpoonup> phase) \<Rightarrow> bool" where
  "ledger_step m m' \<longleftrightarrow> (\<forall>i. case m i of
       None \<Rightarrow> m' i = None \<or> m' i = Some Pending
     | Some p \<Rightarrow> if p = Pending then m' i \<noteq> None else m' i = Some p)"

lemma ledger_Some: "ids_distinct s \<Longrightarrow> a \<in> set (t_approvals s) \<Longrightarrow> ledger_of s (apr_ID a) = Some (phase_of (apr_Status a))"
  unfolding ledger_of_def by (rule map_of_is_SomeI) (auto simp: comp_def intro: rev_image_eqI)

lemma ledger_None: "ledger_of s i = None \<longleftrightarrow> i \<notin> apr_ID ` set (t_approvals s)"
  by (auto simp: ledger_of_def map_of_eq_None_iff image_image)

lemma table_step_ledger:
  assumes "ids_distinct s" and "table_step (t_approvals s) (t_approvals s')"
  shows "ids_distinct s' \<and> ledger_step (ledger_of s) (ledger_of s')"
proof -
  obtain cs ds where t: "t_approvals s' = cs @ ds" "list_all2 evolves (t_approvals s) cs" "\<forall>d \<in> set ds. apr_Status d = ''pending''" "ids_distinct s'"
    using assms(2) by (auto simp: table_step_def)
  have "case ledger_of s i of None \<Rightarrow> ledger_of s' i = None \<or> ledger_of s' i = Some Pending
     | Some p \<Rightarrow> if p = Pending then ledger_of s' i \<noteq> None else ledger_of s' i = Some p" for i
  proof (cases "ledger_of s i")
    case None
    have "d \<in> set ds" if "d \<in> set (t_approvals s')" "apr_ID d = i" for d
      using that None all_evolves_IDs [OF t(2)] t(1) by (auto simp: ledger_None) (metis image_eqI image_set)
    then have "ledger_of s' i = Some Pending" if "d \<in> set (t_approvals s')" "apr_ID d = i" for d
      using that ledger_Some [OF t(4), of d] t(3) by (simp add: phase_of_def)
    then show ?thesis using None ledger_None [of s' i] by auto
  next
    case (Some p)
    then obtain a where a: "a \<in> set (t_approvals s)" "apr_ID a = i" "phase_of (apr_Status a) = p"
      using ledger_None [of s i] ledger_Some [OF assms(1)] by fastforce
    obtain b where b: "b \<in> set (t_approvals s')" "evolves a b" using all_evolves_member [OF t(2) a(1)] t(1) by auto
    have "ledger_of s' i = Some (phase_of (apr_Status b))" using ledger_Some [OF t(4) b(1)] evolves_ID [OF b(2)] a(2) by simp
    then show ?thesis using Some a(3) b(2) by (auto simp: evolves_def phase_of_def split: if_splits)
  qed
  then show ?thesis using t(4) by (simp add: ledger_step_def)
qed

text \<open>A forward simulation that keeps an invariant carries every run of the detailed system to a run of the abstract one.\<close>

locale simulation =
  fixes step :: "'c \<Rightarrow> 'c \<Rightarrow> bool" and astep :: "'a \<Rightarrow> 'a \<Rightarrow> bool" and abs :: "'c \<Rightarrow> 'a" and ok :: "'c \<Rightarrow> bool"
  assumes step_ok: "ok s \<Longrightarrow> step s s' \<Longrightarrow> ok s'"
    and step_simulated: "ok s \<Longrightarrow> step s s' \<Longrightarrow> astep (abs s) (abs s')"
begin

lemma run_simulated: "step\<^sup>*\<^sup>* s s' \<Longrightarrow> ok s \<Longrightarrow> ok s' \<and> astep\<^sup>*\<^sup>* (abs s) (abs s')"
  by (induction rule: rtranclp_induct) (auto intro: step_ok dest: step_simulated intro: rtranclp.rtrancl_into_rtrancl)

end

interpretation approvals: simulation api_step ledger_step "\<lambda>st. ledger_of (api_server st)" "\<lambda>st. ids_distinct (api_server st)"
  using api_step_table table_step_ledger by unfold_locales blast+



end
