(* ===== verification/ApprovalLock.thy ===== *)
theory ApprovalLock
  imports ApprovalLife
begin

text \<open>
  Concurrent decisions on approvals (\<open>handler/approval.go\<close>). \<open>ApprovalLife\<close> serves a request as one step; here decisions interleave with each other, with the expiry job,
  with readers that expire a late approval without its mutex, and with the job that evicts mutexes from the table while they may be in use. A decision looks up its
  mutex, waits for it, reads the status again, and writes a final status at most once. The theorem shows that eviction and expiry do not break the exclusion; two
  lemmas show what does go wrong: a status that is final can be overwritten, and a failing count in the eviction lets two decisions run at once.
\<close>

subsection \<open>Mutexes that may be evicted\<close>

text \<open>A decision before it has a mutex, waiting for it, with it, after the status was seen to be pending, after a final status was written, and returned.\<close>

datatype desk_pc = Came | Queued nat | Inside nat | Deciding nat | Decided nat | Left

record decision =
  de_id :: nat
  de_pc :: desk_pc

text \<open>The statuses of the approvals, the table and the heap of mutexes, the keys that the eviction has counted and will delete, the late approvals that readers are about
  to expire, the decisions, and a journal of the final statuses that decisions wrote.\<close>

record desk =
  dk_rows :: "nat \<rightharpoonup> string"
  dk_table :: "nat \<rightharpoonup> nat"
  dk_heap :: "bool list"
  dk_doomed :: "nat list"
  dk_late :: "nat list"
  dk_decisions :: "decision list"
  dk_journal :: "(nat \<times> string) list"

definition approval_mutex :: "nat \<Rightarrow> desk \<Rightarrow> nat \<times> desk" where
  "approval_mutex i d = (case dk_table d i of
       Some m \<Rightarrow> (m, d)
     | None \<Rightarrow> let m = length (dk_heap d) in (m, d\<lparr>dk_table := (dk_table d)(i \<mapsto> m), dk_heap := dk_heap d @ [False]\<rparr>))"

definition is_pending :: "desk \<Rightarrow> nat \<Rightarrow> bool" where
  "is_pending d i \<longleftrightarrow> dk_rows d i = Some ''pending''"

text \<open>The test of the eviction for one key: no pending row is counted, or the count fails, whose error is not looked at.\<close>

definition counts_none :: "bool \<Rightarrow> desk \<Rightarrow> nat \<Rightarrow> bool" where
  "counts_none failed d i \<longleftrightarrow> failed \<or> \<not> is_pending d i"

definition evict :: "nat \<Rightarrow> desk \<Rightarrow> desk" where
  "evict i d = d\<lparr>dk_table := (dk_table d)(i := None), dk_doomed := remove1 i (dk_doomed d)\<rparr>"

definition set_status :: "nat \<Rightarrow> string \<Rightarrow> desk \<Rightarrow> desk" where
  "set_status i st d = d\<lparr>dk_rows := (dk_rows d)(i \<mapsto> st)\<rparr>"

definition owned :: "desk_pc \<Rightarrow> nat option" where
  "owned pc = (case pc of Inside m \<Rightarrow> Some m | Deciding m \<Rightarrow> Some m | Decided m \<Rightarrow> Some m | _ \<Rightarrow> None)"

definition handle_of :: "desk_pc \<Rightarrow> nat option" where
  "handle_of pc = (case pc of Queued m \<Rightarrow> Some m | _ \<Rightarrow> owned pc)"

definition deciding :: "desk_pc \<Rightarrow> bool" where
  "deciding pc \<longleftrightarrow> (case pc of Deciding _ \<Rightarrow> True | _ \<Rightarrow> False)"

definition move :: "nat \<Rightarrow> desk_pc \<Rightarrow> desk \<Rightarrow> desk" where
  "move k pc d = d\<lparr>dk_decisions := (dk_decisions d)[k := (dk_decisions d ! k)\<lparr>de_pc := pc\<rparr>]\<rparr>"

definition stands :: "nat \<Rightarrow> nat \<Rightarrow> desk_pc \<Rightarrow> desk \<Rightarrow> bool" where
  "stands k i pc d \<longleftrightarrow> k < length (dk_decisions d) \<and> dk_decisions d ! k = \<lparr>de_id = i, de_pc = pc\<rparr>"

text \<open>\<open>failing\<close>: counts of the eviction may fail.\<close>

inductive desk_step :: "bool \<Rightarrow> desk \<Rightarrow> desk \<Rightarrow> bool" for failing :: bool where
  opened: "dk_rows d i = None \<Longrightarrow> desk_step failing d (set_status i ''pending'' d)"
| came: "dk_rows d i \<noteq> None \<Longrightarrow> desk_step failing d (d\<lparr>dk_decisions := dk_decisions d @ [\<lparr>de_id = i, de_pc = Came\<rparr>]\<rparr>)"
| queued: "stands k i Came d \<Longrightarrow> approval_mutex i d = (m, d') \<Longrightarrow> desk_step failing d (move k (Queued m) d')"
| entered: "stands k i (Queued m) d \<Longrightarrow> \<not> dk_heap d ! m \<Longrightarrow> desk_step failing d (move k (Inside m) (d\<lparr>dk_heap := (dk_heap d)[m := True]\<rparr>))"
| checked: "stands k i (Inside m) d \<Longrightarrow> is_pending d i \<Longrightarrow> desk_step failing d (move k (Deciding m) d)"
| decided: "stands k i (Deciding m) d \<Longrightarrow> final_status st \<Longrightarrow>
     desk_step failing d (move k (Decided m) (set_status i st (d\<lparr>dk_journal := dk_journal d @ [(i, st)]\<rparr>)))"
| left: "stands k i pc d \<Longrightarrow> owned pc = Some m \<Longrightarrow> desk_step failing d (move k Left (d\<lparr>dk_heap := (dk_heap d)[m := False]\<rparr>))"
| expired: "is_pending d i \<Longrightarrow> desk_step failing d (set_status i ''expired'' d)"
| peeked: "is_pending d i \<Longrightarrow> desk_step failing d (d\<lparr>dk_late := i # dk_late d\<rparr>)"
| stamped: "i \<in> set (dk_late d) \<Longrightarrow> desk_step failing d (set_status i ''expired'' (d\<lparr>dk_late := remove1 i (dk_late d)\<rparr>))"
| counted: "dk_table d i \<noteq> None \<Longrightarrow> counts_none b d i \<Longrightarrow> b \<longrightarrow> failing \<Longrightarrow> desk_step failing d (d\<lparr>dk_doomed := i # dk_doomed d\<rparr>)"
| evicted: "i \<in> set (dk_doomed d) \<Longrightarrow> desk_step failing d (evict i d)"

definition empty_desk :: desk where
  "empty_desk = \<lparr>dk_rows = Map.empty, dk_table = Map.empty, dk_heap = [], dk_doomed = [], dk_late = [], dk_decisions = [], dk_journal = []\<rparr>"

subsection \<open>The invariant\<close>

text \<open>No two elements of a list have the same key.\<close>

definition alone :: "('x \<Rightarrow> 'k option) \<Rightarrow> 'x list \<Rightarrow> bool" where
  "alone key xs \<longleftrightarrow> (\<forall>i j k. i < length xs \<longrightarrow> j < length xs \<longrightarrow> key (xs ! i) = Some k \<longrightarrow> key (xs ! j) = Some k \<longrightarrow> i = j)"

lemma aloneD: "alone key xs \<Longrightarrow> i < length xs \<Longrightarrow> j < length xs \<Longrightarrow> key (xs ! i) = Some k \<Longrightarrow> key (xs ! j) = Some k \<Longrightarrow> i = j"
  unfolding alone_def by blast

lemma alone_update:
  assumes "alone key xs" and "\<And>k j. key x = Some k \<Longrightarrow> j < length xs \<Longrightarrow> j \<noteq> i \<Longrightarrow> key (xs ! j) \<noteq> Some k"
  shows "alone key (xs[i := x])"
  unfolding alone_def
proof (intro allI impI)
  fix a b k
  assume a: "a < length (xs[i := x])" "b < length (xs[i := x])" "key (xs[i := x] ! a) = Some k" "key (xs[i := x] ! b) = Some k"
  show "a = b"
  proof (cases "a = i"; cases "b = i")
    assume "a \<noteq> i" "b \<noteq> i"
    then show ?thesis using a aloneD [OF assms(1), of a b k] by simp
  qed (use a assms(2) [of k a] assms(2) [of k b] in auto)
qed

lemma alone_append: "alone key xs \<Longrightarrow> key x = None \<Longrightarrow> alone key (xs @ [x])"
  unfolding alone_def by (auto simp: nth_append less_Suc_eq)

text \<open>Every mutex has at most one owner, and is locked when it has one.\<close>

definition owners_ok :: "desk_pc list \<Rightarrow> bool list \<Rightarrow> bool" where
  "owners_ok pcs h \<longleftrightarrow> (\<forall>k m. k < length pcs \<longrightarrow> handle_of (pcs ! k) = Some m \<longrightarrow> m < length h)
     \<and> (\<forall>k m. k < length pcs \<longrightarrow> owned (pcs ! k) = Some m \<longrightarrow> h ! m)
     \<and> alone owned pcs"

text \<open>All decisions on a pending approval that have a mutex have the one of the table; at most one decides; and a journalled approval is not pending
  and has no decision in progress.\<close>

definition shared_mutex :: "desk \<Rightarrow> bool" where
  "shared_mutex d \<longleftrightarrow> (\<forall>x \<in> set (dk_decisions d). \<forall>m. handle_of (de_pc x) = Some m \<longrightarrow> is_pending d (de_id x) \<longrightarrow> dk_table d (de_id x) = Some m)"

definition decides :: "decision \<Rightarrow> nat option" where
  "decides x = (if deciding (de_pc x) then Some (de_id x) else None)"

definition settled_ok :: "desk \<Rightarrow> bool" where
  "settled_ok d \<longleftrightarrow> distinct (map fst (dk_journal d)) \<and> (\<forall>i \<in> fst ` set (dk_journal d). \<not> is_pending d i \<and> dk_rows d i \<noteq> None
     \<and> (\<forall>x \<in> set (dk_decisions d). de_id x = i \<longrightarrow> \<not> deciding (de_pc x)))"

definition rows_known :: "desk \<Rightarrow> bool" where
  "rows_known d \<longleftrightarrow> (\<forall>x \<in> set (dk_decisions d). dk_rows d (de_id x) \<noteq> None) \<and> dom (dk_table d) \<subseteq> dom (dk_rows d) \<and> set (dk_late d) \<subseteq> dom (dk_rows d)
     \<and> (\<forall>i m. dk_table d i = Some m \<longrightarrow> m < length (dk_heap d)) \<and> (\<forall>i \<in> set (dk_doomed d). dk_rows d i \<noteq> None \<and> \<not> is_pending d i)"

definition desk_inv :: "desk \<Rightarrow> bool" where
  "desk_inv d \<longleftrightarrow> owners_ok (map de_pc (dk_decisions d)) (dk_heap d) \<and> shared_mutex d \<and> alone decides (dk_decisions d) \<and> settled_ok d \<and> rows_known d"

lemma pc_simps [simp]:
  "owned Came = None" "owned (Queued m) = None" "owned (Inside m) = Some m" "owned (Deciding m) = Some m" "owned (Decided m) = Some m" "owned Left = None"
  "handle_of Came = None" "handle_of (Queued m) = Some m" "handle_of (Inside m) = Some m" "handle_of (Deciding m) = Some m" "handle_of (Decided m) = Some m"
  "handle_of Left = None" "deciding pc \<longleftrightarrow> (\<exists>m. pc = Deciding m)"
  by (auto simp: owned_def handle_of_def deciding_def split: desk_pc.splits)

lemma owned_handle: "owned pc = Some m \<Longrightarrow> handle_of pc = Some m"
  by (cases pc) simp_all

lemma owners_update:
  assumes "owners_ok pcs h" and "k < length pcs"
  shows "handle_of pc = handle_of (pcs ! k) \<Longrightarrow> owned pc = owned (pcs ! k) \<Longrightarrow> owners_ok (pcs[k := pc]) h"
    and "pcs ! k = Queued m \<Longrightarrow> \<not> h ! m \<Longrightarrow> owners_ok (pcs[k := Inside m]) (h[m := True])"
    and "owned (pcs ! k) = Some m \<Longrightarrow> owners_ok (pcs[k := Left]) (h[m := False])"
    and "pcs ! k = Came \<Longrightarrow> m < length h \<Longrightarrow> owners_ok (pcs[k := Queued m]) h"
proof -
  have others: "owned (pcs ! j) \<noteq> Some m" if "j < length pcs" "j \<noteq> k" "owned (pcs ! k) = Some m" for j m
    using assms that aloneD [of owned pcs j k m] by (auto simp: owners_ok_def)
  have h: "j < length pcs \<Longrightarrow> handle_of (pcs ! j) = Some m \<Longrightarrow> m < length h" "j < length pcs \<Longrightarrow> owned (pcs ! j) = Some m \<Longrightarrow> h ! m" for j m
    using assms(1) by (auto simp: owners_ok_def)
  have al: "alone owned pcs" using assms(1) by (simp add: owners_ok_def)
  show "handle_of pc = handle_of (pcs ! k) \<Longrightarrow> owned pc = owned (pcs ! k) \<Longrightarrow> owners_ok (pcs[k := pc]) h"
    using h others assms(2) by (auto simp: owners_ok_def nth_list_update intro!: alone_update [OF al]) metis
  show "pcs ! k = Queued m \<Longrightarrow> \<not> h ! m \<Longrightarrow> owners_ok (pcs[k := Inside m]) (h[m := True])"
    using h others assms(2) by (auto simp: owners_ok_def nth_list_update intro!: alone_update [OF al])
  show "owned (pcs ! k) = Some m \<Longrightarrow> owners_ok (pcs[k := Left]) (h[m := False])"
    using h others assms(2) by (auto simp: owners_ok_def nth_list_update intro!: alone_update [OF al]) (metis nth_list_update_neq)
  show "pcs ! k = Came \<Longrightarrow> m < length h \<Longrightarrow> owners_ok (pcs[k := Queued m]) h"
    using h others assms(2) by (auto simp: owners_ok_def nth_list_update intro!: alone_update [OF al])
qed

lemma owners_append:
  assumes "owners_ok pcs h"
  shows "owners_ok (pcs @ [Came]) h" "owners_ok pcs (h @ [False])"
proof -
  show "owners_ok (pcs @ [Came]) h" using assms alone_append [of owned pcs Came] by (auto simp: owners_ok_def nth_append less_Suc_eq)
  have "(h @ [False]) ! m \<longleftrightarrow> h ! m" if "k < length pcs" "owned (pcs ! k) = Some m" for k m
    using assms owned_handle [OF that(2)] that(1) unfolding owners_ok_def by (simp add: nth_append)
  then show "owners_ok pcs (h @ [False])" using assms unfolding owners_ok_def by (auto intro: less_SucI)
qed

text \<open>A move of one decision.\<close>

lemma moved:
  assumes "stands k i pc0 d"
  shows "map de_pc (dk_decisions (move k pc d)) = (map de_pc (dk_decisions d))[k := pc]" "map de_pc (dk_decisions d) ! k = pc0" "k < length (map de_pc (dk_decisions d))"
    "x \<in> set (dk_decisions (move k pc d)) \<Longrightarrow> x \<in> set (dk_decisions d) \<or> x = \<lparr>de_id = i, de_pc = pc\<rparr>"
    "\<lparr>de_id = i, de_pc = pc0\<rparr> \<in> set (dk_decisions d)"
  using assms set_update_subset_insert [of "dk_decisions d" k "\<lparr>de_id = i, de_pc = pc\<rparr>"] nth_mem [of k "dk_decisions d"]
  by (auto simp: stands_def move_def map_update)

lemma move_fields [simp]: "dk_rows (move k pc d) = dk_rows d" "dk_table (move k pc d) = dk_table d" "dk_heap (move k pc d) = dk_heap d"
  "dk_doomed (move k pc d) = dk_doomed d" "dk_late (move k pc d) = dk_late d" "dk_journal (move k pc d) = dk_journal d"
  "is_pending (move k pc d) i = is_pending d i"
  by (simp_all add: move_def is_pending_def)

lemma decides_move:
  assumes "alone decides (dk_decisions d)" and "deciding pc \<Longrightarrow> (\<And>j. j < length (dk_decisions d) \<Longrightarrow> j \<noteq> k \<Longrightarrow> decides (dk_decisions d ! j) \<noteq> Some (de_id (dk_decisions d ! k)))"
  shows "alone decides (dk_decisions (move k pc d))"
  unfolding move_def using assms by (auto intro!: alone_update simp: decides_def split: if_splits)

lemma settled_move:
  assumes "settled_ok d" and "stands k i pc0 d" and "\<not> deciding pc \<or> is_pending d i"
  shows "settled_ok (move k pc d)"
proof -
  have "\<not> deciding (de_pc x)" if j: "j \<in> fst ` set (dk_journal d)" and x: "x \<in> set (dk_decisions (move k pc d))" "de_id x = j" for j x
    using moved(4) [OF assms(2) x(1)] assms(1,3) j x(2) unfolding settled_ok_def by (auto simp del: pc_simps)
  then show ?thesis using assms(1) unfolding settled_ok_def by simp
qed

lemma known_move:
  assumes "rows_known d" and "stands k i pc0 d"
  shows "rows_known (move k pc d)"
proof -
  have "dk_rows d (de_id x) \<noteq> None" if "x \<in> set (dk_decisions (move k pc d))" for x
    using moved(4) [OF assms(2) that] moved(5) [OF assms(2)] assms(1) unfolding rows_known_def by auto
  then show ?thesis using assms(1) unfolding rows_known_def by simp
qed

lemma shared_move:
  assumes "shared_mutex d" and "stands k i pc0 d" and "handle_of pc = None \<or> handle_of pc = handle_of pc0 \<or> handle_of pc = dk_table d i"
  shows "shared_mutex (move k pc d)"
proof -
  have "dk_table d (de_id x) = Some m" if "x \<in> set (dk_decisions (move k pc d))" "handle_of (de_pc x) = Some m" "is_pending d (de_id x)" for x m
    using moved(4) [OF assms(2) that(1)] moved(5) [OF assms(2)] assms(1,3) that(2,3) unfolding shared_mutex_def by auto
  then show ?thesis unfolding shared_mutex_def by simp
qed

text \<open>A decision that moves on with its mutex, or without it.\<close>

lemma move_inv:
  assumes "desk_inv d" and "stands k i pc0 d" and "owners_ok ((map de_pc (dk_decisions d))[k := pc]) h" and "\<not> deciding pc"
    and "handle_of pc = None \<or> handle_of pc = handle_of pc0 \<or> handle_of pc = dk_table d i" and "length h = length (dk_heap d)"
  shows "desk_inv (move k pc (d\<lparr>dk_heap := h\<rparr>))"
proof -
  let ?d = "d\<lparr>dk_heap := h\<rparr>"
  have st: "stands k i pc0 ?d" using assms(2) by (simp add: stands_def)
  have "shared_mutex ?d" "settled_ok ?d" "rows_known ?d" "alone decides (dk_decisions ?d)"
    using assms(1,6) by (simp_all add: desk_inv_def shared_mutex_def settled_ok_def rows_known_def is_pending_def)
  then show ?thesis
    using assms(3-5) moved(1) [OF st, of pc] shared_move [OF _ st] settled_move [OF _ st] known_move [OF _ st] decides_move [of ?d pc k]
    by (simp add: desk_inv_def del: pc_simps)
qed

lemma approval_mutex_inv:
  assumes "desk_inv d" and "dk_rows d i \<noteq> None" and "approval_mutex i d = (m, d')"
  shows "desk_inv d' \<and> dk_table d' i = Some m \<and> m < length (dk_heap d') \<and> dk_decisions d' = dk_decisions d"
proof (cases "dk_table d i")
  case None
  then have d': "m = length (dk_heap d)" "d' = d\<lparr>dk_table := (dk_table d)(i \<mapsto> m), dk_heap := dk_heap d @ [False]\<rparr>"
    using assms(3) by (auto simp: approval_mutex_def Let_def)
  have "handle_of (de_pc x) = None" if "x \<in> set (dk_decisions d)" "de_id x = i" "is_pending d i" for x
    using assms(1) that None unfolding desk_inv_def shared_mutex_def by (cases "handle_of (de_pc x)") auto
  then have "shared_mutex d'" using assms(1) by (auto simp: desk_inv_def shared_mutex_def is_pending_def d')
  then show ?thesis using assms(1,2) owners_append(2) [of "map de_pc (dk_decisions d)"]
    by (auto simp: desk_inv_def settled_ok_def rows_known_def is_pending_def d' less_Suc_eq)
qed (use assms in \<open>auto simp: approval_mutex_def desk_inv_def rows_known_def\<close>)

lemma journal_inv:
  assumes "desk_inv d" and "i \<notin> fst ` set (dk_journal d)" and "\<not> is_pending d i" and "dk_rows d i \<noteq> None"
    and "\<And>x. x \<in> set (dk_decisions d) \<Longrightarrow> de_id x = i \<Longrightarrow> \<not> deciding (de_pc x)"
  shows "desk_inv (d\<lparr>dk_journal := dk_journal d @ [(i, st)]\<rparr>)"
  using assms by (auto simp: desk_inv_def shared_mutex_def settled_ok_def rows_known_def is_pending_def simp del: pc_simps(13))

lemma undecided:
  assumes "desk_inv d" and "stands k i (Deciding m) d"
  shows "i \<notin> fst ` set (dk_journal d)" "dk_rows d i \<noteq> None"
    "\<not> deciding pc \<Longrightarrow> x \<in> set (dk_decisions (move k pc d)) \<Longrightarrow> de_id x = i \<Longrightarrow> \<not> deciding (de_pc x)"
proof -
  note m = moved(5) [OF assms(2)]
  show "i \<notin> fst ` set (dk_journal d)" "dk_rows d i \<noteq> None" using assms(1) m by (force simp: desk_inv_def settled_ok_def rows_known_def)+
  assume pc: "\<not> deciding pc" and x: "x \<in> set (dk_decisions (move k pc d))" "de_id x = i"
  show "\<not> deciding (de_pc x)"
  proof
    assume d: "deciding (de_pc x)"
    from x(1) obtain j where j: "j < length (dk_decisions d)" "x = (dk_decisions d)[k := (dk_decisions d ! k)\<lparr>de_pc := pc\<rparr>] ! j"
      by (auto simp: move_def in_set_conv_nth)
    have "j \<noteq> k" using d pc j by auto
    moreover have "decides (dk_decisions d ! j) = Some i" "decides (dk_decisions d ! k) = Some i" "k < length (dk_decisions d)"
      using d x(2) j \<open>j \<noteq> k\<close> assms(2) by (auto simp: decides_def stands_def)
    ultimately show False using aloneD [of decides "dk_decisions d" j k i] assms(1) j(1) by (simp add: desk_inv_def)
  qed
qed

text \<open>A row that gets a status other than pending.\<close>

lemma status_inv:
  assumes "desk_inv d" and "dk_rows d i \<noteq> None" and "st \<noteq> ''pending''"
  shows "desk_inv (set_status i st d)"
proof -
  have p: "is_pending (set_status i st d) j \<longleftrightarrow> j \<noteq> i \<and> is_pending d j" for j using assms(3) by (simp add: is_pending_def set_status_def)
  have f: "dk_rows (set_status i st d) = (dk_rows d)(i \<mapsto> st)" "dk_table (set_status i st d) = dk_table d" "dk_heap (set_status i st d) = dk_heap d"
    "dk_doomed (set_status i st d) = dk_doomed d" "dk_late (set_status i st d) = dk_late d" "dk_journal (set_status i st d) = dk_journal d"
    "dk_decisions (set_status i st d) = dk_decisions d"
    by (simp_all add: set_status_def)
  have "shared_mutex (set_status i st d)" "settled_ok (set_status i st d)" "rows_known (set_status i st d)"
    using assms(1) by (auto simp: desk_inv_def shared_mutex_def settled_ok_def rows_known_def p f)
  then show ?thesis using assms(1) by (simp add: desk_inv_def f)
qed

lemma desk_step_inv: "desk_step False d d' \<Longrightarrow> desk_inv d \<Longrightarrow> desk_inv d'"
proof (induction rule: desk_step.induct)
  case (opened d i)
  then show ?case
    by (auto simp: desk_inv_def shared_mutex_def settled_ok_def rows_known_def is_pending_def set_status_def)
next
  case (came d i)
  then show ?case using owners_append(1) alone_append [of decides "dk_decisions d" "\<lparr>de_id = i, de_pc = Came\<rparr>"]
    by (auto simp: desk_inv_def shared_mutex_def settled_ok_def rows_known_def is_pending_def decides_def)
next
  case (queued k i d m d')
  note st = moved [OF queued(1)]
  let ?pcs = "map de_pc (dk_decisions d)"
  have d: "desk_inv d'" "dk_table d' i = Some m" "m < length (dk_heap d')" "dk_decisions d' = dk_decisions d"
    using approval_mutex_inv [OF queued(3) _ queued(2)] queued(3) moved(5) [OF queued(1)] by (force simp: desk_inv_def rows_known_def)+
  then have "owners_ok (?pcs[k := Queued m]) (dk_heap d')" using owners_update(4) [of ?pcs _ k] st(2,3) by (simp add: desk_inv_def)
  then show ?case using move_inv [OF d(1), of k i Came "Queued m" "dk_heap d'"] queued(1) d by (simp add: stands_def)
next
  case (entered k i m d)
  let ?pcs = "map de_pc (dk_decisions d)"
  have "owners_ok (?pcs[k := Inside m]) ((dk_heap d)[m := True])"
    using owners_update(2) [of ?pcs "dk_heap d" k m] moved(2,3) [OF entered(1)] entered(2,3) by (simp add: desk_inv_def)
  then show ?case using move_inv [OF entered(3,1)] by simp
next
  case (checked k i m d)
  let ?pcs = "map de_pc (dk_decisions d)"
  have o: "owners_ok ?pcs (dk_heap d)" and sh: "shared_mutex d" using checked(3) by (simp_all add: desk_inv_def)
  have "owners_ok (?pcs[k := Deciding m]) (dk_heap d)"
    using owners_update(1) [OF o, of k "Deciding m"] moved(2,3) [OF checked(1)] by simp
  moreover have "decides (dk_decisions d ! j) \<noteq> Some (de_id (dk_decisions d ! k))" if j: "j < length (dk_decisions d)" "j \<noteq> k" for j
  proof
    assume "decides (dk_decisions d ! j) = Some (de_id (dk_decisions d ! k))"
    then obtain m' where m': "de_pc (dk_decisions d ! j) = Deciding m'" "de_id (dk_decisions d ! j) = i"
      using checked(1) by (auto simp: decides_def stands_def split: if_splits)
    have "dk_table d i = Some m'" "dk_table d i = Some m"
      using sh checked(2) m' nth_mem [OF j(1)] moved(5) [OF checked(1)] unfolding shared_mutex_def by fastforce+
    then have "owned (?pcs ! j) = Some m" "owned (?pcs ! k) = Some m" using m'(1) j(1) moved(2) [OF checked(1)] by simp_all
    then show False using o j moved(3) [OF checked(1)] aloneD [of owned ?pcs j k m] by (simp add: owners_ok_def)
  qed
  ultimately show ?case using checked moved(1) [OF checked(1)] shared_move [OF _ checked(1)] settled_move [OF _ checked(1)] known_move [OF _ checked(1)]
      decides_move [of d "Deciding m" k] by (simp add: desk_inv_def)
next
  case (decided k i m d st)
  let ?d = "move k (Decided m) d"
  have "owners_ok ((map de_pc (dk_decisions d))[k := Decided m]) (dk_heap d)"
    using owners_update(1) [of "map de_pc (dk_decisions d)" "dk_heap d" k "Decided m"] moved(2,3) [OF decided(1)] decided(3) by (simp add: desk_inv_def)
  then have m: "desk_inv ?d" using move_inv [OF decided(3,1), of "Decided m" "dk_heap d"] by simp
  note u = undecided [OF decided(3,1)]
  have "st \<noteq> ''pending''" using decided(2) by (auto simp: final_status_def)
  then have "desk_inv ((set_status i st ?d)\<lparr>dk_journal := dk_journal (set_status i st ?d) @ [(i, st)]\<rparr>)"
    using u m by (intro journal_inv status_inv) (auto simp: set_status_def is_pending_def)
  moreover have "(set_status i st ?d)\<lparr>dk_journal := dk_journal (set_status i st ?d) @ [(i, st)]\<rparr>
      = move k (Decided m) (set_status i st (d\<lparr>dk_journal := dk_journal d @ [(i, st)]\<rparr>))"
    by (simp add: move_def set_status_def)
  ultimately show ?case by simp
next
  case (left k i pc d m)
  let ?pcs = "map de_pc (dk_decisions d)"
  have "owners_ok (?pcs[k := Left]) ((dk_heap d)[m := False])"
    using owners_update(3) [of ?pcs "dk_heap d" k m] moved(2,3) [OF left(1)] left(2,3) by (simp add: desk_inv_def)
  then show ?case using move_inv [OF left(3,1)] by simp
next
  case (expired d i)
  then show ?case using status_inv by (simp add: is_pending_def)
next
  case (peeked d i)
  then show ?case by (auto simp: desk_inv_def shared_mutex_def settled_ok_def rows_known_def is_pending_def)
next
  case (stamped i d)
  then have "desk_inv (d\<lparr>dk_late := remove1 i (dk_late d)\<rparr>)"
    by (auto simp: desk_inv_def shared_mutex_def settled_ok_def rows_known_def is_pending_def dest: notin_set_remove1 set_remove1_subset [THEN subsetD])
  then show ?case using stamped by (intro status_inv) (auto simp: desk_inv_def rows_known_def)
next
  case (counted d i b)
  then show ?case by (auto simp: desk_inv_def shared_mutex_def settled_ok_def rows_known_def is_pending_def counts_none_def)
next
  case (evicted i d)
  then show ?case
    by (auto simp: desk_inv_def shared_mutex_def settled_ok_def rows_known_def is_pending_def evict_def dest: set_remove1_subset [THEN subsetD])
qed

text \<open>C5. However decisions on approvals interleave with each other, with the expiry of approvals, with late readers and with the eviction of mutexes, as long as no count of the
  eviction fails: at most one decision on an approval is past the check of its status, at most one decision on it writes a status, and once one has written,
  the approval is not pending and no other decision is past the check.\<close>

theorem decisions_exclusive:
  assumes "(desk_step False)\<^sup>*\<^sup>* empty_desk d"
  shows "alone decides (dk_decisions d) \<and> distinct (map fst (dk_journal d))
     \<and> (\<forall>i \<in> fst ` set (dk_journal d). \<not> is_pending d i \<and> (\<forall>x \<in> set (dk_decisions d). de_id x = i \<longrightarrow> \<not> deciding (de_pc x)))"
proof -
  have "desk_inv d" using assms
  proof (induction rule: rtranclp_induct)
    case base
    then show ?case by (simp add: desk_inv_def empty_desk_def owners_ok_def shared_mutex_def alone_def settled_ok_def rows_known_def)
  next
    case (step d1 d2)
    then show ?case using desk_step_inv by blast
  qed
  then show ?thesis unfolding desk_inv_def settled_ok_def by blast
qed

subsection \<open>Runs\<close>

definition demo_desk :: "string option \<Rightarrow> nat option \<Rightarrow> bool list \<Rightarrow> nat list \<Rightarrow> nat list \<Rightarrow> desk_pc list \<Rightarrow> (nat \<times> string) list \<Rightarrow> desk" where
  "demo_desk st tb h doomed late pcs js = \<lparr>dk_rows = Map.empty(7 := st), dk_table = Map.empty(7 := tb), dk_heap = h, dk_doomed = doomed, dk_late = late,
     dk_decisions = map (\<lambda>pc. \<lparr>de_id = 7, de_pc = pc\<rparr>) pcs, dk_journal = js\<rparr>"

lemmas demo_defs = demo_desk_def empty_desk_def set_status_def stands_def move_def approval_mutex_def is_pending_def counts_none_def evict_def final_status_def Let_def

text \<open>An approval expires while it is decided, its mutex is evicted, a second decision gets another one, and the first still writes its status.\<close>

lemma demo_evicting: "(desk_step False)\<^sup>*\<^sup>* empty_desk (demo_desk (Some ''expired'') (Some 1) [True, True] [] [] [Deciding 0, Inside 1] [])"
proof -
  let ?S = "desk_step False"
  note defs = demo_defs
  have "?S\<^sup>*\<^sup>* empty_desk (demo_desk (Some ''pending'') None [] [] [] [] [])"
    using desk_step.opened [of empty_desk 7 False] by (simp add: defs)
  also have "?S (demo_desk (Some ''pending'') None [] [] [] [] []) (demo_desk (Some ''pending'') None [] [] [] [Came] [])"
    using desk_step.came [of "(demo_desk (Some ''pending'') None [] [] [] [] [])" 7 False] by (simp add: defs)
  also have "?S (demo_desk (Some ''pending'') None [] [] [] [Came] []) (demo_desk (Some ''pending'') None [] [] [] [Came, Came] [])"
    using desk_step.came [of "(demo_desk (Some ''pending'') None [] [] [] [Came] [])" 7 False] by (simp add: defs)
  also have "?S (demo_desk (Some ''pending'') None [] [] [] [Came, Came] []) (demo_desk (Some ''pending'') (Some 0) [False] [] [] [Queued 0, Came] [])"
    using desk_step.queued [of 0 7 "(demo_desk (Some ''pending'') None [] [] [] [Came, Came] [])" 0 _ False] by (simp add: defs)
  also have "?S (demo_desk (Some ''pending'') (Some 0) [False] [] [] [Queued 0, Came] []) (demo_desk (Some ''pending'') (Some 0) [True] [] [] [Inside 0, Came] [])"
    using desk_step.entered [of 0 7 0 "(demo_desk (Some ''pending'') (Some 0) [False] [] [] [Queued 0, Came] [])" False] by (simp add: defs)
  also have "?S (demo_desk (Some ''pending'') (Some 0) [True] [] [] [Inside 0, Came] []) (demo_desk (Some ''pending'') (Some 0) [True] [] [] [Deciding 0, Came] [])"
    using desk_step.checked [of 0 7 0 "(demo_desk (Some ''pending'') (Some 0) [True] [] [] [Inside 0, Came] [])" False] by (simp add: defs)
  also have "?S (demo_desk (Some ''pending'') (Some 0) [True] [] [] [Deciding 0, Came] []) (demo_desk (Some ''expired'') (Some 0) [True] [] [] [Deciding 0, Came] [])"
    using desk_step.expired [of "(demo_desk (Some ''pending'') (Some 0) [True] [] [] [Deciding 0, Came] [])" 7 False] by (simp add: defs)
  also have "?S (demo_desk (Some ''expired'') (Some 0) [True] [] [] [Deciding 0, Came] []) (demo_desk (Some ''expired'') (Some 0) [True] [7] [] [Deciding 0, Came] [])"
    using desk_step.counted [of "(demo_desk (Some ''expired'') (Some 0) [True] [] [] [Deciding 0, Came] [])" 7 False False] by (simp add: defs)
  also have "?S (demo_desk (Some ''expired'') (Some 0) [True] [7] [] [Deciding 0, Came] []) (demo_desk (Some ''expired'') None [True] [] [] [Deciding 0, Came] [])"
    using desk_step.evicted [of 7 "(demo_desk (Some ''expired'') (Some 0) [True] [7] [] [Deciding 0, Came] [])" False] by (simp add: defs)
  also have "?S (demo_desk (Some ''expired'') None [True] [] [] [Deciding 0, Came] []) (demo_desk (Some ''expired'') (Some 1) [True, False] [] [] [Deciding 0, Queued 1] [])"
    using desk_step.queued [of 1 7 "(demo_desk (Some ''expired'') None [True] [] [] [Deciding 0, Came] [])" 1 _ False] by (simp add: defs)
  also have "?S (demo_desk (Some ''expired'') (Some 1) [True, False] [] [] [Deciding 0, Queued 1] []) (demo_desk (Some ''expired'') (Some 1) [True, True] [] [] [Deciding 0, Inside 1] [])"
    using desk_step.entered [of 1 7 1 "(demo_desk (Some ''expired'') (Some 1) [True, False] [] [] [Deciding 0, Queued 1] [])" False] by (simp add: defs)
  finally show ?thesis .
qed

lemma demo_overwriting: "desk_step False (demo_desk (Some ''expired'') (Some 1) [True, True] [] [] [Deciding 0, Inside 1] []) (demo_desk (Some ''approved'') (Some 1) [True, True] [] [] [Decided 0, Inside 1] [(7, ''approved'')])"
  using desk_step.decided [of 0 7 0 "(demo_desk (Some ''expired'') (Some 1) [True, True] [] [] [Deciding 0, Inside 1] [])" "''approved''" False] by (simp add: demo_defs)

lemma demo_evicted: "(desk_step False)\<^sup>*\<^sup>* empty_desk (demo_desk (Some ''approved'') (Some 1) [True, True] [] [] [Decided 0, Inside 1] [(7, ''approved'')])"
  using demo_evicting demo_overwriting by (rule rtranclp.rtrancl_into_rtrancl)

text \<open>The count of the eviction fails while a decision runs: two decisions are past the check.\<close>

lemma demo_failed_count: "(desk_step True)\<^sup>*\<^sup>* empty_desk (demo_desk (Some ''pending'') (Some 1) [True, True] [] [] [Deciding 0, Deciding 1] [])"
proof -
  let ?S = "desk_step True"
  note defs = demo_defs
  have "?S\<^sup>*\<^sup>* empty_desk (demo_desk (Some ''pending'') None [] [] [] [] [])"
    using desk_step.opened [of empty_desk 7 True] by (simp add: defs)
  also have "?S (demo_desk (Some ''pending'') None [] [] [] [] []) (demo_desk (Some ''pending'') None [] [] [] [Came] [])"
    using desk_step.came [of "(demo_desk (Some ''pending'') None [] [] [] [] [])" 7 True] by (simp add: defs)
  also have "?S (demo_desk (Some ''pending'') None [] [] [] [Came] []) (demo_desk (Some ''pending'') None [] [] [] [Came, Came] [])"
    using desk_step.came [of "(demo_desk (Some ''pending'') None [] [] [] [Came] [])" 7 True] by (simp add: defs)
  also have "?S (demo_desk (Some ''pending'') None [] [] [] [Came, Came] []) (demo_desk (Some ''pending'') (Some 0) [False] [] [] [Queued 0, Came] [])"
    using desk_step.queued [of 0 7 "(demo_desk (Some ''pending'') None [] [] [] [Came, Came] [])" 0 _ True] by (simp add: defs)
  also have "?S (demo_desk (Some ''pending'') (Some 0) [False] [] [] [Queued 0, Came] []) (demo_desk (Some ''pending'') (Some 0) [True] [] [] [Inside 0, Came] [])"
    using desk_step.entered [of 0 7 0 "(demo_desk (Some ''pending'') (Some 0) [False] [] [] [Queued 0, Came] [])" True] by (simp add: defs)
  also have "?S (demo_desk (Some ''pending'') (Some 0) [True] [] [] [Inside 0, Came] []) (demo_desk (Some ''pending'') (Some 0) [True] [] [] [Deciding 0, Came] [])"
    using desk_step.checked [of 0 7 0 "(demo_desk (Some ''pending'') (Some 0) [True] [] [] [Inside 0, Came] [])" True] by (simp add: defs)
  also have "?S (demo_desk (Some ''pending'') (Some 0) [True] [] [] [Deciding 0, Came] []) (demo_desk (Some ''pending'') (Some 0) [True] [7] [] [Deciding 0, Came] [])"
    using desk_step.counted [of "(demo_desk (Some ''pending'') (Some 0) [True] [] [] [Deciding 0, Came] [])" 7 True True] by (simp add: defs)
  also have "?S (demo_desk (Some ''pending'') (Some 0) [True] [7] [] [Deciding 0, Came] []) (demo_desk (Some ''pending'') None [True] [] [] [Deciding 0, Came] [])"
    using desk_step.evicted [of 7 "(demo_desk (Some ''pending'') (Some 0) [True] [7] [] [Deciding 0, Came] [])" True] by (simp add: defs)
  also have "?S (demo_desk (Some ''pending'') None [True] [] [] [Deciding 0, Came] []) (demo_desk (Some ''pending'') (Some 1) [True, False] [] [] [Deciding 0, Queued 1] [])"
    using desk_step.queued [of 1 7 "(demo_desk (Some ''pending'') None [True] [] [] [Deciding 0, Came] [])" 1 _ True] by (simp add: defs)
  also have "?S (demo_desk (Some ''pending'') (Some 1) [True, False] [] [] [Deciding 0, Queued 1] []) (demo_desk (Some ''pending'') (Some 1) [True, True] [] [] [Deciding 0, Inside 1] [])"
    using desk_step.entered [of 1 7 1 "(demo_desk (Some ''pending'') (Some 1) [True, False] [] [] [Deciding 0, Queued 1] [])" True] by (simp add: defs)
  also have "?S (demo_desk (Some ''pending'') (Some 1) [True, True] [] [] [Deciding 0, Inside 1] []) (demo_desk (Some ''pending'') (Some 1) [True, True] [] [] [Deciding 0, Deciding 1] [])"
    using desk_step.checked [of 1 7 1 "(demo_desk (Some ''pending'') (Some 1) [True, True] [] [] [Deciding 0, Inside 1] [])" True] by (simp add: defs)
  finally show ?thesis .
qed

text \<open>A reader sees an approval that is late but pending, and stamps it as expired after it was approved.\<close>

lemma demo_late_reader: "(desk_step False)\<^sup>*\<^sup>* empty_desk (demo_desk (Some ''expired'') (Some 0) [True] [] [] [Decided 0] [(7, ''approved'')])"
proof -
  let ?S = "desk_step False"
  note defs = demo_defs
  have "?S\<^sup>*\<^sup>* empty_desk (demo_desk (Some ''pending'') None [] [] [] [] [])"
    using desk_step.opened [of empty_desk 7 False] by (simp add: defs)
  also have "?S (demo_desk (Some ''pending'') None [] [] [] [] []) (demo_desk (Some ''pending'') None [] [] [] [Came] [])"
    using desk_step.came [of "(demo_desk (Some ''pending'') None [] [] [] [] [])" 7 False] by (simp add: defs)
  also have "?S (demo_desk (Some ''pending'') None [] [] [] [Came] []) (demo_desk (Some ''pending'') (Some 0) [False] [] [] [Queued 0] [])"
    using desk_step.queued [of 0 7 "(demo_desk (Some ''pending'') None [] [] [] [Came] [])" 0 _ False] by (simp add: defs)
  also have "?S (demo_desk (Some ''pending'') (Some 0) [False] [] [] [Queued 0] []) (demo_desk (Some ''pending'') (Some 0) [True] [] [] [Inside 0] [])"
    using desk_step.entered [of 0 7 0 "(demo_desk (Some ''pending'') (Some 0) [False] [] [] [Queued 0] [])" False] by (simp add: defs)
  also have "?S (demo_desk (Some ''pending'') (Some 0) [True] [] [] [Inside 0] []) (demo_desk (Some ''pending'') (Some 0) [True] [] [] [Deciding 0] [])"
    using desk_step.checked [of 0 7 0 "(demo_desk (Some ''pending'') (Some 0) [True] [] [] [Inside 0] [])" False] by (simp add: defs)
  also have "?S (demo_desk (Some ''pending'') (Some 0) [True] [] [] [Deciding 0] []) (demo_desk (Some ''pending'') (Some 0) [True] [] [7] [Deciding 0] [])"
    using desk_step.peeked [of "(demo_desk (Some ''pending'') (Some 0) [True] [] [] [Deciding 0] [])" 7 False] by (simp add: defs)
  also have "?S (demo_desk (Some ''pending'') (Some 0) [True] [] [7] [Deciding 0] []) (demo_desk (Some ''approved'') (Some 0) [True] [] [7] [Decided 0] [(7, ''approved'')])"
    using desk_step.decided [of 0 7 0 "(demo_desk (Some ''pending'') (Some 0) [True] [] [7] [Deciding 0] [])" "''approved''" False] by (simp add: defs)
  also have "?S (demo_desk (Some ''approved'') (Some 0) [True] [] [7] [Decided 0] [(7, ''approved'')]) (demo_desk (Some ''expired'') (Some 0) [True] [] [] [Decided 0] [(7, ''approved'')])"
    using desk_step.stamped [of 7 "(demo_desk (Some ''approved'') (Some 0) [True] [] [7] [Decided 0] [(7, ''approved'')])" False] by (simp add: defs)
  finally show ?thesis .
qed

text \<open>Hence without the hypothesis on the counts the exclusion does not hold, and a final status is not final: a decision overwrites an expiry, and a reader overwrites a decision.\<close>

lemma failed_count_breaks_exclusion: "\<exists>d. (desk_step True)\<^sup>*\<^sup>* empty_desk d \<and> \<not> alone decides (dk_decisions d)"
proof -
  let ?xs = "dk_decisions (demo_desk (Some ''pending'') (Some 1) [True, True] [] [] [Deciding 0, Deciding 1] [])"
  have "\<not> alone decides ?xs" using aloneD [of decides ?xs 0 1 7] by (auto simp: demo_desk_def decides_def)
  then show ?thesis using demo_failed_count by blast
qed

lemma final_status_overwritten:
  "\<exists>d d'. (desk_step False)\<^sup>*\<^sup>* empty_desk d \<and> desk_step False d d' \<and> dk_rows d 7 = Some ''expired'' \<and> dk_rows d' 7 = Some ''approved''"
  "\<exists>d. (desk_step False)\<^sup>*\<^sup>* empty_desk d \<and> dk_journal d = [(7, ''approved'')] \<and> dk_rows d 7 = Some ''expired''"
proof -
  have rows: "dk_rows (demo_desk st tb h x y pcs js) 7 = st" "dk_journal (demo_desk st tb h x y pcs js) = js" for st tb h x y pcs js
    by (simp_all add: demo_desk_def)
  show "\<exists>d d'. (desk_step False)\<^sup>*\<^sup>* empty_desk d \<and> desk_step False d d' \<and> dk_rows d 7 = Some ''expired'' \<and> dk_rows d' 7 = Some ''approved''"
    by (intro exI conjI, rule demo_evicting, rule demo_overwriting) (simp_all only: rows)
  show "\<exists>d. (desk_step False)\<^sup>*\<^sup>* empty_desk d \<and> dk_journal d = [(7, ''approved'')] \<and> dk_rows d 7 = Some ''expired''"
    by (intro exI conjI, rule demo_late_reader) (simp_all only: rows)
qed

theorem decisions_exclusive_witness:
  "\<exists>d. (desk_step False)\<^sup>*\<^sup>* empty_desk d \<and> dk_journal d = [(7, ''approved'')] \<and> length (dk_decisions d) = 2 \<and> distinct (map fst (dk_journal d)) \<and> \<not> is_pending d 7"
proof -
  let ?d = "demo_desk (Some ''approved'') (Some 1) [True, True] [] [] [Decided 0, Inside 1] [(7, ''approved'')]"
  have j: "dk_journal ?d = [(7, ''approved'')]" "length (dk_decisions ?d) = 2" by (simp_all add: demo_desk_def)
  with decisions_exclusive [OF demo_evicted] have "distinct (map fst (dk_journal ?d))" "\<not> is_pending ?d 7" by auto
  with j demo_evicted show ?thesis by blast
qed

end
