(* ===== verification/ContractSafety.thy ===== *)
theory ContractSafety
  imports ApprovalLife SolMessage
begin

text \<open>
  Safety of contract calls (\<open>handler/contract_call.go\<close>): what is signed on the spot. The guards change nothing but the request journal, so a signature means that every
  one of them passed; the theorems follow the handlers guard by guard to the one message that goes to the TEE.
\<close>

subsection \<open>Walking a handler\<close>

text \<open>\<open>Q\<close> holds after a computation that has signed. A first step that leaves the state alone must have let it go on, and every branch taken is known.\<close>

definition signs_if :: "(server \<Rightarrow> bool) \<Rightarrow> 'x h \<Rightarrow> server \<Rightarrow> bool" where
  "signs_if Q m s \<longleftrightarrow> (sv_signs (snd (m s)) \<noteq> sv_signs s \<longrightarrow> Q (snd (m s)))"

named_theorems signs_intro \<open>rules for what a signature implies\<close>

lemma signs_if_preserves: "preserves sv_signs m \<Longrightarrow> signs_if Q m s"
  by (simp add: signs_if_def preserves_def)

lemma signs_if_seq [signs_intro]:
  assumes "keeps m" and "\<And>x s1. m s = (Inr x, s1) \<Longrightarrow> rpc_state.more s1 = rpc_state.more s \<Longrightarrow> signs_if Q (k x) s1"
  shows "signs_if Q (seq m k) s"
proof -
  obtain x s1 where m: "m s = (x, s1)" by fastforce
  have k: "rpc_state.more s1 = rpc_state.more s" using keepsD [OF assms(1) m] .
  then have "sv_signs s1 = sv_signs s" by (rule more_fields(1))
  then show ?thesis using assms(2) [OF _ k] m by (cases x) (simp_all add: signs_if_def seq_def)
qed

lemma signs_if_branch [signs_intro]:
  "(b \<Longrightarrow> signs_if Q m s) \<Longrightarrow> (\<not> b \<Longrightarrow> signs_if Q n s) \<Longrightarrow> signs_if Q (if b then m else n) s"
  "(o' = None \<Longrightarrow> signs_if Q n s) \<Longrightarrow> (\<And>x. o' = Some x \<Longrightarrow> signs_if Q (k x) s) \<Longrightarrow> signs_if Q (case o' of None \<Rightarrow> n | Some x \<Rightarrow> k x) s"
  "(\<And>e. preserves sv_signs (m1 e)) \<Longrightarrow> (\<And>x. v = Inr x \<Longrightarrow> signs_if Q (m2 x) s) \<Longrightarrow> signs_if Q (case v of Inl e \<Rightarrow> m1 e | Inr x \<Rightarrow> m2 x) s"
  "signs_if Q (ret y) s" "signs_if Q (stop e) s" "signs_if Q panics s"
  "(\<And>x. x = t \<Longrightarrow> signs_if Q (k x) s) \<Longrightarrow> signs_if Q (Let t k) s"
  by (auto simp: signs_if_def preserves_def panics_def split: option.splits sum.splits)

lemma panics_preserves [preserves_intro]: "preserves f panics"
  by (simp add: preserves_def panics_def)

lemma signed_once:
  assumes "\<And>sig. preserves sv_signs (k sig)"
  shows "sv_signs (snd (seq (sign_call env w msg ds) k s)) = sv_signs s @ [(msg, w_KeyName w)]"
  using preserves_snd [OF assms]
  by (auto simp: seq_def sign_call_def sdk_Sign_def Let_def split: sign_outcome.splits prod.splits)

lemma call_tail: "keeps m \<Longrightarrow> preserves sv_signs (seq (send_call w ds m) (record_call env c w act t ex))"
  unfolding send_call_def record_call_def
  by (intro preserves_intro signs.calling signs.changing; simp)

lemma deduct_signs: "preserves sv_signs (deduct_call env c w v)"
  unfolding deduct_call_def load_policy_def by (intro preserves_intro)

lemma deducted_signed:
  assumes "preserves sv_signs (m :: 'x h)" and "\<And>sig. preserves sv_signs (k sig)" and "seq m (\<lambda>_. seq (sign_call env w msg ds) k) s = (r, s')" and "sv_signs s' \<noteq> sv_signs s"
  shows "sv_signs s' = sv_signs s @ [(msg, w_KeyName w)]"
proof -
  obtain x s1 where m: "m s = (x, s1)" by fastforce
  then have s1: "sv_signs s1 = sv_signs s" using preservesD [OF assms(1)] by blast
  show ?thesis
  proof (cases x)
    case (Inl e)
    then show ?thesis using assms(3,4) m s1 by (simp add: seq_def)
  next
    case (Inr y)
    then have "seq (sign_call env w msg ds) k s1 = (r, s')" using assms(3) m by (simp add: seq_app)
    then show ?thesis using signed_once [where k = k and s = s1, OF assms(2)] s1 by (metis snd_conv)
  qed
qed

lemma ready_wallet_Inr:
  assumes "ready_wallet env c s = (Inr w, s1)"
  shows "w \<in> set (t_wallets s) \<and> w_ID w = c_id c \<and> c_userID c = Some (w_UserID w) \<and> w_Status w = ''ready''"
  using assms unfolding ready_wallet_def loadUserWallet_def mustUserID_def seq_def
  by (auto split: option.splits if_splits dest!: first_row_Some)

lemma whitelisted_Inr:
  assumes "whitelisted env w what addr s = (Inr a, s1)"
  shows "a \<in> set (t_contracts s) \<and> ac_UserID a = w_UserID w \<and> ac_Chain a = w_Chain w \<and> ac_ContractAddress a = addr"
  using assms unfolding whitelisted_def by (auto simp: allowed_row_def split: option.splits if_splits dest!: first_row_Some)

subsection \<open>EVM calls\<close>

text \<open>The signed transaction: from the wallet, to the contract, with the calldata and the value that were asked for.\<close>

definition evm_call_of :: "'e server_env_scheme \<Rightarrow> wallet \<Rightarrow> string \<Rightarrow> bytes \<Rightarrow> int option \<Rightarrow> bytes \<Rightarrow> bool" where
  "evm_call_of env w addr calldata wei msg \<longleftrightarrow> (\<exists>p. ETHSigningHash env p = Inr msg \<and> eth_From p = w_Address w \<and> eth_To p = addr
     \<and> eth_Data p = hex_encode calldata \<and> eth_Value p = int_text 10 (case wei of None \<Rightarrow> 0 | Some v \<Rightarrow> v))"

lemma built_call:
  assumes "BuildETHContractCallTx env url (w_Address w) addr calldata wei s = (Inr d, s1)"
  shows "evm_call_of env w addr calldata wei (etd_SigningHash d)"
  using BuildETHContractCallTx_hash [OF assms] BuildETHContractCallTx_Inr [OF assms]
  unfolding evm_call_of_def params_of_def by (metis eth_tx_params.select_convs(6,7,8,9))

text \<open>The dollar value of the call is not above the threshold of an active policy.\<close>

definition below_threshold :: "'e server_env_scheme \<Rightarrow> wallet \<Rightarrow> f64 \<Rightarrow> server \<Rightarrow> bool" where
  "below_threshold env w v s \<longleftrightarrow> (case load_active (db_fails env) (w_ID w) (t_policies s) of None \<Rightarrow> True | Some pol \<Rightarrow> \<not> over_threshold pol v)"

lemma settle_call_signs:
  assumes "settle_call env c w cfg addr mn req wei d s = (r, s')" and "sv_signs s' \<noteq> sv_signs s"
  shows "isPasskeyAuth c \<and> below_threshold env w (effective_usd cfg (cq_Value req) wei (sv_prices s)) s
     \<and> sv_signs s' = sv_signs s @ [(etd_SigningHash d, w_KeyName w)]"
proof -
  let ?v = "effective_usd cfg (cq_Value req) wei (sv_prices s)"
  have need: "call_needs_approval env c w ?v (t_policies s) = None"
  proof (rule ccontr)
    assume "call_needs_approval env c w ?v (t_policies s) \<noteq> None"
    then obtain why where "call_needs_approval env c w ?v (t_policies s) = Some why" by blast
    then have "\<exists>msg t p. propose_call env c w ''contract_call'' msg t p why s = (r, s')"
      using assms(1) by (auto simp: settle_call_def Let_def)
    then show False using assms(2) preservesD [OF signs.propose_call_frame] by blast
  qed
  then have "isPasskeyAuth c" "below_threshold env w ?v s"
    by (auto simp: call_needs_approval_def below_threshold_def split: if_splits option.splits)
  moreover have "seq (deduct_call env c w ?v) (\<lambda>_. seq (sign_call env w (etd_SigningHash d) [(''contract'', JStr addr), (''method'', JStr mn)])
      (\<lambda>sig. seq (send_call w [(''contract'', JStr addr), (''method'', JStr mn)] (broadcastSigned env w (eth_to_json (etd_Params d)) sig))
        (record_call env c w ''contract_call'' (call_context w addr mn req ?v) [(''contract'', JStr addr), (''method'', JStr mn)]))) s = (r, s')"
    using assms(1) need by (simp add: settle_call_def Let_def)
  then have "sv_signs s' = sv_signs s @ [(etd_SigningHash d, w_KeyName w)]"
    by (rule deducted_signed [OF deduct_signs call_tail [OF keeps_broadcastSigned] _ assms(2)])
  ultimately show ?thesis by blast
qed

lemma settle_call_after:
  assumes "\<And>s'. isPasskeyAuth c \<Longrightarrow> below_threshold env w (effective_usd cfg (cq_Value req) wei (sv_prices s)) s \<Longrightarrow>
      sv_signs s' = sv_signs s @ [(etd_SigningHash d, w_KeyName w)] \<Longrightarrow> Q s'"
  shows "signs_if Q (settle_call env c w cfg addr mn req wei d) s"
  using assms settle_call_signs [OF prod.collapse [symmetric]] unfolding signs_if_def by metis

text \<open>What a signature on an EVM call says about the request.\<close>

definition evm_signed :: "'e server_env_scheme \<Rightarrow> ctx \<Rightarrow> wallet \<Rightarrow> chain_config \<Rightarrow> server \<Rightarrow> server \<Rightarrow> bool" where
  "evm_signed env c w cfg s s' \<longleftrightarrow> isPasskeyAuth c \<and> (\<exists>j req a calldata wei msg. c_body c = Some j \<and> call_req_of j = Some req
     \<and> a \<in> set (t_contracts s) \<and> ac_UserID a = w_UserID w \<and> ac_Chain a = w_Chain w
     \<and> normalizeEVMAddress (cq_Contract req) = Inr (ac_ContractAddress a) \<and> EncodeCall env (cq_FuncSig req) (cq_Args req) = Inr calldata
     \<and> value_wei (cq_Value req) = Some wei \<and> below_threshold env w (effective_usd cfg (cq_Value req) wei (sv_prices s)) s
     \<and> evm_call_of env w (ac_ContractAddress a) calldata wei msg \<and> sv_signs s' = sv_signs s @ [(msg, w_KeyName w)])"

lemma bind_or_Inr: "bind_or resp c dec s = (Inr x, s1) \<Longrightarrow> s1 = s \<and> (\<exists>j. c_body c = Some j \<and> dec j = Some x)"
  by (auto simp: bind_or_def split: option.splits)

lemmas same_rows = more_fields(10) more_fields(4) more_fields(1) more_fields(6) more_fields(3)

lemma evm_signedI:
  assumes "bind_or resp c call_req_of s = (Inr req, s1)" and "normalizeEVMAddress (cq_Contract req) = Inr addr"
    and "whitelisted env w what addr s1 = (Inr a, s2)" and "EncodeCall env (cq_FuncSig req) (cq_Args req) = Inr calldata"
    and "value_wei (cq_Value req) = Some wei" and "or_fail g (BuildETHContractCallTx env url (w_Address w) addr calldata wei) s2 = (Inr d, s3)"
    and "rpc_state.more s1 = rpc_state.more s" and "rpc_state.more s2 = rpc_state.more s1" and "rpc_state.more s3 = rpc_state.more s2"
    and "isPasskeyAuth c" and "below_threshold env w (effective_usd cfg (cq_Value req) wei (sv_prices s3)) s3"
    and "sv_signs s' = sv_signs s3 @ [(etd_SigningHash d, w_KeyName w)]"
  shows "evm_signed env c w cfg s s'"
proof -
  have "rpc_state.more s3 = rpc_state.more s" using assms(7-9) by simp
  note f = same_rows [OF this] same_rows [OF assms(7)]
  have a: "a \<in> set (t_contracts s)" "ac_UserID a = w_UserID w" "ac_Chain a = w_Chain w" "addr = ac_ContractAddress a"
    using whitelisted_Inr [OF assms(3)] f by auto
  have "evm_call_of env w addr calldata wei (etd_SigningHash d)" using built_call assms(6) by (simp add: or_fail_Inr)
  moreover have "below_threshold env w (effective_usd cfg (cq_Value req) wei (sv_prices s)) s" using assms(11) by (simp add: below_threshold_def f)
  ultimately show ?thesis unfolding evm_signed_def using bind_or_Inr [OF assms(1)] assms(2,4,5,10,12) a f(3) by metis
qed

lemma preserves_error [preserves_intro]:
  "(\<And>x. preserves f (m1 x)) \<Longrightarrow> (\<And>x y. preserves f (m2 x y)) \<Longrightarrow> (\<And>x. preserves f (m3 x)) \<Longrightarrow> (\<And>x. preserves f (m4 x))
     \<Longrightarrow> preserves f (case e of Msg x \<Rightarrow> m1 x | Wrap x y \<Rightarrow> m2 x y | AppErr x \<Rightarrow> m3 x | Panic x \<Rightarrow> m4 x)"
  by (cases e) simp_all

lemma contractCallEVM_signs: "signs_if (evm_signed env c w cfg s) (contractCallEVM env c w cfg) s"
  unfolding contractCallEVM_def
  by (intro signs_intro settle_call_after keeps_rows(6) signs.keeps_ready(2) keeps_or_fail keeps_build_eth preserves_intro) (rule evm_signedI)

subsection \<open>Solana programs\<close>

lemma settle_program_after:
  assumes "\<And>s'. isPasskeyAuth c \<Longrightarrow> sv_signs s' = sv_signs s @ [(std_MessageBytes d, w_KeyName w)] \<Longrightarrow> Q s'"
  shows "signs_if Q (settle_program env c w cfg pid req d) s"
proof (cases "isPasskeyAuth c")
  case True
  have "sv_signs (snd (settle_program env c w cfg pid req d s)) = sv_signs s @ [(std_MessageBytes d, w_KeyName w)]"
    using signed_once [OF call_tail [OF keeps_broadcast_sol(3)]] True unfolding settle_program_def Let_def by simp
  then show ?thesis using assms True by (simp add: signs_if_def)
next
  case False
  then show ?thesis unfolding settle_program_def Let_def by (intro signs_if_preserves) (simp add: signs.propose_call_frame)
qed

text \<open>What a signature on a program call says: the message is built from the request, with some blockhash.\<close>

definition sol_signed :: "'e server_env_scheme \<Rightarrow> ctx \<Rightarrow> wallet \<Rightarrow> server \<Rightarrow> server \<Rightarrow> bool" where
  "sol_signed env c w s s' \<longleftrightarrow> isPasskeyAuth c \<and> (\<exists>j req a dat bh msg. c_body c = Some j \<and> call_req_of j = Some req
     \<and> a \<in> set (t_contracts s) \<and> ac_UserID a = w_UserID w \<and> ac_Chain a = w_Chain w \<and> ac_ContractAddress a = trim_space (cq_Contract req)
     \<and> hex_decode (trim_prefix (cq_Data req) ''0x'') = Some dat
     \<and> buildSOLProgramCallMessage (w_Address w) (ac_ContractAddress a) (cq_Accounts req) dat bh = Inr msg
     \<and> sv_signs s' = sv_signs s @ [(msg, w_KeyName w)])"

lemma sol_signedI:
  assumes "bind_or resp c call_req_of s = (Inr req, s1)" and "pid = trim_space (cq_Contract req)"
    and "whitelisted env w what pid s1 = (Inr a, s2)" and "hex_decode (trim_prefix (cq_Data req) ''0x'') = Some dat"
    and "or_fail g (BuildSOLProgramCallTx env url (w_Address w) pid (cq_Accounts req) dat) s2 = (Inr d, s3)"
    and "rpc_state.more s1 = rpc_state.more s" and "rpc_state.more s2 = rpc_state.more s1" and "rpc_state.more s3 = rpc_state.more s2"
    and "isPasskeyAuth c" and "sv_signs s' = sv_signs s3 @ [(std_MessageBytes d, w_KeyName w)]"
  shows "sol_signed env c w s s'"
proof -
  have "rpc_state.more s3 = rpc_state.more s" using assms(6-8) by simp
  note f = same_rows [OF this] same_rows [OF assms(6)]
  have a: "a \<in> set (t_contracts s)" "ac_UserID a = w_UserID w" "ac_Chain a = w_Chain w" "pid = ac_ContractAddress a"
    using whitelisted_Inr [OF assms(3)] f by auto
  obtain bh where "buildSOLProgramCallMessage (w_Address w) pid (cq_Accounts req) dat bh = Inr (std_MessageBytes d)"
    using assms(5) by (auto simp: or_fail_Inr BuildSOLProgramCallTx_def io_simps)
  then show ?thesis unfolding sol_signed_def using bind_or_Inr [OF assms(1)] assms(2,4,9,10) a f(3) by metis
qed

lemma contractCallSolana_signs: "signs_if (sol_signed env c w s) (contractCallSolana env c w cfg) s"
  unfolding contractCallSolana_def
  by (intro signs_intro settle_program_after keeps_rows(6) signs.keeps_ready(2) keeps_or_fail keeps_build_sol preserves_intro) (rule sol_signedI)

subsection \<open>The endpoint\<close>

text \<open>C8. A contract call that signs on the spot was made with a passkey session, for a ready wallet of the caller, to a contract or program on the caller's own list for the
  chain of the wallet; on an EVM chain the value is below the threshold of an active policy. It signs once, with the key of the wallet, and the one message is the
  transaction from the wallet to that contract with the encoded call and the value, or the program instruction with the accounts and data, of the request.\<close>

theorem ContractCall_signs_request:
  assumes "ContractCall env c s = (r, s')" and "sv_signs s' \<noteq> sv_signs s"
  shows "\<exists>w cfg. w \<in> set (t_wallets s) \<and> w_ID w = c_id c \<and> c_userID c = Some (w_UserID w) \<and> w_Status w = ''ready''
     \<and> GetChain (env_chains env) (w_Chain w) = Some cfg
     \<and> (cc_Family cfg = ''evm'' \<and> evm_signed env c w cfg s s' \<or> cc_Family cfg = ''solana'' \<and> sol_signed env c w s s')"
proof -
  let ?Q = "\<lambda>s'. \<exists>w cfg. w \<in> set (t_wallets s) \<and> w_ID w = c_id c \<and> c_userID c = Some (w_UserID w) \<and> w_Status w = ''ready''
     \<and> GetChain (env_chains env) (w_Chain w) = Some cfg
     \<and> (cc_Family cfg = ''evm'' \<and> evm_signed env c w cfg s s' \<or> cc_Family cfg = ''solana'' \<and> sol_signed env c w s s')"
  have "signs_if ?Q (ContractCall env c) s"
    unfolding ContractCall_def
  proof (intro signs_intro signs.keeps_ready(1))
    fix w s1 cfg
    assume w: "ready_wallet env c s = (Inr w, s1)" "rpc_state.more s1 = rpc_state.more s" "GetChain (env_chains env) (w_Chain w) = Some cfg"
    note ready = ready_wallet_Inr [OF w(1)] and same = same_rows [OF w(2)]
    have "below_threshold env w (effective_usd cfg v wei (sv_prices s)) s = below_threshold env w (effective_usd cfg v wei (sv_prices s1)) s1" for v wei
      unfolding below_threshold_def same ..
    then have e: "evm_signed env c w cfg s = evm_signed env c w cfg s1" "sol_signed env c w s = sol_signed env c w s1"
      by (simp_all add: evm_signed_def [abs_def] sol_signed_def [abs_def] same)
    show "signs_if ?Q (contractCallEVM env c w cfg) s1" if "cc_Family cfg = ''evm''"
      using contractCallEVM_signs [of env c w cfg s1, folded e(1)] that ready w(3) unfolding signs_if_def by blast
    show "signs_if ?Q (contractCallSolana env c w cfg) s1" if "cc_Family cfg = ''solana''"
      using contractCallSolana_signs [of env c w s1 cfg, folded e(2)] that ready w(3) unfolding signs_if_def by blast
  qed
  then show ?thesis using assms by (simp add: signs_if_def)
qed

subsection \<open>Allowances\<close>

lemma settle_approve_after:
  assumes "\<And>s'. isPasskeyAuth c \<Longrightarrow> sv_signs s' = sv_signs s @ [(etd_SigningHash d, w_KeyName w)] \<Longrightarrow> Q s'"
  shows "signs_if Q (settle_approve env c w addr sp amount a act d) s"
proof (cases "isPasskeyAuth c")
  case True
  have "sv_signs (snd (settle_approve env c w addr sp amount a act d s)) = sv_signs s @ [(etd_SigningHash d, w_KeyName w)]"
    using signed_once [OF call_tail [OF keeps_broadcastSigned]] True unfolding settle_approve_def Let_def by simp
  then show ?thesis using assms True by (simp add: signs_if_def)
next
  case False
  then show ?thesis unfolding settle_approve_def Let_def by (intro signs_if_preserves) (simp add: signs.propose_call_frame)
qed

text \<open>What a signature on an allowance says: the token is on the list, and the calldata approves the spender for the amount in units of the token.\<close>

definition allowance_signed :: "'e server_env_scheme \<Rightarrow> ctx \<Rightarrow> string \<Rightarrow> string \<Rightarrow> string \<Rightarrow> server \<Rightarrow> server \<Rightarrow> bool" where
  "allowance_signed env c token spender amount s s' \<longleftrightarrow> isPasskeyAuth c \<and> (\<exists>w cfg a sp units calldata msg.
     w \<in> set (t_wallets s) \<and> w_ID w = c_id c \<and> c_userID c = Some (w_UserID w) \<and> w_Status w = ''ready'' \<and> GetChain (env_chains env) (w_Chain w) = Some cfg
     \<and> cc_Family cfg = ''evm'' \<and> a \<in> set (t_contracts s) \<and> ac_UserID a = w_UserID w \<and> ac_Chain a = w_Chain w
     \<and> normalizeEVMAddress token = Inr (ac_ContractAddress a) \<and> normalizeEVMAddress spender = Inr sp
     \<and> allowance_units a amount = Some (Some units) \<and> EncodeERC20Approve env sp units = Inr calldata
     \<and> evm_call_of env w (ac_ContractAddress a) calldata None msg \<and> sv_signs s' = sv_signs s @ [(msg, w_KeyName w)])"

lemma allowance_signedI:
  assumes "ready_wallet env c s = (Inr w, s1)" and "GetChain (env_chains env) (w_Chain w) = Some cfg" and "\<not> cc_Family cfg \<noteq> ''evm''"
    and "normalizeEVMAddress token = Inr addr" and "normalizeEVMAddress spender = Inr sp"
    and "whitelisted env w what addr s1 = (Inr a, s2)" and "allowance_units a amount = Some v" and "v = Some units" and "EncodeERC20Approve env sp units = Inr calldata"
    and "or_fail g (BuildETHContractCallTx env url (w_Address w) addr calldata None) s2 = (Inr d, s3)"
    and "rpc_state.more s1 = rpc_state.more s" and "rpc_state.more s2 = rpc_state.more s1" and "rpc_state.more s3 = rpc_state.more s2"
    and "isPasskeyAuth c" and "sv_signs s' = sv_signs s3 @ [(etd_SigningHash d, w_KeyName w)]"
  shows "allowance_signed env c token spender amount s s'"
proof -
  have "rpc_state.more s3 = rpc_state.more s" using assms(11-13) by simp
  note f = same_rows [OF this] same_rows [OF assms(11)]
  have a: "a \<in> set (t_contracts s)" "ac_UserID a = w_UserID w" "ac_Chain a = w_Chain w" "addr = ac_ContractAddress a"
    using whitelisted_Inr [OF assms(6)] f by auto
  have "evm_call_of env w addr calldata None (etd_SigningHash d)" using built_call assms(10) by (simp add: or_fail_Inr)
  then show ?thesis unfolding allowance_signed_def using ready_wallet_Inr [OF assms(1)] assms(2-5,7-9,14,15) a f(3) by metis
qed

lemma signs_if_two [signs_intro]:
  "(\<And>e. preserves sv_signs (m1 e)) \<Longrightarrow> (\<And>x e. preserves sv_signs (m2 x e)) \<Longrightarrow> (\<And>x y. v = Inr x \<Longrightarrow> u = Inr y \<Longrightarrow> signs_if Q (m3 x y) s) \<Longrightarrow>
     signs_if Q (case (v, u) of (Inl e, _) \<Rightarrow> m1 e | (Inr x, Inl e) \<Rightarrow> m2 x e | (Inr x, Inr y) \<Rightarrow> m3 x y) s"
  by (auto simp: signs_if_def preserves_def split: sum.splits)

lemma executeApprove_signs: "signs_if (allowance_signed env c token spender amount s) (executeApprove env c token spender amount act) s"
  unfolding executeApprove_def
  by (intro signs_intro settle_approve_after signs.keeps_ready keeps_or_fail keeps_build_eth preserves_intro) (rule allowance_signedI)

text \<open>C9. Granting or revoking an allowance that signs on the spot was made with a passkey session, for a ready EVM wallet of the caller and a token on the caller's own list; it signs
  once, and the message is the transaction to that token that approves the requested spender for the requested amount in units of the token, zero for a revocation.\<close>

theorem allowance_signs_request:
  assumes "sv_signs s' \<noteq> sv_signs s"
  shows "(ApproveToken env c s = (r, s') \<longrightarrow> (\<exists>j o' token spender amount. c_body c = Some j \<and> as_obj j = Some o' \<and> fld_str ''contract'' o' = Some token
       \<and> fld_str ''spender'' o' = Some spender \<and> fld_str ''amount'' o' = Some amount \<and> allowance_signed env c token spender amount s s'))
    \<and> (RevokeApproval env c s = (r, s') \<longrightarrow> (\<exists>j o' token spender. c_body c = Some j \<and> as_obj j = Some o' \<and> fld_str ''contract'' o' = Some token
       \<and> fld_str ''spender'' o' = Some spender \<and> allowance_signed env c token spender ''0'' s s'))"
proof -
  have exec: "allowance_signed env c t sp a s s'" if "executeApprove env c t sp a act s = (r, s')" for t sp a act
    using executeApprove_signs [of env c t sp a s act] assms that by (simp add: signs_if_def)
  show ?thesis using exec assms
    by (auto simp: ApproveToken_def RevokeApproval_def seq_def bind_or_def in_obj_def required_def split: option.splits if_splits)
qed

subsection \<open>A sample call\<close>

definition demo_allowed :: allowed_contract where
  "demo_allowed = \<lparr>ac_ID = 1, ac_UserID = 1, ac_Chain = ''ethereum'', ac_ContractAddress = demo_to, ac_Label = [], ac_Symbol = [], ac_Decimals = 0, ac_CreatedAt = 0\<rparr>"

definition demo_call_req :: call_req where
  "demo_call_req = \<lparr>cq_Contract = demo_to, cq_FuncSig = ''f()'', cq_Args = [], cq_ArgsJson = JNull, cq_Value = [], cq_Memo = [], cq_Accounts = [], cq_Data = []\<rparr>"

definition demo_caller :: ctx where
  "demo_caller = demo_ctx\<lparr>c_authMode := ''passkey'', c_body := Some (JObj [(''contract'', JStr demo_to), (''func_sig'', JStr ''f()'')])\<rparr>"

definition demo_listed :: server where
  "demo_listed = demo_server\<lparr>t_contracts := [demo_allowed]\<rparr>"

lemma demo_call_read:
  "call_req_of (JObj [(''contract'', JStr demo_to), (''func_sig'', JStr ''f()'')]) = Some demo_call_req" "extractMethodName ''f()'' = Inr ''f''" "value_wei [] = Some None"
  "parseParamTypes ''f()'' = Inr []"
  by code_simp+

lemma demo_calldata: "EncodeCall demo_env ''f()'' [] = Inr (replicate 4 0)"
proof -
  have "encodeArgs demo_env [] [] = Inr []" by code_simp
  then show ?thesis by (simp add: EncodeCall_def demo_call_read demo_defs)
qed

lemma demo_call_built: "\<exists>d s'. BuildETHContractCallTx demo_env ''http://node'' ''0xa'' demo_to calldata None s = (Inr d, s')"
  using demo_params [of "''http://node''" "''0xa''" s]
  by (auto simp: BuildETHContractCallTx_def seq_def Let_def wrapping_def demo_call demo_answer_def result_str_def jget_def sample_hex)

theorem ContractCall_signs_request_witness:
  "\<exists>r s' msg. ContractCall demo_env demo_caller demo_listed = (r, s') \<and> sv_signs s' = [(msg, ''key1'')] \<and> evm_call_of demo_env demo_wallet demo_to (replicate 4 0) None msg"
proof -
  obtain d s2 where d: "BuildETHContractCallTx demo_env ''http://node'' ''0xa'' demo_to (replicate 4 0) None demo_listed = (Inr d, s2)"
    using demo_call_built by blast
  have k: "rpc_state.more s2 = rpc_state.more demo_listed" using keepsD [OF keeps_build_eth(3) d] .
  obtain r s' where run: "ContractCall demo_env demo_caller demo_listed = (r, s')" by fastforce
  have f: "c_userID demo_caller = Some 1" "c_id demo_caller = ''w1''" "c_body demo_caller = Some (JObj [(''contract'', JStr demo_to), (''func_sig'', JStr ''f()'')])"
    "isPasskeyAuth demo_caller" "t_wallets demo_listed = [demo_wallet]" "t_contracts demo_listed = [demo_allowed]" "db_fails demo_env k = False"
    "GetChain (env_chains demo_env) ''ethereum'' = Some demo_chain" "t_policies s2 = []" "sv_signs s2 = []" "sv_signs demo_listed = []" for k
    using same_rows [OF k] by (simp_all add: demo_caller_def demo_ctx_def demo_listed_def demo_server_def isPasskeyAuth_def demo_env_def chain_env.defs GetChain_def)
  have "ready_wallet demo_env demo_caller demo_listed = (Inr demo_wallet, demo_listed)"
    by (simp add: ready_wallet_def loadUserWallet_def mustUserID_def seq_def f first_row_def demo_wallet_def)
  then have "contractCallEVM demo_env demo_caller demo_wallet demo_chain demo_listed = (r, s')"
    using run by (simp add: ContractCall_def seq_app f demo_wallet_def demo_chain_def mk_chain_def)
  then have "settle_call demo_env demo_caller demo_wallet demo_chain demo_to ''f'' demo_call_req None d s2 = (r, s')"
    using d by (simp add: contractCallEVM_def bind_or_def f demo_call_read demo_call_req_def demo_request whitelisted_def allowed_row_def first_row_def demo_allowed_def
        demo_wallet_def demo_calldata demo_chain_def mk_chain_def seq_def or_fail_def recovered_def Let_def)
  then have "sv_signs s' \<noteq> sv_signs demo_listed"
    by (auto simp: settle_call_def call_needs_approval_def f load_active_def first_row_def deduct_call_def load_policy_def seq_app Let_def
        signed_once [OF call_tail [OF keeps_broadcastSigned]] dest!: arg_cong [where f = "\<lambda>p. sv_signs (snd p)"])
  moreover have v: "w_Chain demo_wallet = ''ethereum''" "w_KeyName demo_wallet = ''key1''" "cc_Family demo_chain = ''evm''" "cq_FuncSig demo_call_req = ''f()''"
    "cq_Args demo_call_req = []" "cq_Value demo_call_req = []" "ac_ContractAddress demo_allowed = demo_to"
    by (simp_all add: demo_wallet_def demo_chain_def mk_chain_def demo_call_req_def demo_allowed_def)
  ultimately have "evm_signed demo_env demo_caller demo_wallet demo_chain demo_listed s'"
    using ContractCall_signs_request [OF run] by (auto simp: f)
  then obtain msg where "sv_signs s' = [(msg, ''key1'')]" "evm_call_of demo_env demo_wallet demo_to (replicate 4 0) None msg"
    unfolding evm_signed_def by (auto simp: f v demo_call_read demo_calldata)
  then show ?thesis using run by blast
qed

definition demo_revoker :: ctx where
  "demo_revoker = demo_caller\<lparr>c_body := Some (JObj [(''contract'', JStr demo_to), (''spender'', JStr demo_to)])\<rparr>"

theorem allowance_signs_request_witness:
  "\<exists>r s'. RevokeApproval demo_env demo_revoker demo_listed = (r, s') \<and> allowance_signed demo_env demo_revoker demo_to demo_to ''0'' demo_listed s'"
proof -
  have "be_bytes 0 = []" by code_simp
  then obtain bs where bs: "EncodeERC20Approve demo_env demo_to 0 = Inr bs" by (simp add: EncodeERC20Approve_def encodeAddrAmountCalldata_def Let_def)
  obtain d s2 where d: "BuildETHContractCallTx demo_env ''http://node'' ''0xa'' demo_to bs None demo_listed = (Inr d, s2)"
    using demo_call_built by blast
  have k: "rpc_state.more s2 = rpc_state.more demo_listed" using keepsD [OF keeps_build_eth(3) d] .
  obtain r s' where run: "RevokeApproval demo_env demo_revoker demo_listed = (r, s')" by fastforce
  have j: "as_obj (JObj [(''contract'', JStr demo_to), (''spender'', JStr demo_to)]) = Some [(''contract'', JStr demo_to), (''spender'', JStr demo_to)]"
    "fld_str ''contract'' [(''contract'', JStr demo_to), (''spender'', JStr demo_to)] = Some demo_to"
    "fld_str ''spender'' [(''contract'', JStr demo_to), (''spender'', JStr demo_to)] = Some demo_to" "demo_to \<noteq> []"
    by code_simp+
  have f: "c_userID demo_revoker = Some 1" "c_id demo_revoker = ''w1''" "c_body demo_revoker = Some (JObj [(''contract'', JStr demo_to), (''spender'', JStr demo_to)])"
    "isPasskeyAuth demo_revoker" "t_wallets demo_listed = [demo_wallet]" "t_contracts demo_listed = [demo_allowed]" "db_fails demo_env k = False"
    "GetChain (env_chains demo_env) ''ethereum'' = Some demo_chain" "sv_signs s2 = []" "sv_signs demo_listed = []" for k
    using same_rows [OF k]
    by (simp_all add: demo_revoker_def demo_caller_def demo_ctx_def demo_listed_def demo_server_def isPasskeyAuth_def demo_env_def chain_env.defs GetChain_def)
  have "ready_wallet demo_env demo_revoker demo_listed = (Inr demo_wallet, demo_listed)"
    by (simp add: ready_wallet_def loadUserWallet_def mustUserID_def seq_def f first_row_def demo_wallet_def)
  then have "settle_approve demo_env demo_revoker demo_wallet demo_to demo_to ''0'' demo_allowed ''revoke_approval'' d s2 = (r, s')"
    using run d by (simp add: RevokeApproval_def executeApprove_def bind_or_def in_obj_def required_def f j demo_request whitelisted_def allowed_row_def first_row_def
        demo_allowed_def demo_wallet_def bs demo_chain_def mk_chain_def seq_def or_fail_def recovered_def Let_def allowance_units_def)
  then have "sv_signs s' \<noteq> sv_signs demo_listed"
    by (auto simp: settle_approve_def f Let_def signed_once [OF call_tail [OF keeps_broadcastSigned]] dest!: arg_cong [where f = "\<lambda>p. sv_signs (snd p)"])
  from allowance_signs_request [OF this] run show ?thesis by (fastforce simp: f j)
qed

end
