(* ===== verification/WalletLife.thy ===== *)
theory WalletLife
  imports Accounts
begin

text \<open>
  Well-formed rows of the wallet table, and what the operations that write the table do to them: creation, renaming, deletion, the reaper and the removal of an account.
\<close>

subsection \<open>Well-formed wallets\<close>

text \<open>A row is being created and has the placeholder key, is ready and has the address of its public key on its chain, or is in error.\<close>

definition wf_wallet :: "chains \<Rightarrow> (bytes \<Rightarrow> string option) \<Rightarrow> wallet \<Rightarrow> bool" where
  "wf_wallet cs pk w \<longleftrightarrow> w_Status w = ''creating'' \<and> w_KeyName w = ''pending-'' @ w_ID w
     \<or> w_Status w = ''ready'' \<and> (\<exists>cfg. GetChain cs (w_Chain w) = Some cfg \<and> w_Curve w = cc_Curve cfg \<and> w_Protocol w = cc_Protocol cfg
          \<and> DeriveAddress pk (cc_Family cfg) (w_PublicKey w) = Inr (w_Address w))
     \<or> w_Status w = ''error''"

definition wf_wallets :: "chains \<Rightarrow> (bytes \<Rightarrow> string option) \<Rightarrow> int \<Rightarrow> wallet list \<Rightarrow> bool" where
  "wf_wallets cs pk n ws \<longleftrightarrow> distinct (map w_ID ws) \<and> distinct (map w_KeyName ws) \<and> list_all (wf_wallet cs pk) ws
     \<and> (\<forall>u. int (live_wallets u ws) \<le> max 0 n)"

text \<open>A row update that keeps identifier, key and owner, keeps rows well-formed and revives none.\<close>

definition benign :: "chains \<Rightarrow> (bytes \<Rightarrow> string option) \<Rightarrow> (wallet \<Rightarrow> wallet) \<Rightarrow> bool" where
  "benign cs pk f \<longleftrightarrow> (\<forall>w. w_ID (f w) = w_ID w \<and> w_KeyName (f w) = w_KeyName w \<and> w_UserID (f w) = w_UserID w
     \<and> (wf_wallet cs pk w \<longrightarrow> wf_wallet cs pk (f w)) \<and> (w_Status w = ''error'' \<longrightarrow> w_Status (f w) = ''error''))"

lemma benign_updates: "benign cs pk (\<lambda>w. w\<lparr>w_Status := ''error''\<rparr>)" "benign cs pk (\<lambda>w. w\<lparr>w_Label := l\<rparr>)"
  by (auto simp: benign_def wf_wallet_def)

lemma count_mono: "(\<And>x. P x \<Longrightarrow> Q x) \<Longrightarrow> count_rows P xs \<le> count_rows Q xs"
  by (induction xs) (auto simp: count_rows_def)

lemma live_update: "benign cs pk f \<Longrightarrow> live_wallets u (update_rows P f ws) \<le> live_wallets u ws"
  by (induction ws) (auto simp: live_wallets_def count_rows_def update_rows_def benign_def)

lemma wf_update: "wf_wallets cs pk n ws \<Longrightarrow> benign cs pk f \<Longrightarrow> wf_wallets cs pk n (update_rows P f ws)"
proof -
  assume w: "wf_wallets cs pk n ws" and b: "benign cs pk f"
  have "map w_ID (update_rows P f ws) = map w_ID ws" "map w_KeyName (update_rows P f ws) = map w_KeyName ws"
    using b by (simp_all add: update_rows_def benign_def)
  moreover have "list_all (wf_wallet cs pk) (update_rows P f ws)"
    using w b by (auto simp: wf_wallets_def update_rows_def benign_def list_all_iff)
  moreover have "int (live_wallets u (update_rows P f ws)) \<le> max 0 n" for u
    using live_update [OF b, of u P ws] w by (simp add: wf_wallets_def) (meson of_nat_mono order_trans)
  ultimately show ?thesis using w by (simp add: wf_wallets_def)
qed

lemma wf_delete: "wf_wallets cs pk n ws \<Longrightarrow> wf_wallets cs pk n (delete_rows P ws)"
proof -
  assume w: "wf_wallets cs pk n ws"
  have "live_wallets u (delete_rows P ws) \<le> live_wallets u ws" for u
    by (induction ws) (auto simp: live_wallets_def count_rows_def delete_rows_def)
  then have "int (live_wallets u (delete_rows P ws)) \<le> max 0 n" for u using w by (simp add: wf_wallets_def) (meson of_nat_mono order_trans)
  then show ?thesis using w by (auto simp: wf_wallets_def delete_rows_def list_all_iff distinct_map_filter)
qed

text \<open>What the creation of a wallet does to the table.\<close>

definition keyed :: "string \<Rightarrow> string \<Rightarrow> string \<Rightarrow> wallet \<Rightarrow> wallet" where
  "keyed keyName keyData address v = v\<lparr>w_KeyName := keyName, w_PublicKey := keyData, w_Address := address, w_Status := ''ready''\<rparr>"

lemma store_key_rows:
  assumes "store_key env c w cfg k d s = (r, s')"
  shows "t_wallets s' = t_wallets s \<or> t_wallets s' = update_rows (\<lambda>v. w_ID v = w_ID w) (\<lambda>v. v\<lparr>w_Status := ''error''\<rparr>) (t_wallets s)
     \<or> (\<exists>a. DeriveAddress (pubkey_address env) (cc_Family cfg) d = Inr a \<and> \<not> list_ex (\<lambda>v. w_ID v \<noteq> w_ID w \<and> w_KeyName v = k) (t_wallets s)
          \<and> t_wallets s' = update_rows (\<lambda>v. w_ID v = w_ID w) (keyed k d a) (t_wallets s))"
  using assms unfolding store_key_def fail_wallet_def Let_def panics_def keyed_def [abs_def]
  by (auto simp: set_wallet_def writeAuditCtx_def writeAuditLog_def authInfo_def split: sum.splits gerr.splits if_splits option.splits)

lemma CreateWallet_rows:
  assumes "CreateWallet env c s = (r, s')" and "\<not> db_fails env ''count_wallets''"
  obtains "t_wallets s' = t_wallets s"
  | u ch l cfg s1 where "GetChain (env_chains env) ch = Some cfg" "int (live_wallets u (t_wallets s)) < maxWallets env"
      "\<not> list_ex (\<lambda>v. w_ID v = new_uuid env \<or> w_KeyName v = ''pending-'' @ new_uuid env) (t_wallets s)"
      "t_wallets s1 = t_wallets s @ [pending_wallet env c u ch l cfg]"
      "t_wallets s' = t_wallets s1 \<or> t_wallets s' = update_rows (\<lambda>v. w_ID v = new_uuid env) (\<lambda>v. v\<lparr>w_Status := ''error''\<rparr>) (t_wallets s1)
        \<or> (\<exists>k d x. store_key env c (pending_wallet env c u ch l cfg) cfg k d s1 = (x, s'))"
proof -
  let ?done = "\<lambda>w cfg. case tee_keygen env (cc_Protocol cfg) (cc_Curve cfg) of
       KeyErr e \<Rightarrow> fail_wallet env w (keygen_failed e True w cfg)
     | KeyRes success msg keyName keyData \<Rightarrow>
         if \<not> success then fail_wallet env w (keygen_failed msg False w cfg) else store_key env c w cfg keyName keyData"
  have "s' = s \<or> (\<exists>u ch l cfg. GetChain (env_chains env) ch = Some cfg \<and> int (live_wallets u (t_wallets s)) < maxWallets env
     \<and> \<not> list_ex (\<lambda>v. w_ID v = new_uuid env \<or> w_KeyName v = ''pending-'' @ new_uuid env) (t_wallets s)
     \<and> ?done (pending_wallet env c u ch l cfg) cfg (s\<lparr>t_wallets := t_wallets s @ [pending_wallet env c u ch l cfg]\<rparr>) = (r, s'))"
    using assms unfolding CreateWallet_def insert_wallet_def Let_def seq_def mustUserID_def bind_json_def
    by (auto simp: pending_wallet_def not_le split: option.splits if_splits prod.splits)
  then show thesis
  proof (elim disjE exE conjE)
    fix u ch l cfg
    let ?w = "pending_wallet env c u ch l cfg" and ?s1 = "s\<lparr>t_wallets := t_wallets s @ [pending_wallet env c u ch l cfg]\<rparr>"
    assume g: "GetChain (env_chains env) ch = Some cfg" "int (live_wallets u (t_wallets s)) < maxWallets env"
      "\<not> list_ex (\<lambda>v. w_ID v = new_uuid env \<or> w_KeyName v = ''pending-'' @ new_uuid env) (t_wallets s)" and run: "?done ?w cfg ?s1 = (r, s')"
    have "w_ID ?w = new_uuid env" by (simp add: pending_wallet_def)
    then have "t_wallets s' = t_wallets ?s1 \<or> t_wallets s' = update_rows (\<lambda>v. w_ID v = new_uuid env) (\<lambda>v. v\<lparr>w_Status := ''error''\<rparr>) (t_wallets ?s1)
        \<or> (\<exists>k d x. store_key env c ?w cfg k d ?s1 = (x, s'))"
      using run by (auto simp: fail_wallet_def set_wallet_def split: keygen_outcome.splits if_splits)
    then show thesis using that(2) [OF g, of ?s1] by simp
  qed (use that in blast)
qed

lemma pending_wf:
  assumes "wf_wallets cs pk n ws" and "int (live_wallets u ws) < n"
    and "\<not> list_ex (\<lambda>v. w_ID v = new_uuid env \<or> w_KeyName v = ''pending-'' @ new_uuid env) ws"
  shows "wf_wallets cs pk n (ws @ [pending_wallet env c u ch l cfg])"
proof -
  have "live_wallets v (ws @ [pending_wallet env c u ch l cfg]) = live_wallets v ws + (if v = u then 1 else 0)" for v
    by (simp add: live_wallets_def count_rows_def pending_wallet_def)
  then show ?thesis using assms by (auto simp: wf_wallets_def wf_wallet_def pending_wallet_def list_ex_iff)
qed

lemma keyed_wf:
  assumes "wf_wallets cs pk n (ws @ [pending_wallet env c u ch l cfg])"
    and "GetChain cs ch = Some cfg" and "DeriveAddress pk (cc_Family cfg) d = Inr a"
    and "\<not> list_ex (\<lambda>v. w_ID v \<noteq> new_uuid env \<and> w_KeyName v = k) (ws @ [pending_wallet env c u ch l cfg])"
  shows "wf_wallets cs pk n (update_rows (\<lambda>v. w_ID v = new_uuid env) (keyed k d a) (ws @ [pending_wallet env c u ch l cfg]))"
proof -
  let ?w = "pending_wallet env c u ch l cfg"
  have i: "w_ID ?w = new_uuid env" by (simp add: pending_wallet_def)
  have old: "w_ID v \<noteq> new_uuid env" if "v \<in> set ws" for v using assms(1) that i by (auto simp: wf_wallets_def) (metis image_eqI)
  have "map (\<lambda>r. if w_ID r = new_uuid env then keyed k d a r else r) ws = ws" using old by (simp add: map_idI)
  then have u: "update_rows (\<lambda>v. w_ID v = new_uuid env) (keyed k d a) (ws @ [?w]) = ws @ [keyed k d a ?w]"
    using i by (simp add: update_rows_def)
  have k: "w_KeyName v \<noteq> k" if "v \<in> set ws" for v using assms(4) old that by (auto simp: list_ex_iff)
  have "live_wallets v (ws @ [keyed k d a ?w]) = live_wallets v (ws @ [?w])" for v
    by (simp add: live_wallets_def count_rows_def pending_wallet_def keyed_def)
  moreover have "wf_wallet cs pk (keyed k d a ?w)" using assms(2,3) by (simp add: wf_wallet_def keyed_def pending_wallet_def)
  ultimately show ?thesis unfolding u using assms(1) k by (auto simp: wf_wallets_def keyed_def i)
qed

lemma CreateWallet_wf:
  assumes "CreateWallet env c s = (r, s')" and "\<not> db_fails env ''count_wallets''"
    and "wf_wallets (env_chains env) (pubkey_address env) (maxWallets env) (t_wallets s)"
  shows "wf_wallets (env_chains env) (pubkey_address env) (maxWallets env) (t_wallets s')"
  using assms(1,2)
proof (cases rule: CreateWallet_rows)
  case 1
  then show ?thesis using assms(3) by simp
next
  case (2 u ch l cfg s1)
  let ?w = "pending_wallet env c u ch l cfg"
  have i: "w_ID ?w = new_uuid env" by (simp add: pending_wallet_def)
  have w: "wf_wallets (env_chains env) (pubkey_address env) (maxWallets env) (t_wallets s1)"
    unfolding 2(4) by (rule pending_wf [OF assms(3) 2(2,3)])
  note e = wf_update [OF w benign_updates(1)]
  have "wf_wallets (env_chains env) (pubkey_address env) (maxWallets env) (t_wallets s')"
    if "store_key env c ?w cfg k d s1 = (x, s')" for k d x
    using store_key_rows [OF that, unfolded i]
  proof (elim disjE exE conjE)
    fix a
    assume a: "DeriveAddress (pubkey_address env) (cc_Family cfg) d = Inr a"
      "\<not> list_ex (\<lambda>v. w_ID v \<noteq> new_uuid env \<and> w_KeyName v = k) (t_wallets s1)"
      "t_wallets s' = update_rows (\<lambda>v. w_ID v = new_uuid env) (keyed k d a) (t_wallets s1)"
    show ?thesis unfolding a(3) 2(4) by (rule keyed_wf [OF w [unfolded 2(4)] 2(1) a(1) a(2) [unfolded 2(4)]])
  qed (simp_all only: w e)
  with 2(5) w e show ?thesis by metis
qed

lemma keeps_wallets: "keeps (m :: 'a h) \<Longrightarrow> m s = (r, s') \<Longrightarrow> t_wallets s' = t_wallets s"
  by (rule preservesD [OF keeps_preserves(3)])

lemma other_wallet_rows:
  "RenameWallet env c s = (r, s') \<Longrightarrow> t_wallets s' = t_wallets s \<or> (\<exists>i l. t_wallets s' = update_rows (\<lambda>v. w_ID v = i) (\<lambda>v. v\<lparr>w_Label := l\<rparr>) (t_wallets s))"
  "DeleteWallet env c s = (r, s') \<Longrightarrow> t_wallets s' = t_wallets s \<or> (\<exists>i. t_wallets s' = delete_rows (\<lambda>v. w_ID v = i) (t_wallets s))"
proof -
  have load: "t_wallets q = t_wallets s" if "loadUserWallet env c s = (x, q)" for x q s
    by (rule keeps_wallets [OF keeps_requests(2) that])
  have pass: "t_wallets q = t_wallets s" if "verifyFreshPasskey env c s = (x, q)" for x q
    using keeps_wallets [OF keeps_passkey(2) that] .
  show "RenameWallet env c s = (r, s') \<Longrightarrow> t_wallets s' = t_wallets s \<or> (\<exists>i l. t_wallets s' = update_rows (\<lambda>v. w_ID v = i) (\<lambda>v. v\<lparr>w_Label := l\<rparr>) (t_wallets s))"
    unfolding RenameWallet_def seq_def bind_or_def Let_def set_wallet_def
    by (auto split: prod.splits sum.splits option.splits if_splits dest!: load) blast+
  show "DeleteWallet env c s = (r, s') \<Longrightarrow> t_wallets s' = t_wallets s \<or> (\<exists>i. t_wallets s' = delete_rows (\<lambda>v. w_ID v = i) (t_wallets s))"
    unfolding DeleteWallet_def seq_def
    by (auto simp: delete_wallet_rows_def writeAuditCtx_def writeAuditLog_def authInfo_def split: prod.splits sum.splits option.splits if_splits dest!: load pass)
qed

lemma account_rows: "t_wallets (delete_keys env u s) = t_wallets s"
  "t_wallets (delete_account_rows u s) = delete_rows (\<lambda>v. w_UserID v = u) (t_wallets s)"
  by (simp_all add: delete_keys_def delete_account_rows_def Let_def)

lemma DeleteAccount_rows:
  "DeleteAccount env c s = (r, s') \<Longrightarrow> t_wallets s' = t_wallets s \<or> (\<exists>u. t_wallets s' = delete_rows (\<lambda>v. w_UserID v = u) (t_wallets s))"
proof -
  have pass: "t_wallets q = t_wallets s" if "verifyFreshPasskey env c s = (x, q)" for x q
    using keeps_wallets [OF keeps_passkey(2) that] .
  show "DeleteAccount env c s = (r, s') \<Longrightarrow> t_wallets s' = t_wallets s \<or> (\<exists>u. t_wallets s' = delete_rows (\<lambda>v. w_UserID v = u) (t_wallets s))"
    unfolding DeleteAccount_def seq_def mustUserID_def
    by (auto simp: account_rows split: prod.splits sum.splits option.splits if_splits dest!: pass)
qed

text \<open>A first wallet on a server with a working key generation.\<close>

definition demo_wallet_env :: wallet_env where
  "demo_wallet_env = server_env.extend (demo_env\<lparr>tee_keygen := (\<lambda>_ _. KeyRes True [] ''key2'' ''0b'')\<rparr>) \<lparr>pubkey_address = (\<lambda>_. Some ''0xb'')\<rparr>"

definition demo_creation :: ctx where
  "demo_creation = demo_ctx\<lparr>c_body := Some (JObj [(''chain'', JStr ''Ethereum''), (''label'', JStr ''savings'')])\<rparr>"

lemma demo_wallet_fields:
  "env_chains demo_wallet_env = [(''ethereum'', demo_chain)]" "db_fails demo_wallet_env k = False" "maxWallets demo_wallet_env = 20"
  "new_uuid demo_wallet_env = ''w2''" "tee_keygen demo_wallet_env p cv = KeyRes True [] ''key2'' ''0b''" "pubkey_address demo_wallet_env = (\<lambda>_. Some ''0xb'')"
  by (simp_all add: demo_wallet_env_def server_env.defs demo_env_def chain_env.defs)

lemma demo_key: "hex_decode (trim_prefix ''0b'' ''0x'') = Some [11]" "cc_Family demo_chain = ''evm''"
  by code_simp+

lemma demo_creation_fields:
  "c_userID demo_creation = Some 1" "bind_json demo_wallet_env demo_creation create_req = ret (''Ethereum'', ''savings'')"
  "to_lower (trim_space ''Ethereum'') = ''ethereum''" "trim_space ''savings'' = ''savings''"
proof -
  show "c_userID demo_creation = Some 1" by (simp add: demo_creation_def demo_ctx_def)
  have "create_req (JObj [(''chain'', JStr ''Ethereum''), (''label'', JStr ''savings'')]) = Some (''Ethereum'', ''savings'')" by code_simp
  then show "bind_json demo_wallet_env demo_creation create_req = ret (''Ethereum'', ''savings'')" by (simp add: bind_json_def demo_creation_def)
  show "to_lower (trim_space ''Ethereum'') = ''ethereum''" by code_simp
  show "trim_space ''savings'' = ''savings''" by code_simp
qed

end
