(* ===== verification/WalletApi.thy ===== *)
theory WalletApi
  imports ApiSafety WalletLife
begin

text \<open>
  The table of wallets behind the whole interface. Only four endpoints and the reaper write it (the view \<open>t_wallets\<close> of \<open>ApiFrame\<close>); with what \<open>WalletLife\<close> shows of
  these, the rows stay well-formed along every run of the server, and a ready wallet keeps its owner, chain, key and address for as long as it exists.
\<close>

subsection \<open>Ready wallets\<close>

text \<open>From one table to the next, a ready wallet is still there with at most another label, or its identifier is gone.\<close>

definition ready_kept :: "wallet list \<Rightarrow> wallet list \<Rightarrow> bool" where
  "ready_kept ws ws' \<longleftrightarrow> (\<forall>w \<in> set ws. w_Status w = ''ready'' \<longrightarrow> w_ID w \<notin> w_ID ` set ws' \<or> (\<exists>l. w\<lparr>w_Label := l\<rparr> \<in> set ws'))"

lemma ready_keptI:
  assumes "\<And>w. w \<in> set ws \<Longrightarrow> w_Status w = ''ready'' \<Longrightarrow> w \<in> set ws' \<or> w_ID w \<notin> w_ID ` set ws' \<or> (\<exists>l. w\<lparr>w_Label := l\<rparr> \<in> set ws')"
  shows "ready_kept ws ws'"
  unfolding ready_kept_def
proof (intro ballI impI)
  fix w assume "w \<in> set ws" "w_Status w = ''ready''"
  from assms [OF this] show "w_ID w \<notin> w_ID ` set ws' \<or> (\<exists>l. w\<lparr>w_Label := l\<rparr> \<in> set ws')"
    by (elim disjE) (auto intro: exI [of _ "w_Label w"])
qed

lemma ready_kept_superset: "set ws \<subseteq> set ws' \<Longrightarrow> ready_kept ws ws'"
  by (rule ready_keptI) blast

lemma ready_kept_relabel: "ready_kept ws (update_rows P (\<lambda>v. v\<lparr>w_Label := l\<rparr>) ws)"
proof (rule ready_keptI)
  fix w assume "w \<in> set ws"
  then have "(if P w then w\<lparr>w_Label := l\<rparr> else w) \<in> set (update_rows P (\<lambda>v. v\<lparr>w_Label := l\<rparr>) ws)" by (simp add: update_rows_def)
  then show "w \<in> set (update_rows P (\<lambda>v. v\<lparr>w_Label := l\<rparr>) ws) \<or> w_ID w \<notin> w_ID ` set (update_rows P (\<lambda>v. v\<lparr>w_Label := l\<rparr>) ws)
      \<or> (\<exists>l'. w\<lparr>w_Label := l'\<rparr> \<in> set (update_rows P (\<lambda>v. v\<lparr>w_Label := l\<rparr>) ws))" by (cases "P w") auto
qed

lemma ready_kept_delete: "distinct (map w_ID ws) \<Longrightarrow> ready_kept ws (delete_rows P ws)"
  by (rule ready_keptI) (auto simp: delete_rows_def distinct_map inj_on_def)

lemma ready_kept_update:
  assumes "\<And>v. v \<in> set ws \<Longrightarrow> w_Status v = ''ready'' \<Longrightarrow> \<not> P v" and "set ws \<subseteq> set ws'"
  shows "ready_kept ws (update_rows P g ws')"
proof (rule ready_keptI)
  fix w assume w: "w \<in> set ws" "w_Status w = ''ready''"
  then have "(if P w then g w else w) \<in> set (update_rows P g ws')" using assms(2) by (auto simp: update_rows_def)
  then show "w \<in> set (update_rows P g ws') \<or> w_ID w \<notin> w_ID ` set (update_rows P g ws') \<or> (\<exists>l. w\<lparr>w_Label := l\<rparr> \<in> set (update_rows P g ws'))"
    using assms(1) [OF w] by simp
qed

lemma CreateWallet_keeps_ready:
  assumes "CreateWallet env c s = (r, s')" and "\<not> db_fails env ''count_wallets''"
  shows "ready_kept (t_wallets s) (t_wallets s')"
  using assms
proof (cases rule: CreateWallet_rows)
  case 1
  then show ?thesis by (simp add: ready_kept_superset)
next
  case (2 u ch l cfg s1)
  have i: "w_ID (pending_wallet env c u ch l cfg) = new_uuid env" by (simp add: pending_wallet_def)
  have sub: "set (t_wallets s) \<subseteq> set (t_wallets s1)" using 2(4) by auto
  have u: "ready_kept (t_wallets s) (update_rows (\<lambda>v. w_ID v = new_uuid env) g (t_wallets s1))" for g
    using 2(3) by (intro ready_kept_update sub) (auto simp: list_ex_iff)
  from 2(5) show ?thesis
  proof (elim disjE exE)
    fix k d x
    assume "store_key env c (pending_wallet env c u ch l cfg) cfg k d s1 = (x, s')"
    from store_key_rows [OF this, unfolded i] show ?thesis using u ready_kept_superset [OF sub] by (elim disjE exE conjE) simp_all
  qed (simp_all add: u ready_kept_superset sub)
qed

subsection \<open>Runs of the server\<close>

text \<open>A request with any answers of the environment, or a tick of a background loop, for one registry of chains, derivation of addresses and limit of wallets. The count of the
  limit check must not fail.\<close>

inductive wallet_life :: "chains \<Rightarrow> (bytes \<Rightarrow> string option) \<Rightarrow> int \<Rightarrow> api \<Rightarrow> api \<Rightarrow> bool"
  for cs :: chains and pk :: "bytes \<Rightarrow> string option" and n :: int where
  served: "serve (env :: api_env) path c st = (resp, st') \<Longrightarrow> env_chains env = cs \<Longrightarrow> pubkey_address env = pk \<Longrightarrow> maxWallets env = n \<Longrightarrow>
     \<not> db_fails env ''count_wallets'' \<Longrightarrow> wallet_life cs pk n st st'"
| expired: "wallet_life cs pk n st (st\<lparr>api_server := expire_pending (env :: api_env) now (api_server st)\<rparr>)"
| reaped: "wallet_life cs pk n st (st\<lparr>api_server := reap_wallets (env :: api_env) now (api_server st)\<rparr>)"
| cleaned: "wallet_life cs pk n st (st\<lparr>api_server := (api_server st)\<lparr>t_idem := Idem_cleanup now (t_idem (api_server st)),
     sv_sessions := Session_cleanup now (sv_sessions (api_server st))\<rparr>\<rparr>)"

lemma handle_wallets:
  assumes "handle env c r s = (resp, s')" and "\<not> db_fails env ''count_wallets''"
    and "wf_wallets (env_chains env) (pubkey_address env) (maxWallets env) (t_wallets s)"
  shows "wf_wallets (env_chains env) (pubkey_address env) (maxWallets env) (t_wallets s') \<and> ready_kept (t_wallets s) (t_wallets s')"
proof (cases "r \<in> {R_CreateWallet, R_RenameWallet, R_DeleteWallet, R_DeleteAccount}")
  case False
  then have "t_wallets s' = t_wallets s" using preservesD [OF wallets.handle_frame assms(1)] by blast
  then show ?thesis using assms(3) by (simp add: ready_kept_superset)
next
  case True
  have d: "distinct (map w_ID (t_wallets s))" using assms(3) by (simp add: wf_wallets_def)
  note w = CreateWallet_wf CreateWallet_keeps_ready [OF _ assms(2)] other_wallet_rows DeleteAccount_rows
  from True assms(1) consider "CreateWallet env c s = (resp, s')" | "RenameWallet env c s = (resp, s')" | "DeleteWallet env c s = (resp, s')"
    | "DeleteAccount env c s = (resp, s')" by auto
  then show ?thesis
  proof cases
    case 1
    then show ?thesis using CreateWallet_wf [OF 1 assms(2,3)] CreateWallet_keeps_ready [OF 1 assms(2)] by blast
  next
    case 2
    from other_wallet_rows(1) [OF this] show ?thesis
      using assms(3) wf_update [OF assms(3) benign_updates(2)] ready_kept_relabel ready_kept_superset by (metis subset_refl)
  next
    case 3
    from other_wallet_rows(2) [OF this] show ?thesis
      using assms(3) wf_delete [OF assms(3)] ready_kept_delete [OF d] ready_kept_superset by (metis subset_refl)
  next
    case 4
    from DeleteAccount_rows [OF this] show ?thesis
      using assms(3) wf_delete [OF assms(3)] ready_kept_delete [OF d] ready_kept_superset by (metis subset_refl)
  qed
qed

lemma wallet_life_step:
  assumes "wallet_life cs pk n st st'" and "wf_wallets cs pk n (t_wallets (api_server st))"
  shows "wf_wallets cs pk n (t_wallets (api_server st')) \<and> ready_kept (t_wallets (api_server st)) (t_wallets (api_server st'))"
  using assms
proof (induction rule: wallet_life.induct)
  case (served env path c st resp st')
  from served(1) show ?case
  proof (cases rule: serve_cases)
    case (refused keys)
    then show ?thesis using served(6) by (simp add: ready_kept_superset)
  next
    case (handled g r ps c' keys resp')
    then show ?thesis using handle_wallets [OF handled(3) served(5)] served(2-4,6) by simp
  qed
next
  case (reaped st env now)
  have "ready_kept ws (update_rows (\<lambda>w. w_Status w = ''creating'' \<and> w_CreatedAt w < now - 10 * 60000000000) g ws)" for ws g
    by (rule ready_kept_update) simp_all
  then show ?case using wf_update [OF reaped benign_updates(1)] reaped by (simp add: reap_wallets_def ready_kept_superset)
qed (simp_all add: expire_pending_def ready_kept_superset)


text \<open>A session of the sample server creates a first wallet.\<close>

definition demo_births :: api_env where
  "demo_births = demo_api_env\<lparr>tee_keygen := (\<lambda>_ _. KeyRes True [] ''key2'' ''0b''), pubkey_address := (\<lambda>_. Some ''0xb'')\<rparr>"

definition demo_empty :: api where
  "demo_empty = demo_api\<lparr>api_server := (api_server demo_api)\<lparr>t_wallets := []\<rparr>\<rparr>"

definition demo_order :: ctx where
  "demo_order = (demo_request ''POST'')\<lparr>c_body := c_body demo_creation\<rparr>"

definition demo_owner :: ctx where
  "demo_owner = (routed demo_order [])\<lparr>c_userID := Some 1, c_authMode := ''passkey'', c_sessionToken := ''ps_1'', c_csrfToken := ''tok''\<rparr>"

lemma demo_births_fields:
  "env_chains demo_births = [(''ethereum'', demo_chain)]" "db_fails demo_births k = False" "maxWallets demo_births = 20"
  "new_uuid demo_births = ''w2''" "tee_keygen demo_births p cv = KeyRes True [] ''key2'' ''0b''" "pubkey_address demo_births = (\<lambda>_. Some ''0xb'')"
  by (simp_all add: demo_births_def demo_api_env_def server_env.defs demo_env_def chain_env.defs)

lemma demo_order_fields:
  "c_method demo_order = ''POST''" "c_now demo_order = 1000" "header demo_order ''X-CSRF-Token'' = ''tok''" "header demo_order ''Authorization'' = ''Bearer ps_1''"
  "c_userID demo_owner = Some 1" "c_authMode demo_owner = ''passkey''" "c_now demo_owner = 1000" "c_body demo_owner = c_body demo_creation"
  "header demo_owner ''X-CSRF-Token'' = ''tok''" "c_csrfToken demo_owner = ''tok''" "c_method demo_owner = ''POST''"
  by (simp_all add: demo_order_def demo_owner_def routed_def requestIDMiddleware_def demo_request_def demo_decision_def demo_ctx_def header_def)

lemma demo_empty_fields:
  "t_keys (api_server demo_empty) = []" "t_wallets (api_server demo_empty) = []"
  "sv_sessions (api_server demo_empty) = [(''ps_1'', \<lparr>se_userID = 1, se_csrfToken = ''tok'', se_expiresAt = 5000\<rparr>)]"
  by (simp_all add: demo_empty_def demo_api_fields)

lemma demo_order_body: "bind_json demo_births demo_owner create_req = ret (''Ethereum'', ''savings'')"
proof -
  have "create_req (JObj [(''chain'', JStr ''Ethereum''), (''label'', JStr ''savings'')]) = Some (''Ethereum'', ''savings'')" by code_simp
  then show ?thesis by (simp add: bind_json_def demo_order_fields demo_creation_def)
qed

lemma demo_order_admitted:
  "\<exists>st. pipeline demo_births DualWallet (routed demo_order []) demo_empty = (Inr demo_owner, st) \<and> api_server st = api_server demo_empty"
proof -
  let ?c = "routed demo_order []"
  have b: "has_prefix ''Bearer ps_1'' ''Bearer ''" "trim_space (trim_prefix ''Bearer ps_1'' ''Bearer '') = ''ps_1''" by code_simp+
  have "header ?c ''Authorization'' = ''Bearer ps_1''" by (simp add: routed_def requestIDMiddleware_def header_def demo_order_def demo_request_def)
  then have "extractBearer ?c = ''ps_1''" by (simp add: extractBearer_def b)
  then have "AuthMiddleware (db_fails demo_births) (sv_sessions (api_server demo_empty)) ?c (t_keys (api_server demo_empty)) = (Inr demo_owner, t_keys (api_server demo_empty))"
    by (simp add: AuthMiddleware_def has_prefix_def Session_Get_def GetCSRF_def demo_empty_fields demo_owner_def)
      (simp add: routed_def requestIDMiddleware_def demo_order_fields)
  then have "authenticate demo_births ?c demo_empty = (Inr demo_owner, demo_empty)"
    by (simp add: authenticate_def on_server_def zoom_def)
  moreover have "CSRFMiddleware demo_owner = Inr demo_owner"
    by (simp add: CSRFMiddleware_def demo_order_fields Let_def)
  ultimately show ?thesis
    by (simp add: pipeline_def auth_chain_def seq_def lift_def zoom_def APIKeyRateLimitMiddleware_def UserRateLimitMiddleware_def mustUserID_def demo_order_fields
        demo_empty_def demo_api_def NewRateLimiter_def Allow_def lookup_times_def split: prod.splits)
qed


end
