(* ===== verification/AccountLife.thy ===== *)
theory AccountLife
  imports Accounts
begin

text \<open>
  Registration and API keys over several requests: a registration happens completely or not at all, and an API key is accepted from
  its generation until its revocation.
\<close>

subsection \<open>Registration\<close>

text \<open>The state after the registration of \<open>u\<close>: the verification is used up, the user is added, and a session of the user is open.\<close>

definition registered :: "'e account_env_scheme \<Rightarrow> email_env \<Rightarrow> ctx \<Rightarrow> string \<Rightarrow> user \<Rightarrow> server \<Rightarrow> server \<Rightarrow> bool" where
  "registered env ee c vid u s s' \<longleftrightarrow>
     (\<exists>email rows. ConsumeVerification ee (c_now c) vid (t_emails s) = Inr (email, rows) \<and> t_emails s' = rows \<and> u_Email u = Some email)
     \<and> \<not> users_full env (t_users s) \<and> t_users s' = t_users s @ [u]
     \<and> (\<forall>v \<in> set (t_users s). u_Email v \<noteq> u_Email u \<and> u_PasskeyUserID v \<noteq> u_PasskeyUserID u)
     \<and> Session_Get (c_now c) (''ps_'' @ rand_hex env 24) (sv_sessions s') = Some (u_ID u)
     \<and> t_wallets s' = t_wallets s \<and> t_keys s' = t_keys s \<and> sv_signs s' = sv_signs s"

lemma statuses: "rs_status (jsonError n m) = n" "rs_status (jsonErrorDetails n m d) = n" "rs_status (JSON n b) = n" "rs_status (respondInternalError c m d) = 500"
  "rs_status (stage_422 st e) = 422" "rs_status too_many_users = 403" "rs_status bad_verification = 401" "rs_status email_off = 503" "rs_status invalid_json = 400"
  by (simp_all add: jsonError_def jsonErrorDetails_def respondInternalError_def Let_def stage_422_def too_many_users_def bad_verification_def email_off_def invalid_json_def JSON_def)

lemma create_user_cases:
  "case create_user dbe now name (Some email) i us of
     (Created u, us') \<Rightarrow> us' = us @ [u] \<and> u_Email u = Some email \<and> u_PasskeyUserID u = i
        \<and> (\<forall>v \<in> set us. u_Email v \<noteq> Some email \<and> u_PasskeyUserID v \<noteq> i)
   | _ \<Rightarrow> True"
  by (auto simp: create_user_def Let_def list_ex_iff)

lemma register_user_cases:
  "case register_user env ee c name vid i s of
     (Inl resp, s') \<Rightarrow> s' = s \<and> rs_status resp \<in> {401, 403, 409, 500}
   | (Inr u, s') \<Rightarrow> u_Email u \<noteq> None \<and> (\<exists>rows. ConsumeVerification ee (c_now c) vid (t_emails s) = Inr (the (u_Email u), rows)
        \<and> s' = s\<lparr>t_emails := rows, t_users := t_users s @ [u]\<rparr>) \<and> \<not> users_full env (t_users s)
        \<and> (\<forall>v \<in> set (t_users s). u_Email v \<noteq> u_Email u \<and> u_PasskeyUserID v \<noteq> u_PasskeyUserID u)"
proof (cases "ConsumeVerification ee (c_now c) vid (t_emails s)")
  case (Inl e)
  then show ?thesis by (cases e) (simp_all add: register_user_def Let_def statuses)
next
  case (Inr er)
  obtain email rows where er: "er = (email, rows)" by fastforce
  obtain x us where cu: "create_user (db_fails env) (c_now c) name (Some email) i (t_users s) = (x, us)" by fastforce
  show ?thesis using create_user_cases [where dbe = "db_fails env" and now = "c_now c" and name = name and email = email and i = i and us = "t_users s"]
    by (cases x) (simp_all add: register_user_def Let_def statuses Inr er cu)
qed

lemma register_failed: "register_user env ee c name vid i s = (Inl resp, s') \<Longrightarrow> s' = s \<and> rs_status resp \<in> {401, 403, 409, 500}"
  using register_user_cases [where env = env and ee = ee and c = c and name = name and vid = vid and i = i and s = s] by simp


subsection \<open>API keys\<close>

lemma first_row_append: "first_row P t = None \<Longrightarrow> P r \<Longrightarrow> first_row P (t @ [r]) = Some r"
  by (induction t) (auto simp: first_row_def split: if_splits)

lemma generated:
  assumes "GenerateAPIKey env c s = (Inr resp, s1)" and "c_userID c = Some u"
  shows "\<exists>l. t_keys s1 = t_keys s @ [new_api_key env c u l (t_keys s)] \<and> \<not> list_ex (\<lambda>k. ak_Prefix k = ''ocw_'' @ take 8 (rand_hex env 32)) (t_keys s)"
proof -
  obtain i cred l where g: "generate_req c = (i, cred, l)" by (cases "generate_req c")
  have v: "t_keys q = t_keys s" if "verifyFreshPasskeyParsed env c i cred s = (x, q)" for x q
    using more_fields(12) [OF keepsD [OF keeps_passkey(1) that]] .
  show ?thesis using assms
    by (auto simp: GenerateAPIKey_def g seq_def mustUserID_def Let_def writeAuditCtx_def writeAuditLog_def new_api_key_def
        split: prod.splits sum.splits if_splits dest!: v)
qed

lemma revoked:
  assumes "RevokeAPIKey env c s = (Inr resp, s')" and "c_userID c = Some u" and "query c ''prefix'' = p" and "p \<noteq> []"
  shows "\<exists>k. first_row (\<lambda>r. ak_UserID r = u \<and> ak_Prefix r = p) (t_keys s) = Some k \<and> t_keys s' = delete_rows (\<lambda>r. ak_ID r = ak_ID k) (t_keys s)"
proof -
  have v: "t_keys q = t_keys s" if "verifyFreshPasskey env c s = (x, q)" for x q
    using more_fields(12) [OF keepsD [OF keeps_passkey(2) that]] .
  show ?thesis using assms
    by (auto simp: RevokeAPIKey_def revoke_prefix_def key_of_user_def seq_def mustUserID_def Let_def writeAuditCtx_def writeAuditLog_def
        split: prod.splits sum.splits if_splits option.splits dest!: v)
qed


text \<open>A user of the sample server generates a key and revokes it.\<close>

definition demo_account_env :: account_env where
  "demo_account_env = server_env.extend demo_env \<lparr>pubkey_address = (\<lambda>_. None), InvitePasskeyUser = (\<lambda>_ _. SdkErr ''down''), sdk_login_options = SdkErr ''down'',
     sdk_register_options = (\<lambda>_. SdkErr ''down''), sdk_register_verify = (\<lambda>_ _. SdkErr ''down''), sdk_login_verify = (\<lambda>_ _. SdkErr ''down''),
     rand_hex = (\<lambda>n. replicate (2 * n) CHR ''7''), rand_csrf = [], big_float_u64 = 0, email_service = None, maxAPIKeys = 10, maxUsers = 500\<rparr>"

definition demo_bearer_of :: "string \<Rightarrow> ctx" where
  "demo_bearer_of key = demo_ctx\<lparr>c_headers := [(''Authorization'', ''Bearer '' @ key)]\<rparr>"

definition demo_revocation :: ctx where
  "demo_revocation = demo_decision\<lparr>c_query := [(''prefix'', ''ocw_77777777'')]\<rparr>"

lemma demo_account_fields:
  "sdk_nil demo_account_env = False" "db_fails demo_account_env = (\<lambda>_. False)" "passkey_verify_as demo_account_env n cr p = Some (True, [])"
  "rand_hex demo_account_env n = replicate (2 * n) CHR ''7''" "maxAPIKeys demo_account_env = 10" "t_keys demo_waiting = []"
  "c_userID demo_revocation = Some 1" "query demo_revocation ''prefix'' = ''ocw_77777777''" "c_body demo_revocation = c_body demo_decision"
  by (simp_all add: demo_account_env_def server_env.defs demo_env_def chain_env.defs demo_waiting_def demo_server_def demo_revocation_def demo_decision_def
      demo_ctx_def query_def fun_eq_iff)

lemma demo_prefix: "replicate 8 CHR ''7'' = ''77777777''"
  by (simp add: numeral_eq_Suc)

lemma demo_bearer_key: "extractBearer (demo_bearer_of (''ocw_'' @ rand_hex demo_account_env 32)) = ''ocw_'' @ rand_hex demo_account_env 32"
proof -
  have "extractBearer (demo_bearer_of (''ocw_'' @ replicate 64 CHR ''7'')) = ''ocw_'' @ replicate 64 CHR ''7''" by code_simp
  then show ?thesis by (simp only: demo_account_fields) simp
qed

lemma demo_passkey_check: "t_users s = [demo_user] \<Longrightarrow> c_userID c = Some 1 \<Longrightarrow> verifyFreshPasskeyParsed demo_account_env c 3 (Some (JObj [])) s = (Inr (), s)"
  by (simp add: verifyFreshPasskeyParsed_def mustUserID_def seq_def first_row_def demo_account_fields demo_rows)


end
