(* ===== verification/AddrLock.thy ===== *)
theory AddrLock
  imports TxEth "HOL-Library.AList"
begin

text \<open>
  Concurrent EVM flows of one sender (\<open>chain/addr_lock.go\<close> and its callers). The other theories serve a request as one step; here the requests
  interleave. A flow takes the mutex of its endpoint and address, asks the node for the pending nonce, signs and broadcasts, possibly several times with a
  fresh nonce or a higher fee, and releases the mutex on every return. The node is a parameter. The theorem shows that the mutex excludes other flows of
  the sender and that no nonce is used for two accepted transactions.
\<close>

subsection \<open>Mutexes\<close>

type_synonym mutexes = "(string \<times> bool) list"

definition lock_key :: "string \<Rightarrow> string \<Rightarrow> string" where
  "lock_key rpcURL address = rpcURL @ '':'' @ address"

definition load_or_store :: "string \<Rightarrow> mutexes \<Rightarrow> mutexes" where
  "load_or_store key ms = (if map_of ms key = None then (key, False) # ms else ms)"

text \<open>\<open>None\<close>: the caller blocks, or, for a release, the program dies.\<close>

definition mutex_lock :: "string \<Rightarrow> mutexes \<Rightarrow> mutexes option" where
  "mutex_lock key ms = (case map_of ms key of Some False \<Rightarrow> Some (AList.update key True ms) | _ \<Rightarrow> None)"

definition mutex_unlock :: "string \<Rightarrow> mutexes \<Rightarrow> mutexes option" where
  "mutex_unlock key ms = (case map_of ms key of Some True \<Rightarrow> Some (AList.update key False ms) | _ \<Rightarrow> None)"

definition LockAddr :: "string \<Rightarrow> string \<Rightarrow> mutexes \<Rightarrow> mutexes option" where
  "LockAddr rpcURL address ms = (let key = lock_key rpcURL address in mutex_lock key (load_or_store key ms))"

definition unlock_addr :: "string \<Rightarrow> string \<Rightarrow> mutexes \<Rightarrow> mutexes option" where
  "unlock_addr rpcURL address ms = mutex_unlock (lock_key rpcURL address) ms"

definition locked :: "string \<Rightarrow> mutexes \<Rightarrow> bool" where
  "locked key ms \<longleftrightarrow> map_of ms key = Some True"

lemma LockAddr_iff: "LockAddr u a ms = Some ms' \<longleftrightarrow> \<not> locked (lock_key u a) ms \<and> ms' = AList.update (lock_key u a) True (load_or_store (lock_key u a) ms)"
  by (auto simp: LockAddr_def mutex_lock_def load_or_store_def locked_def Let_def split: option.splits bool.splits)

lemma unlock_iff: "unlock_addr u a ms = Some ms' \<longleftrightarrow> locked (lock_key u a) ms \<and> ms' = AList.update (lock_key u a) False ms"
  by (auto simp: unlock_addr_def mutex_unlock_def locked_def split: option.splits bool.splits)

lemma locked_update [simp]: "locked k (AList.update k' b ms) \<longleftrightarrow> (if k = k' then b else locked k ms)"
  by (simp add: locked_def update_conv')

lemma locked_stored [simp]: "locked k (load_or_store k' ms) \<longleftrightarrow> locked k ms"
  by (simp add: locked_def load_or_store_def)

subsection \<open>Flows\<close>

text \<open>A flow before the mutex, with the mutex, with a nonce, after an accepted broadcast, and returned.\<close>

datatype flow_pc = Arrived | Holding | Fetched nat | Accepted | Returned

record flow =
  fw_url :: string
  fw_addr :: string
  fw_pc :: flow_pc

text \<open>The journal holds the accepted transactions: flow, endpoint, sender and nonce.\<close>

record 'n lanes =
  ln_flows :: "flow list"
  ln_locks :: mutexes
  ln_node :: 'n
  ln_journal :: "(nat \<times> string \<times> string \<times> nat) list"

definition holds :: "flow \<Rightarrow> bool" where
  "holds f \<longleftrightarrow> fw_pc f \<noteq> Arrived \<and> fw_pc f \<noteq> Returned"

definition flow_key :: "flow \<Rightarrow> string" where
  "flow_key f = lock_key (fw_url f) (fw_addr f)"

text \<open>\<open>pending\<close> is the answer to \<open>eth_getTransactionCount\<close> with the tag \<open>pending\<close>; \<open>accepts\<close> is what \<open>eth_sendRawTransaction\<close> does with a nonce of a sender.\<close>

inductive lane_step :: "('n \<Rightarrow> string \<Rightarrow> string \<Rightarrow> nat) \<Rightarrow> ('n \<Rightarrow> string \<Rightarrow> string \<Rightarrow> nat \<Rightarrow> 'n option) \<Rightarrow> 'n lanes \<Rightarrow> 'n lanes \<Rightarrow> bool"
  for pending :: "'n \<Rightarrow> string \<Rightarrow> string \<Rightarrow> nat" and accepts :: "'n \<Rightarrow> string \<Rightarrow> string \<Rightarrow> nat \<Rightarrow> 'n option" where
  arrive: "lane_step pending accepts l (l\<lparr>ln_flows := ln_flows l @ [\<lparr>fw_url = u, fw_addr = a, fw_pc = Arrived\<rparr>]\<rparr>)"
| acquire: "i < length (ln_flows l) \<Longrightarrow> ln_flows l ! i = f \<Longrightarrow> fw_pc f = Arrived \<Longrightarrow> LockAddr (fw_url f) (fw_addr f) (ln_locks l) = Some ms \<Longrightarrow>
     lane_step pending accepts l (l\<lparr>ln_flows := (ln_flows l)[i := f\<lparr>fw_pc := Holding\<rparr>], ln_locks := ms\<rparr>)"
| fetch: "i < length (ln_flows l) \<Longrightarrow> ln_flows l ! i = f \<Longrightarrow> fw_pc f = Holding \<or> fw_pc f = Fetched k' \<Longrightarrow> k = pending (ln_node l) (fw_url f) (fw_addr f) \<Longrightarrow>
     lane_step pending accepts l (l\<lparr>ln_flows := (ln_flows l)[i := f\<lparr>fw_pc := Fetched k\<rparr>]\<rparr>)"
| broadcast: "i < length (ln_flows l) \<Longrightarrow> ln_flows l ! i = f \<Longrightarrow> fw_pc f = Fetched k \<Longrightarrow> accepts (ln_node l) (fw_url f) (fw_addr f) k = Some n \<Longrightarrow>
     lane_step pending accepts l (l\<lparr>ln_flows := (ln_flows l)[i := f\<lparr>fw_pc := Accepted\<rparr>], ln_node := n, ln_journal := ln_journal l @ [(i, fw_url f, fw_addr f, k)]\<rparr>)"
| return: "i < length (ln_flows l) \<Longrightarrow> ln_flows l ! i = f \<Longrightarrow> holds f \<Longrightarrow> unlock_addr (fw_url f) (fw_addr f) (ln_locks l) = Some ms \<Longrightarrow>
     lane_step pending accepts l (l\<lparr>ln_flows := (ln_flows l)[i := f\<lparr>fw_pc := Returned\<rparr>], ln_locks := ms\<rparr>)"
| mined: "(\<And>u a. pending (ln_node l) u a \<le> pending n u a) \<Longrightarrow> lane_step pending accepts l (l\<lparr>ln_node := n\<rparr>)"

text \<open>What the documentation of the two calls promises: the pending count includes every accepted transaction.\<close>

definition counts_pending :: "('n \<Rightarrow> string \<Rightarrow> string \<Rightarrow> nat) \<Rightarrow> ('n \<Rightarrow> string \<Rightarrow> string \<Rightarrow> nat \<Rightarrow> 'n option) \<Rightarrow> bool" where
  "counts_pending pending accepts \<longleftrightarrow> (\<forall>n u a k n'. accepts n u a k = Some n' \<longrightarrow> k < pending n' u a \<and> (\<forall>u' a'. pending n u' a' \<le> pending n' u' a'))"

subsection \<open>The invariant\<close>

definition exclusive :: "flow list \<Rightarrow> bool" where
  "exclusive fs \<longleftrightarrow> (\<forall>i j. i < length fs \<longrightarrow> j < length fs \<longrightarrow> holds (fs ! i) \<longrightarrow> holds (fs ! j) \<longrightarrow> flow_key (fs ! i) = flow_key (fs ! j) \<longrightarrow> i = j)"

definition held :: "flow list \<Rightarrow> mutexes \<Rightarrow> bool" where
  "held fs ms \<longleftrightarrow> (\<forall>k. locked k ms \<longleftrightarrow> (\<exists>i < length fs. holds (fs ! i) \<and> flow_key (fs ! i) = k))"

text \<open>Journalled nonces lie below the pending count and below the nonce a flow is about to use.\<close>

definition behind :: "(string \<Rightarrow> string \<Rightarrow> nat) \<Rightarrow> flow list \<Rightarrow> nat \<times> string \<times> string \<times> nat \<Rightarrow> bool" where
  "behind count fs e \<longleftrightarrow> (case e of (_, u, a, k) \<Rightarrow> k < count u a
     \<and> (\<forall>i < length fs. \<forall>k'. fw_url (fs ! i) = u \<longrightarrow> fw_addr (fs ! i) = a \<longrightarrow> fw_pc (fs ! i) = Fetched k' \<longrightarrow> k < k'))"

definition lane_inv :: "('n \<Rightarrow> string \<Rightarrow> string \<Rightarrow> nat) \<Rightarrow> 'n lanes \<Rightarrow> bool" where
  "lane_inv pending l \<longleftrightarrow> exclusive (ln_flows l) \<and> held (ln_flows l) (ln_locks l)
     \<and> list_all (behind (pending (ln_node l)) (ln_flows l)) (ln_journal l) \<and> distinct (map snd (ln_journal l))"

lemma holds_pc [simp]: "holds (f\<lparr>fw_pc := pc\<rparr>) \<longleftrightarrow> pc \<noteq> Arrived \<and> pc \<noteq> Returned" "flow_key (f\<lparr>fw_pc := pc\<rparr>) = flow_key f"
  by (simp_all add: holds_def flow_key_def)

text \<open>A flow that keeps its claim on the mutex changes neither side of the exclusion.\<close>

lemma same_claim:
  assumes "i < length fs" and "holds f' \<longleftrightarrow> holds (fs ! i)" and "flow_key f' = flow_key (fs ! i)"
  shows "exclusive (fs[i := f']) \<longleftrightarrow> exclusive fs" "held (fs[i := f']) ms \<longleftrightarrow> held fs ms"
proof -
  have "holds (fs[i := f'] ! j) = holds (fs ! j)" "flow_key (fs[i := f'] ! j) = flow_key (fs ! j)" if "j < length fs" for j
    using that assms by (auto simp: nth_list_update)
  then show "exclusive (fs[i := f']) \<longleftrightarrow> exclusive fs" "held (fs[i := f']) ms \<longleftrightarrow> held fs ms"
    unfolding exclusive_def held_def length_list_update by (metis, metis)
qed

lemma claim_taken:
  assumes "i < length fs" and "\<not> locked (flow_key (fs ! i)) ms" and "exclusive fs" and "held fs ms" and "holds f'" and "flow_key f' = flow_key (fs ! i)"
  shows "exclusive (fs[i := f'])" "held (fs[i := f']) (AList.update (flow_key (fs ! i)) True (load_or_store (flow_key (fs ! i)) ms))"
proof -
  have free: "\<not> (holds (fs ! j) \<and> flow_key (fs ! j) = flow_key (fs ! i))" if "j < length fs" for j using assms(2,4) that unfolding held_def by blast
  show "exclusive (fs[i := f'])" using assms(1,3,6) free unfolding exclusive_def by (simp add: nth_list_update) metis
  show "held (fs[i := f']) (AList.update (flow_key (fs ! i)) True (load_or_store (flow_key (fs ! i)) ms))"
    using assms free unfolding held_def by (auto simp: nth_list_update)
qed

lemma claim_dropped:
  assumes "i < length fs" and "holds (fs ! i)" and "exclusive fs" and "held fs ms" and "\<not> holds f'" and "flow_key f' = flow_key (fs ! i)"
  shows "exclusive (fs[i := f'])" "held (fs[i := f']) (AList.update (flow_key (fs ! i)) False ms)"
proof -
  have others: "j = i" if "j < length fs" "holds (fs ! j)" "flow_key (fs ! j) = flow_key (fs ! i)" for j
    using assms(1-3) that unfolding exclusive_def by blast
  show "exclusive (fs[i := f'])" using assms(1,3,5) unfolding exclusive_def by (simp add: nth_list_update)
  show "held (fs[i := f']) (AList.update (flow_key (fs ! i)) False ms)"
    using assms others unfolding held_def by (auto simp: nth_list_update) (metis nth_list_update_neq)+
qed

lemma behind_update:
  assumes "behind count fs e" and "\<And>u a. count u a \<le> count' u a" and "fw_url f' = fw_url (fs ! i)" "fw_addr f' = fw_addr (fs ! i)"
    and "\<And>k. fw_pc f' = Fetched k \<Longrightarrow> k = count (fw_url f') (fw_addr f')"
  shows "behind count' (fs[i := f']) e"
proof -
  obtain j u a k where e: "e = (j, u, a, k)" by (cases e)
  have "k < count' u a" using assms(1) assms(2) [of u a] by (auto simp: behind_def e)
  moreover have "k < k'" if "j' < length fs" "fw_url (fs[i := f'] ! j') = u" "fw_addr (fs[i := f'] ! j') = a" "fw_pc (fs[i := f'] ! j') = Fetched k'" for j' k'
  proof (cases "j' = i")
    case True
    then show ?thesis using that assms(1,3-5) by (auto simp: behind_def e)
  next
    case False
    then show ?thesis using that assms(1) by (auto simp: behind_def e)
  qed
  ultimately show ?thesis by (simp add: behind_def e)
qed

lemma list_all_mono': "list_all P xs \<Longrightarrow> (\<And>x. P x \<Longrightarrow> Q x) \<Longrightarrow> list_all Q xs"
  by (simp add: list_all_iff)

lemma lane_step_inv:
  assumes "counts_pending pending accepts" and "lane_step pending accepts l l'" and "lane_inv pending l"
  shows "lane_inv pending l'"
  using assms(2,3)
proof (induction rule: lane_step.induct)
  case (arrive l u a)
  then show ?case
    by (auto simp: lane_inv_def exclusive_def held_def behind_def nth_append less_Suc_eq list_all_iff holds_def)
next
  case (acquire i l f ms)
  then have c: "\<not> locked (flow_key f) (ln_locks l)" "ms = AList.update (flow_key f) True (load_or_store (flow_key f) (ln_locks l))"
    by (simp_all add: LockAddr_iff flow_key_def)
  have "list_all (behind (pending (ln_node l)) ((ln_flows l)[i := f\<lparr>fw_pc := Holding\<rparr>])) (ln_journal l)"
    using acquire by (auto simp: lane_inv_def intro!: behind_update elim!: list_all_mono')
  then show ?case using acquire c claim_taken [of i "ln_flows l" "ln_locks l" "f\<lparr>fw_pc := Holding\<rparr>"] by (simp add: lane_inv_def)
next
  case (fetch i l f k' k)
  have "list_all (behind (pending (ln_node l)) ((ln_flows l)[i := f\<lparr>fw_pc := Fetched k\<rparr>])) (ln_journal l)"
    using fetch by (auto simp: lane_inv_def intro!: behind_update elim!: list_all_mono')
  then show ?case using fetch same_claim [of i "ln_flows l" "f\<lparr>fw_pc := Fetched k\<rparr>"] by (auto simp: lane_inv_def holds_def)
next
  case (broadcast i l f k n)
  note n = assms(1) [unfolded counts_pending_def, rule_format, OF broadcast(4)]
  let ?fs = "(ln_flows l)[i := f\<lparr>fw_pc := Accepted\<rparr>]"
  have old: "list_all (behind (pending n) ?fs) (ln_journal l)"
    using broadcast n by (auto simp: lane_inv_def intro!: behind_update elim!: list_all_mono')
  have mine: "j = i" if "j < length (ln_flows l)" "fw_url (ln_flows l ! j) = fw_url f" "fw_addr (ln_flows l ! j) = fw_addr f" "fw_pc (ln_flows l ! j) = Fetched k'" for j k'
  proof -
    have "holds f" "holds (ln_flows l ! j)" "flow_key (ln_flows l ! j) = flow_key f" using broadcast(3) that by (simp_all add: holds_def flow_key_def)
    then show ?thesis using broadcast(1,2,5) that(1) unfolding lane_inv_def exclusive_def by blast
  qed
  have "behind (pending n) ?fs (i, fw_url f, fw_addr f, k)"
    using n mine broadcast(1) by (auto simp: behind_def nth_list_update)
  moreover have "(fw_url f, fw_addr f, k) \<notin> set (map snd (ln_journal l))"
    using broadcast(1-3,5) by (fastforce simp: lane_inv_def list_all_iff behind_def)
  ultimately show ?case using broadcast old same_claim [of i "ln_flows l" "f\<lparr>fw_pc := Accepted\<rparr>"] by (auto simp: lane_inv_def holds_def)
next
  case (return i l f ms)
  then have c: "ms = AList.update (flow_key f) False (ln_locks l)" by (simp add: unlock_iff flow_key_def)
  have "list_all (behind (pending (ln_node l)) ((ln_flows l)[i := f\<lparr>fw_pc := Returned\<rparr>])) (ln_journal l)"
    using return by (auto simp: lane_inv_def intro!: behind_update elim!: list_all_mono')
  then show ?case using return c claim_dropped [of i "ln_flows l" "ln_locks l" "f\<lparr>fw_pc := Returned\<rparr>"] by (simp add: lane_inv_def)
next
  case (mined l n)
  then show ?case by (auto simp: lane_inv_def behind_def list_all_iff intro: less_le_trans)
qed

text \<open>C23. However the flows of an endpoint interleave, at most one flow of a sender holds its mutex and no nonce of a sender is used by two accepted transactions,
  as long as the pending count of the node includes what it accepted. A flow that holds the mutex can always give it back, and a flow before a mutex that nobody
  holds can take it.\<close>

theorem nonces_used_once:
  assumes "counts_pending pending accepts"
    and "(lane_step pending accepts)\<^sup>*\<^sup>* \<lparr>ln_flows = [], ln_locks = [], ln_node = n, ln_journal = []\<rparr> l"
  shows "exclusive (ln_flows l) \<and> distinct (map snd (ln_journal l))
     \<and> (\<forall>f \<in> set (ln_flows l). holds f \<longrightarrow> unlock_addr (fw_url f) (fw_addr f) (ln_locks l) \<noteq> None)
     \<and> (\<forall>u a. \<not> list_ex (\<lambda>f. holds f \<and> flow_key f = lock_key u a) (ln_flows l) \<longrightarrow> LockAddr u a (ln_locks l) \<noteq> None)"
proof -
  have "lane_inv pending l" using assms(2)
  proof (induction rule: rtranclp_induct)
    case base
    then show ?case by (simp add: lane_inv_def exclusive_def held_def locked_def)
  next
    case (step l1 l2)
    then show ?case using lane_step_inv [OF assms(1)] by blast
  qed
  then have inv: "exclusive (ln_flows l)" "held (ln_flows l) (ln_locks l)" "distinct (map snd (ln_journal l))" by (simp_all add: lane_inv_def)
  have "locked (flow_key f) (ln_locks l)" if "f \<in> set (ln_flows l)" "holds f" for f
    using inv(2) that unfolding held_def by (metis in_set_conv_nth)
  then have "unlock_addr (fw_url f) (fw_addr f) (ln_locks l) \<noteq> None" if "f \<in> set (ln_flows l)" "holds f" for f
    using that unlock_iff flow_key_def by (metis option.distinct(1))
  moreover have "LockAddr u a (ln_locks l) \<noteq> None" if "\<not> list_ex (\<lambda>f. holds f \<and> flow_key f = lock_key u a) (ln_flows l)" for u a
  proof -
    have "\<not> locked (lock_key u a) (ln_locks l)" using inv(2) that unfolding held_def list_ex_iff by (metis nth_mem)
    then show ?thesis using LockAddr_iff by (metis option.distinct(1))
  qed
  ultimately show ?thesis using inv(1,3) by blast
qed

text \<open>A node that keeps the senders of what it accepted, and a run in which a second flow waits for the first.\<close>

definition demo_pending :: "(string \<times> string) list \<Rightarrow> string \<Rightarrow> string \<Rightarrow> nat" where
  "demo_pending n u a = count_list n (u, a)"

definition demo_accepts :: "(string \<times> string) list \<Rightarrow> string \<Rightarrow> string \<Rightarrow> nat \<Rightarrow> (string \<times> string) list option" where
  "demo_accepts n u a k = (if k = demo_pending n u a then Some ((u, a) # n) else None)"

definition demo_flow :: "flow_pc \<Rightarrow> flow" where
  "demo_flow pc = \<lparr>fw_url = ''n'', fw_addr = ''0xa'', fw_pc = pc\<rparr>"

definition demo_lanes :: "flow_pc \<Rightarrow> flow_pc \<Rightarrow> bool \<Rightarrow> (string \<times> string) list \<Rightarrow> (nat \<times> nat) list \<Rightarrow> (string \<times> string) list lanes" where
  "demo_lanes p q b n js = \<lparr>ln_flows = [demo_flow p, demo_flow q], ln_locks = [(''n:0xa'', b)], ln_node = n, ln_journal = map (\<lambda>(i, k). (i, ''n'', ''0xa'', k)) js\<rparr>"

lemma demo_counts: "counts_pending demo_pending demo_accepts"
  by (auto simp: counts_pending_def demo_accepts_def demo_pending_def)

lemma demo_lane_key: "lock_key ''n'' ''0xa'' = ''n:0xa''"
  by (simp add: lock_key_def)

lemma demo_run:
  "(lane_step demo_pending demo_accepts)\<^sup>*\<^sup>* \<lparr>ln_flows = [], ln_locks = [], ln_node = [], ln_journal = []\<rparr>
     (demo_lanes Returned Accepted True [(''n'', ''0xa''), (''n'', ''0xa'')] [(0, 0), (1, 1)])"
proof -
  let ?S = "lane_step demo_pending demo_accepts"
  let ?l = "\<lparr>ln_flows = [demo_flow Arrived, demo_flow Arrived], ln_locks = [], ln_node = [], ln_journal = []\<rparr> :: (string \<times> string) list lanes"
  note defs = demo_lanes_def demo_flow_def demo_lane_key LockAddr_def unlock_addr_def mutex_lock_def mutex_unlock_def load_or_store_def demo_accepts_def demo_pending_def holds_def Let_def
  have "?S\<^sup>*\<^sup>* \<lparr>ln_flows = [], ln_locks = [], ln_node = [], ln_journal = []\<rparr> ?l"
    using lane_step.arrive [of demo_pending demo_accepts "\<lparr>ln_flows = [], ln_locks = [], ln_node = [], ln_journal = []\<rparr>" "''n''" "''0xa''"]
      lane_step.arrive [of demo_pending demo_accepts "\<lparr>ln_flows = [demo_flow Arrived], ln_locks = [], ln_node = [], ln_journal = []\<rparr>" "''n''" "''0xa''"]
    by (simp add: demo_flow_def)
  also have "?S ?l (demo_lanes Holding Arrived True [] [])"
    using lane_step.acquire [of 0 ?l "demo_flow Arrived" _ demo_pending demo_accepts] by (simp add: defs)
  also have "?S (demo_lanes Holding Arrived True [] []) (demo_lanes (Fetched 0) Arrived True [] [])"
    using lane_step.fetch [of 0 "demo_lanes Holding Arrived True [] []" "demo_flow Holding" 0 0 demo_pending demo_accepts] by (simp add: defs)
  also have "?S (demo_lanes (Fetched 0) Arrived True [] []) (demo_lanes Accepted Arrived True [(''n'', ''0xa'')] [(0, 0)])"
    using lane_step.broadcast [of 0 "demo_lanes (Fetched 0) Arrived True [] []" "demo_flow (Fetched 0)" 0 demo_accepts _ demo_pending] by (simp add: defs)
  also have "?S (demo_lanes Accepted Arrived True [(''n'', ''0xa'')] [(0, 0)]) (demo_lanes Returned Arrived False [(''n'', ''0xa'')] [(0, 0)])"
    using lane_step.return [of 0 "demo_lanes Accepted Arrived True [(''n'', ''0xa'')] [(0, 0)]" "demo_flow Accepted" _ demo_pending demo_accepts] by (simp add: defs)
  also have "?S (demo_lanes Returned Arrived False [(''n'', ''0xa'')] [(0, 0)]) (demo_lanes Returned Holding True [(''n'', ''0xa'')] [(0, 0)])"
    using lane_step.acquire [of 1 "demo_lanes Returned Arrived False [(''n'', ''0xa'')] [(0, 0)]" "demo_flow Arrived" _ demo_pending demo_accepts] by (simp add: defs)
  also have "?S (demo_lanes Returned Holding True [(''n'', ''0xa'')] [(0, 0)]) (demo_lanes Returned (Fetched 1) True [(''n'', ''0xa'')] [(0, 0)])"
    using lane_step.fetch [of 1 "demo_lanes Returned Holding True [(''n'', ''0xa'')] [(0, 0)]" "demo_flow Holding" 0 1 demo_pending demo_accepts] by (simp add: defs)
  also have "?S (demo_lanes Returned (Fetched 1) True [(''n'', ''0xa'')] [(0, 0)]) (demo_lanes Returned Accepted True [(''n'', ''0xa''), (''n'', ''0xa'')] [(0, 0), (1, 1)])"
    using lane_step.broadcast [of 1 "demo_lanes Returned (Fetched 1) True [(''n'', ''0xa'')] [(0, 0)]" "demo_flow (Fetched 1)" 1 demo_accepts _ demo_pending] by (simp add: defs)
  finally show ?thesis .
qed

theorem nonces_used_once_witness:
  "\<exists>l. (lane_step demo_pending demo_accepts)\<^sup>*\<^sup>* \<lparr>ln_flows = [], ln_locks = [], ln_node = [], ln_journal = []\<rparr> l
     \<and> map snd (ln_journal l) = [(''n'', ''0xa'', 0), (''n'', ''0xa'', 1)] \<and> distinct (map snd (ln_journal l)) \<and> exclusive (ln_flows l)"
  using nonces_used_once [OF demo_counts demo_run] demo_run by (auto simp: demo_lanes_def)

end
