(* ===== verification/Config.thy ===== *)
theory Config
  imports ApiSafety WalletLife
begin

text \<open>
  The start of the server (\<open>main.go\<close>): its settings from the environment variables, the registry of chains with the testnet filter and the
  QuickNode endpoints, and the configuration of the email verification. An answer of the key store of the TEE is a parameter. The theorems show that
  alpha mode leaves only testnets, down to the wallets that can be created, and that the public list of chains does not depend on the QuickNode secrets.
\<close>

subsection \<open>Settings\<close>

text \<open>\<open>os.Getenv\<close>: the empty text for a variable that is not set.\<close>

type_synonym variables = "string \<Rightarrow> string"

definition envOrDefault :: "variables \<Rightarrow> string \<Rightarrow> string \<Rightarrow> string" where
  "envOrDefault vars key def = (let v = trim_space (vars key) in if v \<noteq> [] then v else def)"

text \<open>\<open>strconv.Atoi\<close>: an optional sign, decimal digits, 64 bits.\<close>

definition atoi :: "string \<Rightarrow> int option" where
  "atoi t = (case set_string 10 t of Some i \<Rightarrow> if - (2 ^ 63) \<le> i \<and> i < 2 ^ 63 then Some i else None | None \<Rightarrow> None)"

definition envOrDefaultInt :: "variables \<Rightarrow> string \<Rightarrow> int \<Rightarrow> int" where
  "envOrDefaultInt vars key def = (let v = trim_space (vars key)
     in if v \<noteq> [] then (case atoi v of Some n \<Rightarrow> if n > 0 then n else def | None \<Rightarrow> def) else def)"

definition envOrDefaultBool :: "variables \<Rightarrow> string \<Rightarrow> bool \<Rightarrow> bool" where
  "envOrDefaultBool vars key def = (let v = trim_space (to_lower (vars key))
     in if v \<in> {''1'', ''t'', ''true'', ''y'', ''yes'', ''on''} then True
        else if v \<in> {''0'', ''f'', ''false'', ''n'', ''no'', ''off''} then False else def)"

record settings =
  st_host :: string
  st_port :: string
  st_dataDir :: string
  st_baseURL :: string
  st_frontendURL :: string
  st_chainsFile :: string
  st_apiKeyRateLimit :: int
  st_walletCreateRateLimit :: int
  st_registrationRateLimit :: int
  st_rpcRateLimit :: int
  st_approvalExpiryMinutes :: int
  st_maxWalletsPerUser :: int
  st_maxAPIKeysPerUser :: int
  st_maxUsers :: int
  st_alphaMode :: bool
  st_approvalExpiry :: int

text \<open>A product of durations keeps 64 bits.\<close>

definition duration :: "int \<Rightarrow> int \<Rightarrow> int" where
  "duration n unit_ns = sint (word_of_int (n * unit_ns) :: 64 word)"

definition settings_of :: "variables \<Rightarrow> settings" where
  "settings_of vars =
     (let port = envOrDefault vars ''PORT'' ''18080''; minutes = envOrDefaultInt vars ''APPROVAL_EXPIRY_MINUTES'' 1440
      in \<lparr>st_host = envOrDefault vars ''HOST'' ''0.0.0.0'', st_port = port, st_dataDir = envOrDefault vars ''DATA_DIR'' ''/data'',
          st_baseURL = envOrDefault vars ''BASE_URL'' (''http://localhost:'' @ port), st_frontendURL = envOrDefault vars ''FRONTEND_URL'' [],
          st_chainsFile = envOrDefault vars ''CHAINS_FILE'' ''./chains.json'', st_apiKeyRateLimit = envOrDefaultInt vars ''API_KEY_RATE_LIMIT'' 100,
          st_walletCreateRateLimit = envOrDefaultInt vars ''WALLET_CREATE_RATE_LIMIT'' 5, st_registrationRateLimit = envOrDefaultInt vars ''REGISTRATION_RATE_LIMIT'' 10,
          st_rpcRateLimit = envOrDefaultInt vars ''RPC_RATE_LIMIT'' 50, st_approvalExpiryMinutes = minutes,
          st_maxWalletsPerUser = envOrDefaultInt vars ''MAX_WALLETS_PER_USER'' 10, st_maxAPIKeysPerUser = envOrDefaultInt vars ''MAX_API_KEYS_PER_USER'' 10,
          st_maxUsers = envOrDefaultInt vars ''MAX_USERS'' 500, st_alphaMode = envOrDefaultBool vars ''ALPHA_MODE'' False,
          st_approvalExpiry = duration minutes 60000000000\<rparr>)"

text \<open>A wildcard origin is refused in release mode.\<close>

definition refuses_origin :: "variables \<Rightarrow> bool" where
  "refuses_origin vars \<longleftrightarrow> st_frontendURL (settings_of vars) = ''*'' \<and> vars ''GIN_MODE'' = ''release''"

subsection \<open>Secrets\<close>

text \<open>A secret comes from the key store of the TEE when a key is named, from a variable otherwise; a key that cannot be read ends the process.\<close>

type_synonym key_store = "string \<Rightarrow> (bool \<times> string \<times> string) sdk_answer"

definition secret_of :: "key_store \<Rightarrow> variables \<Rightarrow> string \<Rightarrow> string \<Rightarrow> string res" where
  "secret_of getKey vars plainVar keyVar = (let keyName = trim_space (vars keyVar)
     in if keyName = [] then Inr (vars plainVar)
        else case getKey keyName of
          SdkErr e \<Rightarrow> Inl (Msg (keyVar @ '': fetch from TEE failed: '' @ e))
        | SdkRes (success, err, key) \<Rightarrow> if success then Inr key else Inl (Msg (keyVar @ '': TEE returned error: '' @ err)))"

subsection \<open>QuickNode endpoints\<close>

definition quicknode_url :: "string \<Rightarrow> string \<Rightarrow> chain_config \<Rightarrow> string" where
  "quicknode_url endpoint token cfg =
     (let host = (if cc_QuickNodeNetwork cfg = ''-'' then endpoint @ ''.quiknode.pro'' else endpoint @ ''.'' @ cc_QuickNodeNetwork cfg @ ''.quiknode.pro'')
      in ''https://'' @ host @ ''/'' @ token @ ''/'' @ trim_prefix (cc_QuickNodePath cfg) ''/'')"

definition override_chain :: "string \<Rightarrow> string \<Rightarrow> chains \<times> (string \<times> string) list \<Rightarrow> string \<times> chain_config \<Rightarrow> chains \<times> (string \<times> string) list" where
  "override_chain endpoint token m nc = (case (m, nc) of ((cs, fb), (name, cfg)) \<Rightarrow>
     if cc_QuickNodeNetwork cfg = [] then (cs, fb)
     else let url = quicknode_url endpoint token cfg in (SetChain cs name (cfg\<lparr>cc_RPCURL := url\<rparr>), SetRPCFallback url (cc_RPCURL cfg) fb))"

definition quicknode_overrides :: "key_store \<Rightarrow> variables \<Rightarrow> chains \<Rightarrow> (chains \<times> (string \<times> string) list) res" where
  "quicknode_overrides getKey vars cs = (let endpoint = trim_space (vars ''QUICKNODE_ENDPOINT'')
     in if endpoint = [] then Inr (cs, [])
        else case secret_of getKey vars ''QUICKNODE_TOKEN'' ''QUICKNODE_TOKEN_KEY'' of
          Inl e \<Rightarrow> Inl e
        | Inr token \<Rightarrow> Inr (if token = [] then (cs, []) else foldl (override_chain endpoint token) (cs, []) cs))"

text \<open>The registry of a starting server and the fallback endpoints, from the decoded file of chains, or \<open>None\<close> when it cannot be read.\<close>

definition start_chains :: "key_store \<Rightarrow> variables \<Rightarrow> chain_config list option \<Rightarrow> (chains \<times> (string \<times> string) list) res" where
  "start_chains getKey vars file =
     (if refuses_origin vars then Inl (Msg ''refusing to start with FRONTEND_URL=* in release mode'')
      else let cs = LoadChains file in quicknode_overrides getKey vars (if st_alphaMode (settings_of vars) then snd (RemoveNonTestnetChains cs) else cs))"

subsection \<open>Email verification\<close>

datatype email_sender = SmtpEmailSender (smtp_Host: string) (smtp_Port: string) (smtp_Username: string) (smtp_Password: string) (smtp_From: string)
  | MockEmailSender

definition email_sender_of :: "key_store \<Rightarrow> variables \<Rightarrow> (email_sender \<times> string) res" where
  "email_sender_of getKey vars = (let smtpHost = trim_space (vars ''SMTP_HOST'')
     in if smtpHost \<noteq> [] then (case secret_of getKey vars ''SMTP_PASSWORD'' ''SMTP_PASSWORD_KEY'' of
             Inl e \<Rightarrow> Inl e
           | Inr password \<Rightarrow> Inr (SmtpEmailSender smtpHost (envOrDefault vars ''SMTP_PORT'' ''587'') (vars ''SMTP_USERNAME'') password (vars ''SMTP_FROM''), []))
        else let code = trim_space (vars ''DEV_FIXED_CODE'') in Inr (MockEmailSender, if code = [] then ''999999'' else code))"

definition email_settings :: "variables \<Rightarrow> string \<Rightarrow> email_config" where
  "email_settings vars devFixedCode = NewEmailVerificationService
     \<lparr>ecf_CodeTTL = duration (envOrDefaultInt vars ''EMAIL_CODE_TTL'' 600) 1000000000,
      ecf_ResendCooldown = duration (envOrDefaultInt vars ''EMAIL_CODE_RESEND_COOLDOWN'' 60) 1000000000,
      ecf_MaxAttempts = envOrDefaultInt vars ''EMAIL_CODE_MAX_ATTEMPTS'' 5, ecf_FixedCode = devFixedCode\<rparr>"

text \<open>Without a mail server every verification code is the same well-known text, unless a variable sets another.\<close>

lemma default_fixed_code:
  assumes "trim_space (vars ''SMTP_HOST'') = []" and "trim_space (vars ''DEV_FIXED_CODE'') = []"
  shows "email_sender_of getKey vars = Inr (MockEmailSender, ''999999'')"
  using assms by (simp add: email_sender_of_def Let_def)

subsection \<open>The registry after the start\<close>

text \<open>The QuickNode overrides only change endpoints.\<close>

definition same_chains :: "chains \<Rightarrow> chains \<Rightarrow> bool" where
  "same_chains cs ds \<longleftrightarrow> map (\<lambda>(n, c). (n, c\<lparr>cc_RPCURL := []\<rparr>)) cs = map (\<lambda>(n, c). (n, c\<lparr>cc_RPCURL := []\<rparr>)) ds"

lemma SetChain_same:
  assumes "same_chains cs ds" and "distinct (map fst ds)" and "(n, c) \<in> set ds"
  shows "same_chains (SetChain cs n (c\<lparr>cc_RPCURL := u\<rparr>)) ds"
  using assms
proof (induction cs arbitrary: ds)
  case (Cons a cs)
  then obtain d ds' where ds: "ds = d # ds'" "fst a = fst d" "(snd a)\<lparr>cc_RPCURL := []\<rparr> = (snd d)\<lparr>cc_RPCURL := []\<rparr>" "same_chains cs ds'"
    by (cases ds) (auto simp: same_chains_def case_prod_beta)
  show ?case
  proof (cases "fst a = n")
    case True
    then have "d = (n, c)" using Cons.prems ds by (auto simp: image_iff)
    then show ?thesis using ds True by (cases a) (auto simp: same_chains_def SetChain_def)
  next
    case False
    then have "(n, c) \<in> set ds'" using Cons.prems(3) ds by auto
    then have "same_chains (SetChain cs n (c\<lparr>cc_RPCURL := u\<rparr>)) ds'" using Cons.IH [of ds'] Cons.prems(2) ds by simp
    then show ?thesis using ds False by (cases a; cases d) (auto simp: same_chains_def SetChain_def)
  qed
qed (simp add: same_chains_def)

lemma overrides_same:
  assumes "distinct (map fst ds)" and "same_chains cs ds" and "set xs \<subseteq> set ds"
  shows "same_chains (fst (foldl (override_chain endpoint token) (cs, fb) xs)) ds"
  using assms(2,3)
proof (induction xs arbitrary: cs fb)
  case (Cons x xs)
  obtain n c where x: "x = (n, c)" by fastforce
  show ?case using Cons.IH Cons.prems SetChain_same [OF Cons.prems(1) assms(1), of n c]
    by (simp add: x override_chain_def Let_def)
qed simp

lemma LoadChains_distinct: "distinct (map fst (LoadChains file))"
proof -
  have "distinct (map fst (foldl (\<lambda>m c. SetChain m (cc_Name c) c) cs l))" if "distinct (map fst cs)" for cs l
    using that by (induction l arbitrary: cs) (simp_all add: SetChain_def distinct_update)
  then show ?thesis by (simp add: LoadChains_def useDefaultChains_def split: option.splits)
qed

lemma start_chains_same:
  assumes "start_chains getKey vars file = Inr (cs, fb)"
  shows "same_chains cs (if st_alphaMode (settings_of vars) then snd (RemoveNonTestnetChains (LoadChains file)) else LoadChains file)"
proof -
  let ?ds = "if st_alphaMode (settings_of vars) then snd (RemoveNonTestnetChains (LoadChains file)) else LoadChains file"
  have d: "distinct (map fst ?ds)" by (simp add: LoadChains_distinct RemoveNonTestnetChains_def Let_def distinct_map_filter)
  have "same_chains ?ds ?ds" by (simp add: same_chains_def)
  then have "same_chains (fst (foldl (override_chain e t) (?ds, []) ?ds)) ?ds" for e t by (rule overrides_same [OF d _ subset_refl])
  then show ?thesis using assms
    by (auto simp: start_chains_def quicknode_overrides_def Let_def same_chains_def split: if_splits sum.splits) (metis fst_conv)+
qed

lemma same_chains_member:
  assumes "same_chains cs ds" and "(n, c) \<in> set cs"
  shows "\<exists>d. (n, d) \<in> set ds \<and> c\<lparr>cc_RPCURL := []\<rparr> = d\<lparr>cc_RPCURL := []\<rparr>"
proof -
  have "(n, c\<lparr>cc_RPCURL := []\<rparr>) \<in> set (map (\<lambda>(n, c). (n, c\<lparr>cc_RPCURL := []\<rparr>)) ds)"
    using assms(2) unfolding assms(1) [unfolded same_chains_def, symmetric] by force
  then show ?thesis by auto
qed

text \<open>C36. The public list of chains does not depend on the QuickNode endpoint, token or key: two starts that agree on the file of chains and on alpha mode
  answer \<open>GET /api/chains\<close> alike, whatever tokens their registries hold.\<close>

theorem chain_list_hides_endpoints:
  assumes "start_chains getKey vars file = Inr (cs, fb)" and "start_chains getKey' vars' file = Inr (cs', fb')"
    and "st_alphaMode (settings_of vars) = st_alphaMode (settings_of vars')"
  shows "handle (env\<lparr>env_chains := cs\<rparr>) c R_Chains s = handle (env\<lparr>env_chains := cs'\<rparr>) c R_Chains s"
proof -
  have "same_chains cs cs'" using start_chains_same [OF assms(1)] start_chains_same [OF assms(2)] assms(3) by (simp add: same_chains_def)
  then have "map (\<lambda>x. (snd x)\<lparr>cc_RPCURL := []\<rparr>) cs = map (\<lambda>x. (snd x)\<lparr>cc_RPCURL := []\<rparr>) cs'"
    unfolding same_chains_def by (drule_tac arg_cong [where f = "map snd"]) (simp add: o_def case_prod_beta)
  then have "map (\<lambda>c. chain_json (public_chain c)) (map (\<lambda>x. (snd x)\<lparr>cc_RPCURL := []\<rparr>) cs) = map (\<lambda>c. chain_json (public_chain c)) (map (\<lambda>x. (snd x)\<lparr>cc_RPCURL := []\<rparr>) cs')"
    by simp
  then have "map (chain_json \<circ> public_chain \<circ> snd) cs = map (chain_json \<circ> public_chain \<circ> snd) cs'"
    by (simp add: public_chain_def o_def case_prod_beta)
  then show ?thesis by (simp add: ListChains_def)
qed

lemma created_on_chain:
  assumes "CreateWallet env c s = (r, s')" and "\<not> db_fails env ''count_wallets''" and "w \<in> set (t_wallets s')"
  shows "w \<in> set (t_wallets s) \<or> (\<exists>cfg. GetChain (env_chains env) (w_Chain w) = Some cfg)"
  using assms(1,2)
proof (cases rule: CreateWallet_rows)
  case (2 u ch l cfg s1)
  have p: "w_ID (pending_wallet env c u ch l cfg) = new_uuid env" by (simp add: pending_wallet_def)
  have old: "v \<in> set (t_wallets s) \<Longrightarrow> w_ID v \<noteq> new_uuid env" for v using 2(3) by (auto simp: list_ex_iff)
  let ?on = "\<lambda>f. t_wallets s' = update_rows (\<lambda>v. w_ID v = new_uuid env) f (t_wallets s1) \<and> (\<forall>v. w_Chain (f v) = w_Chain v)"
  have same: "?on id" if "t_wallets s' = t_wallets s1" using that by (simp add: update_rows_def cong: if_cong)
  have err: "?on (\<lambda>v. v\<lparr>w_Status := ''error''\<rparr>)" if "t_wallets s' = update_rows (\<lambda>v. w_ID v = new_uuid env) (\<lambda>v. v\<lparr>w_Status := ''error''\<rparr>) (t_wallets s1)"
    using that by simp
  have key: "?on (keyed k d a)" if "t_wallets s' = update_rows (\<lambda>v. w_ID v = new_uuid env) (keyed k d a) (t_wallets s1)" for k d a
    using that by (simp add: keyed_def)
  obtain f where "?on f" using 2(5)
  proof (elim disjE exE)
    fix k d x assume "store_key env c (pending_wallet env c u ch l cfg) cfg k d s1 = (x, s')"
    from store_key_rows [OF this, unfolded p] show thesis using that same err key by blast
  qed (use that same err in blast)+
  then have "w \<in> set (t_wallets s) \<or> w_Chain w = ch"
    using old assms(3) p unfolding 2(4) by (auto simp: update_rows_def pending_wallet_def split: if_splits)
  then show ?thesis using 2(1) by auto
qed (use assms(3) in simp)

text \<open>In alpha mode the registry holds only chains that the file of chains marks as testnets, and a wallet that a request adds is on one of them.\<close>

theorem alpha_mode_testnets_only:
  assumes "start_chains getKey vars file = Inr (cs, fb)" and "st_alphaMode (settings_of vars)"
  shows "(\<forall>(n, cfg) \<in> set cs. cc_Testnet cfg)
     \<and> (env_chains env = cs \<longrightarrow> \<not> db_fails env ''count_wallets'' \<longrightarrow>
          (\<forall>w \<in> set (t_wallets (snd (CreateWallet env c s))). w \<in> set (t_wallets s) \<or> (\<exists>cfg. GetChain cs (w_Chain w) = Some cfg \<and> cc_Testnet cfg)))"
proof -
  have "same_chains cs (snd (RemoveNonTestnetChains (LoadChains file)))" using start_chains_same [OF assms(1)] assms(2) by simp
  from same_chains_member [OF this] have testnets: "cc_Testnet cfg" if "(n, cfg) \<in> set cs" for n cfg
    using that by (auto simp: RemoveNonTestnetChains_def Let_def) (metis chain_config.ext_inject chain_config.surjective chain_config.update_convs(7))
  have "w \<in> set (t_wallets s) \<or> (\<exists>cfg. GetChain cs (w_Chain w) = Some cfg \<and> cc_Testnet cfg)"
    if "env_chains env = cs" "\<not> db_fails env ''count_wallets''" "w \<in> set (t_wallets (snd (CreateWallet env c s)))" for w
  proof -
    obtain r s' where run: "CreateWallet env c s = (r, s')" by fastforce
    have "w \<in> set (t_wallets s) \<or> (\<exists>cfg. GetChain cs (w_Chain w) = Some cfg)" using created_on_chain [OF run that(2)] that(1,3) run by auto
    then show ?thesis using testnets by (auto simp: GetChain_def dest: map_of_SomeD)
  qed
  then show ?thesis using testnets by blast
qed

text \<open>The built-in chains with a QuickNode endpoint for one of them, in alpha mode.\<close>

definition demo_vars :: "string \<Rightarrow> variables" where
  "demo_vars token k = (if k = ''ALPHA_MODE'' then '' Yes'' else if k = ''QUICKNODE_ENDPOINT'' then ''acme'' else if k = ''QUICKNODE_TOKEN'' then token else [])"

definition demo_file :: "chain_config list" where
  "demo_file = [demo_chain, (mk_chain ''base-sepolia'' ''Base'' ''ecdsa'' ''secp256k1'' ''ETH'' ''evm'' ''https://b'' True)\<lparr>cc_QuickNodeNetwork := ''base''\<rparr>]"

lemma demo_start:
  "start_chains (\<lambda>_. SdkErr []) (demo_vars ''s1'') (Some demo_file) =
     Inr ([(''base-sepolia'', (demo_file ! 1)\<lparr>cc_RPCURL := ''https://acme.base.quiknode.pro/s1/''\<rparr>)], [(''https://acme.base.quiknode.pro/s1/'', ''https://b'')])"
  "start_chains (\<lambda>_. SdkErr []) (demo_vars ''s2'') (Some demo_file) =
     Inr ([(''base-sepolia'', (demo_file ! 1)\<lparr>cc_RPCURL := ''https://acme.base.quiknode.pro/s2/''\<rparr>)], [(''https://acme.base.quiknode.pro/s2/'', ''https://b'')])"
  "st_alphaMode (settings_of (demo_vars t))"
proof -
  have a: "st_alphaMode (settings_of v) = envOrDefaultBool v ''ALPHA_MODE'' False" "st_frontendURL (settings_of v) = envOrDefault v ''FRONTEND_URL'' []" for v
    by (simp_all add: settings_of_def Let_def)
  have b: "envOrDefaultBool (demo_vars t) ''ALPHA_MODE'' False" for t
  proof -
    have "trim_space (to_lower '' Yes'') = ''yes''" by code_simp
    then show ?thesis by (simp add: envOrDefaultBool_def demo_vars_def)
  qed
  then show "st_alphaMode (settings_of (demo_vars t))" by (simp add: a)
  have "trim_space [] = []" by code_simp
  then have c: "envOrDefault (demo_vars t) ''FRONTEND_URL'' [] = []" for t by (simp add: envOrDefault_def demo_vars_def)
  have d: "snd (RemoveNonTestnetChains (LoadChains (Some demo_file))) = [(''base-sepolia'', demo_file ! 1)]" by code_simp
  have e: "start_chains (\<lambda>_. SdkErr []) (demo_vars t) (Some demo_file) = quicknode_overrides (\<lambda>_. SdkErr []) (demo_vars t) [(''base-sepolia'', demo_file ! 1)]" for t
    using b d by (simp add: start_chains_def refuses_origin_def a c Let_def)
  show "start_chains (\<lambda>_. SdkErr []) (demo_vars ''s1'') (Some demo_file) =
     Inr ([(''base-sepolia'', (demo_file ! 1)\<lparr>cc_RPCURL := ''https://acme.base.quiknode.pro/s1/''\<rparr>)], [(''https://acme.base.quiknode.pro/s1/'', ''https://b'')])"
    unfolding e by code_simp
  show "start_chains (\<lambda>_. SdkErr []) (demo_vars ''s2'') (Some demo_file) =
     Inr ([(''base-sepolia'', (demo_file ! 1)\<lparr>cc_RPCURL := ''https://acme.base.quiknode.pro/s2/''\<rparr>)], [(''https://acme.base.quiknode.pro/s2/'', ''https://b'')])"
    unfolding e by code_simp
qed

theorem chain_list_hides_endpoints_witness:
  "\<exists>cs cs' fb fb'. start_chains (\<lambda>_. SdkErr []) (demo_vars ''s1'') (Some demo_file) = Inr (cs, fb)
     \<and> start_chains (\<lambda>_. SdkErr []) (demo_vars ''s2'') (Some demo_file) = Inr (cs', fb') \<and> cs \<noteq> cs'
     \<and> handle (demo_api_env\<lparr>env_chains := cs\<rparr>) demo_ctx R_Chains demo_server = handle (demo_api_env\<lparr>env_chains := cs'\<rparr>) demo_ctx R_Chains demo_server"
  using chain_list_hides_endpoints [OF demo_start(1,2), where env = demo_api_env and c = demo_ctx and s = demo_server] demo_start
  by (simp add: demo_file_def mk_chain_def)

theorem alpha_mode_testnets_only_witness:
  "\<exists>cs fb. start_chains (\<lambda>_. SdkErr []) (demo_vars ''s1'') (Some demo_file) = Inr (cs, fb) \<and> cs \<noteq> [] \<and> (\<forall>(n, cfg) \<in> set cs. cc_Testnet cfg)
     \<and> (\<forall>w \<in> set (t_wallets (snd (CreateWallet (demo_wallet_env\<lparr>env_chains := cs\<rparr>) demo_creation demo_server))). w = demo_wallet \<or> w_Chain w = ''base-sepolia'')"
proof -
  let ?cs = "[(''base-sepolia'', (demo_file ! 1)\<lparr>cc_RPCURL := ''https://acme.base.quiknode.pro/s1/''\<rparr>)]"
  have "\<not> db_fails (demo_wallet_env\<lparr>env_chains := ?cs\<rparr>) ''count_wallets''" "env_chains (demo_wallet_env\<lparr>env_chains := ?cs\<rparr>) = ?cs"
    by (simp_all add: demo_wallet_fields)
  then have "\<forall>(n, cfg) \<in> set ?cs. cc_Testnet cfg"
    "\<forall>w \<in> set (t_wallets (snd (CreateWallet (demo_wallet_env\<lparr>env_chains := ?cs\<rparr>) demo_creation demo_server))).
       w \<in> set (t_wallets demo_server) \<or> (\<exists>cfg. GetChain ?cs (w_Chain w) = Some cfg \<and> cc_Testnet cfg)"
    using alpha_mode_testnets_only [OF demo_start(1,3), of "demo_wallet_env\<lparr>env_chains := ?cs\<rparr>" demo_creation demo_server] by blast+
  moreover have "t_wallets demo_server = [demo_wallet]" by (simp add: demo_server_def)
  moreover have "n = ''base-sepolia''" if "GetChain ?cs n = Some cfg" for n cfg using that by (simp add: GetChain_def split: if_splits)
  ultimately have "\<forall>w \<in> set (t_wallets (snd (CreateWallet (demo_wallet_env\<lparr>env_chains := ?cs\<rparr>) demo_creation demo_server))).
      w = demo_wallet \<or> w_Chain w = ''base-sepolia''" "?cs \<noteq> []" "\<forall>(n, cfg) \<in> set ?cs. cc_Testnet cfg" by auto
  with demo_start(1) show ?thesis by blast
qed

end
