(* ===== verification/Mail.thy ===== *)
theory Mail
  imports Config
begin

text \<open>
  The mails with verification codes (\<open>handler/email_sender.go\<close>, \<open>handler/email_template.go\<close>): the page, the message with its headers, and the two senders. The dialogue
  with the mail server is a parameter behind \<open>smtp.SendMail\<close>, which refuses addresses with a line break. The theorem shows that an address typed by a
  stranger never adds a header to a message: the format check of \<open>Email\<close> lets line breaks pass, the sender does not.
\<close>

subsection \<open>The page\<close>

text \<open>A line of the page, with a back quote for a double and a tilde for a single quote, neither of which the page has.\<close>

definition page_line :: "string \<Rightarrow> string" where
  "page_line l = map (\<lambda>c. if c = CHR 0x60 then CHR 0x22 else if c = CHR 0x7E then CHR 0x27 else c) l"

definition page_text :: "string list \<Rightarrow> string" where
  "page_text ls = tl (concat (map (\<lambda>l. CHR 0x0A # page_line l) ls))"

definition page_head :: "string list" where
  "page_head =
    [''<!DOCTYPE html>'',
     ''<html>'',
     ''<head>'',
     ''<meta charset=`UTF-8`>'',
     ''<meta name=`viewport` content=`width=device-width, initial-scale=1.0`>'',
     ''<title>Verification Code</title>'',
     ''<style>'',
     ''body { font-family: Arial, sans-serif; line-height: 1.6; color: #333; }'',
     ''.container { max-width: 600px; margin: 0 auto; padding: 20px; }'',
     ''.header { background: #1890ff; color: white; padding: 20px; text-align: center; border-radius: 8px 8px 0 0; }'',
     ''.content { background: #f9f9f9; padding: 30px; border-radius: 0 0 8px 8px; }'',
     ''.code { background: #fff; border: 2px solid #1890ff; border-radius: 8px; padding: 20px; text-align: center; margin: 20px 0; }'',
     ''.code-number { font-size: 32px; font-weight: bold; color: #1890ff; letter-spacing: 5px; }'',
     ''.footer { text-align: center; margin-top: 20px; color: #666; font-size: 14px; }'',
     ''.warning { background: #fff3cd; border: 1px solid #ffeaa7; padding: 15px; border-radius: 4px; margin: 15px 0; }'',
     ''</style>'',
     ''</head>'',
     ''<body>'',
     ''<div class=`container`>'',
     ''  <div class=`header`>'',
     ''    <h1>TEENet Wallet</h1>'',
     ''    <p>Registration Verification</p>'',
     ''  </div>'',
     ''  <div class=`content`>'',
     ''    <h2>Your Verification Code</h2>'',
     ''    <p>Hello! You requested a verification code to register a new TEENet Wallet account.</p>'',
     ''    <div class=`code`>'',
     ''      <p>Your verification code is:</p>'',
     ''      <div class=`code-number`>'']"

definition page_tail :: "string list" where
  "page_tail =
    [''</div>'',
     ''    </div>'',
     ''    <div class=`warning`>'',
     ''      <strong>Important:</strong>'',
     ''      <ul style=`margin: 10px 0; padding-left: 20px;`>'',
     ''        <li>This code will expire in <strong>10 minutes</strong></li>'',
     ''        <li>Don~t share this code with anyone</li>'',
     ''        <li>If you didn~t request this code, please ignore this email</li>'',
     ''      </ul>'',
     ''    </div>'',
     ''  </div>'',
     ''  <div class=`footer`>'',
     ''    <p>This is an automated message, please do not reply to this email.</p>'',
     ''  </div>'',
     ''</div>'',
     ''</body>'',
     ''</html>'']"

definition buildVerificationEmailHTML :: "string \<Rightarrow> string" where
  "buildVerificationEmailHTML code = page_text page_head @ code @ page_text page_tail"

subsection \<open>Sending\<close>

abbreviation CRLF :: string where
  "CRLF \<equiv> [CHR 0x0D, CHR 0x0A]"

definition line_break :: "string \<Rightarrow> bool" where
  "line_break s \<longleftrightarrow> CHR 0x0A \<in> set s \<or> CHR 0x0D \<in> set s"

text \<open>\<open>smtp.SendMail\<close> of the standard library: no address may break the line of the protocol; then the dialogue with the server, which may fail.\<close>

type_synonym smtp_server = "string \<Rightarrow> string \<times> string \<Rightarrow> string \<Rightarrow> string list \<Rightarrow> string \<Rightarrow> gerr option"

definition smtp_SendMail :: "smtp_server \<Rightarrow> string \<Rightarrow> string \<times> string \<Rightarrow> string \<Rightarrow> string list \<Rightarrow> string \<Rightarrow> unit res" where
  "smtp_SendMail dialogue addr auth mailFrom rcpts msg =
     (if list_ex line_break (mailFrom # rcpts) then Inl (Msg ''smtp: A line must not contain CR or LF'')
      else case dialogue addr auth mailFrom rcpts msg of Some e \<Rightarrow> Inl e | None \<Rightarrow> Inr ())"

definition mail_headers :: "email_sender \<Rightarrow> string \<Rightarrow> string list" where
  "mail_headers s rcpt =
     [''From: '' @ (if smtp_From s = [] then smtp_Username s else smtp_From s), ''To: '' @ rcpt, ''Subject: Your TEENet Wallet verification code'',
      ''MIME-Version: 1.0'', ''Content-Type: text/html; charset=UTF-8'']"

definition join_lines :: "string list \<Rightarrow> string" where
  "join_lines ls = drop 2 (concat (map (\<lambda>l. CRLF @ l) ls))"

definition mail_message :: "email_sender \<Rightarrow> string \<Rightarrow> string \<Rightarrow> string" where
  "mail_message s rcpt code = join_lines (mail_headers s rcpt) @ CRLF @ CRLF @ buildVerificationEmailHTML code"

definition Mode :: "email_sender \<Rightarrow> string" where
  "Mode s = (case s of SmtpEmailSender _ _ _ _ _ \<Rightarrow> ''smtp'' | MockEmailSender \<Rightarrow> ''mock'')"

definition Send :: "smtp_server \<Rightarrow> email_sender \<Rightarrow> string \<Rightarrow> string \<Rightarrow> unit res" where
  "Send dialogue s rcpt code = (case s of
       MockEmailSender \<Rightarrow> Inr ()
     | SmtpEmailSender host port username password frm \<Rightarrow>
         wrap_err ''smtp send'' (smtp_SendMail dialogue (host @ '':'' @ port) (username, password) username [rcpt] (mail_message s rcpt code)))"

text \<open>The sender behind the email verification.\<close>

definition sends :: "smtp_server \<Rightarrow> email_sender \<Rightarrow> string \<Rightarrow> string \<Rightarrow> bool" where
  "sends dialogue s rcpt code = (case Send dialogue s rcpt code of Inr _ \<Rightarrow> True | Inl _ \<Rightarrow> False)"

subsection \<open>Reading a message\<close>

text \<open>The header lines of a message, as a reader of mail sees them: the lines up to the first empty one.\<close>

fun crlf_lines :: "string \<Rightarrow> string \<Rightarrow> string list" where
  "crlf_lines acc [] = [rev acc]"
| "crlf_lines acc [c] = [rev (c # acc)]"
| "crlf_lines acc (c # d # s) = (if c = CHR 0x0D \<and> d = CHR 0x0A then rev acc # crlf_lines [] s else crlf_lines (c # acc) (d # s))"

definition headers_of :: "string \<Rightarrow> string list" where
  "headers_of msg = takeWhile (\<lambda>l. l \<noteq> []) (crlf_lines [] msg)"

lemma crlf_lines_line: "CHR 0x0D \<notin> set l \<Longrightarrow> crlf_lines acc (l @ CRLF @ s) = (rev acc @ l) # crlf_lines [] s"
proof (induction l arbitrary: acc)
  case (Cons c l)
  then show ?case by (cases l) auto
qed simp

lemma headers_of_line: "CHR 0x0D \<notin> set l \<Longrightarrow> l \<noteq> [] \<Longrightarrow> headers_of (l @ CRLF @ s) = l # headers_of s"
  by (simp add: headers_of_def crlf_lines_line del: append_Cons append_Nil)

lemma headers_of_end: "headers_of (CRLF @ s) = []" "headers_of ([] @ CRLF @ s) = []"
  by (simp_all add: headers_of_def)

lemma headers_of_message:
  assumes "\<forall>l \<in> set ls. CHR 0x0D \<notin> set l \<and> l \<noteq> []" and "ls \<noteq> []"
  shows "headers_of (join_lines ls @ CRLF @ CRLF @ body) = ls"
proof -
  have "headers_of (concat (map (\<lambda>l. l @ CRLF) ls) @ CRLF @ body) = ls"
    using assms(1) by (induction ls) (simp_all add: headers_of_line headers_of_end del: append_Cons append_Nil)
  moreover have "join_lines ls @ CRLF = concat (map (\<lambda>l. l @ CRLF) ls)"
  proof -
    have "concat (map (\<lambda>l. CRLF @ l) ls) @ CRLF = CRLF @ concat (map (\<lambda>l. l @ CRLF) ls)" by (induction ls) auto
    moreover have "drop 2 (concat (map (\<lambda>l. CRLF @ l) ls)) @ CRLF = drop 2 (concat (map (\<lambda>l. CRLF @ l) ls) @ CRLF)"
      using assms(2) by (cases ls) auto
    ultimately show ?thesis by (simp add: join_lines_def)
  qed
  ultimately show ?thesis by (metis append.assoc)
qed

lemma mail_added:
  assumes "Email_SendCode ee now raw s = (r, s')" and "sv_mails s' \<noteq> sv_mails s"
  shows "\<exists>code. sv_mails s' = sv_mails s @ [(NormalizeEmail raw, code)] \<and> mail_ok ee (NormalizeEmail raw) code"
  using assms by (auto simp: Email_SendCode_def insert_and_send_def Let_def split: if_splits)

text \<open>The format check alone would let a stranger add a header.\<close>

lemma line_break_passes_format:
  "ValidateEmailFormat (NormalizeEmail (''a'' @ CRLF @ ''bcc:x@b.c''))" "line_break (NormalizeEmail (''a'' @ CRLF @ ''bcc:x@b.c''))"
  by code_simp+

text \<open>C17. Whatever address a stranger types, a mail that the server sends is a message with exactly five headers, none of which has a line break, and the recipient
  line carries the normalized address and nothing else. The configured sender address must not have a line break.\<close>

theorem mail_headers_not_injected:
  assumes "Email_SendCode ee now raw s = (r, s')" and "sv_mails s' \<noteq> sv_mails s"
    and "mail_ok ee = sends dialogue (SmtpEmailSender host port username password frm)" and "\<not> line_break frm"
  shows "\<exists>code. sv_mails s' = sv_mails s @ [(NormalizeEmail raw, code)]
     \<and> headers_of (mail_message (SmtpEmailSender host port username password frm) (NormalizeEmail raw) code) =
         [''From: '' @ (if frm = [] then username else frm), ''To: '' @ NormalizeEmail raw, ''Subject: Your TEENet Wallet verification code'',
          ''MIME-Version: 1.0'', ''Content-Type: text/html; charset=UTF-8'']
     \<and> \<not> list_ex line_break (headers_of (mail_message (SmtpEmailSender host port username password frm) (NormalizeEmail raw) code))"
proof -
  let ?s = "SmtpEmailSender host port username password frm"
  obtain code where code: "sv_mails s' = sv_mails s @ [(NormalizeEmail raw, code)]" "sends dialogue ?s (NormalizeEmail raw) code"
    using mail_added [OF assms(1,2)] assms(3) by auto
  have ok: "\<not> line_break username" "\<not> line_break (NormalizeEmail raw)"
    using code(2) by (auto simp: sends_def Send_def smtp_SendMail_def split: sum.splits if_splits)
  have h: "mail_headers ?s (NormalizeEmail raw) = [''From: '' @ (if frm = [] then username else frm), ''To: '' @ NormalizeEmail raw,
      ''Subject: Your TEENet Wallet verification code'', ''MIME-Version: 1.0'', ''Content-Type: text/html; charset=UTF-8'']"
    by (simp add: mail_headers_def)
  have clean: "\<not> list_ex line_break (mail_headers ?s (NormalizeEmail raw))" unfolding h using ok assms(4) by (simp add: line_break_def)
  then have "headers_of (mail_message ?s (NormalizeEmail raw) code) = mail_headers ?s (NormalizeEmail raw)"
    unfolding mail_message_def by (intro headers_of_message) (auto simp: line_break_def list_ex_iff mail_headers_def)
  then show ?thesis using code(1) clean h by metis
qed

definition demo_smtp :: email_sender where
  "demo_smtp = SmtpEmailSender ''mx'' ''587'' ''noreply@x.y'' ''pw'' []"

definition demo_mailer :: email_env where
  "demo_mailer = demo_mail\<lparr>mail_ok := sends (\<lambda>_ _ _ _ _. None) demo_smtp\<rparr>"

lemma demo_mailed: "sv_mails (snd (Email_SendCode demo_mailer 0 ''a@b.c'' demo_server)) = [(''a@b.c'', ''123456'')]"
proof -
  have "sends (\<lambda>_ _ _ _ _. None) demo_smtp ''a@b.c'' ''123456''"
    by (simp add: sends_def Send_def demo_smtp_def smtp_SendMail_def line_break_def wrap_err_def)
  then show ?thesis
    by (simp add: demo_mailer_def Email_SendCode_def insert_and_send_def in_cooldown_def demo_texts demo_server_def demo_mail_def delete_rows_def Let_def)
qed

theorem mail_headers_not_injected_witness:
  "headers_of (mail_message demo_smtp ''a@b.c'' ''123456'') = [''From: noreply@x.y'', ''To: a@b.c'', ''Subject: Your TEENet Wallet verification code'',
     ''MIME-Version: 1.0'', ''Content-Type: text/html; charset=UTF-8'']"
proof -
  let ?r = "Email_SendCode demo_mailer 0 ''a@b.c'' demo_server"
  have none: "sv_mails demo_server = []" by (simp add: demo_server_def)
  have new: "sv_mails (snd ?r) \<noteq> sv_mails demo_server" unfolding demo_mailed none by simp
  have ok: "mail_ok demo_mailer = sends (\<lambda>_ _ _ _ _. None) (SmtpEmailSender ''mx'' ''587'' ''noreply@x.y'' ''pw'' [])"
    by (simp add: demo_mailer_def demo_smtp_def)
  have "\<not> line_break []" by (simp add: line_break_def)
  from mail_headers_not_injected [OF prod.collapse [symmetric] new ok this]
  show ?thesis unfolding demo_mailed none demo_texts demo_smtp_def by auto
qed

end
