(* ===== verification/Stream.thy ===== *)
theory Stream
  imports SseHub Sessions "HOL-Library.Sublist"
begin

text \<open>
  The event stream of a client (\<open>handler/sse.go\<close>) on the hub of \<open>SseHub\<close>: connecting, the loop that waits for the client to leave, an event or a heartbeat, and
  leaving. A turn of the loop is a step; any number of streams and of broadcasts interleave. A write may fail. The theorem says what a client gets: events of
  its own user, in the order in which they were broadcast, and all of them but those that found its buffer full.
\<close>

subsection \<open>A stream\<close>

text \<open>What is written: comments, and events in the wire form of \<open>MarshalSSE\<close>. \<open>sm_since\<close> and \<open>sm_missed\<close> only serve the statement: the number of broadcasts before the
  stream was opened, and the number of warnings about dropped events.\<close>

datatype stream_frame = Comment_Frame string | Event_Frame sse_event

record stream =
  sm_user :: nat
  sm_chan :: nat
  sm_out :: "stream_frame list"
  sm_open :: bool
  sm_since :: nat
  sm_missed :: nat

definition leave_stream :: "stream \<Rightarrow> sse_hub \<Rightarrow> (unit res \<times> stream) \<times> sse_hub" where
  "leave_stream st h = (case Unsubscribe (sm_user st) (Some (sm_chan st)) h of (r, h') \<Rightarrow> ((r, st\<lparr>sm_open := False\<rparr>), h'))"

definition write_frame :: "bool \<Rightarrow> stream_frame \<Rightarrow> stream \<Rightarrow> sse_hub \<Rightarrow> (unit res \<times> stream) \<times> sse_hub" where
  "write_frame w fr st h = (if w then ((Inr (), st\<lparr>sm_out := sm_out st @ [fr]\<rparr>), h) else leave_stream st h)"

definition open_stream :: "ctx \<Rightarrow> bool \<Rightarrow> nat \<Rightarrow> (sse_hub, unit res \<times> stream) handler" where
  "open_stream c w since = seq (mustUserID c) (\<lambda>userID h. case Subscribe userID h of
       (None, h') \<Rightarrow> (Inl (JSON 429 [(''error'', JStr ''too many SSE connections'')]), h')
     | (Some ch, h') \<Rightarrow> (case write_frame w (Comment_Frame '': connected'')
            \<lparr>sm_user = userID, sm_chan = ch, sm_out = [], sm_open = True, sm_since = since, sm_missed = 0\<rparr> h' of (p, h'') \<Rightarrow> (Inr p, h'')))"

text \<open>The cases of the select statement; a channel that is open and empty offers nothing.\<close>

datatype stream_turn = Client_Gone | Channel_Ready bool | Heartbeat_Due bool

fun take_turn :: "stream_turn \<Rightarrow> stream \<Rightarrow> sse_hub \<Rightarrow> (unit res \<times> stream) \<times> sse_hub" where
  "take_turn Client_Gone st h = leave_stream st h"
| "take_turn (Channel_Ready w) st h = (case receive (sm_chan st) h of
       (Some evt, h') \<Rightarrow> write_frame w (Event_Frame evt) st h'
     | (None, h') \<Rightarrow> if ch_closed (hub_chans h' ! sm_chan st) then leave_stream st h' else ((Inr (), st), h'))"
| "take_turn (Heartbeat_Due w) st h = write_frame w (Comment_Frame '': heartbeat'') st h"

subsection \<open>Streams and broadcasts\<close>

record sse_system =
  sy_hub :: sse_hub
  sy_streams :: "stream list"
  sy_sent :: "(nat \<times> sse_event) list"

definition note_missed :: "sse_hub \<Rightarrow> nat \<Rightarrow> stream \<Rightarrow> stream" where
  "note_missed h u st = (if sm_open st \<and> sm_user st = u \<and> \<not> length (ch_buf (hub_chans h ! sm_chan st)) < chan_cap then st\<lparr>sm_missed := sm_missed st + 1\<rparr> else st)"

inductive sse_step :: "sse_system \<Rightarrow> sse_system \<Rightarrow> bool" where
  connect: "open_stream c w (length (sy_sent s)) (sy_hub s) = (Inr (r, st), h) \<Longrightarrow> sse_step s (s\<lparr>sy_hub := h, sy_streams := sy_streams s @ [st]\<rparr>)"
| refuse: "open_stream c w n (sy_hub s) = (Inl resp, h) \<Longrightarrow> sse_step s (s\<lparr>sy_hub := h\<rparr>)"
| turn: "i < length (sy_streams s) \<Longrightarrow> sy_streams s ! i = st0 \<Longrightarrow> sm_open st0 \<Longrightarrow> take_turn t st0 (sy_hub s) = ((r, st), h) \<Longrightarrow>
     sse_step s (s\<lparr>sy_hub := h, sy_streams := (sy_streams s)[i := st]\<rparr>)"
| publish: "Broadcast u evt (sy_hub s) = (r, h) \<Longrightarrow>
     sse_step s (s\<lparr>sy_hub := h, sy_streams := map (note_missed (sy_hub s) u) (sy_streams s), sy_sent := sy_sent s @ [(u, evt)]\<rparr>)"

definition no_streams :: sse_system where
  "no_streams = \<lparr>sy_hub = NewSSEHub, sy_streams = [], sy_sent = []\<rparr>"

subsection \<open>What a client gets\<close>

definition events_of :: "stream_frame list \<Rightarrow> sse_event list" where
  "events_of frs = concat (map (\<lambda>fr. case fr of Event_Frame e \<Rightarrow> [e] | Comment_Frame _ \<Rightarrow> []) frs)"

text \<open>The events written and waiting, and the events broadcast to the user since the stream was opened.\<close>

definition obtained :: "sse_hub \<Rightarrow> stream \<Rightarrow> sse_event list" where
  "obtained h st = events_of (sm_out st) @ ch_buf (hub_chans h ! sm_chan st)"

definition offered :: "(nat \<times> sse_event) list \<Rightarrow> stream \<Rightarrow> sse_event list" where
  "offered sent st = map snd (filter (\<lambda>p. fst p = sm_user st) (drop (sm_since st) sent))"

definition stream_ok :: "sse_hub \<Rightarrow> (nat \<times> sse_event) list \<Rightarrow> stream \<Rightarrow> bool" where
  "stream_ok h sent st \<longleftrightarrow> sm_chan st < length (hub_chans h) \<and> sm_since st \<le> length sent \<and> subseq (obtained h st) (offered sent st)
     \<and> (if sm_open st then sm_chan st \<in> set (subs_of (sm_user st) h) \<and> length (obtained h st) + sm_missed st = length (offered sent st)
        else \<forall>u. sm_chan st \<notin> set (subs_of u h))"

definition system_ok :: "sse_system \<Rightarrow> bool" where
  "system_ok s \<longleftrightarrow> hub_inv (sy_hub s) \<and> list_all (stream_ok (sy_hub s) (sy_sent s)) (sy_streams s) \<and> distinct (map sm_chan (sy_streams s))"

lemma events_of_append [simp]: "events_of [] = []" "events_of (frs @ [fr]) = events_of frs @ (case fr of Event_Frame e \<Rightarrow> [e] | Comment_Frame _ \<Rightarrow> [])"
  by (simp_all add: events_of_def)

lemma obtained_out [simp]: "obtained h (st\<lparr>sm_open := b\<rparr>) = obtained h st" "offered sent (st\<lparr>sm_open := b\<rparr>) = offered sent st"
  "offered sent (st\<lparr>sm_out := frs\<rparr>) = offered sent st" "offered sent (st\<lparr>sm_missed := n\<rparr>) = offered sent st" "obtained h (st\<lparr>sm_missed := n\<rparr>) = obtained h st"
  by (simp_all add: obtained_def offered_def)

text \<open>A stream does not notice what happens to other channels.\<close>

lemma stream_frame:
  assumes "stream_ok h sent st" and "length (hub_chans h) \<le> length (hub_chans h')" and "ch_buf (hub_chans h' ! sm_chan st) = ch_buf (hub_chans h ! sm_chan st)"
    and "\<And>u. sm_chan st \<in> set (subs_of u h') \<longleftrightarrow> sm_chan st \<in> set (subs_of u h)"
  shows "stream_ok h' sent st"
  using assms by (auto simp: stream_ok_def obtained_def split: if_splits)

lemma subscribed_once: "hub_inv h \<Longrightarrow> ch \<in> set (subs_of u h) \<Longrightarrow> ch \<in> set (subs_of v h) \<Longrightarrow> u = v"
proof (rule ccontr)
  assume h: "hub_inv h" "ch \<in> set (subs_of u h)" "ch \<in> set (subs_of v h)" and n: "u \<noteq> v"
  obtain cs where "(u, cs) \<in> set (hub_subs h)" "ch \<in> set cs" using h(2) by (cases "map_of (hub_subs h) u") (auto simp: subs_of_def dest: map_of_SomeD)
  then have "ch \<in> set (others v h)" using n by (force simp: others_def)
  then show False using h(1,3) by (auto simp: hub_inv_iff [of h v])
qed

lemma Unsubscribe_effect:
  assumes "hub_inv h" and "ch \<in> set (subs_of u h)" and "Unsubscribe u (Some ch) h = (r, h')"
  shows "hub_inv h'" "length (hub_chans h') = length (hub_chans h)" "ch_buf (hub_chans h' ! i) = ch_buf (hub_chans h ! i)"
    "set (subs_of v h') = set (subs_of v h) - {ch}"
proof -
  show "hub_inv h'" using hub_inv_Unsubscribe(2) [OF assms(1,2)] assms(3) by simp
  have c: "ch < length (hub_chans h)" "\<not> ch_closed (hub_chans h ! ch)" using assms(1,2) by (auto simp: hub_inv_iff [of h u])
  have h': "hub_chans h' = (hub_chans h)[ch := (hub_chans h ! ch)\<lparr>ch_closed := True\<rparr>]"
      "subs_of v h' = (if v = u then filter (\<lambda>c. c \<noteq> ch) (subs_of u h) else subs_of v h)"
    using assms(3) c by (auto simp: Unsubscribe_def Let_def close_chan_def)
  show "length (hub_chans h') = length (hub_chans h)" "ch_buf (hub_chans h' ! i) = ch_buf (hub_chans h ! i)"
    using c by (cases "i = ch"; simp add: h'(1))+
  show "set (subs_of v h') = set (subs_of v h) - {ch}"
    using subscribed_once [OF assms(1,2)] by (auto simp: h'(2))
qed

lemma Subscribe_effect:
  assumes "hub_inv h" and "Subscribe u h = (x, h')"
  shows "hub_inv h'" "x = None \<Longrightarrow> h' = h"
    "x = Some ch \<Longrightarrow> ch = length (hub_chans h) \<and> hub_chans h' = hub_chans h @ [\<lparr>ch_buf = [], ch_closed = False\<rparr>] \<and> ch \<in> set (subs_of u h')
       \<and> (\<forall>v i. i \<noteq> ch \<longrightarrow> i \<in> set (subs_of v h') \<longleftrightarrow> i \<in> set (subs_of v h))"
  using hub_inv_Subscribe [OF assms(1), of u] assms(2)
  by (auto simp: Subscribe_def Let_def subs_of_def update_conv' split: if_splits option.splits)

lemma receive_effect:
  assumes "hub_inv h" and "receive ch h = (x, h')" and "ch < length (hub_chans h)"
  shows "hub_inv h'" "length (hub_chans h') = length (hub_chans h)" "subs_of v h' = subs_of v h" "i \<noteq> ch \<Longrightarrow> ch_buf (hub_chans h' ! i) = ch_buf (hub_chans h ! i)"
    "ch_buf (hub_chans h ! ch) = (case x of None \<Rightarrow> [] | Some e \<Rightarrow> e # ch_buf (hub_chans h' ! ch))" "x = None \<Longrightarrow> h' = h"
  using hub_inv_receive [OF assms(1,3)] assms(2,3) by (auto simp: receive_def split: list.splits)

text \<open>What an operation on one stream owes to the system.\<close>

definition turn_ok :: "sse_hub \<Rightarrow> (nat \<times> sse_event) list \<Rightarrow> stream \<Rightarrow> (unit res \<times> stream) \<times> sse_hub \<Rightarrow> bool" where
  "turn_ok h sent st0 res \<longleftrightarrow> (case res of ((r, st), h') \<Rightarrow> hub_inv h' \<and> stream_ok h' sent st \<and> sm_chan st = sm_chan st0
     \<and> (\<forall>q. stream_ok h sent q \<longrightarrow> sm_chan q \<noteq> sm_chan st0 \<longrightarrow> stream_ok h' sent q))"

definition linked :: "sse_hub \<Rightarrow> (nat \<times> sse_event) list \<Rightarrow> stream \<Rightarrow> bool" where
  "linked h sent st \<longleftrightarrow> hub_inv h \<and> sm_chan st \<in> set (subs_of (sm_user st) h) \<and> sm_since st \<le> length sent \<and> subseq (obtained h st) (offered sent st)"

lemma subscribed_chan: "hub_inv h \<Longrightarrow> ch \<in> set (subs_of u h) \<Longrightarrow> ch < length (hub_chans h)"
  by (simp add: hub_inv_iff [of h u])

lemma leave_ok: "linked h sent st \<Longrightarrow> turn_ok h sent st (leave_stream st h)"
proof -
  assume l: "linked h sent st"
  obtain r h' where u: "Unsubscribe (sm_user st) (Some (sm_chan st)) h = (r, h')" by fastforce
  have l1: "hub_inv h" "sm_chan st \<in> set (subs_of (sm_user st) h)" using l by (simp_all add: linked_def)
  note e = Unsubscribe_effect [OF l1 u]
  have "stream_ok h' sent (st\<lparr>sm_open := False\<rparr>)"
    using l e subscribed_chan [OF l1] by (simp add: linked_def stream_ok_def) (simp add: obtained_def)
  moreover have "stream_ok h' sent q" if "stream_ok h sent q" "sm_chan q \<noteq> sm_chan st" for q
    using stream_frame [OF that(1)] e that(2) by simp
  ultimately show ?thesis using e(1) by (simp add: turn_ok_def leave_stream_def u)
qed

lemma stream_linked: "hub_inv h \<Longrightarrow> stream_ok h sent st \<Longrightarrow> sm_open st \<Longrightarrow> linked h sent st"
  by (simp add: linked_def stream_ok_def)

lemma write_ok:
  assumes "hub_inv h" and "stream_ok h sent st" and "sm_open st"
  shows "turn_ok h sent st (write_frame w (Comment_Frame t) st h)"
proof (cases w)
  case True
  have "stream_ok h sent (st\<lparr>sm_out := sm_out st @ [Comment_Frame t]\<rparr>)" using assms(2) by (auto simp: stream_ok_def obtained_def)
  then show ?thesis using True assms(1) by (simp add: turn_ok_def write_frame_def)
next
  case False
  then show ?thesis using leave_ok [OF stream_linked [OF assms]] by (simp add: write_frame_def)
qed

lemma event_ok:
  assumes "hub_inv h" and "stream_ok h sent st" and "sm_open st" and "receive (sm_chan st) h = (Some evt, h')"
  shows "turn_ok h sent st (write_frame w (Event_Frame evt) st h')"
proof -
  have c: "sm_chan st < length (hub_chans h)" using assms(2) by (simp add: stream_ok_def)
  note e = receive_effect [OF assms(1,4) c]
  have others: "stream_ok h' sent q" if "stream_ok h sent q" "sm_chan q \<noteq> sm_chan st" for q
    using stream_frame [OF that(1), of h'] e that(2) by simp
  have same: "obtained h' (st\<lparr>sm_out := sm_out st @ [Event_Frame evt]\<rparr>) = obtained h st" using e(5) by (simp add: obtained_def)
  show ?thesis
  proof (cases w)
    case True
    have "stream_ok h' sent (st\<lparr>sm_out := sm_out st @ [Event_Frame evt]\<rparr>)" using assms(2,3) e same by (simp add: stream_ok_def)
    then show ?thesis using True e(1) others by (simp add: turn_ok_def write_frame_def)
  next
    case False
    have "subseq (obtained h' st) (obtained h st)" using e(5) by (simp add: obtained_def list_emb_append_mono [OF subseq_order.order_refl] list_emb_Cons)
    then have "linked h' sent st" using stream_linked [OF assms(1-3)] e by (auto simp: linked_def intro: subseq_order.trans)
    from leave_ok [OF this] show ?thesis using False others by (auto simp: turn_ok_def write_frame_def split: prod.splits)
  qed
qed

lemma take_turn_ok:
  assumes "hub_inv h" and "stream_ok h sent st" and "sm_open st"
  shows "turn_ok h sent st (take_turn t st h)"
proof (cases t)
  case Client_Gone
  then show ?thesis using leave_ok [OF stream_linked [OF assms]] by simp
next
  case (Heartbeat_Due w)
  then show ?thesis using write_ok [OF assms] by simp
next
  case (Channel_Ready w)
  obtain x h' where r: "receive (sm_chan st) h = (x, h')" by fastforce
  have c: "sm_chan st < length (hub_chans h)" using assms(2) by (simp add: stream_ok_def)
  show ?thesis
  proof (cases x)
    case None
    then have "h' = h" using receive_effect(6) [OF assms(1) r c] by simp
    then show ?thesis using Channel_Ready None r leave_ok [OF stream_linked [OF assms]] assms by (simp add: turn_ok_def)
  next
    case (Some evt)
    then show ?thesis using Channel_Ready r event_ok [OF assms] by simp
  qed
qed

lemma publish_ok:
  assumes "hub_inv h" and "stream_ok h sent st"
  shows "stream_ok (snd (Broadcast u evt h)) (sent @ [(u, evt)]) (note_missed h u st)"
proof -
  let ?h = "on_chans (deliver evt) (subs_of u h) h" and ?new = "if sm_user st = u then [evt] else []"
  have b: "snd (Broadcast u evt h) = ?h" using Broadcast_result [OF assms(1)] by simp
  have c: "sm_chan st < length (hub_chans h)" "sm_since st \<le> length sent" using assms(2) by (simp_all add: stream_ok_def)
  have off: "offered (sent @ [(u, evt)]) st = offered sent st @ ?new" using c(2) by (simp add: offered_def)
  have mine: "sm_chan st \<in> set (subs_of u h) \<longleftrightarrow> sm_open st \<and> sm_user st = u"
    using assms(2) subscribed_once [OF assms(1)] by (auto simp: stream_ok_def split: if_splits)
  have got: "obtained ?h st = obtained h st @ (if sm_open st \<and> length (ch_buf (hub_chans h ! sm_chan st)) < chan_cap then ?new else [])"
    using c(1) mine by (simp add: obtained_def deliver_def)
  have "subseq (obtained ?h st) (offered sent st @ ?new)"
    using assms(2) unfolding got by (auto simp: stream_ok_def intro: list_emb_append_mono subseq_order.trans)
  then show ?thesis unfolding b using assms(2) c off got
    by (auto simp: stream_ok_def note_missed_def split: if_splits)
qed

lemma note_missed_chan [simp]: "sm_chan (note_missed h u st) = sm_chan st"
  by (simp add: note_missed_def)

lemma opened_ok:
  assumes "hub_inv h" and "open_stream c w (length sent) h = (Inr (r, st), h')"
  shows "hub_inv h' \<and> stream_ok h' sent st \<and> sm_chan st = length (hub_chans h) \<and> (\<forall>q. stream_ok h sent q \<longrightarrow> stream_ok h' sent q)"
proof -
  obtain u where u: "c_userID c = Some u" using assms(2) by (auto simp: open_stream_def mustUserID_def seq_def split: option.splits)
  obtain x h1 where s: "Subscribe u h = (x, h1)" by fastforce
  then obtain ch where x: "x = Some ch" using assms(2) u by (cases x) (auto simp: open_stream_def mustUserID_def seq_def)
  note e = Subscribe_effect [OF assms(1) s] and e3 = Subscribe_effect(3) [OF assms(1) s x]
  let ?st = "\<lparr>sm_user = u, sm_chan = ch, sm_out = [], sm_open = True, sm_since = length sent, sm_missed = 0\<rparr>"
  have new: "stream_ok h1 sent ?st" using e3 by (auto simp: stream_ok_def obtained_def offered_def)
  have w: "write_frame w (Comment_Frame '': connected'') ?st h1 = ((r, st), h')"
    using assms(2) by (simp add: open_stream_def mustUserID_def u seq_def s x split: prod.splits)
  have ok: "turn_ok h1 sent ?st ((r, st), h')" using write_ok [OF e(1) new, of w "'': connected''"] w by simp
  have "stream_ok h1 sent q" if "stream_ok h sent q" for q
    using stream_frame [OF that, of h1] e3 that by (simp add: stream_ok_def nth_append)
  moreover have "sm_chan q \<noteq> ch" if "stream_ok h sent q" for q using that e3 by (simp add: stream_ok_def)
  ultimately show ?thesis using ok e3 by (simp add: turn_ok_def)
qed

lemma sse_step_ok: "sse_step s s' \<Longrightarrow> system_ok s \<Longrightarrow> system_ok s'"
proof (induction rule: sse_step.induct)
  case (connect c w s r st h)
  then have i: "hub_inv (sy_hub s)" by (simp add: system_ok_def)
  note o = opened_ok [OF i connect(1)]
  have "sm_chan st \<notin> set (map sm_chan (sy_streams s))"
    using o connect(2) by (auto simp: system_ok_def list_all_iff stream_ok_def)
  then show ?case using o connect(2) by (simp add: system_ok_def list_all_iff)
next
  case (refuse c w n s resp h)
  then have "h = sy_hub s" using Subscribe_effect(2) [of "sy_hub s"]
    by (auto simp: system_ok_def open_stream_def mustUserID_def seq_def split: option.splits prod.splits)
  then show ?case using refuse by simp
next
  case (turn i s st0 t r st h)
  have m: "st0 \<in> set (sy_streams s)" using turn(1,2) by auto
  then have ok: "turn_ok (sy_hub s) (sy_sent s) st0 ((r, st), h)"
    using take_turn_ok [of "sy_hub s" "sy_sent s" st0 t] turn by (simp add: system_ok_def list_all_iff)
  have "map sm_chan ((sy_streams s)[i := st]) = map sm_chan (sy_streams s)"
    using ok turn(1,2) by (simp add: turn_ok_def map_update list_update_same_conv)
  moreover have "stream_ok h (sy_sent s) q" if "q \<in> set ((sy_streams s)[i := st])" for q
  proof -
    from that obtain j where j: "j < length (sy_streams s)" "q = (sy_streams s)[i := st] ! j" by (auto simp: in_set_conv_nth)
    show ?thesis
    proof (cases "j = i")
      case True
      then show ?thesis using ok j by (simp add: turn_ok_def)
    next
      case False
      then have "sm_chan (sy_streams s ! j) \<noteq> sm_chan st0"
        using turn(1,2,5) j(1) nth_eq_iff_index_eq [of "map sm_chan (sy_streams s)" j i] by (simp add: system_ok_def)
      moreover have "stream_ok (sy_hub s) (sy_sent s) (sy_streams s ! j)" using turn(5) j(1) by (simp add: system_ok_def list_all_length)
      ultimately show ?thesis using ok j False by (simp add: turn_ok_def)
    qed
  qed
  ultimately show ?case using ok turn(5) by (simp add: system_ok_def list_all_iff turn_ok_def)
next
  case (publish u evt s r h)
  then have i: "hub_inv (sy_hub s)" by (simp add: system_ok_def)
  have h: "h = snd (Broadcast u evt (sy_hub s))" using publish(1) by simp
  have "map sm_chan (map (note_missed (sy_hub s) u) (sy_streams s)) = map sm_chan (sy_streams s)" by simp
  then show ?case using publish(2) publish_ok [OF i] hub_inv_Broadcast [OF i] by (simp add: system_ok_def list_all_iff h comp_def)
qed


text \<open>A client of user 7 reads the event of user 7 and not that of user 8.\<close>

definition demo_event :: "string \<Rightarrow> sse_event" where
  "demo_event t = \<lparr>ev_Type = t, ev_Data = JNull\<rparr>"

definition demo_stream :: "stream_frame list \<Rightarrow> stream" where
  "demo_stream frs = \<lparr>sm_user = 7, sm_chan = 0, sm_out = Comment_Frame '': connected'' # frs, sm_open = True, sm_since = 0, sm_missed = 0\<rparr>"

definition demo_system :: "sse_event list \<Rightarrow> stream_frame list \<Rightarrow> (nat \<times> sse_event) list \<Rightarrow> sse_system" where
  "demo_system buf frs sent = \<lparr>sy_hub = \<lparr>hub_subs = [(7, [0])], hub_chans = [\<lparr>ch_buf = buf, ch_closed = False\<rparr>]\<rparr>, sy_streams = [demo_stream frs], sy_sent = sent\<rparr>"

lemma demo_stream_run:
  "sse_step\<^sup>*\<^sup>* no_streams (demo_system [] [Event_Frame (demo_event ''a'')] [(7, demo_event ''a''), (8, demo_event ''b'')])"
proof -
  let ?a = "demo_event ''a''" and ?b = "demo_event ''b''"
  note defs = demo_system_def demo_stream_def Broadcast_def send_event_def subs_of_def note_missed_def chan_cap_def seq_def Let_def
  have "sse_step no_streams (demo_system [] [] [])"
    using sse_step.connect [of "sample_post\<lparr>c_userID := Some 7\<rparr>" True no_streams]
    by (simp add: open_stream_def mustUserID_def seq_def no_streams_def Subscribe_def total_subs_def maxGlobalSSEConns_def maxSSEConnsPerUser_def NewSSEHub_def
        write_frame_def defs)
  then have "sse_step\<^sup>*\<^sup>* no_streams (demo_system [] [] [])" by blast
  also have "sse_step (demo_system [] [] []) (demo_system [?a] [] [(7, ?a)])"
    using sse_step.publish [of 7 ?a "demo_system [] [] []"] by (simp add: defs)
  also have "sse_step (demo_system [?a] [] [(7, ?a)]) (demo_system [?a] [] [(7, ?a), (8, ?b)])"
    using sse_step.publish [of 8 ?b "demo_system [?a] [] [(7, ?a)]"] by (simp add: defs)
  also have "sse_step (demo_system [?a] [] [(7, ?a), (8, ?b)]) (demo_system [] [Event_Frame ?a] [(7, ?a), (8, ?b)])"
    using sse_step.turn [of 0 "demo_system [?a] [] [(7, ?a), (8, ?b)]" "demo_stream []" "Channel_Ready True"] by (simp add: defs receive_def write_frame_def)
  finally show ?thesis .
qed


end
