(* ===== verification/Spec2Isabelle.thy ===== *)
theory Spec2Isabelle
  imports DailyLimit SolMessage Abi RateLimit SseHub Price Sessions ApprovalLife ApprovalLock ContractSafety WalletApi AccountLife AddrLock Mail Stream
begin

text \<open>
  \<^bold>\<open>TEENet Wallet.\<close> The wallet is one Go process (\<open>src/main.go\<close>) between agents with API keys, users with passkeys, a cluster of TEE nodes that hold the key
  shares, and the nodes of the chains. A request passes the middlewares of its route group, reaches a handler of \<open>src/handler\<close>, reads and writes the SQLite
  tables of \<open>src/model\<close>, asks chain nodes through \<open>src/chain\<close>, and may ask the TEE to sign. A request within the policy of its wallet is signed
  at once; any other becomes an approval request that the owner decides with a fresh passkey assertion.

  \<^bold>\<open>Layout.\<close> Each theory follows the order of the code it models.

  \<^item> \<open>Prelude\<close>, \<open>Numerals\<close>, \<open>Sha256\<close>, \<open>BigFloat\<close>, \<open>Json\<close>: what the code uses of the Go standard library. Errors are values of \<open>gerr\<close>, a function that returns
    \<open>(value, error)\<close> has type \<open>'a res\<close>, a panic is the error \<open>Panic\<close>, strings are byte strings. \<open>big.Float\<close> and \<open>float64\<close> are rationals with the rounding to their
    precision written out. SHA-256 and HMAC are defined and executable. A JSON document is a tree. Two interfaces live here: \<open>invariant_machine\<close> (a property
    kept by every step of a machine holds after every admissible sequence of steps) and \<open>fixed_codec\<close> (an encoding in a fixed number of bytes).
  \<^item> \<open>Store\<close> (\<open>src/model\<close>): one record per table, rows as lists with the queries the code uses, the chain registry.
  \<^item> \<open>Rpc\<close>, \<open>TxEth\<close>, \<open>Address\<close>, \<open>TxSol\<close>, \<open>SolMessage\<close>, \<open>Abi\<close> (\<open>src/chain\<close>): the JSON-RPC client, EVM and Solana transactions, addresses, ABI encoding.
    \<open>SolMessage\<close> holds a decoder of Solana messages that does not depend on the builders, and the theorems that the built messages decode to what was asked for.
  \<^item> \<open>RateLimit\<close>, \<open>SseHub\<close>, \<open>Price\<close>, \<open>DailyLimit\<close>, \<open>Http\<close>, \<open>Sessions\<close>: the limiters (one locale \<open>sliding_window\<close>, interpreted for both), the event hub, the
    price service, the daily limit of \<open>handler/wallet.go\<close>, responses and request context, sessions and authentication.
  \<^item> \<open>Server\<close>: the state of the server, a record of all tables, the event hub, the prices, the sessions and three journals: the messages sent to the TEE for
    signing, the mails sent, and the deletions asked of the SDK; with the audit log, idempotency records, the passkey check and loading of rows.
  \<^item> \<open>Frame\<close>, \<open>SignTx\<close>, \<open>Idem\<close>, \<open>WalletTx\<close>, \<open>TransferSafety\<close>: signing and broadcasting with its retry loop, the idempotency records over time, the transfer,
    wrap and unwrap endpoints, and what a transfer may do.
  \<^item> \<open>Approval\<close>, \<open>ApprovalSafety\<close>: the approval endpoints and what an approval may do.
  \<^item> \<open>Wallets\<close>, \<open>Whitelist\<close>, \<open>AddressBook\<close>, \<open>ContractCall\<close>, \<open>Email\<close>, \<open>Accounts\<close>: the other handlers.
    \<open>ContractSafety\<close>: what contract calls and allowances sign. \<open>WalletLife\<close> and \<open>AccountLife\<close>: what they do to the tables of wallets and accounts.
  \<^item> \<open>Api\<close>: the table of routes, the middlewares of each group, the dispatch to the handlers, the faucet. \<open>serve\<close> is the whole request path.
  \<^item> \<open>ApiFrame\<close>, \<open>ApiSafety\<close>, \<open>ApprovalLife\<close>, \<open>WalletApi\<close>: theorems on the whole interface. The locale \<open>view\<close> and its extensions \<open>observation\<close>, \<open>standing\<close>, \<open>spending\<close>,
    \<open>signing\<close>, \<open>unruled\<close> and \<open>untouched\<close> say which parts of the state a view ignores and give, once, which endpoints leave it alone; they are interpreted for the
    signing journal, the approvals, the rules of spending and the wallets. \<open>simulation\<close> carries a refinement over runs.
  \<^item> \<open>Config\<close>: the settings, secrets and chain registry of a starting server.
  \<^item> \<open>ApprovalLock\<close>, \<open>AddrLock\<close>, \<open>Stream\<close>: where requests interleave. \<open>ApprovalLock\<close> has decisions on approvals under mutexes that a background job evicts (\<open>desk_step\<close>).
    \<open>AddrLock\<close> has the mutexes of \<open>chain/addr_lock.go\<close> and EVM flows that fetch a nonce, sign and
    broadcast under them (\<open>lane_step\<close>); \<open>Stream\<close> has the event streams of \<open>handler/sse.go\<close> on the hub, one turn of a loop per step (\<open>sse_step\<close>).
  \<^item> \<open>Mail\<close> (\<open>handler/email_sender.go\<close>, \<open>handler/email_template.go\<close>): the page with a code, the message and its headers, the two senders.

  \<^bold>\<open>State and effects.\<close> A handler is a function from the state to a response and a new state; \<open>Inl\<close> is an early return with an error response, \<open>Inr\<close> a value.
  \<open>seq\<close> is sequencing with early return, \<open>stop\<close> a response that ends the handler. Every statement of the database that the code checks may fail: \<open>db_fails\<close> of the
  environment says which. A database transaction is applied as a whole or not at all. All requests and background jobs are steps on one state;
  in \<open>ApprovalLock\<close>, \<open>AddrLock\<close> and \<open>Stream\<close> they are interleaved step relations of their own.

  \<^bold>\<open>Parameters.\<close> The environment records hold the code that is not part of the repository, as functions: the chain nodes (\<open>net\<close>, which sees the earlier calls), the
  price and faucet services, the TEE (\<open>tee_sign\<close>, \<open>tee_keygen\<close>), the passkey service, Keccak, RLP, curve arithmetic and signature recovery, random draws, and what
  the binding layer of the web framework says about a malformed body. Theorems hold for every such environment; hypotheses on parameters are stated where they are used.

  \<^bold>\<open>What the theorems show.\<close>
  \<^item> Whole interface: the TEE signs only for live sessions, or for an API key at a transfer endpoint; the rules of spending change only with a session, its CSRF
    token and a fresh passkey assertion; an approval request is decided at most once and then never changes, and all requests and jobs together refine
    a ledger of approvals with the steps open and decide; concurrent decisions on an approval exclude each other.
  \<^item> Money: the daily limit is exact, is never exceeded by any sequence of deductions and releases, and a release undoes a deduction; a transfer that signs is
    within the policy; one over it creates a pending approval and signs nothing; an approval signs once, what was approved;
    a contract call or allowance that signs on the spot needs a passkey session and a listed contract and signs what was asked for.
  \<^item> Transactions: hashes and broadcast transactions belong to the same parameters; rebuilding and fee bumping keep recipient, amount and data; Solana messages
    decode to the intended accounts, privileges and instructions; ABI encodings read back; base 58 round trips; program-derived addresses are the greatest valid ones;
    flows of one sender never use a nonce for two accepted transactions.
  \<^item> Accounts: authentication is sound; sessions end; a registration happens completely or not at all; a code admits a bounded number of guesses, and a verified
    address was mailed; no typed address adds a header to a mail; an API key is accepted until it is revoked; along every run of the server wallets stay well-formed
    and within the limit, and a ready wallet keeps its key and address.
  \<^item> Services: idempotent replays, termination and exact effect of the clean-up loop, retry budget of the JSON-RPC client, rate-limit windows, bounds of the event hub, events in order and lost only to a full buffer,
    positive prices, redaction of secrets in error texts, no secret endpoints in the public chain list, testnets only in alpha mode.

  \<^bold>\<open>Loops and bounds.\<close> Loops are structural recursion or \<open>function\<close> with a measure, so every model is total. The loops of the code with a fixed bound keep it: three attempts of the
  JSON-RPC client on each endpoint, the attempts of signing with a fresh nonce or a higher fee, 256 bumps of a program-derived address, ten draws of an approval identifier, two
  recovery identifiers. The clean-up loop ends because each full batch removes a thousand rows.

  \<^bold>\<open>Simplifications.\<close> One instant \<open>c_now\<close> is read per request. Outside \<open>ApprovalLock\<close>, \<open>AddrLock\<close> and \<open>Stream\<close> requests are steps, not interleaved inside; in particular the reaper does not run while the key of a wallet is
  generated, and an approval is not expired while it is being signed. Go maps that are only searched are association lists; where the code ranges over one,
  the order of the list stands for the unspecified order. Documents that the database stores as JSON text are stored as trees. Texts of errors inside internal logs are not
  kept. Paths given to \<open>serve\<close> are API paths, matched segment by segment against the patterns of the routes. Response headers are modelled for cross-origin requests only.

  \<^bold>\<open>Not modelled.\<close> The dialogue with the mail server, the JSON text of events, the text form of floating-point numbers in \<open>/api/prices\<close>, opening and migrating
  the database, signals and shutdown, the files of the web page, the mutexes that guard single data structures (each operation on such a structure is one step),
  and \<open>validateExternalURL\<close>, which nothing calls.
\<close>

end
